(* ===== verification/Prelude.thy ===== *)
theory Prelude
  imports Main "HOL-Library.AList"
begin

text \<open>
  Shared vocabulary of the development: Python's insertion-ordered \<open>dict\<close> as an
  association list, the \<open>Result\<close> values the program returns as a sum type, and the
  generic facts on lists, maps and relations that the component theories rely on.
  Nothing here is specific to one source file; the component theories import it and
  add their facts to the collections declared below.
\<close>

section \<open>Collections of facts\<close>

named_theorems dict_simps "equations of the dictionary operations"
named_theorems py_defs "definitions of the Python built-ins, unfolded to evaluate a model"
named_theorems frame "fields of a state that an operation leaves unchanged"

section \<open>Results\<close>

text \<open>
  \<open>Result[T]\<close> of \<open>imery.result\<close>: \<open>Result.error(msg)\<close> is \<open>Inl\<close> of an error
  value, \<open>Ok(v)\<close> is \<open>Inr v\<close>. An operation that also mutates its object returns
  the pair of its result and the object after the call, on the error path too.
\<close>

type_synonym ('e, 'a) result = "'e + 'a"

abbreviation Ok_None :: "('e, unit) result" where
  "Ok_None \<equiv> Inr ()"

definition is_ok :: "('e, 'a) result \<Rightarrow> bool" where
  "is_ok r \<longleftrightarrow> \<not> isl r"

lemma is_ok_simps [simp]: "is_ok (Inr x)" "\<not> is_ok (Inl e)"
  by (simp_all add: is_ok_def)

lemma is_ok_iff: "is_ok r \<longleftrightarrow> (\<exists>x. r = Inr x)"
  by (cases r) simp_all

lemma is_ok_unit_iff: "is_ok r \<longleftrightarrow> r = Ok_None"
  by (cases r) simp_all

text \<open>
  Sequencing of calls that return a result and the object after the call: the second
  call runs on the state the first one left, unless the first returned an error, which
  then is the outcome (an early \<open>return Result.error(...)\<close> or an exception that
  propagates). \<open>raising\<close> turns an exception of a built-in into such an outcome.
\<close>

definition and_then ::
  "('e, 'a) result \<times> 's \<Rightarrow> ('a \<Rightarrow> 's \<Rightarrow> ('e, 'b) result \<times> 's) \<Rightarrow> ('e, 'b) result \<times> 's" where
  "and_then r f = (case r of (Inl e, s) \<Rightarrow> (Inl e, s) | (Inr x, s) \<Rightarrow> f x s)"

lemma and_then_simps [simp]:
  "and_then (Inl e, s) f = (Inl e, s)"
  "and_then (Inr x, s) f = f x s"
  by (simp_all add: and_then_def)

lemma and_then_Inr_iff:
  "and_then r f = (Inr y, s') \<longleftrightarrow> (\<exists>x s. r = (Inr x, s) \<and> f x s = (Inr y, s'))"
  by (cases r; cases "fst r") (auto simp: and_then_def)

lemma and_then_Inl_iff:
  "and_then r f = (Inl e, s') \<longleftrightarrow>
     r = (Inl e, s') \<or> (\<exists>x s. r = (Inr x, s) \<and> f x s = (Inl e, s'))"
  by (cases r; cases "fst r") (auto simp: and_then_def)

lemma and_then_cong [fundef_cong]:
  "r = r' \<Longrightarrow> (\<And>x s. r' = (Inr x, s) \<Longrightarrow> f x s = f' x s) \<Longrightarrow> and_then r f = and_then r' f'"
  by (cases r'; cases "fst r'") (auto simp: and_then_def)

lemma and_then_assoc:
  "and_then (and_then r f) g = and_then r (\<lambda>x s. and_then (f x s) g)"
  by (cases r; cases "fst r") (auto simp: and_then_def)

lemma and_then_fst_Inl: "fst r = Inl e \<Longrightarrow> and_then r f = (Inl e, snd r)"
  by (cases r) auto

lemma and_then_raises:
  assumes "fst (and_then r f) = Inl e"
  obtains "fst r = Inl e" | x s where "r = (Inr x, s)" "fst (f x s) = Inl e"
  using assms by (cases r; cases "fst r") (auto simp: and_then_def)

lemma and_then_frame:
  "(\<And>x s. g (snd (f x s)) = g s) \<Longrightarrow> g (snd (and_then r f)) = g (snd r)"
  by (cases r; cases "fst r") (auto simp: and_then_def)

lemma and_then_keeps:
  "P (snd r) \<Longrightarrow> (\<And>x s. P s \<Longrightarrow> P (snd (f x s))) \<Longrightarrow> P (snd (and_then r f))"
  by (cases r; cases "fst r") (auto simp: and_then_def)

lemma and_then_sndI:
  assumes "\<And>e s. r = (Inl e, s) \<Longrightarrow> P s" and "\<And>x s. r = (Inr x, s) \<Longrightarrow> P (snd (f x s))"
  shows "P (snd (and_then r f))"
  using assms by (cases r; cases "fst r") auto

lemma and_then_cases:
  assumes "and_then r f = out"
  obtains (error) e s where "r = (Inl e, s)" "out = (Inl e, s)"
  | (ok) x s where "r = (Inr x, s)" "out = f x s"
  using assms by (cases r; cases "fst r") (auto simp: and_then_def)

section \<open>Python dictionaries\<close>

text \<open>
  A \<open>dict\<close> keeps its keys in insertion order and the program iterates over
  \<open>items()\<close>, so a dictionary is an association list. \<open>d[k] = v\<close> replaces the
  value in place when \<open>k\<close> is present and appends the pair otherwise; \<open>k in d\<close> is
  membership among the keys. Dictionaries built by these operations from the empty one
  have distinct keys (\<open>dict_wf\<close>).
\<close>

type_synonym ('k, 'v) dict = "('k \<times> 'v) list"

definition dict_keys :: "('k, 'v) dict \<Rightarrow> 'k list" where
  "dict_keys d = map fst d"

definition dict_has :: "'k \<Rightarrow> ('k, 'v) dict \<Rightarrow> bool" where
  "dict_has k d \<longleftrightarrow> k \<in> set (map fst d)"

definition dict_get :: "('k, 'v) dict \<Rightarrow> 'k \<Rightarrow> 'v option" where
  "dict_get d k = map_of d k"

primrec dict_set :: "'k \<Rightarrow> 'v \<Rightarrow> ('k, 'v) dict \<Rightarrow> ('k, 'v) dict" where
  "dict_set k v [] = [(k, v)]"
| "dict_set k v (p # d) = (if fst p = k then (k, v) # d else p # dict_set k v d)"

definition dict_wf :: "('k, 'v) dict \<Rightarrow> bool" where
  "dict_wf d \<longleftrightarrow> distinct (map fst d)"

lemma dict_set_update: "dict_set k v d = AList.update k v d"
  by (induction d) simp_all

lemma dict_has_Nil [simp, dict_simps]: "\<not> dict_has k []"
  by (simp add: dict_has_def)

lemma dict_has_Cons [simp, dict_simps]: "dict_has k (p # d) \<longleftrightarrow> fst p = k \<or> dict_has k d"
  by (auto simp: dict_has_def)

lemma dict_has_append [simp, dict_simps]:
  "dict_has k (d @ e) \<longleftrightarrow> dict_has k d \<or> dict_has k e"
  by (auto simp: dict_has_def)

lemma dict_has_keys: "dict_has k d \<longleftrightarrow> k \<in> set (dict_keys d)"
  by (simp add: dict_has_def dict_keys_def)

lemma dict_keys_simps [simp, dict_simps]:
  "dict_keys [] = []" "dict_keys (p # d) = fst p # dict_keys d"
  "dict_keys (d @ e) = dict_keys d @ dict_keys e"
  by (simp_all add: dict_keys_def)

lemma dict_get_simps [simp, dict_simps]:
  "dict_get [] k = None"
  "dict_get (p # d) k = (if fst p = k then Some (snd p) else dict_get d k)"
  by (cases p; simp add: dict_get_def)+

lemma dict_get_None_iff [dict_simps]: "dict_get d k = None \<longleftrightarrow> \<not> dict_has k d"
  by (simp add: dict_get_def dict_has_def map_of_eq_None_iff)

lemma dict_get_Some_has: "dict_get d k = Some v \<Longrightarrow> dict_has k d"
  by (cases "dict_has k d") (simp_all add: dict_get_None_iff [symmetric])

lemma dict_get_SomeD: "dict_get d k = Some v \<Longrightarrow> (k, v) \<in> set d"
  by (simp add: dict_get_def map_of_SomeD)

lemma dict_get_SomeI: "dict_wf d \<Longrightarrow> (k, v) \<in> set d \<Longrightarrow> dict_get d k = Some v"
  by (simp add: dict_get_def dict_wf_def)

lemma dict_set_fresh [dict_simps]: "\<not> dict_has k d \<Longrightarrow> dict_set k v d = d @ [(k, v)]"
  by (induction d) auto

lemma dict_keys_set [dict_simps]:
  "dict_keys (dict_set k v d) = (if dict_has k d then dict_keys d else dict_keys d @ [k])"
  by (simp add: dict_set_update dict_keys_def dict_has_def update_keys)

lemma dict_has_set [simp, dict_simps]:
  "dict_has k' (dict_set k v d) \<longleftrightarrow> k' = k \<or> dict_has k' d"
  by (auto simp: dict_has_keys dict_keys_set)

lemma dict_get_set [simp, dict_simps]:
  "dict_get (dict_set k v d) k' = (if k' = k then Some v else dict_get d k')"
  by (simp add: dict_set_update dict_get_def update_conv')

lemma dict_wf_Nil [simp]: "dict_wf []"
  by (simp add: dict_wf_def)

lemma dict_wf_set [simp, intro]: "dict_wf d \<Longrightarrow> dict_wf (dict_set k v d)"
  by (simp add: dict_set_update dict_wf_def distinct_update)

lemma dict_wf_Cons [simp]: "dict_wf (p # d) \<longleftrightarrow> \<not> dict_has (fst p) d \<and> dict_wf d"
  by (simp add: dict_wf_def dict_has_def)

lemma dict_wf_append [simp]:
  "dict_wf (d @ e) \<longleftrightarrow> dict_wf d \<and> dict_wf e \<and> (\<forall>k. dict_has k d \<longrightarrow> \<not> dict_has k e)"
  by (auto simp: dict_wf_def dict_has_def)

lemma dict_get_iff_member: "dict_wf d \<Longrightarrow> dict_get d k = Some v \<longleftrightarrow> (k, v) \<in> set d"
  by (auto intro: dict_get_SomeI dict_get_SomeD)

lemma dict_has_iff_member: "dict_has k d \<longleftrightarrow> (\<exists>v. (k, v) \<in> set d)"
  by (force simp: dict_has_def)

lemma dict_get_append:
  "dict_get (d @ e) k = (case dict_get d k of Some v \<Rightarrow> Some v | None \<Rightarrow> dict_get e k)"
  by (induction d) (auto split: option.splits)

lemma dict_set_nonempty [simp]: "dict_set k v d \<noteq> []"
  by (cases d) simp_all

lemma length_dict_set:
  "length (dict_set k v d) = (if dict_has k d then length d else Suc (length d))"
  by (induction d) auto

text \<open>
  Assigning a list of pairs in order: on fresh, distinct keys it appends them; a lookup
  afterwards finds the last pair with the key.
\<close>

lemma foldl_dict_set_fresh:
  "dict_wf (acc @ items) \<Longrightarrow>
     foldl (\<lambda>result (key, value). dict_set key value result) acc items = acc @ items"
proof (induction items arbitrary: acc)
  case (Cons item items)
  obtain k v where item: "item = (k, v)" by (cases item)
  with Cons.prems have "\<not> dict_has k acc" "dict_wf ((acc @ [(k, v)]) @ items)" by auto
  with Cons.IH [of "acc @ [(k, v)]"] item show ?case by (simp add: dict_set_fresh)
qed simp

lemma dict_get_foldl_set:
  "dict_get (foldl (\<lambda>ws (k, d). dict_set k (f d) ws) ws items) k =
     (case dict_get (rev items) k of Some d \<Rightarrow> Some (f d) | None \<Rightarrow> dict_get ws k)"
  by (induction items arbitrary: ws) (auto simp: dict_get_append split: option.splits)

lemma dict_get_rev: "dict_wf items \<Longrightarrow> dict_get (rev items) k = dict_get items k"
  by (induction items)
     (auto simp: dict_get_append dict_get_None_iff [symmetric] split: option.splits)

lemma set_dict_set_subset: "set (dict_set k v d) \<subseteq> insert (k, v) (set d)"
  by (induction d) auto

lemma dict_set_entry: "(a, b) \<in> set (dict_set k v d) \<Longrightarrow> a = k \<and> b = v \<or> (a, b) \<in> set d"
  using set_dict_set_subset [of k v d] by auto

lemma set_dict_keys_set: "set (dict_keys (dict_set k v d)) = insert k (set (dict_keys d))"
  by (auto simp: dict_keys_set dict_has_keys)

section \<open>Lists, options and relations\<close>

lemma set_map_fst_subset: "set d \<subseteq> set e \<Longrightarrow> set (map fst d) \<subseteq> set (map fst e)"
  by auto

lemma find_first_Some_set: "List.find P xs = Some x \<Longrightarrow> x \<in> set xs \<and> P x"
  by (auto simp: find_Some_iff)

text \<open>
  A set that contains the successors of each of its members is closed under the
  reflexive transitive closure: the shape in which a traversal shows that it has seen
  everything reachable.
\<close>

lemma rtrancl_Image_least:
  assumes "S \<subseteq> X" and "r `` X \<subseteq> X"
  shows "r\<^sup>* `` S \<subseteq> X"
proof -
  have "r\<^sup>* `` S \<subseteq> r\<^sup>* `` X"
    using assms(1) by (rule Image_mono [OF subset_refl])
  with Image_closed_trancl [OF assms(2)] show ?thesis by simp
qed

lemma rtrancl_Image_step: "(x, y) \<in> r \<Longrightarrow> r\<^sup>* `` {y} \<subseteq> r\<^sup>* `` {x}"
  by (auto intro: converse_rtrancl_into_rtrancl)

lemma rtrancl_Image_Un: "r\<^sup>* `` (A \<union> B) = r\<^sup>* `` A \<union> r\<^sup>* `` B"
  by (rule Image_Un)

text \<open>
  The result of a depth-first exploration, as a relation between the set visited before
  and the set visited after exploring a set of nodes: everything visited before and
  every node explored is visited after, the successors of every newly visited node are
  visited, and every newly visited node is reachable from a node explored. Explorations
  compose in sequence, and a node is explored by exploring its successors.
\<close>

definition explored :: "('a \<times> 'a) set \<Rightarrow> 'a set \<Rightarrow> 'a set \<Rightarrow> 'a set \<Rightarrow> bool" where
  "explored G V names V' \<longleftrightarrow>
     V \<subseteq> V' \<and> names \<subseteq> V' \<and> G `` (V' - V) \<subseteq> V' \<and> V' \<subseteq> V \<union> G\<^sup>* `` names"

lemma explored_skip: "names \<subseteq> V \<Longrightarrow> explored G V names V"
  by (auto simp: explored_def)

lemma explored_seq:
  assumes "explored G V A Va" and "explored G Va B Vb"
  shows "explored G V (A \<union> B) Vb"
  using assms unfolding explored_def by (auto simp: Image_Un) blast+

lemma explored_node:
  assumes "m \<notin> V" and "G `` {m} = succs" and "explored G (insert m V) succs V'"
  shows "explored G V {m} V'"
proof -
  from assms(2) have "G\<^sup>* `` succs \<subseteq> G\<^sup>* `` {m}"
    by (auto intro: converse_rtrancl_into_rtrancl)
  with assms show ?thesis unfolding explored_def by auto blast+
qed

lemma explored_leaf: "G `` {m} = {} \<Longrightarrow> explored G V {m} (insert m V)"
  by (auto simp: explored_def)

lemma explored_all:
  assumes "explored G {} names V'"
  shows "V' = G\<^sup>* `` names"
proof
  from assms show "V' \<subseteq> G\<^sup>* `` names" by (simp add: explored_def)
  from assms have "names \<subseteq> V'" "G `` V' \<subseteq> V'" by (simp_all add: explored_def)
  then show "G\<^sup>* `` names \<subseteq> V'" by (rule rtrancl_Image_least)
qed

end
