(* ===== verification/Yaml.thy ===== *)
theory Yaml
  imports Prelude
begin

text \<open>
  The values that \<open>yaml.safe_load\<close> hands to the program, and the Python built-ins
  the program applies to them: truth testing (\<open>if imports:\<close>, \<open>content or {}\<close>),
  iteration (\<open>queue.extend(imports)\<close>, \<open>for m in imports\<close>), \<open>dict.get\<close>,
  \<open>dict.items\<close> and \<open>isinstance\<close>. An operation that raises in Python returns
  \<open>Inl\<close> of the exception here.
\<close>

section \<open>Values\<close>

text \<open>
  A document is null, a boolean, an integer, a string, a sequence or a mapping.
  Mapping keys are strings, as in every module file the program is written for
  (section names, widget names, data names); a mapping keeps its keys in document
  order and \<open>safe_load\<close> never yields one key twice (\<open>wf_yaml\<close>). Python's \<open>None\<close>
  is \<open>YNull\<close> everywhere, also for a field that holds \<open>None\<close>.
\<close>

datatype yaml =
    YNull
  | YBool bool
  | YInt int
  | YStr string
  | YSeq "yaml list"
  | YMap "(string \<times> yaml) list"

text \<open>
  The exceptions of the program: \<open>TypeError\<close> and \<open>AttributeError\<close> from an operation
  on a value of the wrong type, \<open>ValueError\<close> from \<open>index\<close>, \<open>IndexError\<close> and \<open>KeyError\<close>
  from a subscript, \<open>OSError\<close> (with its subclasses) from the file system, and
  \<open>SystemExit\<close> with the status \<open>sys.exit\<close> was given.
\<close>

datatype py_exception =
  TypeError | AttributeError | ValueError | IndexError | KeyError | OSError | SystemExit int

fun wf_yaml :: "yaml \<Rightarrow> bool" where
  "wf_yaml (YSeq xs) \<longleftrightarrow> list_all wf_yaml xs"
| "wf_yaml (YMap kvs) \<longleftrightarrow> dict_wf kvs \<and> list_all (\<lambda>(k, v). wf_yaml v) kvs"
| "wf_yaml _ \<longleftrightarrow> True"

section \<open>Built-ins\<close>

text \<open>\<open>bool(obj)\<close>: what \<open>if obj:\<close>, \<open>not obj\<close> and \<open>obj or default\<close> test.\<close>

fun py_truthy :: "yaml \<Rightarrow> bool" where
  "py_truthy YNull \<longleftrightarrow> False"
| "py_truthy (YBool b) \<longleftrightarrow> b"
| "py_truthy (YInt i) \<longleftrightarrow> i \<noteq> 0"
| "py_truthy (YStr s) \<longleftrightarrow> s \<noteq> []"
| "py_truthy (YSeq xs) \<longleftrightarrow> xs \<noteq> []"
| "py_truthy (YMap kvs) \<longleftrightarrow> kvs \<noteq> []"

text \<open>
  \<open>iter(obj)\<close>, as a \<open>for\<close> loop or \<open>deque.extend\<close> consumes it: a list yields its
  elements, a string its characters (each a string of length one), a dict its keys;
  anything else raises \<open>TypeError\<close>.
\<close>

fun py_iter :: "yaml \<Rightarrow> (py_exception, yaml list) result" where
  "py_iter (YSeq xs) = Inr xs"
| "py_iter (YStr s) = Inr (map (\<lambda>c. YStr [c]) s)"
| "py_iter (YMap kvs) = Inr (map (\<lambda>kv. YStr (fst kv)) kvs)"
| "py_iter _ = Inl TypeError"

text \<open>\<open>hash(obj)\<close> succeeds: what membership in a \<open>set\<close> requires of the object.\<close>

fun py_hashable :: "yaml \<Rightarrow> bool" where
  "py_hashable (YSeq xs) \<longleftrightarrow> False"
| "py_hashable (YMap kvs) \<longleftrightarrow> False"
| "py_hashable _ \<longleftrightarrow> True"

text \<open>
  \<open>obj.get(key, default)\<close> and \<open>obj.items()\<close>: defined on a dict only; on any other
  value the attribute lookup raises \<open>AttributeError\<close>.
\<close>

fun py_get :: "yaml \<Rightarrow> string \<Rightarrow> yaml \<Rightarrow> (py_exception, yaml) result" where
  "py_get (YMap kvs) key dflt =
     Inr (case dict_get kvs key of None \<Rightarrow> dflt | Some v \<Rightarrow> v)"
| "py_get _ key dflt = Inl AttributeError"

fun py_items :: "yaml \<Rightarrow> (py_exception, (string \<times> yaml) list) result" where
  "py_items (YMap kvs) = Inr kvs"
| "py_items _ = Inl AttributeError"

text \<open>\<open>key in obj\<close> for a dict \<open>obj\<close> (the program applies it to module contents).\<close>

fun py_contains :: "string \<Rightarrow> yaml \<Rightarrow> bool" where
  "py_contains key (YMap kvs) \<longleftrightarrow> dict_has key kvs"
| "py_contains key _ \<longleftrightarrow> False"

text \<open>
  \<open>obj.get(key, {}).items()\<close>: the items of a section of a module document, as
  both resolvers read them.
\<close>

definition section_items :: "yaml \<Rightarrow> string \<Rightarrow> (py_exception, (string \<times> yaml) list) result" where
  "section_items module_content key =
     (case py_get module_content key (YMap []) of Inl e \<Rightarrow> Inl e | Inr sec \<Rightarrow> py_items sec)"

text \<open>
  The strings among the items of a list, and the lists that hold strings only: module
  names are strings, and an import entry may list anything.
\<close>

definition str_items :: "yaml list \<Rightarrow> string list" where
  "str_items ys = concat (map (\<lambda>y. case y of YStr m \<Rightarrow> [m] | _ \<Rightarrow> []) ys)"

definition only_strings :: "yaml list \<Rightarrow> bool" where
  "only_strings ys \<longleftrightarrow> ys = map YStr (str_items ys)"

section \<open>Facts\<close>

lemma wf_yaml_scalar [simp]:
  "wf_yaml YNull" "wf_yaml (YBool b)" "wf_yaml (YInt i)" "wf_yaml (YStr s)"
  by simp_all

lemma wf_yaml_YMap_Nil [simp]: "wf_yaml (YMap [])"
  by simp

lemma wf_yaml_YSeq_iff: "wf_yaml (YSeq xs) \<longleftrightarrow> (\<forall>x \<in> set xs. wf_yaml x)"
  by (simp add: list_all_iff)

lemma wf_yaml_YMap_iff:
  "wf_yaml (YMap kvs) \<longleftrightarrow> dict_wf kvs \<and> (\<forall>(k, v) \<in> set kvs. wf_yaml v)"
  by (simp add: list_all_iff)

lemma wf_yaml_member: "wf_yaml (YMap kvs) \<Longrightarrow> (k, v) \<in> set kvs \<Longrightarrow> wf_yaml v"
  by (auto simp: list_all_iff)

lemma wf_yaml_element: "wf_yaml (YSeq xs) \<Longrightarrow> x \<in> set xs \<Longrightarrow> wf_yaml x"
  by (auto simp: list_all_iff)

lemma py_truthy_iff_not_falsy:
  "py_truthy y \<longleftrightarrow> y \<notin> {YNull, YBool False, YInt 0, YStr [], YSeq [], YMap []}"
  by (cases y) auto

lemma py_iter_Inr_iff:
  "(\<exists>ys. py_iter y = Inr ys) \<longleftrightarrow>
     (\<exists>xs. y = YSeq xs) \<or> (\<exists>s. y = YStr s) \<or> (\<exists>kvs. y = YMap kvs)"
  by (cases y) auto

lemma py_iter_Inl_iff:
  "py_iter y = Inl e \<longleftrightarrow>
     e = TypeError \<and> (y = YNull \<or> (\<exists>b. y = YBool b) \<or> (\<exists>i. y = YInt i))"
  by (cases y; cases e) auto

lemma py_iter_wf: "wf_yaml y \<Longrightarrow> py_iter y = Inr ys \<Longrightarrow> \<forall>x \<in> set ys. wf_yaml x"
  by (cases y) (auto simp: list_all_iff)

lemma py_iter_str_length: "py_iter (YStr s) = Inr ys \<Longrightarrow> length ys = length s"
  by auto

lemma py_get_Inr_iff: "(\<exists>v. py_get y key dflt = Inr v) \<longleftrightarrow> (\<exists>kvs. y = YMap kvs)"
  by (cases y) auto

lemma py_get_Inl_iff:
  "py_get y key dflt = Inl e \<longleftrightarrow> e = AttributeError \<and> (\<forall>kvs. y \<noteq> YMap kvs)"
  by (cases y; cases e) auto

lemma py_get_wf:
  "wf_yaml y \<Longrightarrow> wf_yaml dflt \<Longrightarrow> py_get y key dflt = Inr v \<Longrightarrow> wf_yaml v"
  by (cases y) (auto simp: list_all_iff split: option.splits dest!: dict_get_SomeD)

lemma py_get_present:
  "dict_get kvs key = Some v \<Longrightarrow> py_get (YMap kvs) key dflt = Inr v"
  by simp

lemma py_get_absent:
  "\<not> dict_has key kvs \<Longrightarrow> py_get (YMap kvs) key dflt = Inr dflt"
  by (simp add: dict_get_None_iff [symmetric])

lemma py_items_Inr_iff: "py_items y = Inr kvs \<longleftrightarrow> y = YMap kvs"
  by (cases y) auto

lemma py_items_Inl_iff:
  "py_items y = Inl e \<longleftrightarrow> e = AttributeError \<and> (\<forall>kvs. y \<noteq> YMap kvs)"
  by (cases y; cases e) auto

lemma py_items_wf: "wf_yaml y \<Longrightarrow> py_items y = Inr kvs \<Longrightarrow> dict_wf kvs"
  by (cases y) auto

lemma section_items_Inr_iff:
  "section_items mc key = Inr items \<longleftrightarrow>
     (\<exists>kvs. mc = YMap kvs \<and>
        (case dict_get kvs key of None \<Rightarrow> items = [] | Some sec \<Rightarrow> sec = YMap items))"
  by (cases mc) (auto simp: section_items_def py_items_Inr_iff split: option.splits)

lemma section_items_Inl: "section_items mc key = Inl e \<Longrightarrow> e = AttributeError"
  by (auto simp: section_items_def py_get_Inl_iff py_items_Inl_iff split: sum.splits)

lemma section_items_wf:
  assumes "wf_yaml mc" and "section_items mc key = Inr items"
  shows "dict_wf items"
proof -
  from assms(2) obtain kvs where mc: "mc = YMap kvs"
    and sec: "case dict_get kvs key of None \<Rightarrow> items = [] | Some sec \<Rightarrow> sec = YMap items"
    by (auto simp: section_items_Inr_iff)
  show ?thesis
  proof (cases "dict_get kvs key")
    case None
    with sec show ?thesis by simp
  next
    case (Some v)
    with sec have "(key, YMap items) \<in> set kvs" by (auto dest: dict_get_SomeD)
    with assms(1) mc have "wf_yaml (YMap items)" by (blast intro: wf_yaml_member)
    then show ?thesis by simp
  qed
qed

lemma section_items_values_wf:
  assumes "wf_yaml content" and "section_items content key = Inr items" and "(k, d) \<in> set items"
  shows "wf_yaml d"
proof -
  from assms(2) obtain kvs where content: "content = YMap kvs"
    and sec: "case dict_get kvs key of None \<Rightarrow> items = [] | Some sec \<Rightarrow> sec = YMap items"
    by (auto simp: section_items_Inr_iff)
  with assms(3) have "(key, YMap items) \<in> set kvs"
    by (auto split: option.splits dest: dict_get_SomeD)
  with assms(1) content have "wf_yaml (YMap items)" by (blast intro: wf_yaml_member)
  with assms(3) show ?thesis by (blast intro: wf_yaml_member)
qed

lemma str_items_simps [simp]:
  "str_items [] = []"
  "str_items (YStr m # ys) = m # str_items ys"
  "str_items (xs @ ys) = str_items xs @ str_items ys"
  by (simp_all add: str_items_def)

lemma set_str_items: "set (str_items ys) = {m. YStr m \<in> set ys}"
  by (induction ys) (auto simp: str_items_def split: yaml.splits)

lemma str_items_map_YStr [simp]: "str_items (map YStr ms) = ms"
  by (induction ms) simp_all

lemma only_strings_simps [simp]:
  "only_strings []"
  "only_strings (y # ys) \<longleftrightarrow> (\<exists>m. y = YStr m) \<and> only_strings ys"
  "only_strings (xs @ ys) \<longleftrightarrow> only_strings xs \<and> only_strings ys"
  "only_strings (map YStr ms)"
proof -
  have iff: "only_strings zs \<longleftrightarrow> (\<forall>z \<in> set zs. \<exists>m. z = YStr m)" for zs
    by (induction zs) (auto simp: only_strings_def str_items_def split: yaml.splits)
  show "only_strings []" "only_strings (y # ys) \<longleftrightarrow> (\<exists>m. y = YStr m) \<and> only_strings ys"
    "only_strings (xs @ ys) \<longleftrightarrow> only_strings xs \<and> only_strings ys" "only_strings (map YStr ms)"
    by (auto simp: iff)
qed

lemma only_strings_subset: "set ys \<subseteq> YStr ` V \<Longrightarrow> only_strings ys"
  by (induction ys) auto

end
