(* ===== verification/FileSystem.thy ===== *)
theory FileSystem
  imports Yaml
begin

text \<open>
  The file system as the program sees it, and the two steps both resolvers share: the
  module locator (a dotted module name to the first existing candidate file among the
  search directories) and the module loader (a file to the value \<open>safe_load\<close> gives
  for it). \<open>src/imery/lang.py\<close> inlines both in \<open>Lang.load_main_module\<close>;
  \<open>scripts/aggregate_demo_yaml.py\<close> has them as \<open>find_yaml_file\<close> and
  \<open>load_yaml\<close>.
\<close>

section \<open>The file system\<close>

text \<open>
  A file system is a finite table from paths to nodes. A node is a directory or a file;
  a file is identified with what \<open>open\<close> followed by \<open>yaml.safe_load\<close> does on it:
  \<open>File (Some y)\<close> yields the document \<open>y\<close>, \<open>File None\<close> raises (unreadable or
  malformed). The parser itself is outside the model. A path is the string the program
  builds; two spellings of one file are two entries of the table.
\<close>

type_synonym path = string

datatype node = Dir | File "yaml option"

type_synonym filesystem = "(path, node) dict"

definition path_exists :: "filesystem \<Rightarrow> path \<Rightarrow> bool" where
  "path_exists fs p \<longleftrightarrow> dict_has p fs"

definition is_dir :: "filesystem \<Rightarrow> path \<Rightarrow> bool" where
  "is_dir fs p \<longleftrightarrow> dict_get fs p = Some Dir"

text \<open>
  \<open>dir / name\<close> of \<open>pathlib\<close>: the name is appended after a separator, unless it is
  absolute, in which case it replaces the directory.
\<close>

definition path_join :: "path \<Rightarrow> string \<Rightarrow> path" where
  "path_join d name =
     (case name of
        c # cs \<Rightarrow> if c = CHR ''/'' then name else d @ ''/'' @ name
      | [] \<Rightarrow> d @ ''/'' @ name)"

section \<open>Locator\<close>

text \<open>\<open>module_name.replace('.', '/')\<close> and the file name built from it.\<close>

definition module_path :: "string \<Rightarrow> string" where
  "module_path module_name = map (\<lambda>c. if c = CHR ''.'' then CHR ''/'' else c) module_name"

definition yaml_filename :: "string \<Rightarrow> string" where
  "yaml_filename module_name = module_path module_name @ ''.yaml''"

text \<open>
  The loop over the search paths: the first candidate that exists wins, \<open>None\<close> when
  no directory has one.
\<close>

fun first_existing :: "filesystem \<Rightarrow> path list \<Rightarrow> string \<Rightarrow> path option" where
  "first_existing fs [] name = None"
| "first_existing fs (search_path # rest) name =
     (let candidate = path_join search_path name
      in if path_exists fs candidate then Some candidate
         else first_existing fs rest name)"

definition find_yaml_file :: "filesystem \<Rightarrow> path list \<Rightarrow> string \<Rightarrow> path option" where
  "find_yaml_file fs search_paths module_name =
     first_existing fs search_paths (yaml_filename module_name)"

section \<open>Loader\<close>

text \<open>
  \<open>open(file)\<close> and \<open>yaml.safe_load\<close>: \<open>None\<close> when either raises, which is the
  case of a missing path, of a directory and of a file that does not parse.
\<close>

definition safe_load :: "filesystem \<Rightarrow> path \<Rightarrow> yaml option" where
  "safe_load fs p = (case dict_get fs p of Some (File (Some y)) \<Rightarrow> Some y | _ \<Rightarrow> None)"

text \<open>
  A file system is well formed when the documents of its files are: no mapping has a
  key twice, as for every value \<open>safe_load\<close> returns.
\<close>

definition wf_fs :: "filesystem \<Rightarrow> bool" where
  "wf_fs fs \<longleftrightarrow>
     list_all (\<lambda>(p, n). case n of File (Some y) \<Rightarrow> wf_yaml y | _ \<Rightarrow> True) fs"

section \<open>Facts\<close>

lemma is_dir_exists: "is_dir fs p \<Longrightarrow> path_exists fs p"
  by (auto simp: is_dir_def path_exists_def dest: dict_get_Some_has)

lemma length_module_path [simp]: "length (module_path m) = length m"
  by (simp add: module_path_def)

lemma module_path_no_dot [simp]: "CHR ''.'' \<notin> set (module_path m)"
  by (auto simp: module_path_def)

lemma module_path_idem [simp]: "module_path (module_path m) = module_path m"
  by (simp add: module_path_def)

lemma module_path_append [simp]: "module_path (a @ b) = module_path a @ module_path b"
  by (simp add: module_path_def)

lemma module_path_id: "CHR ''.'' \<notin> set m \<Longrightarrow> module_path m = m"
  by (induction m) (auto simp: module_path_def)

lemma path_join_relative:
  "name \<noteq> [] \<Longrightarrow> hd name \<noteq> CHR ''/'' \<Longrightarrow> path_join d name = d @ ''/'' @ name"
  by (cases name) (simp_all add: path_join_def)

lemma path_join_absolute: "path_join d (CHR ''/'' # cs) = CHR ''/'' # cs"
  by (simp add: path_join_def)

lemma first_existing_Some:
  "first_existing fs ds name = Some p \<Longrightarrow>
     path_exists fs p \<and> (\<exists>d \<in> set ds. p = path_join d name)"
  by (induction ds) (auto simp: Let_def split: if_splits)

lemma first_existing_None_iff:
  "first_existing fs ds name = None \<longleftrightarrow> (\<forall>d \<in> set ds. \<not> path_exists fs (path_join d name))"
  by (induction ds) (auto simp: Let_def)

lemma first_existing_append:
  "first_existing fs (ds @ es) name =
     (case first_existing fs ds name of Some p \<Rightarrow> Some p | None \<Rightarrow> first_existing fs es name)"
  by (induction ds) (auto simp: Let_def)

lemma safe_load_Some_iff: "safe_load fs p = Some y \<longleftrightarrow> dict_get fs p = Some (File (Some y))"
  by (auto simp: safe_load_def split: option.splits node.splits)

lemma safe_load_SomeD: "safe_load fs p = Some y \<Longrightarrow> (p, File (Some y)) \<in> set fs"
  by (simp add: safe_load_Some_iff dict_get_SomeD)

lemma safe_load_dir: "is_dir fs p \<Longrightarrow> safe_load fs p = None"
  by (simp add: safe_load_def is_dir_def)

lemma safe_load_missing: "\<not> path_exists fs p \<Longrightarrow> safe_load fs p = None"
  by (simp add: safe_load_def path_exists_def dict_get_None_iff [symmetric])

lemma wf_fs_loaded: "wf_fs fs \<Longrightarrow> safe_load fs p = Some loaded \<Longrightarrow> wf_yaml loaded"
  by (drule safe_load_SomeD) (auto simp: wf_fs_def list_all_iff)

end
