(* ===== verification/Lang.thy ===== *)
theory Lang
  imports FileSystem
begin

text \<open>
  The class \<open>Lang\<close> of \<open>src/imery/lang.py\<close>: the resolver the runtime uses. It
  loads a main module and everything it imports, breadth first, each module once;
  widget names are qualified by the module that defines them, data names are global,
  one module at most may carry an \<open>app\<close> section, and every conflict is an error.

  The object is the record \<open>lang\<close>; a method takes the object and returns its result
  together with the object after the call. A \<open>return Result.error(...)\<close> is \<open>Inl\<close>
  of the matching \<open>lang_error\<close>, an exception that leaves the method is
  \<open>Inl (Raised e)\<close>; in both cases the returned object shows what had been merged
  before.
\<close>

section \<open>State and errors\<close>

record lang =
  layouts_paths :: "path list"
  widget_definitions :: "(string, yaml) dict"
  data_definitions :: "(string, yaml) dict"
  app_config :: yaml

datatype lang_error =
    SearchPathMissing path
  | SearchPathNotDir path
  | ModuleNotFound string
  | LoadFailed path
  | DuplicateWidget string
  | DuplicateData string
  | MultipleApp string
  | NoWidgets
  | NoApp
  | Raised py_exception

definition raising :: "(py_exception, 'a) result \<Rightarrow> 's \<Rightarrow> (lang_error, 'a) result \<times> 's" where
  "raising r s = (case r of Inl e \<Rightarrow> (Inl (Raised e), s) | Inr x \<Rightarrow> (Inr x, s))"

section \<open>Construction and \<open>init\<close>\<close>

text \<open>
  \<open>__init__\<close> puts the builtin layouts directory of the package, whose directory is
  \<open>package_dir\<close>, in front of the caller's search paths. \<open>init\<close> checks every search
  path in order and reports the first that is missing or is not a directory.
\<close>

definition builtin_layouts_dir :: "path \<Rightarrow> path" where
  "builtin_layouts_dir package_dir = path_join (path_join package_dir ''frontend'') ''layouts''"

definition new_lang :: "path \<Rightarrow> path list \<Rightarrow> lang" where
  "new_lang package_dir paths =
     \<lparr>layouts_paths = builtin_layouts_dir package_dir # paths,
      widget_definitions = [], data_definitions = [], app_config = YNull\<rparr>"

fun check_paths :: "filesystem \<Rightarrow> path list \<Rightarrow> (lang_error, unit) result" where
  "check_paths fs [] = Ok_None"
| "check_paths fs (p # ps) =
     (if \<not> path_exists fs p then Inl (SearchPathMissing p)
      else if \<not> is_dir fs p then Inl (SearchPathNotDir p)
      else check_paths fs ps)"

definition init :: "filesystem \<Rightarrow> lang \<Rightarrow> (lang_error, unit) result" where
  "init fs self = check_paths fs (layouts_paths self)"

section \<open>Merging one module\<close>

text \<open>
  The three merge loops of \<open>load_main_module\<close>. Each stops at the first conflict and
  leaves the entries merged before it in the object.
\<close>

definition qualified_name :: "string \<Rightarrow> string \<Rightarrow> string" where
  "qualified_name current_module widget_name = current_module @ ''.'' @ widget_name"

fun merge_widgets :: "string \<Rightarrow> (string \<times> yaml) list \<Rightarrow> lang \<Rightarrow> (lang_error, unit) result \<times> lang" where
  "merge_widgets current_module [] self = (Ok_None, self)"
| "merge_widgets current_module ((widget_name, widget_def) # rest) self =
     (let full_name = qualified_name current_module widget_name
      in if dict_has full_name (widget_definitions self)
         then (Inl (DuplicateWidget full_name), self)
         else merge_widgets current_module rest
                (self\<lparr>widget_definitions := dict_set full_name widget_def (widget_definitions self)\<rparr>))"

fun merge_data :: "(string \<times> yaml) list \<Rightarrow> lang \<Rightarrow> (lang_error, unit) result \<times> lang" where
  "merge_data [] self = (Ok_None, self)"
| "merge_data ((data_name, data_def) # rest) self =
     (if dict_has data_name (data_definitions self)
      then (Inl (DuplicateData data_name), self)
      else merge_data rest
             (self\<lparr>data_definitions := dict_set data_name data_def (data_definitions self)\<rparr>))"

definition process_widgets :: "string \<Rightarrow> yaml \<Rightarrow> lang \<Rightarrow> (lang_error, unit) result \<times> lang" where
  "process_widgets current_module module_content self =
     and_then (raising (py_get module_content ''widgets'' (YMap [])) self) (\<lambda>widgets self.
     and_then (raising (py_items widgets) self) (\<lambda>items self.
     merge_widgets current_module items self))"

definition process_data :: "yaml \<Rightarrow> lang \<Rightarrow> (lang_error, unit) result \<times> lang" where
  "process_data module_content self =
     and_then (raising (py_get module_content ''data'' (YMap [])) self) (\<lambda>data self.
     and_then (raising (py_items data) self) (\<lambda>items self.
     merge_data items self))"

definition merge_app :: "string \<Rightarrow> yaml \<Rightarrow> lang \<Rightarrow> (lang_error, unit) result \<times> lang" where
  "merge_app current_module app self =
     (if app \<noteq> YNull
      then if app_config self \<noteq> YNull then (Inl (MultipleApp current_module), self)
           else (Ok_None, self\<lparr>app_config := app\<rparr>)
      else (Ok_None, self))"

definition process_app :: "string \<Rightarrow> yaml \<Rightarrow> lang \<Rightarrow> (lang_error, unit) result \<times> lang" where
  "process_app current_module module_content self =
     and_then (raising (py_get module_content ''app'' YNull) self) (\<lambda>app self.
     merge_app current_module app self)"

text \<open>
  The imports of a module are appended to the queue as \<open>deque.extend\<close> iterates them:
  a list gives its elements, a string its characters, a mapping its keys; a falsy
  value adds nothing and any other value raises.
\<close>

definition process_imports :: "yaml \<Rightarrow> yaml list \<Rightarrow> (py_exception, yaml list) result" where
  "process_imports module_content queue =
     (case py_get module_content ''import'' (YSeq []) of
        Inl e \<Rightarrow> Inl e
      | Inr imports \<Rightarrow>
          if py_truthy imports
          then (case py_iter imports of Inl e \<Rightarrow> Inl e | Inr items \<Rightarrow> Inr (queue @ items))
          else Inr queue)"

text \<open>An empty or null document counts as an empty mapping.\<close>

definition none_to_empty :: "yaml \<Rightarrow> yaml" where
  "none_to_empty loaded = (if loaded = YNull then YMap [] else loaded)"

definition merge_module ::
  "string \<Rightarrow> yaml \<Rightarrow> yaml list \<Rightarrow> lang \<Rightarrow> (lang_error, yaml list) result \<times> lang" where
  "merge_module current_module loaded queue self =
     (let module_content = none_to_empty loaded
      in and_then (process_widgets current_module module_content self) (\<lambda>_ self.
         and_then (process_data module_content self) (\<lambda>_ self.
         and_then (process_app current_module module_content self) (\<lambda>_ self.
         raising (process_imports module_content queue) self))))"

section \<open>The traversal\<close>

text \<open>
  One iteration of the \<open>while queue\<close> loop, for the element \<open>current\<close> just popped
  from the left of the queue, with \<open>queue\<close> what remains. A module already visited is
  skipped; otherwise it is marked, located, loaded and merged. An element that is not
  a string fails: an unhashable one at the membership test, any other at \<open>replace\<close>.
\<close>

definition visit ::
  "filesystem \<Rightarrow> yaml \<Rightarrow> yaml list \<Rightarrow> string set \<Rightarrow> lang \<Rightarrow>
     (lang_error, yaml list \<times> string set) result \<times> lang" where
  "visit fs current queue visited self =
     (case current of
        YStr current_module \<Rightarrow>
          if current_module \<in> visited then (Inr (queue, visited), self)
          else (case find_yaml_file fs (layouts_paths self) current_module of
                  None \<Rightarrow> (Inl (ModuleNotFound current_module), self)
                | Some module_file \<Rightarrow>
                    (case safe_load fs module_file of
                       None \<Rightarrow> (Inl (LoadFailed module_file), self)
                     | Some loaded \<Rightarrow>
                         and_then (merge_module current_module loaded queue self)
                           (\<lambda>queue' self'. (Inr (queue', insert current_module visited), self'))))
      | _ \<Rightarrow> if py_hashable current then (Inl (Raised AttributeError), self)
             else (Inl (Raised TypeError), self))"

text \<open>
  What the traversal can ever put on the queue: the import items of the documents of
  the file system. It bounds the loop, since a file system is a finite table.
\<close>

definition import_items :: "yaml \<Rightarrow> yaml list" where
  "import_items loaded =
     (case py_get (none_to_empty loaded) ''import'' (YSeq []) of
        Inr imports \<Rightarrow>
          if py_truthy imports
          then (case py_iter imports of Inr items \<Rightarrow> items | Inl e \<Rightarrow> [])
          else []
      | Inl e \<Rightarrow> [])"

definition fs_import_items :: "filesystem \<Rightarrow> yaml set" where
  "fs_import_items fs =
     (\<Union>(p, n) \<in> set fs. case n of File (Some y) \<Rightarrow> set (import_items y) | _ \<Rightarrow> {})"

definition unvisited :: "filesystem \<Rightarrow> yaml list \<Rightarrow> string set \<Rightarrow> yaml set" where
  "unvisited fs queue visited = (set queue \<union> fs_import_items fs) - YStr ` visited"

lemma finite_fs_import_items [simp]: "finite (fs_import_items fs)"
  by (auto simp: fs_import_items_def split: node.splits option.splits)

lemma finite_unvisited [simp]: "finite (unvisited fs queue visited)"
  by (simp add: unvisited_def)

lemma raising_simps [simp]:
  "raising (Inl e) = Pair (Inl (Raised e))"
  "raising (Inr x) = Pair (Inr x)"
  by (simp_all add: raising_def fun_eq_iff)

lemma snd_raising [simp]: "snd (raising r s) = s"
  by (cases r) simp_all

lemma raising_Inr_iff: "raising r s = (Inr x, s') \<longleftrightarrow> r = Inr x \<and> s' = s"
  by (cases r) auto

lemma raising_Inl_iff: "raising r s = (Inl e, s') \<longleftrightarrow> (\<exists>x. r = Inl x \<and> e = Raised x) \<and> s' = s"
  by (cases r) auto

lemma process_imports_items:
  "process_imports (none_to_empty loaded) queue = Inr queue' \<Longrightarrow>
     queue' = queue @ import_items loaded"
  by (auto simp: process_imports_def import_items_def split: sum.splits if_splits)

lemma merge_module_queue:
  assumes "merge_module m loaded queue self = (Inr queue', self')"
  shows "queue' = queue @ import_items loaded"
proof -
  from assms have "process_imports (none_to_empty loaded) queue = Inr queue'"
    by (auto simp: merge_module_def Let_def and_then_Inr_iff raising_Inr_iff)
  then show ?thesis by (rule process_imports_items)
qed

lemma import_items_in_fs:
  "safe_load fs p = Some loaded \<Longrightarrow> set (import_items loaded) \<subseteq> fs_import_items fs"
  by (drule safe_load_SomeD) (force simp: fs_import_items_def)

text \<open>The two ways in which an iteration continues the loop.\<close>

lemma visit_Inr_cases:
  assumes "visit fs current queue visited self = (Inr (queue', visited'), self')"
  obtains (skip) m where "current = YStr m" "m \<in> visited"
      "queue' = queue" "visited' = visited" "self' = self"
  | (merged) m p loaded where "current = YStr m" "m \<notin> visited"
      "find_yaml_file fs (layouts_paths self) m = Some p" "safe_load fs p = Some loaded"
      "merge_module m loaded queue self = (Inr queue', self')"
      "visited' = insert m visited"
proof (cases current)
  case (YStr m)
  show ?thesis
  proof (cases "m \<in> visited")
    case True
    with YStr assms show ?thesis by (intro skip [of m]) (simp_all add: visit_def)
  next
    case False
    with YStr assms obtain p where p: "find_yaml_file fs (layouts_paths self) m = Some p"
      by (cases "find_yaml_file fs (layouts_paths self) m") (simp_all add: visit_def)
    with False YStr assms obtain loaded where l: "safe_load fs p = Some loaded"
      by (cases "safe_load fs p") (simp_all add: visit_def)
    with p False YStr assms
    have "merge_module m loaded queue self = (Inr queue', self')" "visited' = insert m visited"
      by (auto simp: visit_def elim!: and_then_cases)
    with YStr False p l show ?thesis by (intro merged [of m p loaded])
  qed
qed (use assms in \<open>simp_all add: visit_def split: if_splits\<close>)

lemma visit_decreases:
  assumes "visit fs current queue visited self = (Inr (queue', visited'), self')"
  shows "unvisited fs queue' visited' \<subset> unvisited fs (current # queue) visited \<or>
         unvisited fs queue' visited' = unvisited fs (current # queue) visited \<and>
         length queue' < length (current # queue)"
  using assms
proof (cases rule: visit_Inr_cases)
  case (skip m)
  then show ?thesis by (auto simp: unvisited_def)
next
  case (merged m p loaded)
  from merged(5) have q: "queue' = queue @ import_items loaded"
    by (rule merge_module_queue)
  from merged(4) have "set (import_items loaded) \<subseteq> fs_import_items fs"
    by (rule import_items_in_fs)
  with q merged(1,2,6) have "unvisited fs queue' visited' \<subset> unvisited fs (current # queue) visited"
    by (auto simp: unvisited_def)
  then show ?thesis ..
qed

text \<open>
  The loop. It returns the set of visited modules when the queue runs empty, and the
  error of the first iteration that fails.
\<close>

function load_loop ::
  "filesystem \<Rightarrow> yaml list \<Rightarrow> string set \<Rightarrow> lang \<Rightarrow> (lang_error, string set) result \<times> lang" where
  "load_loop fs [] visited self = (Inr visited, self)"
| "load_loop fs (current # queue) visited self =
     and_then (visit fs current queue visited self)
       (\<lambda>(queue', visited') self'. load_loop fs queue' visited' self')"
  by pat_completeness auto
termination
  by (relation "inv_image (finite_psubset <*lex*> less_than)
        (\<lambda>(fs, queue, visited, self). (unvisited fs queue visited, length queue))")
     (auto dest!: visit_decreases)

declare load_loop.simps [simp del]

text \<open>
  \<open>load_main_module\<close>: the queue starts with the main module and \<open>builtin\<close>, the
  visited set is empty, and after the traversal the merged document must have a widget
  and an \<open>app\<close> section.
\<close>

definition load_main_module :: "filesystem \<Rightarrow> string \<Rightarrow> lang \<Rightarrow> (lang_error, unit) result \<times> lang" where
  "load_main_module fs module_name self =
     and_then (load_loop fs [YStr module_name, YStr ''builtin''] {} self) (\<lambda>visited self.
     if widget_definitions self = [] then (Inl NoWidgets, self)
     else if app_config self = YNull then (Inl NoApp, self)
     else (Ok_None, self))"

section \<open>\<open>dispose\<close>\<close>

definition dispose :: "lang \<Rightarrow> (lang_error, unit) result \<times> lang" where
  "dispose self =
     (Ok_None, self\<lparr>widget_definitions := [], data_definitions := [], app_config := YNull\<rparr>)"

section \<open>The sections of a module document\<close>

text \<open>
  What the merge of a module reads from its document: the items of its \<open>widgets\<close>
  and \<open>data\<close> sections, its \<open>app\<close> section, and the items its \<open>import\<close> entry
  puts on the queue. \<open>module_ok\<close> holds when none of these reads raises: the document
  is a mapping (or null), both sections are mappings when present, and the import
  entry is falsy or iterable.
\<close>

definition widgets_of :: "yaml \<Rightarrow> (string \<times> yaml) list" where
  "widgets_of loaded =
     (case section_items (none_to_empty loaded) ''widgets'' of Inr items \<Rightarrow> items | Inl e \<Rightarrow> [])"

definition data_of :: "yaml \<Rightarrow> (string \<times> yaml) list" where
  "data_of loaded =
     (case section_items (none_to_empty loaded) ''data'' of Inr items \<Rightarrow> items | Inl e \<Rightarrow> [])"

definition app_of :: "yaml \<Rightarrow> yaml" where
  "app_of loaded =
     (case py_get (none_to_empty loaded) ''app'' YNull of Inr app \<Rightarrow> app | Inl e \<Rightarrow> YNull)"

definition module_ok :: "yaml \<Rightarrow> bool" where
  "module_ok loaded \<longleftrightarrow>
     is_ok (section_items (none_to_empty loaded) ''widgets'') \<and>
     is_ok (section_items (none_to_empty loaded) ''data'') \<and>
     is_ok (process_imports (none_to_empty loaded) [])"

definition qualify :: "string \<Rightarrow> (string \<times> yaml) list \<Rightarrow> (string \<times> yaml) list" where
  "qualify current_module items = map (\<lambda>(w, d). (qualified_name current_module w, d)) items"

section \<open>Well-formed objects\<close>

text \<open>
  Both dictionaries of an object have distinct keys. The constructor establishes this
  and every method keeps it, also when it fails.
\<close>

definition lang_wf :: "lang \<Rightarrow> bool" where
  "lang_wf self \<longleftrightarrow> dict_wf (widget_definitions self) \<and> dict_wf (data_definitions self)"

end
