(* ===== verification/Fixtures.thy ===== *)
theory Fixtures
  imports Lang
begin

text \<open>
  Concrete file systems on which the theorems of the development are instantiated, and
  the equations that evaluate the model on them. \<open>demo_fs\<close> is the scenario of the
  specification: module \<open>root\<close> imports \<open>leaf\<close> and defines widget \<open>btn\<close> and the
  \<open>app\<close> section; \<open>leaf\<close> defines widget \<open>label\<close> and data \<open>greeting\<close>; the builtin
  layouts directory holds an empty \<open>builtin\<close> module.
\<close>

definition demo_paths :: "path list" where
  "demo_paths = [''pkg/frontend/layouts'', ''demo'']"

definition builtin_entries :: filesystem where
  "builtin_entries =
     [(''pkg/frontend/layouts'', Dir), (''demo'', Dir),
      (''pkg/frontend/layouts/builtin.yaml'', File (Some YNull))]"

definition demo_fs :: filesystem where
  "demo_fs = builtin_entries @
     [(''demo/root.yaml'', File (Some (YMap
        [(''import'', YSeq [YStr ''leaf'']),
         (''widgets'', YMap [(''btn'', YStr ''button'')]),
         (''app'', YMap [(''widget'', YStr ''root.btn'')])]))),
      (''demo/leaf.yaml'', File (Some (YMap
        [(''widgets'', YMap [(''label'', YStr ''text'')]),
         (''data'', YMap [(''greeting'', YStr ''hi'')])])))]"

definition demo_lang :: lang where
  "demo_lang = new_lang ''pkg'' [''demo'']"

text \<open>The unfoldings that let the simplifier run the resolver on a concrete file system.\<close>

lemmas lang_eval =
  demo_paths_def builtin_entries_def demo_lang_def new_lang_def builtin_layouts_dir_def
  path_join_def init_def load_main_module_def load_loop.simps visit_def find_yaml_file_def
  yaml_filename_def module_path_def path_exists_def is_dir_def safe_load_def
  merge_module_def none_to_empty_def process_widgets_def process_data_def process_app_def
  merge_app_def process_imports_def qualified_name_def dispose_def Let_def

lemma demo_lang_paths [simp]: "layouts_paths demo_lang = demo_paths"
  by (simp add: lang_eval)

lemma demo_loop:
  "load_loop demo_fs [YStr ''root'', YStr ''builtin''] {} demo_lang =
     (Inr {''root'', ''leaf'', ''builtin''},
      demo_lang\<lparr>widget_definitions := [(''root.btn'', YStr ''button''), (''leaf.label'', YStr ''text'')],
                data_definitions := [(''greeting'', YStr ''hi'')],
                app_config := YMap [(''widget'', YStr ''root.btn'')]\<rparr>)"
  by (simp add: demo_fs_def lang_eval insert_commute)

lemma demo_load:
  "load_main_module demo_fs ''root'' demo_lang =
     (Ok_None,
      demo_lang\<lparr>widget_definitions := [(''root.btn'', YStr ''button''), (''leaf.label'', YStr ''text'')],
                data_definitions := [(''greeting'', YStr ''hi'')],
                app_config := YMap [(''widget'', YStr ''root.btn'')]\<rparr>)"
  by (simp add: demo_fs_def lang_eval)

text \<open>
  \<open>dotted_fs\<close>: module \<open>a\<close> defines a widget named \<open>b.c\<close> and imports module
  \<open>a.b\<close>, which defines a widget named \<open>c\<close>. \<open>ghost_fs\<close>: module \<open>root\<close> imports a
  module for which no file exists. \<open>bare_fs\<close>: module \<open>root\<close> gives its import as the
  bare string \<open>leaf\<close> instead of a list.
\<close>

definition dotted_fs :: filesystem where
  "dotted_fs = builtin_entries @
     [(''demo/a.yaml'', File (Some (YMap
        [(''import'', YSeq [YStr ''a.b'']),
         (''widgets'', YMap [(''b.c'', YStr ''first'')]),
         (''app'', YMap [(''widget'', YStr ''a.b.c'')])]))),
      (''demo/a/b.yaml'', File (Some (YMap
        [(''widgets'', YMap [(''c'', YStr ''second'')])])))]"

definition ghost_fs :: filesystem where
  "ghost_fs = builtin_entries @
     [(''demo/root.yaml'', File (Some (YMap
        [(''import'', YSeq [YStr ''ghost'']),
         (''widgets'', YMap [(''btn'', YStr ''button'')]),
         (''app'', YMap [(''widget'', YStr ''root.btn'')])])))]"

definition bare_fs :: filesystem where
  "bare_fs = builtin_entries @
     [(''demo/root.yaml'', File (Some (YMap
        [(''import'', YStr ''leaf''),
         (''widgets'', YMap [(''btn'', YStr ''button'')]),
         (''app'', YMap [(''widget'', YStr ''root.btn'')])]))),
      (''demo/leaf.yaml'', File (Some (YMap
        [(''widgets'', YMap [(''label'', YStr ''text'')])])))]"

lemma dotted_load:
  "load_main_module dotted_fs ''a'' demo_lang =
     (Inl (DuplicateWidget ''a.b.c''),
      demo_lang\<lparr>widget_definitions := [(''a.b.c'', YStr ''first'')],
                app_config := YMap [(''widget'', YStr ''a.b.c'')]\<rparr>)"
  by (simp add: dotted_fs_def lang_eval)

lemma ghost_load:
  "load_main_module ghost_fs ''root'' demo_lang =
     (Inl (ModuleNotFound ''ghost''),
      demo_lang\<lparr>widget_definitions := [(''root.btn'', YStr ''button'')],
                app_config := YMap [(''widget'', YStr ''root.btn'')]\<rparr>)"
  by (simp add: ghost_fs_def lang_eval)

lemma bare_load:
  "load_main_module bare_fs ''root'' demo_lang =
     (Inl (ModuleNotFound ''l''),
      demo_lang\<lparr>widget_definitions := [(''root.btn'', YStr ''button'')],
                app_config := YMap [(''widget'', YStr ''root.btn'')]\<rparr>)"
  by (simp add: bare_fs_def lang_eval)

lemma demo_lang_fields [simp]:
  "widget_definitions demo_lang = []" "data_definitions demo_lang = []"
  "app_config demo_lang = YNull"
  by (simp_all add: lang_eval)

end
