(* ===== verification/Lang_Merge.thy ===== *)
theory Lang_Merge
  imports Fixtures
begin

text \<open>
  Facts about the merge of one module by \<open>Lang.load_main_module\<close>: what the reads of
  the sections give, what each merge loop does on success and on a conflict, and how
  the merge of a module composes them.
\<close>

section \<open>Facts: sections\<close>

lemma none_to_empty_simps [simp]:
  "none_to_empty YNull = YMap []"
  "none_to_empty (YMap kvs) = YMap kvs"
  "none_to_empty (YSeq xs) = YSeq xs"
  "none_to_empty (YStr s) = YStr s"
  "none_to_empty (YInt i) = YInt i"
  "none_to_empty (YBool b) = YBool b"
  by (simp_all add: none_to_empty_def)

lemma none_to_empty_not_null [simp]: "none_to_empty loaded \<noteq> YNull"
  by (simp add: none_to_empty_def)

lemma none_to_empty_wf [simp]: "wf_yaml (none_to_empty loaded) \<longleftrightarrow> wf_yaml loaded"
  by (simp add: none_to_empty_def)

lemma widgets_of_wf: "wf_yaml loaded \<Longrightarrow> dict_wf (widgets_of loaded)"
  by (auto simp: widgets_of_def split: sum.splits intro: section_items_wf [of "none_to_empty loaded"])

lemma data_of_wf: "wf_yaml loaded \<Longrightarrow> dict_wf (data_of loaded)"
  by (auto simp: data_of_def split: sum.splits intro: section_items_wf [of "none_to_empty loaded"])

lemma process_widgets_items:
  "process_widgets m mc self =
     and_then (raising (section_items mc ''widgets'') self) (\<lambda>items self. merge_widgets m items self)"
  by (cases "py_get mc ''widgets'' (YMap [])") (simp_all add: process_widgets_def section_items_def)

lemma process_data_items:
  "process_data mc self =
     and_then (raising (section_items mc ''data'') self) (\<lambda>items self. merge_data items self)"
  by (cases "py_get mc ''data'' (YMap [])") (simp_all add: process_data_def section_items_def)

lemma module_ok_mapping: "module_ok loaded \<Longrightarrow> \<exists>kvs. none_to_empty loaded = YMap kvs"
  by (auto simp: module_ok_def is_ok_iff section_items_Inr_iff)

lemma qualify_simps [simp]:
  "qualify m [] = []"
  "qualify m ((w, d) # items) = (qualified_name m w, d) # qualify m items"
  "qualify m (items @ others) = qualify m items @ qualify m others"
  by (simp_all add: qualify_def)

lemma qualified_name_inj [simp]: "qualified_name m w = qualified_name m w' \<longleftrightarrow> w = w'"
  by (simp add: qualified_name_def)

lemma dict_keys_qualify: "dict_keys (qualify m items) = map (qualified_name m) (dict_keys items)"
  by (induction items) auto

lemma dict_has_qualify:
  "dict_has k (qualify m items) \<longleftrightarrow> (\<exists>w. k = qualified_name m w \<and> dict_has w items)"
  by (induction items) auto

lemma dict_wf_qualify [simp]: "dict_wf (qualify m items) \<longleftrightarrow> dict_wf items"
  by (simp add: dict_wf_def dict_keys_qualify [unfolded dict_keys_def] distinct_map inj_on_def)

section \<open>Facts: the merge loops\<close>

text \<open>
  A merge loop touches one field. It succeeds exactly when the items have distinct
  names and none of them is present already, and then appends them in order; when it
  fails, the items before the first conflict have been appended.
\<close>

lemma merge_widgets_state:
  "snd (merge_widgets m items self) =
     self\<lparr>widget_definitions := widget_definitions (snd (merge_widgets m items self))\<rparr>"
  by (induction m items self rule: merge_widgets.induct) (simp_all add: Let_def)

lemma merge_widgets_frame [simp, frame]:
  "layouts_paths (snd (merge_widgets m items self)) = layouts_paths self"
  "data_definitions (snd (merge_widgets m items self)) = data_definitions self"
  "app_config (snd (merge_widgets m items self)) = app_config self"
  by (subst merge_widgets_state, simp)+

lemma merge_widgets_Ok_iff:
  "merge_widgets m items self = (Ok_None, self') \<longleftrightarrow>
     dict_wf items \<and> (\<forall>w. dict_has w items \<longrightarrow> \<not> dict_has (qualified_name m w) (widget_definitions self)) \<and>
     self' = self\<lparr>widget_definitions := widget_definitions self @ qualify m items\<rparr>"
proof (induction m items self rule: merge_widgets.induct)
  case (1 m self)
  then show ?case by auto
next
  case (2 m w d rest self)
  then show ?case
    by (auto simp: Let_def dict_set_fresh dict_wf_def dict_has_def)
qed

lemma merge_widgets_error:
  assumes "merge_widgets m items self = (Inl e, self')"
  shows "\<exists>pre w d post. items = pre @ (w, d) # post \<and>
           e = DuplicateWidget (qualified_name m w) \<and>
           self' = self\<lparr>widget_definitions := widget_definitions self @ qualify m pre\<rparr> \<and>
           dict_has (qualified_name m w) (widget_definitions self')"
  using assms
proof (induction m items self rule: merge_widgets.induct)
  case (1 m self)
  then show ?case by simp
next
  case (2 m w d rest self)
  show ?case
  proof (cases "dict_has (qualified_name m w) (widget_definitions self)")
    case True
    with "2.prems" have "(w, d) # rest = [] @ (w, d) # rest \<and> e = DuplicateWidget (qualified_name m w) \<and>
        self' = self\<lparr>widget_definitions := widget_definitions self @ qualify m []\<rparr> \<and>
        dict_has (qualified_name m w) (widget_definitions self')"
      by (auto simp: Let_def)
    then show ?thesis by blast
  next
    case False
    let ?self = "self\<lparr>widget_definitions := dict_set (qualified_name m w) d (widget_definitions self)\<rparr>"
    from False "2.prems" have "merge_widgets m rest ?self = (Inl e, self')"
      by (simp add: Let_def)
    with False obtain pre w' d' post where *: "rest = pre @ (w', d') # post"
      "e = DuplicateWidget (qualified_name m w')"
      "self' = ?self\<lparr>widget_definitions := widget_definitions ?self @ qualify m pre\<rparr>"
      "dict_has (qualified_name m w') (widget_definitions self')"
      using "2.IH" [of "qualified_name m w"] by (auto simp: Let_def)
    with False have "(w, d) # rest = ((w, d) # pre) @ (w', d') # post \<and>
        e = DuplicateWidget (qualified_name m w') \<and>
        self' = self\<lparr>widget_definitions := widget_definitions self @ qualify m ((w, d) # pre)\<rparr> \<and>
        dict_has (qualified_name m w') (widget_definitions self')"
      by (simp add: dict_set_fresh)
    then show ?thesis by blast
  qed
qed

lemma merge_data_state:
  "snd (merge_data items self) =
     self\<lparr>data_definitions := data_definitions (snd (merge_data items self))\<rparr>"
  by (induction items self rule: merge_data.induct) simp_all

lemma merge_data_frame [simp, frame]:
  "layouts_paths (snd (merge_data items self)) = layouts_paths self"
  "widget_definitions (snd (merge_data items self)) = widget_definitions self"
  "app_config (snd (merge_data items self)) = app_config self"
  by (subst merge_data_state, simp)+

lemma merge_data_Ok_iff:
  "merge_data items self = (Ok_None, self') \<longleftrightarrow>
     dict_wf items \<and> (\<forall>k. dict_has k items \<longrightarrow> \<not> dict_has k (data_definitions self)) \<and>
     self' = self\<lparr>data_definitions := data_definitions self @ items\<rparr>"
proof (induction items self rule: merge_data.induct)
  case (1 self)
  then show ?case by auto
next
  case (2 k d rest self)
  then show ?case
    by (auto simp: dict_set_fresh dict_wf_def dict_has_def)
qed

lemma merge_data_error:
  assumes "merge_data items self = (Inl e, self')"
  shows "\<exists>pre k d post. items = pre @ (k, d) # post \<and> e = DuplicateData k \<and>
           self' = self\<lparr>data_definitions := data_definitions self @ pre\<rparr> \<and>
           dict_has k (data_definitions self')"
  using assms
proof (induction items self rule: merge_data.induct)
  case (1 self)
  then show ?case by simp
next
  case (2 k d rest self)
  show ?case
  proof (cases "dict_has k (data_definitions self)")
    case True
    with "2.prems" have "(k, d) # rest = [] @ (k, d) # rest \<and> e = DuplicateData k \<and>
        self' = self\<lparr>data_definitions := data_definitions self @ []\<rparr> \<and>
        dict_has k (data_definitions self')"
      by auto
    then show ?thesis by blast
  next
    case False
    let ?self = "self\<lparr>data_definitions := dict_set k d (data_definitions self)\<rparr>"
    from False "2.prems" have "merge_data rest ?self = (Inl e, self')"
      by simp
    with False obtain pre k' d' post where *: "rest = pre @ (k', d') # post"
      "e = DuplicateData k'"
      "self' = ?self\<lparr>data_definitions := data_definitions ?self @ pre\<rparr>"
      "dict_has k' (data_definitions self')"
      using "2.IH" by auto
    with False have "(k, d) # rest = ((k, d) # pre) @ (k', d') # post \<and> e = DuplicateData k' \<and>
        self' = self\<lparr>data_definitions := data_definitions self @ (k, d) # pre\<rparr> \<and>
        dict_has k' (data_definitions self')"
      by (simp add: dict_set_fresh)
    then show ?thesis by blast
  qed
qed

lemma merge_app_frame [simp, frame]:
  "layouts_paths (snd (merge_app m app self)) = layouts_paths self"
  "widget_definitions (snd (merge_app m app self)) = widget_definitions self"
  "data_definitions (snd (merge_app m app self)) = data_definitions self"
  by (simp_all add: merge_app_def)

lemma merge_app_Ok_iff:
  "merge_app m app self = (Ok_None, self') \<longleftrightarrow>
     (if app = YNull then self' = self
      else app_config self = YNull \<and> self' = self\<lparr>app_config := app\<rparr>)"
  by (auto simp: merge_app_def)

lemma merge_app_Inl_iff:
  "merge_app m app self = (Inl e, self') \<longleftrightarrow>
     app \<noteq> YNull \<and> app_config self \<noteq> YNull \<and> e = MultipleApp m \<and> self' = self"
  by (auto simp: merge_app_def)

section \<open>Facts: one module\<close>

lemma process_imports_append:
  "process_imports mc queue =
     (case process_imports mc [] of Inl e \<Rightarrow> Inl e | Inr items \<Rightarrow> Inr (queue @ items))"
  by (auto simp: process_imports_def split: sum.splits)

lemma process_imports_ok:
  "module_ok loaded \<Longrightarrow>
     process_imports (none_to_empty loaded) queue = Inr (queue @ import_items loaded)"
  by (subst process_imports_append)
     (auto simp: module_ok_def is_ok_iff dest: process_imports_items)

text \<open>The merge of a module whose reads do not raise, as a sequence of the three merges.\<close>

lemma merge_module_ok:
  assumes "module_ok loaded"
  shows "merge_module m loaded queue self =
     and_then (merge_widgets m (widgets_of loaded) self) (\<lambda>_ self.
     and_then (merge_data (data_of loaded) self) (\<lambda>_ self.
     and_then (merge_app m (app_of loaded) self) (\<lambda>_ self.
     (Inr (queue @ import_items loaded), self))))"
proof -
  from assms obtain kvs where kvs: "none_to_empty loaded = YMap kvs"
    by (blast dest: module_ok_mapping)
  from assms obtain ws ds where ws: "section_items (none_to_empty loaded) ''widgets'' = Inr ws"
    and ds: "section_items (none_to_empty loaded) ''data'' = Inr ds"
    by (auto simp: module_ok_def is_ok_iff)
  have app: "py_get (none_to_empty loaded) ''app'' YNull = Inr (app_of loaded)"
    by (simp add: app_of_def kvs)
  show ?thesis
    by (simp add: merge_module_def Let_def process_widgets_items process_data_items
        process_app_def ws ds app widgets_of_def data_of_def process_imports_ok [OF assms])
qed

lemma merge_module_Inr_ok:
  assumes "merge_module m loaded queue self = (Inr queue', self')"
  shows "module_ok loaded"
proof -
  let ?mc = "none_to_empty loaded"
  from assms have "is_ok (section_items ?mc ''widgets'')" "is_ok (section_items ?mc ''data'')"
    "is_ok (process_imports ?mc queue)"
    by (auto simp: merge_module_def Let_def process_widgets_items process_data_items
        and_then_Inr_iff raising_Inr_iff)
  moreover from this(3) have "is_ok (process_imports ?mc [])"
    by (subst (asm) process_imports_append) (auto split: sum.splits)
  ultimately show ?thesis by (simp add: module_ok_def)
qed

lemma merge_module_Inr_iff:
  "merge_module m loaded queue self = (Inr queue', self') \<longleftrightarrow>
     module_ok loaded \<and> queue' = queue @ import_items loaded \<and>
     dict_wf (widgets_of loaded) \<and> dict_wf (data_of loaded) \<and>
     (\<forall>w. dict_has w (widgets_of loaded) \<longrightarrow>
        \<not> dict_has (qualified_name m w) (widget_definitions self)) \<and>
     (\<forall>k. dict_has k (data_of loaded) \<longrightarrow> \<not> dict_has k (data_definitions self)) \<and>
     (app_of loaded \<noteq> YNull \<longrightarrow> app_config self = YNull) \<and>
     self' = self\<lparr>widget_definitions := widget_definitions self @ qualify m (widgets_of loaded),
                 data_definitions := data_definitions self @ data_of loaded,
                 app_config := (if app_of loaded = YNull then app_config self else app_of loaded)\<rparr>"
proof (cases "module_ok loaded")
  case True
  show ?thesis
    unfolding merge_module_ok [OF True]
    using True by (cases "app_of loaded = YNull")
       (auto simp: and_then_Inr_iff merge_widgets_Ok_iff merge_data_Ok_iff merge_app_Ok_iff)
next
  case False
  then show ?thesis by (auto dest: merge_module_Inr_ok)
qed

lemmas layouts_paths_and_then [simp] = and_then_frame [where g = layouts_paths]

lemma merge_module_frame [simp, frame]:
  "layouts_paths (snd (merge_module m loaded queue self)) = layouts_paths self"
  by (simp add: merge_module_def Let_def process_widgets_items process_data_items process_app_def)

text \<open>The ways in which the merge of a module fails.\<close>

lemma merge_module_error_cases:
  assumes "merge_module m loaded queue self = (Inl e, self')"
  obtains (raised) x where "e = Raised x" "\<not> module_ok loaded"
  | (widget) w where "e = DuplicateWidget (qualified_name m w)"
      "dict_has w (widgets_of loaded)" "dict_has (qualified_name m w) (widget_definitions self')"
  | (data) k where "e = DuplicateData k"
      "dict_has k (data_of loaded)" "dict_has k (data_definitions self')"
  | (app) "e = MultipleApp m" "app_of loaded \<noteq> YNull" "app_config self' \<noteq> YNull"
proof (cases "module_ok loaded")
  case True
  from assms [unfolded merge_module_ok [OF True]] show ?thesis
    by (auto simp: and_then_Inl_iff merge_app_Inl_iff merge_widgets_Ok_iff merge_data_Ok_iff
        dest!: merge_widgets_error merge_data_error intro: widget data app)
next
  case False
  from assms consider
      (a) x where "section_items (none_to_empty loaded) ''widgets'' = Inl x" "e = Raised x"
    | (b) items where "section_items (none_to_empty loaded) ''widgets'' = Inr items"
        "merge_widgets m items self = (Inl e, self')"
    | (c) x where "section_items (none_to_empty loaded) ''data'' = Inl x" "e = Raised x"
    | (d) items s where "section_items (none_to_empty loaded) ''data'' = Inr items"
        "merge_data items s = (Inl e, self')"
    | (e) app s where "py_get (none_to_empty loaded) ''app'' YNull = Inr app"
        "merge_app m app s = (Inl e, self')"
    | (f) x where "e = Raised x"
    by (auto simp: merge_module_def Let_def process_widgets_items process_data_items
        process_app_def and_then_Inl_iff and_then_Inr_iff raising_Inl_iff raising_Inr_iff)
  then show ?thesis
  proof cases
    case a
    with False show ?thesis by (intro raised)
  next
    case b
    then show ?thesis
      by (auto simp: widgets_of_def dest!: merge_widgets_error intro!: widget)
  next
    case c
    with False show ?thesis by (intro raised)
  next
    case d
    then show ?thesis
      by (auto simp: data_of_def dest!: merge_data_error intro!: data)
  next
    case e
    then show ?thesis
      by (auto simp: app_of_def merge_app_Inl_iff intro!: app)
  next
    case f
    with False show ?thesis by (intro raised)
  qed
qed

end
