(* ===== verification/Lang_Loop.thy ===== *)
theory Lang_Loop
  imports Lang_Merge
begin

text \<open>
  Facts about the traversal loop of \<open>Lang.load_main_module\<close>: the outcomes of one
  iteration, proof rules for the loop, and the well-formedness of the object.
\<close>

section \<open>Facts: the traversal\<close>

text \<open>The ways in which an iteration fails; the object is as the failing step left it.\<close>

lemma visit_error_cases:
  assumes "visit fs current queue visited self = (Inl e, self')"
  obtains (not_str) "\<forall>m. current \<noteq> YStr m"
      "e = Raised (if py_hashable current then AttributeError else TypeError)" "self' = self"
  | (not_found) m where "current = YStr m" "m \<notin> visited"
      "find_yaml_file fs (layouts_paths self) m = None" "e = ModuleNotFound m" "self' = self"
  | (load_failed) m p where "current = YStr m" "m \<notin> visited"
      "find_yaml_file fs (layouts_paths self) m = Some p" "safe_load fs p = None"
      "e = LoadFailed p" "self' = self"
  | (merge_failed) m p loaded where "current = YStr m" "m \<notin> visited"
      "find_yaml_file fs (layouts_paths self) m = Some p" "safe_load fs p = Some loaded"
      "merge_module m loaded queue self = (Inl e, self')"
proof (cases current)
  case (YStr m)
  with assms have nv: "m \<notin> visited" by (auto simp: visit_def split: if_splits)
  show ?thesis
  proof (cases "find_yaml_file fs (layouts_paths self) m")
    case None
    with YStr nv assms show ?thesis by (intro not_found [of m]) (simp_all add: visit_def)
  next
    case (Some p)
    show ?thesis
    proof (cases "safe_load fs p")
      case None
      with Some YStr nv assms show ?thesis
        by (intro load_failed [of m p]) (simp_all add: visit_def)
    next
      case (Some loaded)
      with \<open>find_yaml_file fs (layouts_paths self) m = Some p\<close> YStr nv assms show ?thesis
        by (intro merge_failed [of m p loaded]) (auto simp: visit_def and_then_Inl_iff)
    qed
  qed
qed (use assms in \<open>auto simp: visit_def intro!: not_str split: if_splits\<close>)

lemma visit_frame [simp, frame]:
  "layouts_paths (snd (visit fs current queue visited self)) = layouts_paths self"
  by (simp add: visit_def split: yaml.splits option.splits)

text \<open>
  Hoare-style rules for the loop: a predicate on the loop variables that holds at entry
  and is kept by every iteration that continues holds when the queue has run empty; and
  when the loop fails, it fails in an iteration that started in a state satisfying it.
\<close>

lemma load_loop_invariant:
  assumes "load_loop fs queue visited self = (Inr visited', self')"
    and "I queue visited self"
    and step: "\<And>current queue visited self queue' visited' self'.
      I (current # queue) visited self \<Longrightarrow>
      visit fs current queue visited self = (Inr (queue', visited'), self') \<Longrightarrow>
      I queue' visited' self'"
  shows "I [] visited' self'"
  using assms
proof (induction fs queue visited self rule: load_loop.induct)
  case (1 fs visited self)
  then show ?case by (simp add: load_loop.simps)
next
  case (2 fs current queue visited self)
  from "2.prems"(1) obtain queue1 visited1 self1
    where v: "visit fs current queue visited self = (Inr (queue1, visited1), self1)"
      and l: "load_loop fs queue1 visited1 self1 = (Inr visited', self')"
    by (auto simp: load_loop.simps and_then_Inr_iff)
  from "2.prems"(3) [OF "2.prems"(2) v] have "I queue1 visited1 self1" .
  from "2.IH" [OF v refl l this "2.prems"(3)] show ?case .
qed

lemma load_loop_failure:
  assumes "load_loop fs queue visited self = (Inl e, self')"
    and "I queue visited self"
    and step: "\<And>current queue visited self queue' visited' self'.
      I (current # queue) visited self \<Longrightarrow>
      visit fs current queue visited self = (Inr (queue', visited'), self') \<Longrightarrow>
      I queue' visited' self'"
  shows "\<exists>current queue0 visited0 self0. I (current # queue0) visited0 self0 \<and>
           visit fs current queue0 visited0 self0 = (Inl e, self')"
  using assms
proof (induction fs queue visited self rule: load_loop.induct)
  case (1 fs visited self)
  then show ?case by (simp add: load_loop.simps)
next
  case (2 fs current queue visited self)
  from "2.prems"(1) consider (now) "visit fs current queue visited self = (Inl e, self')"
    | (later) queue1 visited1 self1
      where "visit fs current queue visited self = (Inr (queue1, visited1), self1)"
        "load_loop fs queue1 visited1 self1 = (Inl e, self')"
    by (auto simp: load_loop.simps and_then_Inl_iff)
  then show ?case
  proof cases
    case now
    with "2.prems"(2) show ?thesis by blast
  next
    case later
    from "2.prems"(3) [OF "2.prems"(2) later(1)] have "I queue1 visited1 self1" .
    from "2.IH" [OF later(1) refl later(2) this "2.prems"(3)] show ?thesis .
  qed
qed

section \<open>The outcomes of \<open>load_main_module\<close>\<close>

lemma load_main_module_Ok_iff:
  "load_main_module fs main self = (Ok_None, self') \<longleftrightarrow>
     (\<exists>visited. load_loop fs [YStr main, YStr ''builtin''] {} self = (Inr visited, self')) \<and>
     widget_definitions self' \<noteq> [] \<and> app_config self' \<noteq> YNull"
  by (auto simp: load_main_module_def and_then_Inr_iff split: if_splits)

lemma load_main_module_error_cases:
  assumes "load_main_module fs main self = (Inl e, self')"
  obtains (traversal) "load_loop fs [YStr main, YStr ''builtin''] {} self = (Inl e, self')"
  | (no_widgets) visited where
      "load_loop fs [YStr main, YStr ''builtin''] {} self = (Inr visited, self')"
      "widget_definitions self' = []" "e = NoWidgets"
  | (no_app) visited where
      "load_loop fs [YStr main, YStr ''builtin''] {} self = (Inr visited, self')"
      "widget_definitions self' \<noteq> []" "app_config self' = YNull" "e = NoApp"
  using assms by (auto simp: load_main_module_def and_then_Inl_iff split: if_splits)

lemma snd_load_main_module:
  "snd (load_main_module fs main self) = snd (load_loop fs [YStr main, YStr ''builtin''] {} self)"
  by (cases "load_loop fs [YStr main, YStr ''builtin''] {} self";
      cases "fst (load_loop fs [YStr main, YStr ''builtin''] {} self)")
     (auto simp: load_main_module_def)

section \<open>Frame and well-formedness\<close>

lemma load_loop_frame [simp, frame]:
  "layouts_paths (snd (load_loop fs queue visited self)) = layouts_paths self"
proof (induction fs queue visited self rule: load_loop.induct)
  case (1 fs visited self)
  then show ?case by (simp add: load_loop.simps)
next
  case (2 fs current queue visited self)
  show ?case
  proof (cases "visit fs current queue visited self")
    case (Pair r self1)
    then have "layouts_paths self1 = layouts_paths self"
      using visit_frame [of fs current queue visited self] by simp
    with Pair "2.IH" show ?thesis
      by (cases r) (auto simp: load_loop.simps)
  qed
qed

lemma load_main_module_frame [simp, frame]:
  "layouts_paths (snd (load_main_module fs main self)) = layouts_paths self"
  by (simp add: snd_load_main_module)

lemma new_lang_wf [simp]: "lang_wf (new_lang package_dir paths)"
  by (simp add: lang_wf_def new_lang_def)

lemma merge_widgets_wf: "lang_wf self \<Longrightarrow> lang_wf (snd (merge_widgets m items self))"
  by (induction m items self rule: merge_widgets.induct) (simp_all add: Let_def lang_wf_def)

lemma merge_data_wf: "lang_wf self \<Longrightarrow> lang_wf (snd (merge_data items self))"
  by (induction items self rule: merge_data.induct) (simp_all add: lang_wf_def)

lemma merge_app_wf: "lang_wf self \<Longrightarrow> lang_wf (snd (merge_app m app self))"
  by (simp add: merge_app_def lang_wf_def)

lemma merge_module_wf:
  assumes "lang_wf self"
  shows "lang_wf (snd (merge_module m loaded queue self))"
proof -
  note step = and_then_keeps [where P = lang_wf]
  show ?thesis
    unfolding merge_module_def Let_def process_widgets_items process_data_items process_app_def
    by (rule step | simp add: assms merge_widgets_wf merge_data_wf merge_app_wf)+
qed

lemma visit_wf: "lang_wf self \<Longrightarrow> lang_wf (snd (visit fs current queue visited self))"
  unfolding visit_def
  by (auto split: yaml.splits option.splits
      intro!: and_then_keeps [where P = lang_wf] merge_module_wf)

lemma load_loop_wf: "lang_wf self \<Longrightarrow> lang_wf (snd (load_loop fs queue visited self))"
proof (induction fs queue visited self rule: load_loop.induct)
  case (1 fs visited self)
  then show ?case by (simp add: load_loop.simps)
next
  case (2 fs current queue visited self)
  show ?case
  proof (cases "visit fs current queue visited self")
    case (Pair r self1)
    with "2.prems" have "lang_wf self1"
      using visit_wf [of self fs current queue visited] by simp
    with Pair "2.IH" show ?thesis
      by (cases r) (auto simp: load_loop.simps)
  qed
qed

end
