(* ===== verification/Resolution.thy ===== *)
theory Resolution
  imports Lang_Loop
begin

text \<open>
  What \<open>Lang.load_main_module\<close> promises, stated over the import graph of a file
  system: the modules it visits are exactly those reachable from the main module and
  \<open>builtin\<close>, and the merged document is made of their sections.
\<close>

section \<open>The import graph\<close>

text \<open>
  \<open>module_doc\<close> is the document the locator and the loader give for a module name;
  \<open>imports_of\<close> are the names its import entry puts on the queue. There is an edge
  from a module to each of these names, whether or not a file exists for them.
\<close>

definition module_doc :: "filesystem \<Rightarrow> path list \<Rightarrow> string \<Rightarrow> yaml option" where
  "module_doc fs paths m =
     (case find_yaml_file fs paths m of None \<Rightarrow> None | Some p \<Rightarrow> safe_load fs p)"

definition imports_of :: "filesystem \<Rightarrow> path list \<Rightarrow> string \<Rightarrow> string list" where
  "imports_of fs paths m =
     (case module_doc fs paths m of None \<Rightarrow> [] | Some loaded \<Rightarrow> str_items (import_items loaded))"

definition import_graph :: "filesystem \<Rightarrow> path list \<Rightarrow> (string \<times> string) set" where
  "import_graph fs paths = {(m, m'). m' \<in> set (imports_of fs paths m)}"

definition reachable_modules :: "filesystem \<Rightarrow> path list \<Rightarrow> string set \<Rightarrow> string set" where
  "reachable_modules fs paths seeds = (import_graph fs paths)\<^sup>* `` seeds"

definition doc_of :: "filesystem \<Rightarrow> path list \<Rightarrow> string \<Rightarrow> yaml" where
  "doc_of fs paths m = (case module_doc fs paths m of Some loaded \<Rightarrow> loaded | None \<Rightarrow> YNull)"

definition app_modules :: "filesystem \<Rightarrow> path list \<Rightarrow> string set \<Rightarrow> string set" where
  "app_modules fs paths visited = {m \<in> visited. app_of (doc_of fs paths m) \<noteq> YNull}"

definition dot_free_widgets :: "filesystem \<Rightarrow> bool" where
  "dot_free_widgets fs \<longleftrightarrow>
     list_all (\<lambda>(p, n). case n of
         File (Some y) \<Rightarrow> list_all (\<lambda>(w, d). CHR ''.'' \<notin> set w) (widgets_of y)
       | _ \<Rightarrow> True) fs"

section \<open>Invariants of the traversal\<close>

text \<open>
  The loop invariant of the traversal: the seeds are queued or visited, the successors
  of every visited module are queued or visited, and nothing is queued or visited that
  the seeds do not reach.
\<close>

definition closing :: "filesystem \<Rightarrow> path list \<Rightarrow> string set \<Rightarrow> yaml list \<Rightarrow> string set \<Rightarrow> lang \<Rightarrow> bool" where
  "closing fs paths seeds queue visited self \<longleftrightarrow>
     layouts_paths self = paths \<and>
     seeds \<subseteq> set (str_items queue) \<union> visited \<and>
     import_graph fs paths `` visited \<subseteq> set (str_items queue) \<union> visited \<and>
     set (str_items queue) \<union> visited \<subseteq> reachable_modules fs paths seeds"

text \<open>
  The merged document at any point of the traversal: the object holds what it held
  at the start and the sections of the modules visited so far, widgets under their
  qualified names; and an \<open>app\<close> section has been taken from at most one module.
\<close>

definition merged_from :: "filesystem \<Rightarrow> lang \<Rightarrow> string set \<Rightarrow> lang \<Rightarrow> bool" where
  "merged_from fs self0 visited self \<longleftrightarrow>
     layouts_paths self = layouts_paths self0 \<and> lang_wf self \<and>
     set (widget_definitions self) = set (widget_definitions self0) \<union>
       (\<Union>m \<in> visited. set (qualify m (widgets_of (doc_of fs (layouts_paths self0) m)))) \<and>
     set (data_definitions self) = set (data_definitions self0) \<union>
       (\<Union>m \<in> visited. set (data_of (doc_of fs (layouts_paths self0) m))) \<and>
     (if app_config self0 \<noteq> YNull
      then app_config self = app_config self0 \<and> app_modules fs (layouts_paths self0) visited = {}
      else if app_config self = YNull then app_modules fs (layouts_paths self0) visited = {}
      else \<exists>m. app_modules fs (layouts_paths self0) visited = {m} \<and>
             app_config self = app_of (doc_of fs (layouts_paths self0) m))"

text \<open>The two invariants together, as the loop rules take them.\<close>

definition resolving ::
  "filesystem \<Rightarrow> lang \<Rightarrow> string set \<Rightarrow> yaml list \<Rightarrow> string set \<Rightarrow> lang \<Rightarrow> bool" where
  "resolving fs self0 seeds queue visited self \<longleftrightarrow>
     closing fs (layouts_paths self0) seeds queue visited self \<and> merged_from fs self0 visited self"

section \<open>Facts: the import graph\<close>

lemma import_graph_Image: "import_graph fs paths `` {m} = set (imports_of fs paths m)"
  by (auto simp: import_graph_def)

lemma imports_of_loaded:
  "find_yaml_file fs paths m = Some p \<Longrightarrow> safe_load fs p = Some loaded \<Longrightarrow>
     imports_of fs paths m = str_items (import_items loaded)"
  by (simp add: imports_of_def module_doc_def)

lemma doc_of_loaded:
  "find_yaml_file fs paths m = Some p \<Longrightarrow> safe_load fs p = Some loaded \<Longrightarrow>
     doc_of fs paths m = loaded"
  by (simp add: doc_of_def module_doc_def)

lemma app_modules_empty [simp]: "app_modules fs paths {} = {}"
  by (simp add: app_modules_def)

lemma app_modules_insert:
  "app_modules fs paths (insert m V) =
     (if app_of (doc_of fs paths m) \<noteq> YNull then insert m (app_modules fs paths V)
      else app_modules fs paths V)"
  by (auto simp: app_modules_def)

lemma qualify_member:
  "dict_get items w = Some d \<Longrightarrow> (qualified_name m w, d) \<in> set (qualify m items)"
  by (drule dict_get_SomeD) (force simp: qualify_def)

lemma qualify_memberD:
  "(k, d) \<in> set (qualify m items) \<Longrightarrow> \<exists>w. k = qualified_name m w \<and> (w, d) \<in> set items"
  by (auto simp: qualify_def)

section \<open>Facts: the invariants\<close>

lemma closing_init: "closing fs (layouts_paths self) (set (str_items queue)) queue {} self"
  by (auto simp: closing_def reachable_modules_def)

lemma closing_step:
  assumes "closing fs paths seeds (current # queue) visited self"
    and "visit fs current queue visited self = (Inr (queue', visited'), self')"
  shows "closing fs paths seeds queue' visited' self'"
  using assms(2)
proof (cases rule: visit_Inr_cases)
  case (skip m)
  with assms(1) show ?thesis by (auto simp: closing_def)
next
  case (merged m p loaded)
  let ?G = "import_graph fs paths"
  from assms(1) have paths: "layouts_paths self = paths" by (simp add: closing_def)
  from merged(5) have q': "queue' = queue @ import_items loaded"
    and lp: "layouts_paths self' = paths"
    using paths by (auto simp: merge_module_Inr_iff)
  from merged(3,4) paths have succ: "?G `` {m} = set (str_items (import_items loaded))"
    by (simp add: import_graph_Image imports_of_loaded)
  from assms(1) merged(1) have m: "m \<in> reachable_modules fs paths seeds"
    by (auto simp: closing_def)
  then have "?G `` {m} \<subseteq> reachable_modules fs paths seeds"
    by (auto simp: reachable_modules_def intro: rtrancl_into_rtrancl)
  have "?G `` insert m visited = ?G `` {m} \<union> ?G `` visited" by blast
  with assms(1) merged(1,6) q' lp succ m \<open>?G `` {m} \<subseteq> reachable_modules fs paths seeds\<close>
  show ?thesis
    unfolding closing_def by auto
qed

lemma closing_final:
  assumes "closing fs paths seeds [] visited self"
  shows "visited = reachable_modules fs paths seeds"
proof
  from assms show "visited \<subseteq> reachable_modules fs paths seeds"
    by (simp add: closing_def)
  from assms have "seeds \<subseteq> visited" "import_graph fs paths `` visited \<subseteq> visited"
    by (simp_all add: closing_def)
  then show "reachable_modules fs paths seeds \<subseteq> visited"
    unfolding reachable_modules_def by (rule rtrancl_Image_least)
qed

lemma merged_from_init: "lang_wf self \<Longrightarrow> merged_from fs self {} self"
  by (simp add: merged_from_def)

lemma merged_from_step:
  assumes "merged_from fs self0 visited self"
    and "visit fs current queue visited self = (Inr (queue', visited'), self')"
  shows "merged_from fs self0 visited' self'"
  using assms(2)
proof (cases rule: visit_Inr_cases)
  case (skip m)
  with assms(1) show ?thesis by simp
next
  case (merged m p loaded)
  from assms(1) have paths: "layouts_paths self = layouts_paths self0"
    by (simp add: merged_from_def)
  with merged(3,4) have doc: "doc_of fs (layouts_paths self0) m = loaded"
    by (simp add: doc_of_loaded)
  from merged(2) assms(1) have "m \<notin> app_modules fs (layouts_paths self0) visited"
    by (simp add: app_modules_def)
  with assms(1) merged(5,6) doc show ?thesis
    unfolding merged_from_def merge_module_Inr_iff lang_wf_def
    by (auto simp: app_modules_insert dict_has_qualify split: if_splits)
qed

lemma resolving_init:
  "lang_wf self \<Longrightarrow> resolving fs self (set (str_items queue)) queue {} self"
  by (simp add: resolving_def closing_init merged_from_init)

lemma resolving_step:
  "resolving fs self0 seeds (current # queue) visited self \<Longrightarrow>
   visit fs current queue visited self = (Inr (queue', visited'), self') \<Longrightarrow>
   resolving fs self0 seeds queue' visited' self'"
  by (auto simp: resolving_def intro: closing_step merged_from_step)

lemma load_loop_resolved:
  assumes "load_loop fs queue {} self = (Inr visited, self')" and "lang_wf self"
  shows "visited = reachable_modules fs (layouts_paths self) (set (str_items queue))"
    and "merged_from fs self visited self'"
proof -
  have "resolving fs self (set (str_items queue)) [] visited self'"
    by (rule load_loop_invariant [OF assms(1), where I = "resolving fs self (set (str_items queue))"])
       (auto intro: resolving_init assms(2) resolving_step)
  then show "visited = reachable_modules fs (layouts_paths self) (set (str_items queue))"
    and "merged_from fs self visited self'"
    by (auto simp: resolving_def dest: closing_final)
qed

lemma load_loop_failed:
  assumes "load_loop fs queue {} self = (Inl e, self')" and "lang_wf self"
  obtains current queue0 visited0 self0
  where "resolving fs self (set (str_items queue)) (current # queue0) visited0 self0"
    and "visit fs current queue0 visited0 self0 = (Inl e, self')"
  using load_loop_failure [OF assms(1), where I = "resolving fs self (set (str_items queue))"]
    resolving_init [OF assms(2)] resolving_step by blast


lemma merge_module_duplicate_widget:
  assumes "merge_module m loaded queue self = (Inl (DuplicateWidget k), self')"
    and "dict_wf (widgets_of loaded)"
  shows "\<exists>w. k = qualified_name m w \<and> dict_has w (widgets_of loaded) \<and>
           dict_has k (widget_definitions self)"
proof -
  from assms(1) obtain items
    where items: "section_items (none_to_empty loaded) ''widgets'' = Inr items"
      and "merge_widgets m items self = (Inl (DuplicateWidget k), self')"
    by (auto simp: merge_module_def Let_def process_widgets_items process_data_items
        process_app_def and_then_Inl_iff and_then_Inr_iff raising_Inl_iff raising_Inr_iff
        merge_app_Inl_iff dest!: merge_data_error)
  from merge_widgets_error [OF this(2)] obtain pre w d post
    where *: "items = pre @ (w, d) # post" "k = qualified_name m w"
      "self' = self\<lparr>widget_definitions := widget_definitions self @ qualify m pre\<rparr>"
      "dict_has (qualified_name m w) (widget_definitions self')"
    by auto
  from items have ws: "widgets_of loaded = items" by (simp add: widgets_of_def)
  with assms(2) *(1) have "\<not> dict_has w pre" by auto
  with *(3,4) have "dict_has k (widget_definitions self)"
    by (auto simp: *(2) dict_has_qualify)
  with * ws show ?thesis by auto
qed

lemma qualified_name_dot_free:
  assumes "qualified_name m1 w1 = qualified_name m2 w2"
    and "CHR ''.'' \<notin> set w1" and "CHR ''.'' \<notin> set w2"
  shows "m1 = m2 \<and> w1 = w2"
proof -
  from assms(1) have "m1 @ CHR ''.'' # w1 = m2 @ CHR ''.'' # w2"
    by (simp add: qualified_name_def)
  then obtain us where "m1 = m2 @ us \<and> us @ CHR ''.'' # w1 = CHR ''.'' # w2 \<or>
      m1 @ us = m2 \<and> CHR ''.'' # w1 = us @ CHR ''.'' # w2"
    by (auto simp: append_eq_append_conv2)
  with assms(2,3) show ?thesis
    by (cases us) auto
qed

lemma doc_of_in_fs:
  assumes "doc_of fs paths m \<noteq> YNull"
  shows "\<exists>p. (p, File (Some (doc_of fs paths m))) \<in> set fs"
  using assms
  by (auto simp: doc_of_def module_doc_def split: option.splits dest: safe_load_SomeD)

lemma widgets_of_YNull [simp]: "widgets_of YNull = []"
  by (simp add: widgets_of_def section_items_def)

lemma dot_free_widgetsD:
  assumes "dot_free_widgets fs" and "dict_has w (widgets_of (doc_of fs paths m))"
  shows "CHR ''.'' \<notin> set w"
proof -
  from assms(2) have "doc_of fs paths m \<noteq> YNull" by auto
  then obtain p where "(p, File (Some (doc_of fs paths m))) \<in> set fs"
    by (blast dest: doc_of_in_fs)
  with assms show ?thesis
    by (fastforce simp: dot_free_widgets_def list_all_iff dict_has_iff_member)
qed

text \<open>Where a duplicate widget comes from, for a load that started with no widgets.\<close>

lemma duplicate_widget_origin:
  assumes "load_main_module fs main self = (Inl (DuplicateWidget k), self')"
    and "widget_definitions self = []" and "lang_wf self" and "wf_fs fs"
  shows "\<exists>m1 w1 m2 w2. m1 \<noteq> m2 \<and>
           {m1, m2} \<subseteq> reachable_modules fs (layouts_paths self) {main, ''builtin''} \<and>
           k = qualified_name m1 w1 \<and> k = qualified_name m2 w2 \<and>
           dict_has w1 (widgets_of (doc_of fs (layouts_paths self) m1)) \<and>
           dict_has w2 (widgets_of (doc_of fs (layouts_paths self) m2))"
proof -
  let ?paths = "layouts_paths self"
  let ?R = "reachable_modules fs ?paths {main, ''builtin''}"
  from assms(1) have "load_loop fs [YStr main, YStr ''builtin''] {} self = (Inl (DuplicateWidget k), self')"
    by (cases rule: load_main_module_error_cases) simp_all
  from load_loop_failed [OF this assms(3)] obtain current queue0 visited0 self0
    where inv: "resolving fs self (set (str_items [YStr main, YStr ''builtin''])) (current # queue0) visited0 self0"
      and v: "visit fs current queue0 visited0 self0 = (Inl (DuplicateWidget k), self')"
    by blast
  from inv have cl: "closing fs ?paths {main, ''builtin''} (current # queue0) visited0 self0"
    and mf: "merged_from fs self visited0 self0"
    by (simp_all add: resolving_def)
  from v obtain m2 p loaded where m2: "current = YStr m2" "m2 \<notin> visited0"
    and f: "find_yaml_file fs (layouts_paths self0) m2 = Some p" "safe_load fs p = Some loaded"
    and pm: "merge_module m2 loaded queue0 self0 = (Inl (DuplicateWidget k), self')"
    by (cases rule: visit_error_cases) auto
  from mf f have doc: "doc_of fs ?paths m2 = loaded"
    by (simp add: merged_from_def doc_of_loaded)
  from assms(4) f(2) have "dict_wf (widgets_of loaded)"
    by (blast intro: widgets_of_wf wf_fs_loaded)
  from merge_module_duplicate_widget [OF pm this] obtain w2
    where w2: "k = qualified_name m2 w2" "dict_has w2 (widgets_of loaded)"
      "dict_has k (widget_definitions self0)"
    by blast
  from w2(3) obtain d where "(k, d) \<in> set (widget_definitions self0)"
    by (auto simp: dict_has_iff_member)
  with mf assms(2) obtain m1 where m1: "m1 \<in> visited0"
    "(k, d) \<in> set (qualify m1 (widgets_of (doc_of fs ?paths m1)))"
    by (auto simp: merged_from_def)
  from qualify_memberD [OF m1(2)] obtain w1 where w1: "k = qualified_name m1 w1"
    "dict_has w1 (widgets_of (doc_of fs ?paths m1))"
    by (auto simp: dict_has_iff_member)
  from cl m1(1) m2(1) have "{m1, m2} \<subseteq> ?R"
    by (auto simp: closing_def)
  moreover from m1(1) m2(2) have "m1 \<noteq> m2" by auto
  ultimately show ?thesis using w1 w2 doc by blast
qed

lemmas graph_eval =
  doc_of_def module_doc_def imports_of_def widgets_of_def data_of_def app_of_def
  section_items_def import_items_def wf_fs_def dot_free_widgets_def

lemma demo_lang_wf [simp]: "lang_wf demo_lang"
  by (simp add: demo_lang_def)

lemma demo_reachable:
  "reachable_modules demo_fs demo_paths {''root'', ''builtin''} = {''root'', ''leaf'', ''builtin''}"
  using load_loop_resolved(1) [OF demo_loop] by simp

section \<open>What a load returns\<close>

text \<open>
  C6: When the traversal of \<open>load_main_module\<close> ends without an error, the set of
  modules it has visited is exactly the set of module names reachable in the import
  graph from the names on the initial queue. The import graph may have cycles.
\<close>

theorem load_loop_visits_reachable:
  assumes "load_loop fs queue {} self = (Inr visited, self')"
  shows "visited = reachable_modules fs (layouts_paths self) (set (str_items queue))"
proof -
  have "closing fs (layouts_paths self) (set (str_items queue)) [] visited self'"
    by (rule load_loop_invariant [OF assms, where I = "closing fs (layouts_paths self) (set (str_items queue))"])
       (auto intro: closing_init closing_step)
  then show ?thesis by (rule closing_final)
qed

theorem load_loop_visits_reachable_witness:
  "{''root'', ''leaf'', ''builtin''} =
     reachable_modules demo_fs demo_paths (set (str_items [YStr ''root'', YStr ''builtin'']))"
  using load_loop_visits_reachable [OF demo_loop] by simp

text \<open>
  C10: After a successful \<open>load_main_module\<close> the widget dictionary holds what it held
  before and, under their qualified names, exactly the widgets of the modules
  reachable from the main module and \<open>builtin\<close>; the data dictionary holds what it
  held before and exactly the data entries of these modules.
\<close>

theorem merged_document_sections:
  assumes "load_main_module fs main self = (Ok_None, self')" and "lang_wf self"
  shows "set (widget_definitions self') = set (widget_definitions self) \<union>
           (\<Union>m \<in> reachable_modules fs (layouts_paths self) {main, ''builtin''}.
              set (qualify m (widgets_of (doc_of fs (layouts_paths self) m)))) \<and>
         set (data_definitions self') = set (data_definitions self) \<union>
           (\<Union>m \<in> reachable_modules fs (layouts_paths self) {main, ''builtin''}.
              set (data_of (doc_of fs (layouts_paths self) m)))"
proof -
  from assms(1) obtain visited
    where "load_loop fs [YStr main, YStr ''builtin''] {} self = (Inr visited, self')"
    by (auto simp: load_main_module_Ok_iff)
  from load_loop_resolved [OF this assms(2)] show ?thesis
    by (simp add: merged_from_def)
qed

theorem merged_document_sections_witness:
  "set [(''root.btn'', YStr ''button''), (''leaf.label'', YStr ''text'')] =
     (\<Union>m \<in> reachable_modules demo_fs demo_paths {''root'', ''builtin''}.
        set (qualify m (widgets_of (doc_of demo_fs demo_paths m)))) \<and>
   set [(''greeting'', YStr ''hi'')] =
     (\<Union>m \<in> reachable_modules demo_fs demo_paths {''root'', ''builtin''}.
        set (data_of (doc_of demo_fs demo_paths m)))"
  using merged_document_sections [OF demo_load] by simp

text \<open>
  After a successful \<open>load_main_module\<close> every widget of every reachable module can
  be looked up under \<open>module.widget\<close> and the lookup gives the definition the module's
  file holds.
\<close>

theorem widget_lookup_after_load:
  assumes "load_main_module fs main self = (Ok_None, self')" and "lang_wf self"
    and "m \<in> reachable_modules fs (layouts_paths self) {main, ''builtin''}"
    and "dict_get (widgets_of (doc_of fs (layouts_paths self) m)) w = Some d"
  shows "dict_get (widget_definitions self') (qualified_name m w) = Some d"
proof -
  from assms(1) obtain visited
    where "load_loop fs [YStr main, YStr ''builtin''] {} self = (Inr visited, self')"
    by (auto simp: load_main_module_Ok_iff)
  from load_loop_resolved [OF this assms(2)] assms(3)
  have "set (qualify m (widgets_of (doc_of fs (layouts_paths self) m))) \<subseteq>
      set (widget_definitions self')" and "dict_wf (widget_definitions self')"
    by (auto simp: merged_from_def lang_wf_def)
  with qualify_member [OF assms(4)] show ?thesis
    by (auto simp: dict_get_iff_member)
qed

theorem widget_lookup_after_load_witness:
  "dict_get (widget_definitions (snd (load_main_module demo_fs ''root'' demo_lang)))
     (qualified_name ''leaf'' ''label'') = Some (YStr ''text'')"
proof -
  have "dict_get (widgets_of (doc_of demo_fs demo_paths ''leaf'')) ''label'' = Some (YStr ''text'')"
    by (simp add: graph_eval demo_fs_def lang_eval)
  with widget_lookup_after_load [OF demo_load, of "''leaf''" "''label''" "YStr ''text''"]
  show ?thesis by (simp add: demo_reachable demo_load)
qed

text \<open>
  C14: After a successful \<open>load_main_module\<close> on an object that had no \<open>app\<close>
  configuration, exactly one reachable module has an \<open>app\<close> section, and the
  object's configuration is that section.
\<close>

theorem exactly_one_app:
  assumes "load_main_module fs main self = (Ok_None, self')" and "lang_wf self"
    and "app_config self = YNull"
  shows "\<exists>m. app_modules fs (layouts_paths self)
                (reachable_modules fs (layouts_paths self) {main, ''builtin''}) = {m} \<and>
              app_config self' = app_of (doc_of fs (layouts_paths self) m)"
proof -
  from assms(1) obtain visited
    where "load_loop fs [YStr main, YStr ''builtin''] {} self = (Inr visited, self')"
      and "app_config self' \<noteq> YNull"
    by (auto simp: load_main_module_Ok_iff)
  from load_loop_resolved [OF this(1) assms(2)] this(2) assms(3) show ?thesis
    by (simp add: merged_from_def)
qed

theorem exactly_one_app_witness:
  "\<exists>m. app_modules demo_fs demo_paths
           (reachable_modules demo_fs demo_paths {''root'', ''builtin''}) = {m} \<and>
        YMap [(''widget'', YStr ''root.btn'')] = app_of (doc_of demo_fs demo_paths m)"
  using exactly_one_app [OF demo_load] by simp

section \<open>What a failed load tells\<close>

text \<open>
  C22: When \<open>load_main_module\<close>, started on an object without widgets over a file
  system of well-formed documents, fails with a duplicate widget, the reported key is
  the qualified name of a widget in two different reachable modules.
\<close>

theorem duplicate_widget_names_two_modules:
  assumes "load_main_module fs main self = (Inl (DuplicateWidget k), self')"
    and "widget_definitions self = []" and "lang_wf self" and "wf_fs fs"
  shows "\<exists>m1 w1 m2 w2. m1 \<noteq> m2 \<and>
           {m1, m2} \<subseteq> reachable_modules fs (layouts_paths self) {main, ''builtin''} \<and>
           k = qualified_name m1 w1 \<and> k = qualified_name m2 w2 \<and>
           dict_has w1 (widgets_of (doc_of fs (layouts_paths self) m1)) \<and>
           dict_has w2 (widgets_of (doc_of fs (layouts_paths self) m2))"
  by (rule duplicate_widget_origin [OF assms])

theorem duplicate_widget_names_two_modules_witness:
  "\<exists>m1 w1 m2 w2. m1 \<noteq> m2 \<and>
     {m1, m2} \<subseteq> reachable_modules dotted_fs demo_paths {''a'', ''builtin''} \<and>
     ''a.b.c'' = qualified_name m1 w1 \<and> ''a.b.c'' = qualified_name m2 w2 \<and>
     dict_has w1 (widgets_of (doc_of dotted_fs demo_paths m1)) \<and>
     dict_has w2 (widgets_of (doc_of dotted_fs demo_paths m2))"
proof -
  have "wf_fs dotted_fs"
    by (simp add: graph_eval dotted_fs_def builtin_entries_def)
  with duplicate_widget_names_two_modules [OF dotted_load] show ?thesis by simp
qed

text \<open>
  C35: When no widget name in the file system contains a dot, \<open>load_main_module\<close> on
  an object without widgets never reports a duplicate widget: qualification by the
  module name then keeps the widgets of different modules apart.
\<close>

theorem dot_free_names_never_collide:
  assumes "dot_free_widgets fs" and "wf_fs fs"
    and "widget_definitions self = []" and "lang_wf self"
  shows "fst (load_main_module fs main self) \<noteq> Inl (DuplicateWidget k)"
proof
  assume "fst (load_main_module fs main self) = Inl (DuplicateWidget k)"
  then obtain self' where "load_main_module fs main self = (Inl (DuplicateWidget k), self')"
    by (cases "load_main_module fs main self") auto
  from duplicate_widget_origin [OF this assms(3,4,2)] obtain m1 w1 m2 w2
    where ne: "m1 \<noteq> m2" and eq: "k = qualified_name m1 w1" "k = qualified_name m2 w2"
      and w1: "dict_has w1 (widgets_of (doc_of fs (layouts_paths self) m1))"
      and w2: "dict_has w2 (widgets_of (doc_of fs (layouts_paths self) m2))"
    by blast
  from assms(1) w1 w2 have "CHR ''.'' \<notin> set w1" "CHR ''.'' \<notin> set w2"
    by (blast dest: dot_free_widgetsD)+
  with eq have "m1 = m2" by (auto dest: qualified_name_dot_free)
  with ne show False ..
qed

theorem dot_free_names_never_collide_witness:
  "fst (load_main_module demo_fs ''root'' demo_lang) \<noteq> Inl (DuplicateWidget ''root.btn'')"
proof -
  have "dot_free_widgets demo_fs" "wf_fs demo_fs"
    by (simp_all add: graph_eval demo_fs_def builtin_entries_def)
  from dot_free_names_never_collide [OF this, of demo_lang "''root''" "''root.btn''"]
  show ?thesis by simp
qed

text \<open>
  C23: When \<open>load_main_module\<close> fails because a module was not found, the module it
  names is reachable from the main module or \<open>builtin\<close>, and none of the search paths
  has a file for it.
\<close>

theorem module_not_found_is_reachable_and_missing:
  assumes "load_main_module fs main self = (Inl (ModuleNotFound m), self')"
  shows "m \<in> reachable_modules fs (layouts_paths self) {main, ''builtin''} \<and>
         (\<forall>d \<in> set (layouts_paths self). \<not> path_exists fs (path_join d (yaml_filename m)))"
proof -
  let ?I = "closing fs (layouts_paths self) (set (str_items [YStr main, YStr ''builtin'']))"
  from assms have "load_loop fs [YStr main, YStr ''builtin''] {} self = (Inl (ModuleNotFound m), self')"
    by (cases rule: load_main_module_error_cases) simp_all
  from load_loop_failure [OF this, where I = ?I] closing_init closing_step
  obtain current queue0 visited0 self0
    where inv: "?I (current # queue0) visited0 self0"
      and v: "visit fs current queue0 visited0 self0 = (Inl (ModuleNotFound m), self')"
    by blast
  from v have "current = YStr m" "find_yaml_file fs (layouts_paths self0) m = None"
    by (cases rule: visit_error_cases; auto dest: merge_module_error_cases)+
  with inv show ?thesis
    by (auto simp: closing_def find_yaml_file_def first_existing_None_iff)
qed

theorem module_not_found_is_reachable_and_missing_witness:
  "''ghost'' \<in> reachable_modules ghost_fs demo_paths {''root'', ''builtin''} \<and>
   \<not> path_exists ghost_fs (path_join ''pkg/frontend/layouts'' (yaml_filename ''ghost'')) \<and>
   \<not> path_exists ghost_fs (path_join ''demo'' (yaml_filename ''ghost''))"
  using module_not_found_is_reachable_and_missing [OF ghost_load] by (simp add: demo_paths_def)

end
