(* ===== verification/Traversal.thy ===== *)
theory Traversal
  imports Resolution
begin

text \<open>
  The order in which \<open>Lang.load_main_module\<close> visits modules, as a function of the
  import graph alone: the queue discipline of the \<open>while queue\<close> loop (pop from the
  left, skip what is visited, append the imports on the right) with the merges left
  out. It is the reference the loop is compared with in theory \<open>Resolver_Spec\<close>.
\<close>

section \<open>The traversal order\<close>

text \<open>
  The module names that can ever be queued are the seeds and the string items of the
  import entries of the file system; this finite set bounds the traversal.
\<close>

definition fs_import_names :: "filesystem \<Rightarrow> string set" where
  "fs_import_names fs = {m. YStr m \<in> fs_import_items fs}"

lemma finite_fs_import_names [simp]: "finite (fs_import_names fs)"
proof -
  have "fs_import_names fs = YStr -` fs_import_items fs"
    by (auto simp: fs_import_names_def)
  moreover have "finite (YStr -` fs_import_items fs)"
    by (rule finite_vimageI) (simp_all add: inj_on_def)
  ultimately show ?thesis by simp
qed

lemma imports_of_in_fs: "set (imports_of fs paths m) \<subseteq> fs_import_names fs"
proof (cases "module_doc fs paths m")
  case None
  then show ?thesis by (simp add: imports_of_def)
next
  case (Some loaded)
  then obtain p where "safe_load fs p = Some loaded"
    by (auto simp: module_doc_def split: option.splits)
  from import_items_in_fs [OF this] Some show ?thesis
    by (auto simp: imports_of_def fs_import_names_def set_str_items)
qed

text \<open>
  \<open>traverse fs paths queue visited\<close> lists the modules in the order in which they are
  marked visited, starting from the given queue and visited set. A name without a
  file has no imports and is listed like any other: whether the visit of a module
  succeeds is the concern of the resolver, not of the order.
\<close>

function traverse :: "filesystem \<Rightarrow> path list \<Rightarrow> string list \<Rightarrow> string set \<Rightarrow> string list" where
  "traverse fs paths [] visited = []"
| "traverse fs paths (m # queue) visited =
     (if m \<in> visited then traverse fs paths queue visited
      else m # traverse fs paths (queue @ imports_of fs paths m) (insert m visited))"
  by pat_completeness auto

termination
  by (relation "inv_image (finite_psubset <*lex*> less_than)
        (\<lambda>(fs, paths, queue, visited).
           ((set queue \<union> fs_import_names fs) - visited, length queue))")
     (use imports_of_in_fs in \<open>auto simp: psubset_eq\<close>)

declare traverse.simps [simp del]

section \<open>Facts: the traversal order\<close>

lemma traverse_Nil [simp]: "traverse fs paths [] visited = []"
  by (simp add: traverse.simps)

lemma traverse_Cons:
  "traverse fs paths (m # queue) visited =
     (if m \<in> visited then traverse fs paths queue visited
      else m # traverse fs paths (queue @ imports_of fs paths m) (insert m visited))"
  by (simp add: traverse.simps)

lemma traverse_fresh: "set (traverse fs paths queue visited) \<inter> visited = {}"
  by (induction fs paths queue visited rule: traverse.induct) (auto simp: traverse_Cons)

lemma traverse_distinct: "distinct (traverse fs paths queue visited)"
proof (induction fs paths queue visited rule: traverse.induct)
  case (1 fs paths visited)
  show ?case by simp
next
  case (2 fs paths m queue visited)
  with traverse_fresh [of fs paths "queue @ imports_of fs paths m" "insert m visited"]
  show ?case by (auto simp: traverse_Cons)
qed

text \<open>
  The order lists what the queue reaches and nothing else: it is closed under the
  import relation, and every module in it is reachable from the queue.
\<close>

lemma traverse_closed:
  assumes "import_graph fs paths `` visited \<subseteq> set queue \<union> visited"
  shows "import_graph fs paths `` (visited \<union> set (traverse fs paths queue visited))
           \<subseteq> visited \<union> set (traverse fs paths queue visited)"
    and "set queue \<subseteq> visited \<union> set (traverse fs paths queue visited)"
  using assms
proof (induction fs paths queue visited rule: traverse.induct)
  case (1 fs paths visited)
  { case 1 then show ?case by simp }
  { case 2 then show ?case by simp }
next
  case (2 fs paths m queue visited)
  { case 1
    show ?case
    proof (cases "m \<in> visited")
      case True
      with 1 "2.IH"(1) show ?thesis by (auto simp: traverse_Cons)
    next
      case False
      have "import_graph fs paths `` insert m visited
          \<subseteq> set (queue @ imports_of fs paths m) \<union> insert m visited"
        using 1 by (auto simp: import_graph_def)
      from "2.IH"(3) [OF False this] False show ?thesis
        by (simp add: traverse_Cons Un_commute insert_commute)
    qed }
  { case 2
    show ?case
    proof (cases "m \<in> visited")
      case True
      with 2 "2.IH"(2) show ?thesis by (auto simp: traverse_Cons)
    next
      case False
      have "import_graph fs paths `` insert m visited
          \<subseteq> set (queue @ imports_of fs paths m) \<union> insert m visited"
        using 2 by (auto simp: import_graph_def)
      from "2.IH"(4) [OF False this] False show ?thesis
        by (auto simp: traverse_Cons)
    qed }
qed

lemma traverse_sound:
  "set (traverse fs paths queue visited) \<subseteq> reachable_modules fs paths (set queue)"
proof (induction fs paths queue visited rule: traverse.induct)
  case (1 fs paths visited)
  show ?case by simp
next
  case (2 fs paths m queue visited)
  have "reachable_modules fs paths (set (queue @ imports_of fs paths m))
      \<subseteq> reachable_modules fs paths (set (m # queue))"
    unfolding reachable_modules_def
    by (rule rtrancl_Image_least)
       (auto simp: import_graph_def intro: rtrancl_into_rtrancl r_into_rtrancl)
  moreover have "reachable_modules fs paths (set queue) \<subseteq> reachable_modules fs paths (set (m # queue))"
    by (auto simp: reachable_modules_def)
  moreover have "m \<in> reachable_modules fs paths (set (m # queue))"
    by (auto simp: reachable_modules_def)
  ultimately show ?case
    using 2 by (simp add: traverse_Cons) blast
qed

lemma set_traverse:
  "set (traverse fs paths seeds {}) = reachable_modules fs paths (set seeds)"
proof
  show "set (traverse fs paths seeds {}) \<subseteq> reachable_modules fs paths (set seeds)"
    by (rule traverse_sound)
  from traverse_closed [of fs paths "{}" seeds]
  show "reachable_modules fs paths (set seeds) \<subseteq> set (traverse fs paths seeds {})"
    unfolding reachable_modules_def by (intro rtrancl_Image_least) simp_all
qed

section \<open>Each reachable module once\<close>

text \<open>
  C9: The traversal order of the import graph from a list of seed modules, started
  with nothing visited, lists every module reachable from the seeds and lists no
  module twice, whether or not the import graph has cycles.
\<close>

theorem traverse_lists_reachable_once:
  "distinct (traverse fs paths seeds {}) \<and>
   set (traverse fs paths seeds {}) = reachable_modules fs paths (set seeds)"
  by (simp add: traverse_distinct set_traverse)

end
