(* ===== verification/Resolver_Spec.thy ===== *)
theory Resolver_Spec
  imports Traversal
begin

text \<open>
  The contract of \<open>Lang.load_main_module\<close> as a specification over the file system:
  \<open>merged_document\<close> is the merged document for a list of modules, \<open>resolvable\<close> says
  when the modules of a list can be merged without an error, and the refinement
  theorem states that the loop of theory \<open>Lang\<close> succeeds exactly when the traversal
  order is resolvable, and then returns the document merged in that order. The last
  two sections are on the life cycle: a second load on the same object fails, and
  a load after \<open>dispose\<close> gives the same object as the first.
\<close>

section \<open>The merged document of a list of modules\<close>

text \<open>
  The sections of the modules in the given order: the widgets under their qualified
  names, the data entries as they are, and the \<open>app\<close> section of the last module
  that has one.
\<close>

definition merged_widgets :: "filesystem \<Rightarrow> path list \<Rightarrow> string list \<Rightarrow> (string, yaml) dict" where
  "merged_widgets fs paths order =
     concat (map (\<lambda>m. qualify m (widgets_of (doc_of fs paths m))) order)"

definition merged_data :: "filesystem \<Rightarrow> path list \<Rightarrow> string list \<Rightarrow> (string, yaml) dict" where
  "merged_data fs paths order = concat (map (\<lambda>m. data_of (doc_of fs paths m)) order)"

definition take_app :: "filesystem \<Rightarrow> path list \<Rightarrow> yaml \<Rightarrow> string \<Rightarrow> yaml" where
  "take_app fs paths app m =
     (if app_of (doc_of fs paths m) = YNull then app else app_of (doc_of fs paths m))"

definition merged_document :: "filesystem \<Rightarrow> string list \<Rightarrow> lang \<Rightarrow> lang" where
  "merged_document fs order self =
     self\<lparr>widget_definitions :=
            widget_definitions self @ merged_widgets fs (layouts_paths self) order,
          data_definitions := data_definitions self @ merged_data fs (layouts_paths self) order,
          app_config := foldl (take_app fs (layouts_paths self)) (app_config self) order\<rparr>"

section \<open>When a list of modules can be merged\<close>

text \<open>
  A module is good when its file is found and loads, its sections have the shapes the
  merge expects, and its import entry gives strings only. A list of modules is
  resolvable from an object when every module is good, the merged dictionaries have no
  key twice, and at most one \<open>app\<close> section is present, none if the object has a
  configuration already.
\<close>

definition module_good :: "filesystem \<Rightarrow> path list \<Rightarrow> string \<Rightarrow> bool" where
  "module_good fs paths m \<longleftrightarrow>
     (case module_doc fs paths m of
        None \<Rightarrow> False
      | Some loaded \<Rightarrow>
          module_ok loaded \<and> only_strings (import_items loaded))"

definition apps_ok :: "filesystem \<Rightarrow> path list \<Rightarrow> yaml \<Rightarrow> string list \<Rightarrow> bool" where
  "apps_ok fs paths app order \<longleftrightarrow>
     length (filter (\<lambda>m. app_of (doc_of fs paths m) \<noteq> YNull) order)
       \<le> (if app = YNull then 1 else 0)"

definition resolvable :: "filesystem \<Rightarrow> string list \<Rightarrow> lang \<Rightarrow> bool" where
  "resolvable fs order self \<longleftrightarrow>
     list_all (module_good fs (layouts_paths self)) order \<and>
     lang_wf (merged_document fs order self) \<and>
     apps_ok fs (layouts_paths self) (app_config self) order"

section \<open>The loop replays the specification\<close>

text \<open>
  The invariant that links the loop to the specification. At every point of a run the
  traversal order splits into the modules done and the order of the remaining queue;
  the visited set is the set of modules done, the object is the document merged from
  them, they hold at most one \<open>app\<close> section, and each of them was found, had the
  expected shapes, and has its import items in the queue or among the modules done.
  \<open>ready\<close> adds what a resolvable order guarantees: only strings are queued.
\<close>

definition vetted :: "filesystem \<Rightarrow> path list \<Rightarrow> yaml list \<Rightarrow> string list \<Rightarrow> bool" where
  "vetted fs paths queue done \<longleftrightarrow>
     list_all (\<lambda>m. case module_doc fs paths m of
         None \<Rightarrow> False
       | Some loaded \<Rightarrow>
           module_ok loaded \<and> set (import_items loaded) \<subseteq> set queue \<union> YStr ` set done) done"

definition replaying ::
  "filesystem \<Rightarrow> lang \<Rightarrow> string list \<Rightarrow> yaml list \<Rightarrow> string set \<Rightarrow> lang \<Rightarrow> bool" where
  "replaying fs self0 order queue visited self \<longleftrightarrow>
     (\<exists>done. order = done @ traverse fs (layouts_paths self0) (str_items queue) visited \<and>
        visited = set done \<and> self = merged_document fs done self0 \<and>
        apps_ok fs (layouts_paths self0) (app_config self0) done \<and>
        vetted fs (layouts_paths self0) queue done)"

definition ready ::
  "filesystem \<Rightarrow> lang \<Rightarrow> string list \<Rightarrow> yaml list \<Rightarrow> string set \<Rightarrow> lang \<Rightarrow> bool" where
  "ready fs self0 order queue visited self \<longleftrightarrow>
     replaying fs self0 order queue visited self \<and> only_strings queue"

section \<open>Facts: the merged document\<close>

lemma merged_widgets_simps [simp]:
  "merged_widgets fs paths [] = []"
  "merged_widgets fs paths (m # order) =
     qualify m (widgets_of (doc_of fs paths m)) @ merged_widgets fs paths order"
  "merged_widgets fs paths (order @ others) =
     merged_widgets fs paths order @ merged_widgets fs paths others"
  by (simp_all add: merged_widgets_def)

lemma merged_data_simps [simp]:
  "merged_data fs paths [] = []"
  "merged_data fs paths (m # order) = data_of (doc_of fs paths m) @ merged_data fs paths order"
  "merged_data fs paths (order @ others) = merged_data fs paths order @ merged_data fs paths others"
  by (simp_all add: merged_data_def)

lemma merged_document_Nil [simp]: "merged_document fs [] self = self"
  by (simp add: merged_document_def)

lemma layouts_paths_merge_modules [simp, frame]:
  "layouts_paths (merged_document fs order self) = layouts_paths self"
  by (simp add: merged_document_def)

lemma merged_document_append:
  "merged_document fs (order @ others) self = merged_document fs others (merged_document fs order self)"
  by (simp add: merged_document_def)

lemma merged_document_snoc:
  "merged_document fs (order @ [m]) self =
     (let self' = merged_document fs order self; loaded = doc_of fs (layouts_paths self) m
      in self'\<lparr>widget_definitions := widget_definitions self' @ qualify m (widgets_of loaded),
               data_definitions := data_definitions self' @ data_of loaded,
               app_config := (if app_of loaded = YNull then app_config self' else app_of loaded)\<rparr>)"
  by (simp add: merged_document_def take_app_def Let_def)

lemma foldl_take_app_YNull:
  "foldl (take_app fs paths) app order = YNull \<longleftrightarrow>
     app = YNull \<and> filter (\<lambda>m. app_of (doc_of fs paths m) \<noteq> YNull) order = []"
  by (induction order arbitrary: app) (auto simp: take_app_def)

lemma apps_ok_Nil [simp]: "apps_ok fs paths app []"
  by (simp add: apps_ok_def)

lemma apps_ok_snoc:
  "apps_ok fs paths app (order @ [m]) \<longleftrightarrow>
     apps_ok fs paths app order \<and>
     (app_of (doc_of fs paths m) \<noteq> YNull \<longrightarrow> foldl (take_app fs paths) app order = YNull)"
  by (auto simp: apps_ok_def foldl_take_app_YNull)

lemma apps_ok_append:
  "apps_ok fs paths app (order @ m # others) \<Longrightarrow> app_of (doc_of fs paths m) \<noteq> YNull \<Longrightarrow>
     foldl (take_app fs paths) app order = YNull"
  by (auto simp: apps_ok_def foldl_take_app_YNull split: if_splits)

lemma module_goodD:
  assumes "module_good fs paths m"
  obtains p loaded where "find_yaml_file fs paths m = Some p" "safe_load fs p = Some loaded"
    "module_ok loaded" "only_strings (import_items loaded)"
  using assms by (auto simp: module_good_def module_doc_def split: option.splits)

section \<open>Facts: the invariant\<close>

lemma vetted_Nil [simp]: "vetted fs paths queue []"
  by (simp add: vetted_def)

lemma vetted_skip:
  "vetted fs paths (YStr m # queue) done \<Longrightarrow> m \<in> set done \<Longrightarrow> vetted fs paths queue done"
  by (auto simp: vetted_def list_all_iff split: option.splits)

lemma vetted_snoc:
  assumes "vetted fs paths (YStr m # queue) done" and "module_doc fs paths m = Some loaded"
    and "module_ok loaded"
  shows "vetted fs paths (queue @ import_items loaded) (done @ [m])"
  using assms by (auto simp: vetted_def list_all_iff split: option.splits)

lemma vetted_good: "vetted fs paths [] order \<Longrightarrow> list_all (module_good fs paths) order"
  by (auto simp: vetted_def module_good_def list_all_iff
      split: option.splits intro!: only_strings_subset)

lemma replaying_init:
  "replaying fs self (traverse fs (layouts_paths self) (str_items queue) {}) queue {} self"
  by (simp add: replaying_def)

lemma replaying_step:
  assumes "replaying fs self0 order (current # queue) visited self"
    and "visit fs current queue visited self = (Inr (queue', visited'), self')"
  shows "replaying fs self0 order queue' visited' self'"
  using assms(2)
proof (cases rule: visit_Inr_cases)
  case (skip m)
  with assms(1) show ?thesis by (auto simp: replaying_def traverse_Cons intro: vetted_skip)
next
  case (merged m p loaded)
  from assms(1) obtain "done"
    where order: "order = done @ traverse fs (layouts_paths self0) (str_items (current # queue)) visited"
      and v: "visited = set done" and self: "self = merged_document fs done self0"
      and apps: "apps_ok fs (layouts_paths self0) (app_config self0) done"
      and vetted: "vetted fs (layouts_paths self0) (current # queue) done"
    by (auto simp: replaying_def)
  from merged(3,4) self have doc: "doc_of fs (layouts_paths self0) m = loaded"
    and imps: "imports_of fs (layouts_paths self0) m = str_items (import_items loaded)"
    by (simp_all add: doc_of_loaded imports_of_loaded)
  from merged(3,4) self have "module_doc fs (layouts_paths self0) m = Some loaded"
    by (simp add: module_doc_def)
  moreover from merged(5) have q': "queue' = queue @ import_items loaded"
    and "self' = merged_document fs (done @ [m]) self0" and ok: "module_ok loaded"
    and "app_of loaded \<noteq> YNull \<longrightarrow> app_config self = YNull"
    by (simp_all add: merge_module_Inr_iff merged_document_snoc doc self Let_def)
  moreover from this(4) apps have "apps_ok fs (layouts_paths self0) (app_config self0) (done @ [m])"
    by (simp add: apps_ok_snoc doc self merged_document_def)
  ultimately show ?thesis
    using order v merged(1,2,6) imps vetted unfolding replaying_def
    by (intro exI [of _ "done @ [m]"]) (simp add: traverse_Cons vetted_snoc)
qed

lemma replaying_next:
  assumes "replaying fs self0 order (YStr m # queue) visited self" and "m \<notin> visited"
  obtains "done" others where "order = done @ m # others" "visited = set done"
    "self = merged_document fs done self0"
  using assms by (auto simp: replaying_def traverse_Cons)

lemma load_loop_replayed:
  assumes "load_loop fs queue {} self = (Inr visited, self')"
  shows "visited = set (traverse fs (layouts_paths self) (str_items queue) {})"
    and "self' = merged_document fs (traverse fs (layouts_paths self) (str_items queue) {}) self"
    and "apps_ok fs (layouts_paths self) (app_config self)
           (traverse fs (layouts_paths self) (str_items queue) {})"
    and "vetted fs (layouts_paths self) [] (traverse fs (layouts_paths self) (str_items queue) {})"
proof -
  let ?order = "traverse fs (layouts_paths self) (str_items queue) {}"
  have "replaying fs self ?order [] visited self'"
    by (rule load_loop_invariant [OF assms, where I = "replaying fs self ?order"])
       (auto intro: replaying_init replaying_step)
  then show "visited = set ?order" and "self' = merged_document fs ?order self"
    and "apps_ok fs (layouts_paths self) (app_config self) ?order"
    and "vetted fs (layouts_paths self) [] ?order"
    by (simp_all add: replaying_def)
qed

text \<open>
  On a resolvable order every iteration succeeds: the module just popped is the next of
  the order, so it is good and its sections do not clash with what is merged.
\<close>

lemma visit_resolvable:
  assumes "resolvable fs (done @ m # others) self0" and "m \<notin> visited"
    and "find_yaml_file fs (layouts_paths self0) m = Some p" and "safe_load fs p = Some loaded"
    and "module_ok loaded"
  shows "visit fs (YStr m) queue visited (merged_document fs done self0) =
           (Inr (queue @ import_items loaded, insert m visited), merged_document fs (done @ [m]) self0)"
proof -
  let ?self = "merged_document fs done self0"
  from assms(3,4) have doc: "doc_of fs (layouts_paths self0) m = loaded"
    by (simp add: doc_of_loaded)
  from assms(1) have wf: "lang_wf (merged_document fs (done @ m # others) self0)"
    and apps: "apps_ok fs (layouts_paths self0) (app_config self0) (done @ m # others)"
    by (simp_all add: resolvable_def)
  from apps have "app_of loaded \<noteq> YNull \<longrightarrow> app_config ?self = YNull"
    by (auto simp: merged_document_def doc dest: apps_ok_append)
  with wf assms(5)
  have "merge_module m loaded queue ?self =
      (Inr (queue @ import_items loaded), merged_document fs (done @ [m]) self0)"
    unfolding merge_module_Inr_iff
    by (auto simp: lang_wf_def merged_document_def doc take_app_def dict_has_qualify)
  with assms(2,3,4) show ?thesis by (simp add: visit_def)
qed

lemma ready_step:
  assumes "resolvable fs order self0" and "ready fs self0 order (current # queue) visited self"
    and "visit fs current queue visited self = (Inr (queue', visited'), self')"
  shows "ready fs self0 order queue' visited' self'"
proof -
  from assms(2) have r: "replaying fs self0 order (current # queue) visited self"
    and q: "only_strings queue"
    by (simp_all add: ready_def)
  have "only_strings queue'"
    using assms(3)
  proof (cases rule: visit_Inr_cases)
    case (skip m)
    with q show ?thesis by simp
  next
    case (merged m p loaded)
    from r merged(1,2) obtain "done" others
      where "order = done @ m # others" "self = merged_document fs done self0"
      by (auto elim: replaying_next)
    with assms(1) merged(3,4)
    have "only_strings (import_items loaded)"
      by (auto simp: resolvable_def elim!: module_goodD)
    with q merged(5) show ?thesis
      by (simp add: merge_module_Inr_iff)
  qed
  with replaying_step [OF r assms(3)] show ?thesis by (simp add: ready_def)
qed

lemma ready_visit:
  assumes "resolvable fs order self0" and "ready fs self0 order (current # queue) visited self"
  shows "\<exists>out self'. visit fs current queue visited self = (Inr out, self')"
proof -
  from assms(2) obtain m where m: "current = YStr m"
    by (auto simp: ready_def)
  show ?thesis
  proof (cases "m \<in> visited")
    case True
    with m show ?thesis by (simp add: visit_def)
  next
    case False
    from assms(2) m have "replaying fs self0 order (YStr m # queue) visited self"
      by (simp add: ready_def)
    then obtain "done" others
      where order: "order = done @ m # others" and self: "self = merged_document fs done self0"
      using False by (rule replaying_next)
    from assms(1) order have "module_good fs (layouts_paths self0) m"
      by (simp add: resolvable_def)
    then obtain p loaded where "find_yaml_file fs (layouts_paths self0) m = Some p"
      "safe_load fs p = Some loaded" "module_ok loaded"
      by (rule module_goodD)
    from visit_resolvable [OF assms(1) [unfolded order] False this] m self
    show ?thesis by simp
  qed
qed

lemma load_loop_resolvable:
  assumes "resolvable fs (traverse fs (layouts_paths self) seeds {}) self"
  shows "load_loop fs (map YStr seeds) {} self =
           (Inr (set (traverse fs (layouts_paths self) seeds {})),
            merged_document fs (traverse fs (layouts_paths self) seeds {}) self)"
proof -
  let ?order = "traverse fs (layouts_paths self) seeds {}"
  obtain r self' where l: "load_loop fs (map YStr seeds) {} self = (r, self')"
    by (cases "load_loop fs (map YStr seeds) {} self")
  have init: "ready fs self ?order (map YStr seeds) {} self"
    using replaying_init [of fs self "map YStr seeds"] by (simp add: ready_def)
  show ?thesis
  proof (cases r)
    case (Inl e)
    from load_loop_failure [OF l [unfolded Inl], where I = "ready fs self ?order", OF init]
      ready_step [OF assms] ready_visit [OF assms]
    show ?thesis by fastforce
  next
    case (Inr visited)
    with l load_loop_replayed [of fs "map YStr seeds" self visited self'] show ?thesis by simp
  qed
qed

lemma load_loop_Inr_iff:
  assumes "lang_wf self"
  shows "load_loop fs (map YStr seeds) {} self = (Inr visited, self') \<longleftrightarrow>
           resolvable fs (traverse fs (layouts_paths self) seeds {}) self \<and>
           visited = set (traverse fs (layouts_paths self) seeds {}) \<and>
           self' = merged_document fs (traverse fs (layouts_paths self) seeds {}) self"
proof
  assume l: "load_loop fs (map YStr seeds) {} self = (Inr visited, self')"
  from load_loop_wf [OF assms, of fs "map YStr seeds" "{}"] l have "lang_wf self'" by simp
  with load_loop_replayed [OF l]
  show "resolvable fs (traverse fs (layouts_paths self) seeds {}) self \<and>
        visited = set (traverse fs (layouts_paths self) seeds {}) \<and>
        self' = merged_document fs (traverse fs (layouts_paths self) seeds {}) self"
    by (simp add: resolvable_def vetted_good)
qed (simp add: load_loop_resolvable)

lemma load_main_loop_Inr_iff:
  assumes "lang_wf self"
  shows "load_loop fs [YStr main, YStr ''builtin''] {} self = (Inr visited, self') \<longleftrightarrow>
           resolvable fs (traverse fs (layouts_paths self) [main, ''builtin''] {}) self \<and>
           visited = set (traverse fs (layouts_paths self) [main, ''builtin''] {}) \<and>
           self' = merged_document fs (traverse fs (layouts_paths self) [main, ''builtin''] {}) self"
  using load_loop_Inr_iff [OF assms, of fs "[main, ''builtin'']" visited self'] by simp

lemma foldl_take_app_no_app:
  "filter (\<lambda>m. app_of (doc_of fs paths m) \<noteq> YNull) order = [] \<Longrightarrow>
     foldl (take_app fs paths) app order = app"
  by (induction order arbitrary: app) (auto simp: take_app_def split: if_splits)

section \<open>Facts: the specification on the demo file system\<close>

lemmas spec_eval =
  merged_document_def merged_widgets_def merged_data_def take_app_def resolvable_def
  module_good_def apps_ok_def lang_wf_def module_ok_def section_items_def qualify_def
  widgets_of_def data_of_def app_of_def import_items_def

lemma demo_traverse:
  "traverse demo_fs demo_paths [''root'', ''builtin''] {} = [''root'', ''builtin'', ''leaf'']"
  by (simp add: traverse_Cons graph_eval demo_fs_def lang_eval)

lemma demo_resolvable: "resolvable demo_fs [''root'', ''builtin'', ''leaf''] demo_lang"
  by (simp add: spec_eval graph_eval demo_fs_def lang_eval)

lemma demo_merge_modules:
  "merged_document demo_fs [''root'', ''builtin'', ''leaf''] demo_lang =
     demo_lang\<lparr>widget_definitions := [(''root.btn'', YStr ''button''), (''leaf.label'', YStr ''text'')],
               data_definitions := [(''greeting'', YStr ''hi'')],
               app_config := YMap [(''widget'', YStr ''root.btn'')]\<rparr>"
  by (simp add: spec_eval graph_eval demo_fs_def lang_eval)

section \<open>The resolver implements its specification\<close>

text \<open>
  C1: On an object whose dictionaries have distinct keys, \<open>load_main_module\<close> returns
  success exactly when the modules in breadth-first traversal order from the main
  module and \<open>builtin\<close> are resolvable (each is found, loads, has well-shaped
  sections and string imports; no key is defined twice; at most one \<open>app\<close> section)
  and the merged document has a widget and an \<open>app\<close> configuration; the object
  returned is then the document merged from these modules in traversal order.
\<close>

theorem load_main_module_refines_resolver:
  assumes "lang_wf self"
  shows "load_main_module fs main self = (Ok_None, self') \<longleftrightarrow>
           resolvable fs (traverse fs (layouts_paths self) [main, ''builtin''] {}) self \<and>
           self' = merged_document fs (traverse fs (layouts_paths self) [main, ''builtin''] {}) self \<and>
           widget_definitions self' \<noteq> [] \<and> app_config self' \<noteq> YNull"
  by (auto simp: load_main_module_Ok_iff load_main_loop_Inr_iff [OF assms])

theorem load_main_module_refines_resolver_witness:
  "load_main_module demo_fs ''root'' demo_lang =
     (Ok_None,
      demo_lang\<lparr>widget_definitions := [(''root.btn'', YStr ''button''), (''leaf.label'', YStr ''text'')],
                data_definitions := [(''greeting'', YStr ''hi'')],
                app_config := YMap [(''widget'', YStr ''root.btn'')]\<rparr>)"
  using load_main_module_refines_resolver [of demo_lang demo_fs "''root''"
      "merged_document demo_fs [''root'', ''builtin'', ''leaf''] demo_lang"]
  by (simp add: demo_traverse demo_resolvable demo_merge_modules)

section \<open>A loaded object cannot load again\<close>

text \<open>
  C33: \<open>load_main_module\<close> is not repeatable: after a successful load on an object
  that had no \<open>app\<close> configuration, a second \<open>load_main_module\<close> of the same main
  module on the same object, without \<open>dispose\<close> in between, returns an error.
\<close>

theorem second_load_fails:
  assumes "load_main_module fs main self = (Ok_None, self')"
    and "lang_wf self" and "app_config self = YNull"
  shows "fst (load_main_module fs main self') \<noteq> Ok_None"
proof
  let ?order = "traverse fs (layouts_paths self) [main, ''builtin''] {}"
  assume "fst (load_main_module fs main self') = Ok_None"
  then obtain self'' where again: "load_main_module fs main self' = (Ok_None, self'')"
    by (cases "load_main_module fs main self'") auto
  from assms(1) have paths: "layouts_paths self' = layouts_paths self"
    using load_main_module_frame [of fs main self] by simp
  from assms(1,2) obtain visited where
    first: "load_loop fs [YStr main, YStr ''builtin''] {} self = (Inr visited, self')"
    and app': "app_config self' \<noteq> YNull"
    by (auto simp: load_main_module_Ok_iff)
  from load_loop_wf [OF assms(2), of fs "[YStr main, YStr ''builtin'']" "{}"] first
  have wf': "lang_wf self'" by simp
  from first have "self' = merged_document fs ?order self"
    by (simp add: load_main_loop_Inr_iff [OF assms(2)])
  with assms(3) have app: "app_config self' = foldl (take_app fs (layouts_paths self)) YNull ?order"
    by (simp add: merged_document_def)
  from again obtain visited' where
    "load_loop fs [YStr main, YStr ''builtin''] {} self' = (Inr visited', self'')"
    by (auto simp: load_main_module_Ok_iff)
  with paths have "resolvable fs ?order self'"
    by (simp add: load_main_loop_Inr_iff [OF wf'])
  with app' paths have "filter (\<lambda>m. app_of (doc_of fs (layouts_paths self) m) \<noteq> YNull) ?order = []"
    by (simp add: resolvable_def apps_ok_def)
  from foldl_take_app_no_app [OF this] app app' show False by simp
qed

theorem second_load_fails_witness:
  "fst (load_main_module demo_fs ''root'' (snd (load_main_module demo_fs ''root'' demo_lang))) \<noteq> Ok_None"
  using second_load_fails [OF demo_load] by (simp add: demo_load)

section \<open>\<open>dispose\<close> allows a new load\<close>

text \<open>
  C34: \<open>dispose\<close> makes the object loadable again. After a successful load on an
  object whose dictionaries were empty and that had no \<open>app\<close> configuration,
  \<open>dispose\<close> followed by \<open>load_main_module\<close> of the same main module over the same
  files succeeds and leaves the object the first load left.
\<close>

theorem dispose_allows_reload:
  assumes "load_main_module fs main self = (Ok_None, self')"
    and "widget_definitions self = []" and "data_definitions self = []" and "app_config self = YNull"
  shows "load_main_module fs main (snd (dispose self')) = (Ok_None, self')"
proof -
  from assms(2,3) have wf: "lang_wf self" by (simp add: lang_wf_def)
  from assms(1) obtain visited
    where "load_loop fs [YStr main, YStr ''builtin''] {} self = (Inr visited, self')"
    by (auto simp: load_main_module_Ok_iff)
  then have "self' = merged_document fs (traverse fs (layouts_paths self) [main, ''builtin''] {}) self"
    by (simp add: load_main_loop_Inr_iff [OF wf])
  with assms(2-4) have "snd (dispose self') = self"
    by (simp add: dispose_def merged_document_def)
  with assms(1) show ?thesis by simp
qed

theorem dispose_allows_reload_witness:
  "load_main_module demo_fs ''root'' (snd (dispose (snd (load_main_module demo_fs ''root'' demo_lang)))) =
     load_main_module demo_fs ''root'' demo_lang"
  using dispose_allows_reload [OF demo_load] by (simp add: demo_load)

end
