(* ===== verification/Post_Order.thy ===== *)
theory Post_Order
  imports Prelude
begin

text \<open>
  Positions in a list and the lists in which a depth-first traversal of a graph leaves
  its nodes. Nothing here depends on the program: the theory of the aggregator
  instantiates it with the import graph.
\<close>

section \<open>Before\<close>

text \<open>\<open>before xs a b\<close>: \<open>a\<close> occurs in \<open>xs\<close> in front of the first \<open>b\<close>.\<close>

definition before :: "'a list \<Rightarrow> 'a \<Rightarrow> 'a \<Rightarrow> bool" where
  "before xs a b \<longleftrightarrow> a \<in> set (takeWhile (\<lambda>x. x \<noteq> b) xs) \<and> b \<in> set xs"

lemma beforeD: "before xs a b \<Longrightarrow> a \<in> set xs \<and> b \<in> set xs \<and> a \<noteq> b"
  by (auto simp: before_def dest: set_takeWhileD)

lemma takeWhile_neq_append:
  "b \<notin> set xs \<Longrightarrow> takeWhile (\<lambda>x. x \<noteq> b) (xs @ ys) = xs @ takeWhile (\<lambda>x. x \<noteq> b) ys"
  by (intro takeWhile_append2) auto

lemma before_append1: "before xs a b \<Longrightarrow> before (xs @ ys) a b"
  by (auto simp: before_def)

lemma before_append2: "b \<notin> set xs \<Longrightarrow> before ys a b \<Longrightarrow> before (xs @ ys) a b"
  by (simp add: before_def takeWhile_neq_append)

lemma before_append: "a \<in> set xs \<Longrightarrow> b \<notin> set xs \<Longrightarrow> b \<in> set ys \<Longrightarrow> before (xs @ ys) a b"
  by (simp add: before_def takeWhile_neq_append)

lemma before_Cons:
  "before (m # xs) a b \<longleftrightarrow> b \<noteq> m \<and> (a = m \<and> b \<in> set xs \<or> before xs a b)"
  by (auto simp: before_def)

lemma before_total:
  "distinct xs \<Longrightarrow> a \<in> set xs \<Longrightarrow> b \<in> set xs \<Longrightarrow> a \<noteq> b \<Longrightarrow> before xs a b \<or> before xs b a"
  by (induction xs) (auto simp: before_Cons)

lemma before_split: "before xs a b \<Longrightarrow> \<exists>ps qs. xs = ps @ b # qs \<and> a \<in> set ps \<and> b \<notin> set ps"
proof -
  assume *: "before xs a b"
  then have "dropWhile (\<lambda>x. x \<noteq> b) xs \<noteq> []" by (auto simp: before_def)
  then obtain qs where "dropWhile (\<lambda>x. x \<noteq> b) xs = b # qs"
    using hd_dropWhile [of "\<lambda>x. x \<noteq> b" xs] by (cases "dropWhile (\<lambda>x. x \<noteq> b) xs") auto
  with * takeWhile_dropWhile_id [of "\<lambda>x. x \<noteq> b" xs] show ?thesis
    by (intro exI [of _ "takeWhile (\<lambda>x. x \<noteq> b) xs"] exI [of _ qs])
       (auto simp: before_def dest: set_takeWhileD)
qed

lemma before_trans: "before xs a b \<Longrightarrow> before xs b c \<Longrightarrow> before xs a c"
proof -
  assume ab: "before xs a b" and bc: "before xs b c"
  from bc obtain ps qs where xs: "xs = ps @ c # qs" "b \<in> set ps" "c \<notin> set ps"
    by (auto dest: before_split)
  with ab have "a \<in> set (takeWhile (\<lambda>x. x \<noteq> b) ps)" by (simp add: before_def)
  then have "a \<in> set ps" by (auto dest: set_takeWhileD)
  with xs show ?thesis by (auto intro: before_append)
qed

lemma before_map_inj: "inj f \<Longrightarrow> before (map f xs) (f a) (f b) \<longleftrightarrow> before xs a b"
  by (auto simp: before_def takeWhile_map comp_def inj_eq)

text \<open>The last element of a list with a property is not in front of another one with it.\<close>

lemma find_append:
  "List.find P (xs @ ys) = (case List.find P xs of None \<Rightarrow> List.find P ys | Some x \<Rightarrow> Some x)"
  by (induction xs) simp_all

lemma find_rev_before:
  assumes "before xs a b" and "P b" and "distinct xs"
  shows "List.find P (rev xs) \<noteq> Some a"
proof -
  from assms(1) obtain ps qs where xs: "xs = ps @ b # qs" "a \<in> set ps" by (auto dest: before_split)
  with assms(2) have "List.find P (rev xs) = Some b \<or> (\<exists>c \<in> set qs. List.find P (rev xs) = Some c)"
    by (auto simp: find_append split: option.splits dest: find_first_Some_set)
  with xs assms(3) show ?thesis by auto
qed

section \<open>Post-order\<close>

text \<open>
  \<open>post_ordered G V names order V'\<close>: a depth-first traversal of \<open>G\<close> that starts from the
  nodes \<open>names\<close> with the nodes \<open>V\<close> marked leaves exactly the nodes of \<open>order\<close>, in this
  order, and ends with \<open>V'\<close> marked. The nodes left are new and are reachable from the
  start; the successors of a node left are marked; and a successor of a node is left
  in front of it unless it was marked at the start or the two lie on a cycle.
\<close>

definition post_ordered :: "('a \<times> 'a) set \<Rightarrow> 'a set \<Rightarrow> 'a list \<Rightarrow> 'a list \<Rightarrow> 'a set \<Rightarrow> bool" where
  "post_ordered G V names order V' \<longleftrightarrow>
     V' = V \<union> set order \<and> distinct order \<and> set order \<inter> V = {} \<and>
     set names \<subseteq> V' \<and> set order \<subseteq> G\<^sup>* `` set names \<and>
     (\<forall>x \<in> set order. \<forall>y. (x, y) \<in> G \<longrightarrow>
        y \<in> V' \<and> (y \<in> V \<or> before order y x \<or> (y, x) \<in> G\<^sup>*))"

lemma post_ordered_listed:
  "post_ordered G V names order V' \<Longrightarrow> V' = V \<union> set order \<and> distinct order \<and> set order \<inter> V = {}"
  by (simp add: post_ordered_def)

lemma post_ordered_edge:
  "post_ordered G V names order V' \<Longrightarrow> x \<in> set order \<Longrightarrow> (x, y) \<in> G \<Longrightarrow>
     y \<in> V \<or> before order y x \<or> (y, x) \<in> G\<^sup>*"
  unfolding post_ordered_def by blast

lemma post_ordered_Nil: "post_ordered G V [] [] V"
  by (simp add: post_ordered_def)

lemma post_ordered_skip: "x \<in> V \<Longrightarrow> post_ordered G V [x] [] V"
  by (simp add: post_ordered_def)

lemma post_ordered_seq:
  assumes "post_ordered G V ns1 o1 V1" and "post_ordered G V1 ns2 o2 V2"
  shows "post_ordered G V (ns1 @ ns2) (o1 @ o2) V2"
proof -
  from assms have sets: "V1 = V \<union> set o1" "V2 = V1 \<union> set o2" "distinct o1" "distinct o2"
    "set o1 \<inter> V = {}" "set o2 \<inter> V1 = {}" "set ns1 \<subseteq> V1" "set ns2 \<subseteq> V2"
    "set o1 \<subseteq> G\<^sup>* `` set ns1" "set o2 \<subseteq> G\<^sup>* `` set ns2"
    by (auto simp: post_ordered_def)
  have "y \<in> V2 \<and> (y \<in> V \<or> before (o1 @ o2) y x \<or> (y, x) \<in> G\<^sup>*)"
    if "x \<in> set (o1 @ o2)" "(x, y) \<in> G" for x y
  proof (cases "x \<in> set o1")
    case True
    with assms(1) that(2) have "y \<in> V1 \<and> (y \<in> V \<or> before o1 y x \<or> (y, x) \<in> G\<^sup>*)"
      unfolding post_ordered_def by blast
    with sets(2) show ?thesis by (auto intro: before_append1)
  next
    case False
    with that(1) have x: "x \<in> set o2" by simp
    with assms(2) that(2) have "y \<in> V2 \<and> (y \<in> V1 \<or> before o2 y x \<or> (y, x) \<in> G\<^sup>*)"
      unfolding post_ordered_def by blast
    with False x sets(1) show ?thesis by (auto intro: before_append2 before_append)
  qed
  with sets show ?thesis unfolding post_ordered_def by (auto simp: Image_Un)
qed

lemma post_ordered_node:
  assumes "x \<notin> V" and "G `` {x} = set succs" and "post_ordered G (insert x V) succs o1 V'"
  shows "post_ordered G V [x] (o1 @ [x]) V'"
proof -
  from assms(3) have sets: "V' = insert x V \<union> set o1" "distinct o1" "set o1 \<inter> insert x V = {}"
    "set succs \<subseteq> V'" "set o1 \<subseteq> G\<^sup>* `` set succs"
    by (auto simp: post_ordered_def)
  from assms(2) have reach: "G\<^sup>* `` set succs \<subseteq> G\<^sup>* `` {x}"
    by (auto intro: converse_rtrancl_into_rtrancl)
  have "z \<in> V' \<and> (z \<in> V \<or> before (o1 @ [x]) z y \<or> (z, y) \<in> G\<^sup>*)"
    if "y \<in> set (o1 @ [x])" "(y, z) \<in> G" for y z
  proof (cases "y \<in> set o1")
    case True
    with assms(3) that(2) have "z \<in> V' \<and> (z \<in> insert x V \<or> before o1 z y \<or> (z, y) \<in> G\<^sup>*)"
      unfolding post_ordered_def by blast
    moreover from True sets(5) reach have "(x, y) \<in> G\<^sup>*" by auto
    ultimately show ?thesis by (auto intro: before_append1)
  next
    case False
    with that have "y = x" "z \<in> set succs" using assms(2) by auto
    with sets show ?thesis by (auto intro: before_append)
  qed
  with sets reach assms(1) show ?thesis unfolding post_ordered_def by auto
qed

text \<open>
  When no node that was left lies on a cycle the order is a reverse topological one:
  whatever a node that was left reaches was left in front of it.
\<close>

lemma post_ordered_topological:
  assumes "post_ordered G {} names order V'" and "\<forall>x \<in> set order. (x, x) \<notin> G\<^sup>+"
    and "(x, y) \<in> G\<^sup>+" and "x \<in> set order"
  shows "before order y x"
  using assms(3,4)
proof (induction rule: trancl_induct)
  case (base y)
  with assms(1) have "before order y x \<or> (y, x) \<in> G\<^sup>*" by (auto dest: post_ordered_edge)
  moreover from base assms(2) have "(y, x) \<notin> G\<^sup>*"
    by (auto dest: rtrancl_into_trancl2)
  ultimately show ?case by simp
next
  case (step y z)
  then have yx: "before order y x" by simp
  then have y: "y \<in> set order" by (simp add: beforeD)
  with assms(1) step(2) have "before order z y \<or> (z, y) \<in> G\<^sup>*" by (auto dest: post_ordered_edge)
  moreover from step(2) y assms(2) have "(z, y) \<notin> G\<^sup>*"
    by (auto dest: rtrancl_into_trancl2)
  ultimately show ?case using yx by (auto intro: before_trans)
qed

lemma not_on_cycleI: "(\<And>y. (x, y) \<in> G \<Longrightarrow> (y, x) \<notin> G\<^sup>*) \<Longrightarrow> (x, x) \<notin> G\<^sup>+"
  by (auto simp: trancl_unfold_left)

lemma rtrancl_from_leaf: "(\<And>z. (y, z) \<notin> G) \<Longrightarrow> (y, x) \<in> G\<^sup>* \<longleftrightarrow> x = y"
  by (auto elim: converse_rtranclE)

end
