(* ===== verification/Level_Order.thy ===== *)
theory Level_Order
  imports Resolver_Spec Post_Order
begin

text \<open>
  The breadth-first order of \<open>Lang.load_main_module\<close> is a level order: the modules
  come by their import depth, the least number of imports that lead to them from the
  main module or from \<open>builtin\<close>.
\<close>

section \<open>Depth in a graph\<close>

text \<open>
  \<open>within G S n\<close> is the set of nodes that at most \<open>n\<close> edges of \<open>G\<close> reach from a
  node of \<open>S\<close>.
\<close>

primrec within :: "('a \<times> 'a) set \<Rightarrow> 'a set \<Rightarrow> nat \<Rightarrow> 'a set" where
  "within G S 0 = S"
| "within G S (Suc n) = within G S n \<union> G `` within G S n"

lemma within_mono: "n \<le> k \<Longrightarrow> within G S n \<subseteq> within G S k"
  by (induction k) (auto simp: le_Suc_eq)

lemma within_iff: "x \<in> within G S n \<longleftrightarrow> (\<exists>k\<le>n. \<exists>s\<in>S. (s, x) \<in> G ^^ k)"
proof (induction n arbitrary: x)
  case (Suc n)
  show ?case (is "?L \<longleftrightarrow> ?R")
  proof
    assume ?L
    then consider "x \<in> within G S n" | y where "y \<in> within G S n" "(y, x) \<in> G"
      by auto
    then show ?R
    proof cases
      case 1
      with Suc show ?thesis by (meson le_SucI)
    next
      case 2
      with Suc obtain k s where "k \<le> n" "s \<in> S" "(s, y) \<in> G ^^ k" by blast
      with 2 have "Suc k \<le> Suc n" "(s, x) \<in> G ^^ Suc k" by auto
      with \<open>s \<in> S\<close> show ?thesis by blast
    qed
  next
    assume ?R
    then obtain k s where k: "k \<le> Suc n" "s \<in> S" "(s, x) \<in> G ^^ k" by blast
    show ?L
    proof (cases "k \<le> n")
      case True
      with k Suc show ?thesis by auto
    next
      case False
      with k have "k = Suc n" by simp
      with k obtain y where "(s, y) \<in> G ^^ n" "(y, x) \<in> G" by auto
      with Suc k(2) have "y \<in> within G S n" "(y, x) \<in> G" by blast+
      then show ?thesis by auto
    qed
  qed
qed simp

lemma within_rtrancl: "(\<Union>n. within G S n) = G\<^sup>* `` S"
proof (intro equalityI subsetI)
  fix x assume "x \<in> (\<Union>n. within G S n)"
  then show "x \<in> G\<^sup>* `` S" by (auto simp: within_iff dest: relpow_imp_rtrancl)
next
  fix x assume "x \<in> G\<^sup>* `` S"
  then obtain s n where "s \<in> S" "(s, x) \<in> G ^^ n" by (auto dest: rtrancl_imp_relpow)
  then have "x \<in> within G S n" unfolding within_iff by blast
  then show "x \<in> (\<Union>n. within G S n)" by blast
qed

section \<open>Level order\<close>

text \<open>
  A list is in level order when an element is never deeper than one that comes after
  it. \<open>levelled\<close> is the invariant of a breadth-first traversal: the queue is the rest of
  the level \<open>n\<close> followed by what was queued for the next level, the nodes above level
  \<open>n\<close> are marked, the marked nodes are within \<open>n\<close>, a node within \<open>n\<close> is marked or
  queued in the rest of its level, and the successors of the marked nodes are marked
  or queued.
\<close>

definition level_ordered :: "('a \<times> 'a) set \<Rightarrow> 'a set \<Rightarrow> 'a list \<Rightarrow> bool" where
  "level_ordered G S xs \<longleftrightarrow> (\<forall>x y n. before xs x y \<and> y \<in> within G S n \<longrightarrow> x \<in> within G S n)"

definition levelled ::
  "('a \<times> 'a) set \<Rightarrow> 'a set \<Rightarrow> nat \<Rightarrow> 'a list \<Rightarrow> 'a list \<Rightarrow> 'a set \<Rightarrow> bool" where
  "levelled G S n this later V \<longleftrightarrow>
     set this \<subseteq> within G S n \<and> set later \<subseteq> within G S (Suc n) \<and>
     (\<forall>k<n. within G S k \<subseteq> V) \<and> V \<subseteq> within G S n \<and>
     within G S n \<subseteq> V \<union> set this \<and> G `` V \<subseteq> V \<union> set this \<union> set later"

lemma level_ordered_Nil [simp]: "level_ordered G S []"
  by (simp add: level_ordered_def before_def)

lemma level_ordered_Cons:
  assumes "level_ordered G S xs" and "\<And>y n. y \<in> set xs \<Longrightarrow> y \<in> within G S n \<Longrightarrow> m \<in> within G S n"
  shows "level_ordered G S (m # xs)"
  using assms unfolding level_ordered_def before_Cons by blast

lemma levelled_init: "levelled G (set seeds) 0 seeds [] {}"
  by (simp add: levelled_def)

lemma levelled_next:
  assumes "levelled G S n [] later V"
  shows "levelled G S (Suc n) later [] V"
proof -
  from assms have V: "V = within G S n" and G: "G `` V \<subseteq> V \<union> set later"
    and later: "set later \<subseteq> within G S (Suc n)"
    by (auto simp: levelled_def)
  have "\<forall>k<Suc n. within G S k \<subseteq> V"
    using within_mono [of _ n G S] V by (auto simp: less_Suc_eq_le)
  with V G later show ?thesis by (auto simp: levelled_def)
qed

lemma levelled_skip:
  "levelled G S n (m # this) later V \<Longrightarrow> m \<in> V \<Longrightarrow> levelled G S n this later V"
  unfolding levelled_def by auto

lemma levelled_visit:
  assumes "levelled G S n (m # this) later V" and "set ms = G `` {m}"
  shows "levelled G S n this (later @ ms) (insert m V)"
  using assms unfolding levelled_def by auto

lemma levelled_Cons:
  assumes "levelled G S n this later V" and "this @ later = m # queue"
  obtains n' this' later' where "levelled G S n' (m # this') later' V" and "queue = this' @ later'"
proof (cases this)
  case Nil
  with assms levelled_next [of G S n later V] that [of "Suc n" queue "[]"] show ?thesis by simp
next
  case (Cons a this')
  with assms that [of n this' later] show ?thesis by simp
qed

lemma levelled_deeper:
  assumes "levelled G S n this later V" and "y \<notin> V" and "y \<in> within G S k"
  shows "within G S n \<subseteq> within G S k"
proof (rule within_mono, rule ccontr)
  assume "\<not> n \<le> k"
  with assms show False by (auto simp: levelled_def not_le)
qed

lemma levelled_head: "levelled G S n (m # this) later V \<Longrightarrow> m \<in> within G S n"
  by (simp add: levelled_def)

section \<open>The traversal is in level order\<close>

lemma imports_of_graph: "set (imports_of fs paths m) = import_graph fs paths `` {m}"
  by (auto simp: import_graph_def)

lemma traverse_levelled:
  assumes "levelled (import_graph fs paths) S n this later visited" and "queue = this @ later"
  shows "level_ordered (import_graph fs paths) S (traverse fs paths queue visited)"
  using assms
proof (induction fs paths queue visited arbitrary: n this later rule: traverse.induct)
  case (1 fs paths visited)
  show ?case by simp
next
  case (2 fs paths m queue visited)
  from "2.prems" obtain n' this' later'
    where lev: "levelled (import_graph fs paths) S n' (m # this') later' visited"
      and queue: "queue = this' @ later'"
    by (metis levelled_Cons)
  show ?case
  proof (cases "m \<in> visited")
    case True
    with "2.IH"(1) [OF True levelled_skip [OF lev True] queue] show ?thesis
      by (simp add: traverse_Cons)
  next
    case False
    note lev' = levelled_visit [OF lev imports_of_graph]
    have "queue @ imports_of fs paths m = this' @ later' @ imports_of fs paths m"
      by (simp add: queue)
    note IH = "2.IH"(2) [OF False lev' this]
    have "m \<in> within (import_graph fs paths) S k"
      if "y \<in> set (traverse fs paths (queue @ imports_of fs paths m) (insert m visited))"
        and "y \<in> within (import_graph fs paths) S k" for y k
    proof -
      from that(1) traverse_fresh [of fs paths "queue @ imports_of fs paths m" "insert m visited"]
      have "y \<notin> insert m visited" by blast
      from levelled_deeper [OF lev' this that(2)] levelled_head [OF lev] show ?thesis by blast
    qed
    with IH False show ?thesis
      by (simp add: traverse_Cons level_ordered_Cons)
  qed
qed

lemma traverse_level_ordered:
  "level_ordered (import_graph fs paths) (set seeds) (traverse fs paths seeds {})"
  by (rule traverse_levelled [OF levelled_init]) simp

lemma level_orderedD:
  "level_ordered G S xs \<Longrightarrow> before xs x y \<Longrightarrow> y \<in> within G S n \<Longrightarrow> x \<in> within G S n"
  unfolding level_ordered_def by blast

lemma within_reachable: "within (import_graph fs paths) seeds n \<subseteq> reachable_modules fs paths seeds"
  unfolding reachable_modules_def within_rtrancl [symmetric] by blast

section \<open>Nearer modules first\<close>

text \<open>
  C13: The loop of \<open>load_main_module\<close> takes the modules level by level. In the order in
  which modules are marked visited from a list of seeds, a module that at most \<open>n\<close>
  imports reach from a seed comes in front of every reachable module that needs more
  than \<open>n\<close>: all modules of one import depth are visited before any of the next.
\<close>

theorem nearer_modules_come_first:
  assumes "m \<in> within (import_graph fs paths) (set seeds) n"
    and "m' \<in> reachable_modules fs paths (set seeds)"
    and "m' \<notin> within (import_graph fs paths) (set seeds) n"
  shows "before (traverse fs paths seeds {}) m m'"
proof -
  let ?order = "traverse fs paths seeds {}"
  from assms within_reachable [of fs paths "set seeds" n]
  have "m \<in> set ?order" "m' \<in> set ?order" "m \<noteq> m'"
    by (auto simp: set_traverse)
  from before_total [OF traverse_distinct this]
    level_orderedD [OF traverse_level_ordered _ assms(1)] assms(3)
  show ?thesis by blast
qed

theorem nearer_modules_come_first_witness:
  "before (traverse demo_fs demo_paths [''root'', ''builtin''] {}) ''builtin'' ''leaf''"
proof -
  have "''leaf'' \<in> reachable_modules demo_fs demo_paths (set [''root'', ''builtin''])"
    unfolding set_traverse [symmetric] by (simp add: demo_traverse)
  from nearer_modules_come_first [of "''builtin''" demo_fs demo_paths "[''root'', ''builtin'']" 0, OF _ this]
  show ?thesis by simp
qed

end
