(* ===== verification/Load_Order.thy ===== *)
theory Load_Order
  imports Level_Order
begin

text \<open>
  \<open>load_main_module\<close> as two passes: the level order of the import graph, which depends
  on the files alone, and the merge of the modules in that order, which stops at the
  first module that cannot be merged.
\<close>

section \<open>Merging in an order\<close>

text \<open>
  \<open>merge_one\<close> is one iteration of the loop for a module that is not marked, without
  the queue: the module is located, loaded and merged. \<open>merge_all\<close> merges a list of
  modules one after the other and returns the error of the first that fails, with the
  object as that merge has left it. \<open>resolve\<close> ends with the two checks of
  \<open>load_main_module\<close>.
\<close>

definition merge_one :: "filesystem \<Rightarrow> string \<Rightarrow> lang \<Rightarrow> (lang_error, unit) result \<times> lang" where
  "merge_one fs m self = and_then (visit fs (YStr m) [] {} self) (\<lambda>_ self'. (Ok_None, self'))"

fun merge_all :: "filesystem \<Rightarrow> string list \<Rightarrow> lang \<Rightarrow> (lang_error, unit) result \<times> lang" where
  "merge_all fs [] self = (Ok_None, self)"
| "merge_all fs (m # order) self =
     and_then (merge_one fs m self) (\<lambda>_ self'. merge_all fs order self')"

definition resolve :: "filesystem \<Rightarrow> string \<Rightarrow> lang \<Rightarrow> (lang_error, unit) result \<times> lang" where
  "resolve fs main_module self =
     and_then (merge_all fs (traverse fs (layouts_paths self) [main_module, ''builtin''] {}) self)
       (\<lambda>_ self'.
          if widget_definitions self' = [] then (Inl NoWidgets, self')
          else if app_config self' = YNull then (Inl NoApp, self')
          else (Ok_None, self'))"

section \<open>Facts: one module\<close>

lemma merge_module_queue_free:
  "merge_module m loaded queue self =
     and_then (merge_module m loaded [] self) (\<lambda>items self'. (Inr (queue @ items), self'))"
  unfolding merge_module_def Let_def and_then_assoc
  by (intro and_then_cong refl)
     (auto simp: process_imports_def split: sum.splits)

lemma merge_one_frame [simp]: "layouts_paths (snd (merge_one fs m self)) = layouts_paths self"
  by (simp add: merge_one_def)

lemma visit_merge_one:
  assumes "m \<notin> visited"
  shows "visit fs (YStr m) queue visited self =
           and_then (merge_one fs m self) (\<lambda>_ self'.
             (Inr (queue @ import_items (doc_of fs (layouts_paths self) m), insert m visited), self'))"
proof (cases "find_yaml_file fs (layouts_paths self) m")
  case None
  with assms show ?thesis by (simp add: visit_def merge_one_def)
next
  case (Some p)
  show ?thesis
  proof (cases "safe_load fs p")
    case None
    with Some assms show ?thesis by (simp add: visit_def merge_one_def)
  next
    case (Some loaded)
    with \<open>find_yaml_file fs (layouts_paths self) m = Some p\<close>
    have doc: "doc_of fs (layouts_paths self) m = loaded" by (simp add: doc_of_loaded)
    obtain r self' where m: "merge_module m loaded [] self = (r, self')"
      by (cases "merge_module m loaded [] self")
    then have "r = Inr items \<Longrightarrow> items = import_items loaded" for items
      using merge_module_queue [of m loaded "[]" self items self'] by simp
    with m Some \<open>find_yaml_file fs (layouts_paths self) m = Some p\<close> assms doc show ?thesis
      by (cases r) (simp_all add: visit_def merge_one_def merge_module_queue_free [of m loaded queue])
  qed
qed

section \<open>Facts: the loop is the merge in traversal order\<close>

text \<open>
  The order looks at the import items that are strings. The loop follows it as long as
  nothing else is queued: \<open>string_imports\<close> holds for a module whose import items are
  all strings.
\<close>

definition string_imports :: "filesystem \<Rightarrow> path list \<Rightarrow> string \<Rightarrow> bool" where
  "string_imports fs paths m \<longleftrightarrow> only_strings (import_items (doc_of fs paths m))"

lemma imports_of_doc: "imports_of fs paths m = str_items (import_items (doc_of fs paths m))"
  by (simp add: imports_of_def doc_of_def import_items_def none_to_empty_def
      split: option.splits)

text \<open>The two ways in which the head of the queue is taken, in the loop and in the order.\<close>

lemma load_loop_skip:
  "m \<in> visited \<Longrightarrow> load_loop fs (YStr m # queue) visited self = load_loop fs queue visited self"
  by (simp add: load_loop.simps visit_def)

lemma load_loop_fresh:
  "m \<notin> visited \<Longrightarrow>
     load_loop fs (YStr m # queue) visited self =
       and_then (merge_one fs m self) (\<lambda>_ self'.
         load_loop fs (queue @ import_items (doc_of fs (layouts_paths self) m)) (insert m visited) self')"
  by (simp add: load_loop.simps visit_merge_one and_then_assoc)

lemma string_imports_items:
  "string_imports fs paths m \<Longrightarrow> import_items (doc_of fs paths m) = map YStr (imports_of fs paths m)"
  by (simp add: string_imports_def only_strings_def imports_of_doc)

lemma merge_one_paths: "merge_one fs m self = (r, self') \<Longrightarrow> layouts_paths self' = layouts_paths self"
  using merge_one_frame [of fs m self] by simp

lemma load_loop_merge_all:
  assumes "list_all (string_imports fs paths) (traverse fs paths seeds visited)"
    and "layouts_paths self = paths"
  shows "load_loop fs (map YStr seeds) visited self =
           and_then (merge_all fs (traverse fs paths seeds visited) self)
             (\<lambda>_ self'. (Inr (visited \<union> set (traverse fs paths seeds visited)), self'))"
  using assms
proof (induction fs paths seeds visited arbitrary: self rule: traverse.induct)
  case (1 fs paths visited)
  show ?case by (simp add: load_loop.simps)
next
  case (2 fs paths m queue visited)
  show ?case
  proof (cases "m \<in> visited")
    case True
    with "2.IH"(1) [OF True _ "2.prems"(2)] "2.prems"(1) show ?thesis
      by (simp add: load_loop_skip traverse_Cons)
  next
    case False
    let ?rest = "traverse fs paths (queue @ imports_of fs paths m) (insert m visited)"
    from "2.prems"(1) False have m: "string_imports fs paths m"
      and rest: "list_all (string_imports fs paths) ?rest"
      by (simp_all add: traverse_Cons)
    have "load_loop fs (map YStr (queue @ imports_of fs paths m)) (insert m visited) self' =
        and_then (merge_all fs ?rest self')
          (\<lambda>_ self'. (Inr (insert m visited \<union> set ?rest), self'))"
      if "merge_one fs m self = (r, self')" for r self'
      using "2.IH"(2) [OF False rest] merge_one_paths [OF that] "2.prems"(2) by simp
    with False "2.prems"(2) show ?thesis
      by (auto simp: load_loop_fresh traverse_Cons string_imports_items [OF m] and_then_assoc
          intro!: and_then_cong)
  qed
qed

lemma load_main_module_resolve:
  assumes "list_all (string_imports fs (layouts_paths self))
             (traverse fs (layouts_paths self) [main_module, ''builtin''] {})"
  shows "load_main_module fs main_module self = resolve fs main_module self"
  using load_loop_merge_all [OF assms refl]
  by (simp add: load_main_module_def resolve_def and_then_assoc)

section \<open>Facts: what a merge in an order leaves\<close>

lemma merge_one_Ok:
  assumes "merge_one fs m self = (Ok_None, self')"
  shows "self' = merged_document fs [m] self"
proof -
  from assms obtain out where "visit fs (YStr m) [] {} self = (Inr out, self')"
    by (auto simp: merge_one_def and_then_Inr_iff)
  then obtain queue' visited'
    where "visit fs (YStr m) [] {} self = (Inr (queue', visited'), self')"
    by (cases out) simp
  then show ?thesis
  proof (cases rule: visit_Inr_cases)
    case (merged m' p loaded)
    then show ?thesis
      using merged_document_snoc [of fs "[]" m self]
      by (simp add: merge_module_Inr_iff doc_of_loaded Let_def)
  qed simp
qed

lemma merge_all_Ok:
  "merge_all fs order self = (Ok_None, self') \<Longrightarrow> self' = merged_document fs order self"
proof (induction order arbitrary: self)
  case (Cons m order)
  then obtain mid where "merge_one fs m self = (Ok_None, mid)"
    and "merge_all fs order mid = (Ok_None, self')"
    by (auto simp: and_then_Inr_iff)
  with Cons.IH [of mid] merged_document_append [of fs "[m]" order self] show ?case
    by (auto dest: merge_one_Ok)
qed simp

lemma merge_all_Inl:
  assumes "merge_all fs order self = (Inl e, self')"
  shows "\<exists>done m rest. order = done @ m # rest \<and>
           merge_all fs done self = (Ok_None, merged_document fs done self) \<and>
           merge_one fs m (merged_document fs done self) = (Inl e, self')"
  using assms
proof (induction order arbitrary: self)
  case (Cons m order)
  from Cons.prems show ?case
    unfolding merge_all.simps
  proof (cases rule: and_then_cases)
    case (error e' s)
    then show ?thesis by (intro exI [of _ "[]"] exI [of _ m] exI [of _ order]) simp
  next
    case (ok u mid)
    then have mid: "mid = merged_document fs [m] self"
      by (simp add: merge_one_Ok)
    from Cons.IH [of mid] ok obtain "done" m' rest
      where "order = done @ m' # rest"
        and "merge_all fs done mid = (Ok_None, merged_document fs done mid)"
        and "merge_one fs m' (merged_document fs done mid) = (Inl e, self')"
      by auto
    with ok mid merged_document_append [of fs "[m]" "done" self] show ?thesis
      by (intro exI [of _ "m # done"] exI [of _ m'] exI [of _ rest]) simp
  qed
qed simp

section \<open>Facts: the fixtures\<close>

lemma ghost_traverse:
  "traverse ghost_fs demo_paths [''root'', ''builtin''] {} = [''root'', ''builtin'', ''ghost'']"
  by (simp add: traverse_Cons graph_eval ghost_fs_def lang_eval)

lemma ghost_string_imports:
  "list_all (string_imports ghost_fs (layouts_paths demo_lang))
     (traverse ghost_fs (layouts_paths demo_lang) [''root'', ''builtin''] {})"
  by (simp add: ghost_traverse) (simp add: string_imports_def graph_eval ghost_fs_def lang_eval)

section \<open>The load is the merge in level order\<close>

text \<open>
  C3: \<open>load_main_module\<close> does in one loop what two passes do: when the import items of
  the modules in level order are strings, its result and the object it leaves are those
  of merging the modules of the level order one after the other, stopping at the first
  that cannot be merged, and then checking for a widget and an \<open>app\<close> section. This
  holds for the runs that fail as for those that succeed.
\<close>

theorem load_main_module_is_merge_in_level_order:
  assumes "list_all (string_imports fs (layouts_paths self))
             (traverse fs (layouts_paths self) [main_module, ''builtin''] {})"
  shows "load_main_module fs main_module self = resolve fs main_module self"
  using assms by (rule load_main_module_resolve)

theorem load_main_module_is_merge_in_level_order_witness:
  "resolve ghost_fs ''root'' demo_lang =
     (Inl (ModuleNotFound ''ghost''),
      demo_lang\<lparr>widget_definitions := [(''root.btn'', YStr ''button'')],
                app_config := YMap [(''widget'', YStr ''root.btn'')]\<rparr>)"
  using load_main_module_is_merge_in_level_order [OF ghost_string_imports]
  by (simp add: ghost_load)

section \<open>The first module that cannot be merged\<close>

text \<open>
  C21: When \<open>load_main_module\<close> fails with another error than a missing widget or
  \<open>app\<close> section, the error is that of the first module of the level order whose merge
  fails: the modules in front of it are merged and stay in the object, and the error
  and the object returned are those of merging that module into this object.
\<close>

theorem load_fails_at_first_bad_module:
  assumes "list_all (string_imports fs (layouts_paths self))
             (traverse fs (layouts_paths self) [main_module, ''builtin''] {})"
    and "load_main_module fs main_module self = (Inl e, self')"
    and "e \<noteq> NoWidgets" and "e \<noteq> NoApp"
  shows "\<exists>done m rest.
           traverse fs (layouts_paths self) [main_module, ''builtin''] {} = done @ m # rest \<and>
           merge_all fs done self = (Ok_None, merged_document fs done self) \<and>
           merge_one fs m (merged_document fs done self) = (Inl e, self')"
proof -
  from assms(2) have "resolve fs main_module self = (Inl e, self')"
    by (simp add: load_main_module_resolve [OF assms(1)])
  with assms(3,4)
  have "merge_all fs (traverse fs (layouts_paths self) [main_module, ''builtin''] {}) self = (Inl e, self')"
    by (auto simp: resolve_def and_then_Inl_iff split: if_splits)
  then show ?thesis by (rule merge_all_Inl)
qed

theorem load_fails_at_first_bad_module_witness:
  "\<exists>done m rest.
     traverse ghost_fs demo_paths [''root'', ''builtin''] {} = done @ m # rest \<and>
     merge_all ghost_fs done demo_lang = (Ok_None, merged_document ghost_fs done demo_lang) \<and>
     merge_one ghost_fs m (merged_document ghost_fs done demo_lang) =
       (Inl (ModuleNotFound ''ghost''),
        demo_lang\<lparr>widget_definitions := [(''root.btn'', YStr ''button'')],
                  app_config := YMap [(''widget'', YStr ''root.btn'')]\<rparr>)"
  using load_fails_at_first_bad_module [OF ghost_string_imports ghost_load]
  by (simp add: ghost_traverse)

end
