(* ===== verification/Aggregator.thy ===== *)
theory Aggregator
  imports FileSystem
begin

text \<open>
  Class \<open>YAMLAggregator\<close> of \<open>scripts/aggregate_demo_yaml.py\<close>: the second resolver of
  the repository. It walks the imports depth-first by recursion, merges a module after
  its imports, stores widgets under their bare names together with the owning module,
  overwrites on a duplicate and prints a warning, and lets the last \<open>app\<close> section
  win. A method returns the object after the call; what it prints is appended to the
  field \<open>printed\<close>; an exception that leaves the method is \<open>Inl\<close> of it.
\<close>

section \<open>The object\<close>

text \<open>
  The lines the script writes to standard output and standard error, by the
  \<open>print\<close> call that writes them, with the values formatted into the line.
\<close>

datatype message =
    Error_loading path
  | Module_not_found string
  | Processing path
  | Duplicate_widget string string
  | Duplicate_data string
  | Aggregating string
  | Writing path
  | Missing_directory path
  | Not_a_directory path
  | Aggregated nat
  | Widgets_count nat
  | Data_count nat
  | Output_path path

text \<open>
  The attributes of \<open>__init__\<close>. \<open>widgets\<close> maps a widget name to the pair of the
  owning module and the definition. \<open>visited_modules\<close> is a Python set, and a module
  name is added to it before anything requires it to be a string, so it is a set of
  values. \<open>agg_app_config\<close> is the attribute \<open>app_config\<close>, \<open>None\<close> being \<open>YNull\<close>.
\<close>

record aggregator =
  demo_dir :: path
  search_paths :: "path list"
  widgets :: "(string, string \<times> yaml) dict"
  data :: "(string, yaml) dict"
  agg_app_config :: yaml
  visited_modules :: "yaml set"
  printed :: "message list"

definition py_print :: "message \<Rightarrow> aggregator \<Rightarrow> aggregator" where
  "py_print msg self = self\<lparr>printed := printed self @ [msg]\<rparr>"

text \<open>\<open>search_paths or [demo_dir]\<close>: no list and the empty list both give the default.\<close>

definition new_aggregator :: "path \<Rightarrow> path list option \<Rightarrow> aggregator" where
  "new_aggregator demo search =
     \<lparr>demo_dir = demo,
      search_paths = (case search of None \<Rightarrow> [demo] | Some ps \<Rightarrow> if ps = [] then [demo] else ps),
      widgets = [], data = [], agg_app_config = YNull, visited_modules = {}, printed = []\<rparr>"

section \<open>Loading a file\<close>

text \<open>
  \<open>load_yaml\<close> never raises: a file that cannot be opened or parsed is reported on
  standard error and counts as an empty mapping, and so does a document that is null or
  otherwise falsy (\<open>content or {}\<close>). A truthy document is returned as it is, mapping
  or not.
\<close>

definition loaded_content :: "yaml \<Rightarrow> yaml" where
  "loaded_content content = (if py_truthy content then content else YMap [])"

definition load_yaml :: "filesystem \<Rightarrow> path \<Rightarrow> aggregator \<Rightarrow> yaml \<times> aggregator" where
  "load_yaml fs file_path self =
     (case safe_load fs file_path of
        Some content \<Rightarrow> (loaded_content content, self)
      | None \<Rightarrow> (YMap [], py_print (Error_loading file_path) self))"

section \<open>Merging one module\<close>

text \<open>
  The list the \<open>for imported_module in imports\<close> loop runs over: the import entry,
  a bare string wrapped into a one-element list, iterated. \<open>get\<close> raises when the
  document is not a mapping, the iteration when the entry is null or a number.
\<close>

definition imports_list :: "yaml \<Rightarrow> (py_exception, yaml list) result" where
  "imports_list module_content =
     (case py_get module_content ''import'' (YSeq []) of
        Inl e \<Rightarrow> Inl e
      | Inr imports \<Rightarrow> py_iter (case imports of YStr s \<Rightarrow> YSeq [imports] | _ \<Rightarrow> imports))"

text \<open>
  The bodies of the two merge loops: a name that is present is overwritten after a
  warning; a widget is stored with the module that defines it.
\<close>

definition store_widget :: "string \<Rightarrow> string \<Rightarrow> yaml \<Rightarrow> aggregator \<Rightarrow> aggregator" where
  "store_widget module_name widget_name widget_def self =
     (if dict_has widget_name (widgets self)
      then py_print (Duplicate_widget widget_name module_name) self else self)
     \<lparr>widgets := dict_set widget_name (module_name, widget_def) (widgets self)\<rparr>"

definition store_data :: "string \<Rightarrow> yaml \<Rightarrow> aggregator \<Rightarrow> aggregator" where
  "store_data data_name data_def self =
     (if dict_has data_name (data self) then py_print (Duplicate_data data_name) self else self)
     \<lparr>data := dict_set data_name data_def (data self)\<rparr>"

fun overwrite_widgets :: "string \<Rightarrow> (string \<times> yaml) list \<Rightarrow> aggregator \<Rightarrow> aggregator" where
  "overwrite_widgets module_name [] self = self"
| "overwrite_widgets module_name ((widget_name, widget_def) # rest) self =
     overwrite_widgets module_name rest (store_widget module_name widget_name widget_def self)"

fun overwrite_data :: "(string \<times> yaml) list \<Rightarrow> aggregator \<Rightarrow> aggregator" where
  "overwrite_data [] self = self"
| "overwrite_data ((data_name, data_def) # rest) self =
     overwrite_data rest (store_data data_name data_def self)"

text \<open>
  The part of \<open>process_module\<close> after the imports: the widgets, the data, and the
  \<open>app\<close> section, which is taken whenever the key is present, also when its value
  is null.
\<close>

definition merge_sections ::
  "string \<Rightarrow> yaml \<Rightarrow> aggregator \<Rightarrow> (py_exception, unit) result \<times> aggregator" where
  "merge_sections module_name module_content self =
     and_then (py_get module_content ''widgets'' (YMap []), self) (\<lambda>widgets self.
     and_then (py_items widgets, self) (\<lambda>items self.
     and_then (Ok_None, overwrite_widgets module_name items self) (\<lambda>_ self.
     and_then (py_get module_content ''data'' (YMap []), self) (\<lambda>data self.
     and_then (py_items data, self) (\<lambda>items self.
     and_then (Ok_None, overwrite_data items self) (\<lambda>_ self.
     if py_contains ''app'' module_content
     then and_then (py_get module_content ''app'' YNull, self) (\<lambda>app self.
            (Ok_None, self\<lparr>agg_app_config := app\<rparr>))
     else (Ok_None, self)))))))"

section \<open>The traversal\<close>

text \<open>
  \<open>process_module\<close> and the loop over the imports in its body, which calls it for every
  imported module on the object the previous call left. The membership test raises on
  an unhashable name; a name that is not a string is marked visited and then fails at
  \<open>replace\<close>; a module without a file is marked visited, reported and skipped.
\<close>

function process_module ::
    "filesystem \<Rightarrow> yaml \<Rightarrow> aggregator \<Rightarrow> (py_exception, unit) result \<times> aggregator"
  and process_imports_list ::
    "filesystem \<Rightarrow> yaml list \<Rightarrow> aggregator \<Rightarrow> (py_exception, unit) result \<times> aggregator" where
  "process_module fs module_name self =
     (if \<not> py_hashable module_name then (Inl TypeError, self)
      else if module_name \<in> visited_modules self then (Ok_None, self)
      else
        (case module_name of
           YStr name \<Rightarrow>
             (case find_yaml_file fs (search_paths self) name of
                None \<Rightarrow>
                  (Ok_None, py_print (Module_not_found name)
                     (self\<lparr>visited_modules := insert module_name (visited_modules self)\<rparr>))
              | Some module_file \<Rightarrow>
                  (case load_yaml fs module_file
                          (py_print (Processing module_file)
                             (self\<lparr>visited_modules := insert module_name (visited_modules self)\<rparr>)) of
                     (module_content, self1) \<Rightarrow>
                       and_then (imports_list module_content, self1) (\<lambda>imports self2.
                       and_then (process_imports_list fs imports self2) (\<lambda>_ self3.
                       merge_sections name module_content self3))))
         | _ \<Rightarrow> (Inl AttributeError,
                  self\<lparr>visited_modules := insert module_name (visited_modules self)\<rparr>)))"
| "process_imports_list fs [] self = (Ok_None, self)"
| "process_imports_list fs (imported_module # rest) self =
     and_then (process_module fs imported_module self) (\<lambda>_ self'.
     process_imports_list fs rest self')"
  by pat_completeness auto

text \<open>
  The recursion ends because every call that goes on marks a name that was not marked,
  and the names that can be met are the argument and the import items of the finitely
  many documents of the file system. The second recursive call of the loop runs on the
  object the first one returns, so the argument needs that a call only adds to the
  visited set; this is shown first, for the calls on which the function is defined.
\<close>

definition fs_imports :: "filesystem \<Rightarrow> yaml set" where
  "fs_imports fs =
     (\<Union>(p, n) \<in> set fs. case n of
        File (Some y) \<Rightarrow> (case imports_list (loaded_content y) of Inr items \<Rightarrow> set items | Inl e \<Rightarrow> {})
      | _ \<Rightarrow> {})"

definition pending :: "filesystem \<Rightarrow> yaml set \<Rightarrow> aggregator \<Rightarrow> yaml set" where
  "pending fs names self = (names \<union> fs_imports fs) - visited_modules self"

lemma finite_fs_imports [simp]: "finite (fs_imports fs)"
  by (auto simp: fs_imports_def split: node.splits option.splits sum.splits)

lemma finite_pending [simp]: "finite names \<Longrightarrow> finite (pending fs names self)"
  by (simp add: pending_def)

lemma visited_py_print [simp, frame]: "visited_modules (py_print msg self) = visited_modules self"
  by (simp add: py_print_def)

lemma visited_load_yaml [simp, frame]:
  "visited_modules (snd (load_yaml fs p self)) = visited_modules self"
  by (simp add: load_yaml_def split: option.splits)

lemma load_yaml_visited:
  "load_yaml fs p self = (content, self') \<Longrightarrow> visited_modules self' = visited_modules self"
  using visited_load_yaml [of fs p self] by simp

lemma visited_overwrite_widgets [simp, frame]:
  "visited_modules (overwrite_widgets m items self) = visited_modules self"
  by (induction m items self rule: overwrite_widgets.induct) (simp_all add: store_widget_def)

lemma visited_overwrite_data [simp, frame]:
  "visited_modules (overwrite_data items self) = visited_modules self"
  by (induction items self rule: overwrite_data.induct) (simp_all add: store_data_def)

lemmas visited_and_then [simp] = and_then_frame [where g = visited_modules]

lemma visited_merge_sections [simp, frame]:
  "visited_modules (snd (merge_sections m content self)) = visited_modules self"
  by (simp add: merge_sections_def)

lemma load_yaml_imports:
  assumes "load_yaml fs p self = (content, self')" and "imports_list content = Inr items"
  shows "set items \<subseteq> fs_imports fs"
proof (cases "safe_load fs p")
  case None
  with assms show ?thesis by (auto simp: load_yaml_def imports_list_def)
next
  case (Some y)
  with assms have "content = loaded_content y" by (auto simp: load_yaml_def)
  moreover from Some have "(p, File (Some y)) \<in> set fs" by (rule safe_load_SomeD)
  ultimately show ?thesis using assms(2) by (force simp: fs_imports_def)
qed

lemma visited_mono_partial:
  "process_module_process_imports_list_dom (Inl (fs, name, self)) \<Longrightarrow>
     visited_modules self \<subseteq> visited_modules (snd (process_module fs name self))"
  "process_module_process_imports_list_dom (Inr (fs, names, self)) \<Longrightarrow>
     visited_modules self \<subseteq> visited_modules (snd (process_imports_list fs names self))"
proof (induct rule: process_module_process_imports_list.pinduct)
  case (1 fs name self)
  let ?marked = "self\<lparr>visited_modules := insert name (visited_modules self)\<rparr>"
  show ?case
  proof (cases "\<exists>m mf. py_hashable name \<and> name \<notin> visited_modules self \<and> name = YStr m \<and>
      find_yaml_file fs (search_paths self) m = Some mf")
    case False
    then show ?thesis
      by (auto simp: process_module.psimps [OF 1(1)] split: yaml.splits option.splits)
  next
    case True
    then obtain m mf where m: "py_hashable name" "name \<notin> visited_modules self" "name = YStr m"
      "find_yaml_file fs (search_paths self) m = Some mf" by blast
    obtain content self1
      where l: "load_yaml fs mf (py_print (Processing mf) ?marked) = (content, self1)"
      by force
    from load_yaml_visited [OF l]
    have v1: "visited_modules self1 = insert name (visited_modules self)" by simp
    have "visited_modules self \<subseteq> visited_modules (snd
        (and_then (imports_list content, self1) (\<lambda>items self2.
         and_then (process_imports_list fs items self2) (\<lambda>_ self3.
         merge_sections m content self3))))"
    proof (rule and_then_sndI, goal_cases)
      case (1 e s)
      with v1 show ?case by auto
    next
      case (2 items s)
      from 1(2) [OF _ m(2,3,4) l [symmetric] 2] m(1)
      have "visited_modules s \<subseteq> visited_modules (snd (process_imports_list fs items s))" by simp
      moreover from 2 v1 have "visited_modules self \<subseteq> visited_modules s" by auto
      ultimately show ?case
        by (intro and_then_sndI [where P = "\<lambda>s. visited_modules self \<subseteq> visited_modules s"])
           (force split: prod.splits)+
    qed
    with m l show ?thesis unfolding process_module.psimps [OF 1(1)] by simp
  qed
next
  case (2 fs self)
  then show ?case by (simp add: process_imports_list.psimps)
next
  case (3 fs imported_module rest self)
  from 3(2,3) show ?case
    unfolding process_imports_list.psimps(2) [OF 3(1)]
    by (intro and_then_sndI [where P = "\<lambda>s. visited_modules self \<subseteq> visited_modules s"])
       (force split: prod.splits)+
qed

termination process_module
proof (relation "inv_image (finite_psubset <*lex*> less_than)
    (\<lambda>x. case x of
       Inl (fs, name, self) \<Rightarrow> (pending fs {name} self, 0)
     | Inr (fs, names, self) \<Rightarrow> (pending fs (set names) self, Suc (length names)))",
    goal_cases)
  case 1
  show ?case by auto
next
  case (2 fs name self m mf content self1 items self2)
  from load_yaml_visited [OF 2(5) [symmetric]]
  have "visited_modules self1 = insert name (visited_modules self)" by simp
  moreover from 2(5,6) have "set items \<subseteq> fs_imports fs" "self2 = self1"
    by (auto dest: load_yaml_imports [OF sym])
  ultimately have "pending fs (set items) self2 \<subset> pending fs {name} self"
    using 2(2) by (auto simp: pending_def)
  then show ?case by simp
next
  case (3 fs imported_module rest self)
  have "pending fs {imported_module} self \<subseteq> pending fs (set (imported_module # rest)) self"
    by (auto simp: pending_def)
  then show ?case by (auto simp: psubset_eq)
next
  case (4 fs imported_module rest self x self')
  from visited_mono_partial(1) [OF 4(2)] 4(1)
  have "pending fs (set rest) self' \<subseteq> pending fs (set (imported_module # rest)) self"
    by (auto simp: pending_def)
  then show ?case by (auto simp: psubset_eq)
qed

declare process_module.simps [simp del]

section \<open>The output document\<close>

text \<open>
  \<open>process_widget_references\<close> rebuilds a value: a mapping key by key into a new
  dictionary, a list element by element, anything else as it is. \<open>dict_of_items\<close> is
  the dictionary that assigning the pairs of a list in order builds from the empty one.
\<close>

definition dict_of_items :: "('k \<times> 'v) list \<Rightarrow> ('k, 'v) dict" where
  "dict_of_items items = foldl (\<lambda>result (key, value). dict_set key value result) [] items"

fun process_widget_references :: "yaml \<Rightarrow> yaml" where
  "process_widget_references (YMap kvs) =
     YMap (dict_of_items (map (\<lambda>(key, value). (key, process_widget_references value)) kvs))"
| "process_widget_references (YSeq xs) = YSeq (map process_widget_references xs)"
| "process_widget_references obj = obj"

text \<open>
  \<open>build_result\<close> is the final structure \<open>aggregate\<close> builds: the \<open>app\<close> section if
  the configuration is truthy, the widgets without their owners if there is any, the
  data if there is any, in this order. \<open>aggregate\<close> runs the traversal from the main
  module and returns this structure.
\<close>

definition build_result :: "aggregator \<Rightarrow> yaml" where
  "build_result self =
     (let result = [];
          result = (if py_truthy (agg_app_config self)
                    then dict_set ''app'' (process_widget_references (agg_app_config self)) result
                    else result);
          result = (if widgets self \<noteq> []
                    then dict_set ''widgets''
                           (YMap (dict_of_items
                              (map (\<lambda>(widget_name, (module_name, widget_def)).
                                      (widget_name, process_widget_references widget_def))
                                 (widgets self)))) result
                    else result);
          result = (if data self \<noteq> []
                    then dict_set ''data''
                           (YMap (dict_of_items
                              (map (\<lambda>(data_name, data_def).
                                      (data_name, process_widget_references data_def))
                                 (data self)))) result
                    else result)
      in YMap result)"

definition aggregate ::
  "filesystem \<Rightarrow> string \<Rightarrow> aggregator \<Rightarrow> (py_exception, yaml) result \<times> aggregator" where
  "aggregate fs main_module self =
     and_then (process_module fs (YStr main_module) (py_print (Aggregating main_module) self))
       (\<lambda>_ self. (Inr (build_result self), self))"

end
