(* ===== verification/Agg_Merge.thy ===== *)
theory Agg_Merge
  imports Aggregator
begin

text \<open>
  Facts on the parts of \<open>YAMLAggregator\<close> that do not recurse: the updates of the
  object, the merge of one module, the rewriting of values and the output document.
\<close>

section \<open>Vocabulary\<close>

text \<open>
  \<open>mark_visited\<close> is \<open>visited_modules.add\<close>. \<open>file_content\<close> is the document
  \<open>load_yaml\<close> returns for a file. \<open>widget_items\<close> and \<open>data_items\<close> are the items the
  merge loops run over, \<open>sections_ok\<close> holds when both sections are mappings, so that
  the merge does not raise, and \<open>take_app_entry\<close> is the assignment of the \<open>app\<close>
  entry. \<open>output_document\<close> is the result of \<open>aggregate\<close> with the rewriting left
  out, \<open>strip_owner\<close> dropping the owning module of each widget.
\<close>

definition mark_visited :: "yaml \<Rightarrow> aggregator \<Rightarrow> aggregator" where
  "mark_visited name self = self\<lparr>visited_modules := insert name (visited_modules self)\<rparr>"

definition file_content :: "filesystem \<Rightarrow> path \<Rightarrow> yaml" where
  "file_content fs mf =
     (case safe_load fs mf of Some content \<Rightarrow> loaded_content content | None \<Rightarrow> YMap [])"

definition widget_items :: "yaml \<Rightarrow> (string \<times> yaml) list" where
  "widget_items content =
     (case section_items content ''widgets'' of Inr items \<Rightarrow> items | Inl e \<Rightarrow> [])"

definition data_items :: "yaml \<Rightarrow> (string \<times> yaml) list" where
  "data_items content =
     (case section_items content ''data'' of Inr items \<Rightarrow> items | Inl e \<Rightarrow> [])"

definition sections_ok :: "yaml \<Rightarrow> bool" where
  "sections_ok content \<longleftrightarrow>
     is_ok (section_items content ''widgets'') \<and> is_ok (section_items content ''data'')"

definition take_app_entry :: "yaml \<Rightarrow> aggregator \<Rightarrow> aggregator" where
  "take_app_entry content self =
     (if py_contains ''app'' content
      then self\<lparr>agg_app_config := (case py_get content ''app'' YNull of Inr app \<Rightarrow> app | Inl e \<Rightarrow> YNull)\<rparr>
      else self)"

definition strip_owner :: "(string, string \<times> yaml) dict \<Rightarrow> (string, yaml) dict" where
  "strip_owner ws = map (\<lambda>(widget_name, (module_name, widget_def)). (widget_name, widget_def)) ws"

definition output_document :: "aggregator \<Rightarrow> yaml" where
  "output_document self =
     YMap ((if py_truthy (agg_app_config self) then [(''app'', agg_app_config self)] else []) @
           (if widgets self \<noteq> [] then [(''widgets'', YMap (strip_owner (widgets self)))] else []) @
           (if data self \<noteq> [] then [(''data'', YMap (data self))] else []))"

text \<open>
  A well-formed object: both dictionaries have distinct keys; \<open>values_wf\<close> adds that
  every stored value is a well-formed document.
\<close>

definition agg_wf :: "aggregator \<Rightarrow> bool" where
  "agg_wf self \<longleftrightarrow> dict_wf (widgets self) \<and> dict_wf (data self)"

definition values_wf :: "aggregator \<Rightarrow> bool" where
  "values_wf self \<longleftrightarrow>
     agg_wf self \<and> wf_yaml (agg_app_config self) \<and>
     (\<forall>(k, (m, d)) \<in> set (widgets self). wf_yaml d) \<and> (\<forall>(k, d) \<in> set (data self). wf_yaml d)"

section \<open>Facts: the updates of the object\<close>

lemma py_print_simps [simp]:
  "demo_dir (py_print msg self) = demo_dir self"
  "search_paths (py_print msg self) = search_paths self"
  "widgets (py_print msg self) = widgets self"
  "data (py_print msg self) = data self"
  "agg_app_config (py_print msg self) = agg_app_config self"
  "printed (py_print msg self) = printed self @ [msg]"
  by (simp_all add: py_print_def)

lemma mark_visited_simps [simp]:
  "demo_dir (mark_visited name self) = demo_dir self"
  "search_paths (mark_visited name self) = search_paths self"
  "widgets (mark_visited name self) = widgets self"
  "data (mark_visited name self) = data self"
  "agg_app_config (mark_visited name self) = agg_app_config self"
  "printed (mark_visited name self) = printed self"
  "visited_modules (mark_visited name self) = insert name (visited_modules self)"
  by (simp_all add: mark_visited_def)

lemma store_widget_simps [simp]:
  "widgets (store_widget m k d self) = dict_set k (m, d) (widgets self)"
  "data (store_widget m k d self) = data self"
  "agg_app_config (store_widget m k d self) = agg_app_config self"
  "search_paths (store_widget m k d self) = search_paths self"
  "demo_dir (store_widget m k d self) = demo_dir self"
  "visited_modules (store_widget m k d self) = visited_modules self"
  "printed (store_widget m k d self) =
     printed self @ (if dict_has k (widgets self) then [Duplicate_widget k m] else [])"
  by (simp_all add: store_widget_def)

lemma store_data_simps [simp]:
  "data (store_data k d self) = dict_set k d (data self)"
  "widgets (store_data k d self) = widgets self"
  "agg_app_config (store_data k d self) = agg_app_config self"
  "search_paths (store_data k d self) = search_paths self"
  "demo_dir (store_data k d self) = demo_dir self"
  "visited_modules (store_data k d self) = visited_modules self"
  "printed (store_data k d self) =
     printed self @ (if dict_has k (data self) then [Duplicate_data k] else [])"
  by (simp_all add: store_data_def)

lemma take_app_entry_simps [simp]:
  "widgets (take_app_entry content self) = widgets self"
  "data (take_app_entry content self) = data self"
  "search_paths (take_app_entry content self) = search_paths self"
  "demo_dir (take_app_entry content self) = demo_dir self"
  "visited_modules (take_app_entry content self) = visited_modules self"
  "printed (take_app_entry content self) = printed self"
  by (simp_all add: take_app_entry_def)

lemma load_yaml_content: "fst (load_yaml fs mf self) = file_content fs mf"
  by (simp add: load_yaml_def file_content_def split: option.splits)

lemma load_yaml_cases:
  assumes "load_yaml fs mf self = (content, self')"
  obtains "content = file_content fs mf" "self' = self" "safe_load fs mf \<noteq> None"
  | "content = YMap []" "self' = py_print (Error_loading mf) self" "safe_load fs mf = None"
  using assms by (auto simp: load_yaml_def file_content_def split: option.splits)

lemma wf_file_content: "wf_fs fs \<Longrightarrow> wf_yaml (file_content fs mf)"
  by (auto simp: file_content_def loaded_content_def split: option.splits dest: wf_fs_loaded)

section \<open>Facts: the merge loops\<close>

text \<open>
  A merge loop assigns the items in order: a lookup afterwards finds the last item
  with the name, and what was there before for every other name. It prints one warning
  for every item whose name was present.
\<close>

lemma widgets_overwrite_widgets:
  "widgets (overwrite_widgets m items self) = foldl (\<lambda>ws (k, d). dict_set k (m, d) ws) (widgets self) items"
  by (induction items arbitrary: self) auto

lemma data_overwrite_data:
  "data (overwrite_data items self) = foldl (\<lambda>ds (k, d). dict_set k d ds) (data self) items"
  by (induction items arbitrary: self) auto

lemma dict_get_overwrite_widgets:
  "dict_get (widgets (overwrite_widgets m items self)) k =
     (case dict_get (rev items) k of Some d \<Rightarrow> Some (m, d) | None \<Rightarrow> dict_get (widgets self) k)"
  by (simp add: widgets_overwrite_widgets dict_get_foldl_set [where f = "Pair m"])

lemma dict_get_overwrite_data:
  "dict_get (data (overwrite_data items self)) k =
     (case dict_get (rev items) k of Some d \<Rightarrow> Some d | None \<Rightarrow> dict_get (data self) k)"
  by (simp add: data_overwrite_data dict_get_foldl_set [where f = "\<lambda>d. d", simplified])

lemma overwrite_widgets_other [simp]:
  "data (overwrite_widgets m items self) = data self"
  "agg_app_config (overwrite_widgets m items self) = agg_app_config self"
  "search_paths (overwrite_widgets m items self) = search_paths self"
  "demo_dir (overwrite_widgets m items self) = demo_dir self"
  by (induction items arbitrary: self; auto)+

lemma overwrite_data_other [simp]:
  "widgets (overwrite_data items self) = widgets self"
  "agg_app_config (overwrite_data items self) = agg_app_config self"
  "search_paths (overwrite_data items self) = search_paths self"
  "demo_dir (overwrite_data items self) = demo_dir self"
  by (induction items arbitrary: self; auto)+

lemma printed_overwrite_widgets:
  "dict_wf items \<Longrightarrow>
     printed (overwrite_widgets m items self) =
       printed self @ map (\<lambda>(k, d). Duplicate_widget k m)
         (filter (\<lambda>(k, d). dict_has k (widgets self)) items)"
proof (induction items arbitrary: self)
  case (Cons item items)
  obtain k d where item: "item = (k, d)" by (cases item)
  from Cons.prems item have "\<not> dict_has k items" "dict_wf items" by simp_all
  then have "filter (\<lambda>(k', d'). k' = k \<or> dict_has k' (widgets self)) items =
      filter (\<lambda>(k', d'). dict_has k' (widgets self)) items"
    by (intro filter_cong) (auto simp: dict_has_iff_member)
  with Cons.IH [OF \<open>dict_wf items\<close>, of "store_widget m k d self"] item show ?case
    by simp
qed simp

lemma printed_overwrite_data:
  "dict_wf items \<Longrightarrow>
     printed (overwrite_data items self) =
       printed self @ map (\<lambda>(k, d). Duplicate_data k) (filter (\<lambda>(k, d). dict_has k (data self)) items)"
proof (induction items arbitrary: self)
  case (Cons item items)
  obtain k d where item: "item = (k, d)" by (cases item)
  from Cons.prems item have "\<not> dict_has k items" "dict_wf items" by simp_all
  then have "filter (\<lambda>(k', d'). k' = k \<or> dict_has k' (data self)) items =
      filter (\<lambda>(k', d'). dict_has k' (data self)) items"
    by (intro filter_cong) (auto simp: dict_has_iff_member)
  with Cons.IH [OF \<open>dict_wf items\<close>, of "store_data k d self"] item show ?case
    by simp
qed simp

lemma overwrite_widgets_keeps:
  assumes "P self" and "\<And>s k d. P s \<Longrightarrow> (k, d) \<in> set items \<Longrightarrow> P (store_widget m k d s)"
  shows "P (overwrite_widgets m items self)"
  using assms by (induction items arbitrary: self) auto

lemma overwrite_data_keeps:
  assumes "P self" and "\<And>s k d. P s \<Longrightarrow> (k, d) \<in> set items \<Longrightarrow> P (store_data k d s)"
  shows "P (overwrite_data items self)"
  using assms by (induction items arbitrary: self) auto

lemma store_widget_invariant:
  assumes "P self"
    and "\<And>s msg. P s \<Longrightarrow> P (py_print msg s)"
    and "\<And>s k v. P s \<Longrightarrow> P (s\<lparr>widgets := dict_set k v (widgets s)\<rparr>)"
  shows "P (store_widget m k d self)"
  using assms(3) [OF assms(2) [OF assms(1)], where k = k and v = "(m, d)"] assms(3) [OF assms(1)]
  by (simp add: store_widget_def)

lemma store_data_invariant:
  assumes "P self"
    and "\<And>s msg. P s \<Longrightarrow> P (py_print msg s)"
    and "\<And>s k v. P s \<Longrightarrow> P (s\<lparr>data := dict_set k v (data s)\<rparr>)"
  shows "P (store_data k d self)"
  using assms(3) [OF assms(2) [OF assms(1)], where k = k and v = d] assms(3) [OF assms(1)]
  by (simp add: store_data_def)

section \<open>Facts: the merge of one module\<close>

text \<open>
  The merge reads the two sections, runs the two loops and takes the \<open>app\<close> entry.
  It raises exactly when a section is not a mapping, and then the object holds what
  was merged before the failing read.
\<close>

lemma merge_sections_items:
  "merge_sections m content self =
     and_then (section_items content ''widgets'', self) (\<lambda>items self.
     and_then (section_items content ''data'', overwrite_widgets m items self) (\<lambda>items self.
     (Ok_None, take_app_entry content (overwrite_data items self))))"
proof (cases content)
  case (YMap kvs)
  show ?thesis
    unfolding YMap merge_sections_def section_items_def take_app_entry_def
    by (cases "py_items (case dict_get kvs ''widgets'' of None \<Rightarrow> YMap [] | Some v \<Rightarrow> v)";
        cases "py_items (case dict_get kvs ''data'' of None \<Rightarrow> YMap [] | Some v \<Rightarrow> v)")
       simp_all
qed (simp_all add: merge_sections_def section_items_def)

lemma merge_sections_ok:
  assumes "sections_ok content"
  shows "merge_sections m content self =
      (Ok_None, take_app_entry content
         (overwrite_data (data_items content) (overwrite_widgets m (widget_items content) self)))"
  using assms
  by (auto simp: merge_sections_items sections_ok_def is_ok_iff widget_items_def data_items_def)

lemma merge_sections_Inr_iff:
  "merge_sections m content self = (Ok_None, self') \<longleftrightarrow>
     sections_ok content \<and>
     self' = take_app_entry content
       (overwrite_data (data_items content) (overwrite_widgets m (widget_items content) self))"
  by (cases "section_items content ''widgets''"; cases "section_items content ''data''")
     (auto simp: merge_sections_items sections_ok_def widget_items_def data_items_def)

lemma merge_sections_cases [case_names raised_early raised_data ok]:
  obtains "\<not> is_ok (section_items content ''widgets'')"
      "merge_sections m content self = (Inl AttributeError, self)"
  | "is_ok (section_items content ''widgets'')" "\<not> is_ok (section_items content ''data'')"
      "merge_sections m content self =
         (Inl AttributeError, overwrite_widgets m (widget_items content) self)"
  | "sections_ok content"
      "merge_sections m content self =
         (Ok_None, take_app_entry content
            (overwrite_data (data_items content) (overwrite_widgets m (widget_items content) self)))"
  by (cases "section_items content ''widgets''"; cases "section_items content ''data''")
     (auto simp: merge_sections_items sections_ok_def widget_items_def data_items_def
      dest: section_items_Inl)

lemma merge_sections_keeps:
  assumes "P self"
    and widget: "\<And>s k d. P s \<Longrightarrow> (k, d) \<in> set (widget_items content) \<Longrightarrow> P (store_widget m k d s)"
    and data: "\<And>s k d. P s \<Longrightarrow> (k, d) \<in> set (data_items content) \<Longrightarrow> P (store_data k d s)"
    and app: "\<And>s. P s \<Longrightarrow> P (take_app_entry content s)"
  shows "P (snd (merge_sections m content self))"
proof -
  have w: "P (overwrite_widgets m (widget_items content) self)"
    using assms(1) widget by (rule overwrite_widgets_keeps)
  then have "P (overwrite_data (data_items content) (overwrite_widgets m (widget_items content) self))"
    using data by (rule overwrite_data_keeps)
  then have "P (take_app_entry content
      (overwrite_data (data_items content) (overwrite_widgets m (widget_items content) self)))"
    by (rule app)
  with w assms(1) show ?thesis
    by (cases rule: merge_sections_cases [where content = content and m = m and self = self]) simp_all
qed

lemma merge_sections_invariant:
  assumes "P self"
    and print: "\<And>s msg. P s \<Longrightarrow> P (py_print msg s)"
    and widget: "\<And>s k v. P s \<Longrightarrow> P (s\<lparr>widgets := dict_set k v (widgets s)\<rparr>)"
    and data: "\<And>s k v. P s \<Longrightarrow> P (s\<lparr>data := dict_set k v (data s)\<rparr>)"
    and app: "\<And>s a. P s \<Longrightarrow> P (s\<lparr>agg_app_config := a\<rparr>)"
  shows "P (snd (merge_sections m content self))"
  using assms(1)
proof (rule merge_sections_keeps)
  show "P (store_widget m k d s)" if "P s" for s k d
    using that by (rule store_widget_invariant) (fact print widget)+
  show "P (store_data k d s)" if "P s" for s k d
    using that by (rule store_data_invariant) (fact print data)+
  show "P (take_app_entry content s)" if "P s" for s
    using that app [OF that] by (simp add: take_app_entry_def)
qed

lemma search_paths_merge_sections [simp, frame]:
  "search_paths (snd (merge_sections m content self)) = search_paths self"
  by (rule merge_sections_invariant [where P = "\<lambda>s. search_paths s = search_paths self"]) simp_all

lemma widget_items_wf:
  assumes "wf_yaml content"
  shows "dict_wf (widget_items content)" and "(k, d) \<in> set (widget_items content) \<Longrightarrow> wf_yaml d"
  using section_items_wf [OF assms, of "''widgets''"] section_items_values_wf [OF assms, of "''widgets''"]
  by (cases "section_items content ''widgets''"; simp add: widget_items_def)+

lemma data_items_wf:
  assumes "wf_yaml content"
  shows "dict_wf (data_items content)" and "(k, d) \<in> set (data_items content) \<Longrightarrow> wf_yaml d"
  using section_items_wf [OF assms, of "''data''"] section_items_values_wf [OF assms, of "''data''"]
  by (cases "section_items content ''data''"; simp add: data_items_def)+

lemma take_app_entry_wf:
  "wf_yaml content \<Longrightarrow> wf_yaml (agg_app_config self) \<Longrightarrow>
     wf_yaml (agg_app_config (take_app_entry content self))"
  using py_get_wf [of content YNull "''app''"]
  by (auto simp: take_app_entry_def split: sum.splits)

section \<open>Facts: the output document\<close>

text \<open>
  On well-formed values the rewriting is the identity, and rebuilding a dictionary from
  its items gives the dictionary.
\<close>

lemma dict_of_items_wf: "dict_wf items \<Longrightarrow> dict_of_items items = items"
  using foldl_dict_set_fresh [of "[]" items] by (simp add: dict_of_items_def)

lemma process_widget_references_id: "wf_yaml obj \<Longrightarrow> process_widget_references obj = obj"
proof (induction obj rule: process_widget_references.induct)
  case (1 kvs)
  then have "map (\<lambda>(key, value). (key, process_widget_references value)) kvs = kvs"
    by (intro map_idI) (auto simp: list_all_iff)
  with 1(2) show ?case by (simp add: dict_of_items_wf)
next
  case (2 xs)
  then have "map process_widget_references xs = xs"
    by (intro map_idI) (auto simp: list_all_iff)
  then show ?case by simp
qed simp_all

lemma dict_wf_strip_owner [simp]: "dict_wf (strip_owner ws) \<longleftrightarrow> dict_wf ws"
  by (simp add: dict_wf_def strip_owner_def case_prod_unfold comp_def)

lemma dict_get_strip_owner:
  "dict_get (strip_owner ws) k = map_option snd (dict_get ws k)"
  by (induction ws) (auto simp: strip_owner_def)

section \<open>Facts: merging the output document again\<close>

lemma overwrite_widgets_empty:
  assumes "dict_wf items" and "widgets self = []"
  shows "widgets (overwrite_widgets m items self) = map (\<lambda>(k, d). (k, (m, d))) items"
proof -
  have "foldl (\<lambda>ws (k, d). dict_set k (m, d) ws) [] items
      = foldl (\<lambda>result (key, value). dict_set key value result) [] (map (\<lambda>(k, d). (k, (m, d))) items)"
    by (simp add: foldl_map case_prod_unfold)
  also from assms(1) have "\<dots> = map (\<lambda>(k, d). (k, (m, d))) items"
    by (subst foldl_dict_set_fresh) (simp_all add: dict_wf_def comp_def case_prod_unfold)
  finally show ?thesis using assms(2) by (simp add: widgets_overwrite_widgets)
qed

lemma overwrite_data_empty:
  assumes "dict_wf items" and "data self = []"
  shows "data (overwrite_data items self) = items"
  using assms foldl_dict_set_fresh [of "[]" items] by (simp add: data_overwrite_data)

lemma strip_owner_map [simp]: "strip_owner (map (\<lambda>(k, d). (k, (m, d))) items) = items"
  by (simp add: strip_owner_def comp_def case_prod_unfold)

lemma output_document_sections:
  "widget_items (output_document self) = strip_owner (widgets self)"
  "data_items (output_document self) = data self"
  "sections_ok (output_document self)"
  "imports_list (output_document self) = Inr []"
  "py_contains ''app'' (output_document self) \<longleftrightarrow> py_truthy (agg_app_config self)"
  "py_truthy (agg_app_config self) \<Longrightarrow> py_get (output_document self) ''app'' YNull = Inr (agg_app_config self)"
  "loaded_content (output_document self) = output_document self"
  by (auto simp: output_document_def widget_items_def data_items_def sections_ok_def
      section_items_def imports_list_def loaded_content_def strip_owner_def)

lemma dict_wf_requalified [simp]:
  "dict_wf (map (\<lambda>(k, d). (k, (m, d))) (strip_owner ws)) \<longleftrightarrow> dict_wf ws"
proof -
  have "map fst (map (\<lambda>(k, d). (k, (m, d))) (strip_owner ws)) = map fst ws"
    by (induction ws) (auto simp: strip_owner_def)
  then show ?thesis by (simp add: dict_wf_def)
qed

lemma requalified:
  assumes "values_wf s" and "widgets s' = map (\<lambda>(k, d). (k, (m, d))) (strip_owner (widgets s))"
    and "data s' = data s"
    and "agg_app_config s' = (if py_truthy (agg_app_config s) then agg_app_config s else YNull)"
  shows "values_wf s'" and "output_document s' = output_document s"
proof -
  from assms(1) have "dict_wf (widgets s)" "\<forall>(k, (m, d)) \<in> set (widgets s). wf_yaml d"
    by (simp_all add: values_wf_def agg_wf_def)
  then have "dict_wf (widgets s')" "\<forall>(k, (m, d)) \<in> set (widgets s'). wf_yaml d"
    unfolding assms(2) by (simp, auto simp: strip_owner_def)
  with assms show "values_wf s'" by (simp add: values_wf_def agg_wf_def)
  have "strip_owner (widgets s) = [] \<longleftrightarrow> widgets s = []" by (simp add: strip_owner_def)
  with assms(2) have "strip_owner (widgets s') = strip_owner (widgets s)"
    "widgets s' = [] \<longleftrightarrow> widgets s = []"
    by simp_all
  with assms(3,4) show "output_document s' = output_document s"
    by (simp add: output_document_def)
qed

end
