(* ===== verification/Agg_Traversal.thy ===== *)
theory Agg_Traversal
  imports Agg_Merge "HOL-Library.Sublist"
begin

text \<open>
  The recursion of \<open>YAMLAggregator.process_module\<close>: its equations by case, and the
  rules by which a property of the object is carried through a traversal.
\<close>

section \<open>The cases of a call\<close>

lemma process_module_unhashable:
  "\<not> py_hashable name \<Longrightarrow> process_module fs name self = (Inl TypeError, self)"
  by (simp add: process_module.simps)

lemma process_module_visited:
  "py_hashable name \<Longrightarrow> name \<in> visited_modules self \<Longrightarrow> process_module fs name self = (Ok_None, self)"
  by (simp add: process_module.simps)

lemma process_module_not_str:
  "py_hashable name \<Longrightarrow> name \<notin> visited_modules self \<Longrightarrow> \<forall>m. name \<noteq> YStr m \<Longrightarrow>
     process_module fs name self = (Inl AttributeError, mark_visited name self)"
  by (cases name) (simp_all add: process_module.simps mark_visited_def)

lemma process_module_not_found:
  "YStr m \<notin> visited_modules self \<Longrightarrow> find_yaml_file fs (search_paths self) m = None \<Longrightarrow>
     process_module fs (YStr m) self =
       (Ok_None, py_print (Module_not_found m) (mark_visited (YStr m) self))"
  by (simp add: process_module.simps mark_visited_def)

lemma process_module_found:
  "YStr m \<notin> visited_modules self \<Longrightarrow> find_yaml_file fs (search_paths self) m = Some mf \<Longrightarrow>
     load_yaml fs mf (py_print (Processing mf) (mark_visited (YStr m) self)) = (content, self1) \<Longrightarrow>
     process_module fs (YStr m) self =
       and_then (imports_list content, self1) (\<lambda>items self2.
       and_then (process_imports_list fs items self2) (\<lambda>_ self3.
       merge_sections m content self3))"
  by (simp add: process_module.simps mark_visited_def)

lemma process_module_cases [case_names unhashable visited not_str not_found found]:
  obtains "\<not> py_hashable name"
  | "py_hashable name" "name \<in> visited_modules self"
  | "py_hashable name" "name \<notin> visited_modules self" "\<forall>m. name \<noteq> YStr m"
  | m where "name = YStr m" "name \<notin> visited_modules self"
      "find_yaml_file fs (search_paths self) m = None"
  | m mf content self1 where "name = YStr m" "name \<notin> visited_modules self"
      "find_yaml_file fs (search_paths self) m = Some mf"
      "load_yaml fs mf (py_print (Processing mf) (mark_visited name self)) = (content, self1)"
proof (cases "py_hashable name \<and> name \<notin> visited_modules self")
  case False
  then show ?thesis using that(1,2) by blast
next
  case True
  show ?thesis
  proof (cases "\<exists>m. name = YStr m")
    case False
    with True show ?thesis using that(3) by blast
  next
    case True
    then obtain m where m: "name = YStr m" ..
    show ?thesis
    proof (cases "find_yaml_file fs (search_paths self) m")
      case None
      with m \<open>py_hashable name \<and> name \<notin> visited_modules self\<close> show ?thesis using that(4) by blast
    next
      case (Some mf)
      with m \<open>py_hashable name \<and> name \<notin> visited_modules self\<close> show ?thesis
        using that(5) [of m mf] by (cases "load_yaml fs mf (py_print (Processing mf) (mark_visited name self))") blast
    qed
  qed
qed

section \<open>The invariant rule\<close>

text \<open>
  \<open>keeping P self self'\<close>: the object \<open>self'\<close> satisfies \<open>P\<close>, has the search paths
  of \<open>self\<close> and has visited what \<open>self\<close> had.
\<close>

definition keeping :: "(aggregator \<Rightarrow> bool) \<Rightarrow> aggregator \<Rightarrow> aggregator \<Rightarrow> bool" where
  "keeping P self self' \<longleftrightarrow>
     P self' \<and> search_paths self' = search_paths self \<and>
     visited_modules self \<subseteq> visited_modules self'"

lemma keeping_refl: "P self \<Longrightarrow> keeping P self self"
  by (simp add: keeping_def)

lemma keeping_trans: "keeping P a b \<Longrightarrow> keeping P b c \<Longrightarrow> keeping P a c"
  by (auto simp: keeping_def)

lemma keeping_and_then:
  assumes "\<And>e s. r = (Inl e, s) \<Longrightarrow> keeping P self s"
    and "\<And>x s. r = (Inr x, s) \<Longrightarrow> keeping P self (snd (f x s))"
  shows "keeping P self (snd (and_then r f))"
  using assms by (rule and_then_sndI [where P = "keeping P self"])

lemma load_yaml_invariant:
  assumes "P self" and "\<And>s msg. P s \<Longrightarrow> P (py_print msg s)"
  shows "P (snd (load_yaml fs p self))"
  using assms by (simp add: load_yaml_def split: option.splits)

text \<open>
  A predicate on the object that marking a module, printing a line and merging the
  sections of a located module keep holds after \<open>process_module\<close>, whatever it
  returns. The merge step may assume that the module is marked and that the document
  merged is the content of the file found for it.
\<close>

lemma process_module_found_keeping:
  assumes found: "name = YStr m" "name \<notin> visited_modules self"
      "find_yaml_file fs (search_paths self) m = Some mf"
      "load_yaml fs mf (py_print (Processing mf) (mark_visited name self)) = (content, self1)"
    and P: "P self"
    and mark: "\<And>s name. P s \<Longrightarrow> P (mark_visited name s)"
    and print: "\<And>s msg. P s \<Longrightarrow> P (py_print msg s)"
    and merge: "\<And>s. P s \<Longrightarrow> YStr m \<in> visited_modules s \<Longrightarrow>
      find_yaml_file fs (search_paths s) m = Some mf \<Longrightarrow>
      P (snd (merge_sections m (file_content fs mf) s))"
    and loop: "\<And>items. imports_list content = Inr items \<Longrightarrow> P self1 \<Longrightarrow>
      keeping P self1 (snd (process_imports_list fs items self1))"
  shows "keeping P self (snd (process_module fs name self))"
proof -
  from found(4) have content: "content = file_content fs mf"
    using load_yaml_content [of fs mf "py_print (Processing mf) (mark_visited name self)"] by simp
  from found(4) P have k1: "keeping P self self1" and v1: "name \<in> visited_modules self1"
    by (auto simp: keeping_def elim!: load_yaml_cases intro: print mark)
  have "keeping P self1 (snd (and_then (imports_list content, self1) (\<lambda>items self2.
     and_then (process_imports_list fs items self2) (\<lambda>_ self3. merge_sections m content self3))))"
  proof (intro keeping_and_then, goal_cases)
    case (1 e s)
    with k1 show ?case by (simp add: keeping_def)
  next
    case (2 items s e s3)
    with k1 loop [of items] show ?case by (simp add: keeping_def)
  next
    case (3 items s x s3)
    with k1 loop [of items] have k3: "keeping P self1 s3" by (simp add: keeping_def)
    with k1 v1 found(1,3) have "P (snd (merge_sections m content s3))"
      unfolding content by (intro merge) (auto simp: keeping_def)
    with k3 show ?case by (simp add: keeping_def)
  qed
  with k1 found show ?thesis by (auto simp: process_module_found intro: keeping_trans)
qed

lemma traversal_invariant:
  assumes "P self"
    and mark: "\<And>s name. P s \<Longrightarrow> P (mark_visited name s)"
    and print: "\<And>s msg. P s \<Longrightarrow> P (py_print msg s)"
    and merge: "\<And>s m mf. P s \<Longrightarrow> YStr m \<in> visited_modules s \<Longrightarrow>
      find_yaml_file fs (search_paths s) m = Some mf \<Longrightarrow>
      P (snd (merge_sections m (file_content fs mf) s))"
  shows "keeping P self (snd (process_module fs name self))"
    and "keeping P self (snd (process_imports_list fs names self))"
  using assms(1) merge
proof (induction fs name self and fs names self rule: process_module_process_imports_list.induct)
  case (1 fs name self)
  note P = "1.prems"(1) and merge = "1.prems"(2)
  show ?case
  proof (cases rule: process_module_cases [where name = name and self = self and fs = fs])
    case (found m mf content self1)
    from found(1) have h: "\<not> \<not> py_hashable name" by simp
    show ?thesis
      using found P mark print merge
    proof (rule process_module_found_keeping)
      fix items assume "imports_list content = Inr items" "P self1"
      then show "keeping P self1 (snd (process_imports_list fs items self1))"
        by (intro "1.IH" [OF h found(2,1,3) found(4) [unfolded mark_visited_def, symmetric]] merge)
           simp_all
    qed
  qed (use P in \<open>simp_all add: process_module_unhashable process_module_visited
      process_module_not_str process_module_not_found mark print keeping_def subset_insertI\<close>)
next
  case (2 fs self)
  then show ?case by (simp add: keeping_refl)
next
  case (3 fs imported_module rest self)
  note merge = "3.prems"(2)
  from "3.IH"(1) [OF "3.prems"]
  have k1: "keeping P self (snd (process_module fs imported_module self))" .
  show ?case
    unfolding process_imports_list.simps
  proof (rule keeping_and_then, goal_cases)
    case (1 e s)
    with k1 show ?case by simp
  next
    case (2 x s)
    with k1 have "keeping P self s" by simp
    moreover from this have "P s" by (simp add: keeping_def)
    from "3.IH"(2) [OF 2 this merge] have "keeping P s (snd (process_imports_list fs rest s))" .
    ultimately show ?case by (rule keeping_trans)
  qed
qed

text \<open>
  The rule in terms of the primitive updates of the object: marking, printing, and
  assigning to one of the three merged fields.
\<close>

lemma aggregator_invariant:
  assumes "P self"
    and mark: "\<And>s name. P s \<Longrightarrow> P (mark_visited name s)"
    and print: "\<And>s msg. P s \<Longrightarrow> P (py_print msg s)"
    and widget: "\<And>s k v. P s \<Longrightarrow> P (s\<lparr>widgets := dict_set k v (widgets s)\<rparr>)"
    and data: "\<And>s k v. P s \<Longrightarrow> P (s\<lparr>data := dict_set k v (data s)\<rparr>)"
    and app: "\<And>s a. P s \<Longrightarrow> P (s\<lparr>agg_app_config := a\<rparr>)"
  shows "P (snd (process_module fs name self))"
    and "P (snd (process_imports_list fs names self))"
proof -
  have m: "P (snd (merge_sections m content s))" if "P s" for s m content
    using that by (rule merge_sections_invariant) (fact print widget data app)+
  have "keeping P self (snd (process_module fs name self))"
    by (rule traversal_invariant(1) [where P = P]) (fact assms(1), erule mark, erule print, erule m)
  moreover have "keeping P self (snd (process_imports_list fs names self))"
    by (rule traversal_invariant(2) [where P = P]) (fact assms(1), erule mark, erule print, erule m)
  ultimately show "P (snd (process_module fs name self))"
    and "P (snd (process_imports_list fs names self))"
    by (simp_all add: keeping_def)
qed

section \<open>What every traversal keeps\<close>

lemma process_module_search_paths [simp, frame]:
  "search_paths (snd (process_module fs name self)) = search_paths self"
  "search_paths (snd (process_imports_list fs names self)) = search_paths self"
  by (rule aggregator_invariant [where P = "\<lambda>s. search_paths s = search_paths self"]; simp)+

lemma process_module_demo_dir [simp, frame]:
  "demo_dir (snd (process_module fs name self)) = demo_dir self"
  "demo_dir (snd (process_imports_list fs names self)) = demo_dir self"
  by (rule aggregator_invariant [where P = "\<lambda>s. demo_dir s = demo_dir self"]; simp)+

lemma process_module_visited_mono:
  "visited_modules self \<subseteq> visited_modules (snd (process_module fs name self))"
  "visited_modules self \<subseteq> visited_modules (snd (process_imports_list fs names self))"
  by (rule aggregator_invariant [where P = "\<lambda>s. visited_modules self \<subseteq> visited_modules s"];
      auto)+

lemma process_module_printed_prefix:
  "prefix (printed self) (printed (snd (process_module fs name self)))"
  "prefix (printed self) (printed (snd (process_imports_list fs names self)))"
  by (rule aggregator_invariant [where P = "\<lambda>s. prefix (printed self) (printed s)"]; simp)+

lemma process_module_wf:
  assumes "agg_wf self"
  shows "agg_wf (snd (process_module fs name self))"
    and "agg_wf (snd (process_imports_list fs names self))"
  by (rule aggregator_invariant [where P = agg_wf]; use assms in \<open>simp add: agg_wf_def\<close>)+

lemma values_wf_traversal:
  assumes "wf_fs fs" and "values_wf self"
  shows "values_wf (snd (process_module fs name self))"
proof -
  have "keeping values_wf self (snd (process_module fs name self))"
  proof (rule traversal_invariant(1) [where P = values_wf], goal_cases)
    case (4 s m mf)
    let ?c = "file_content fs mf"
    from assms(1) have c: "wf_yaml ?c" by (rule wf_file_content)
    from 4(1) show ?case
    proof (rule merge_sections_keeps, goal_cases)
      case (1 s k d)
      with widget_items_wf(2) [OF c] set_dict_set_subset [of k "(m, d)" "widgets s"] show ?case
        by (fastforce simp: values_wf_def agg_wf_def)
    next
      case (2 s k d)
      with data_items_wf(2) [OF c] set_dict_set_subset [of k d "data s"] show ?case
        by (fastforce simp: values_wf_def agg_wf_def)
    next
      case (3 s)
      with c show ?case by (auto simp: values_wf_def agg_wf_def intro: take_app_entry_wf)
    qed
  qed (use assms(2) in \<open>simp_all add: values_wf_def agg_wf_def\<close>)
  then show ?thesis by (simp add: keeping_def)
qed

lemma build_result_wf:
  assumes "values_wf self"
  shows "build_result self = output_document self"
proof -
  from assms have "map (\<lambda>(widget_name, (module_name, widget_def)).
        (widget_name, process_widget_references widget_def)) (widgets self) = strip_owner (widgets self)"
    unfolding strip_owner_def
    by (intro map_cong) (auto simp: values_wf_def process_widget_references_id)
  moreover from assms have "map (\<lambda>(data_name, data_def).
        (data_name, process_widget_references data_def)) (data self) = data self"
    by (intro map_idI) (auto simp: values_wf_def process_widget_references_id)
  ultimately show ?thesis
    using assms
    by (simp add: build_result_def output_document_def values_wf_def agg_wf_def
        process_widget_references_id dict_of_items_wf)
qed

lemma aggregate_Inr_iff:
  "aggregate fs main self = (Inr doc, self') \<longleftrightarrow>
     process_module fs (YStr main) (py_print (Aggregating main) self) = (Ok_None, self') \<and>
     doc = build_result self'"
  by (auto simp: aggregate_def and_then_Inr_iff)

lemma snd_aggregate:
  "snd (aggregate fs main self) =
     snd (process_module fs (YStr main) (py_print (Aggregating main) self))"
  by (cases "process_module fs (YStr main) (py_print (Aggregating main) self)";
      cases "fst (process_module fs (YStr main) (py_print (Aggregating main) self))")
     (simp_all add: aggregate_def)

section \<open>The exceptions of a traversal\<close>

lemma imports_list_raises: "imports_list content = Inl e \<Longrightarrow> e = TypeError \<or> e = AttributeError"
  by (cases content; cases "py_get content ''import'' (YSeq [])")
     (auto simp: imports_list_def py_get_Inl_iff py_iter_Inl_iff split: sum.splits yaml.splits)

lemma merge_sections_raises: "fst (merge_sections m content self) = Inl e \<Longrightarrow> e = AttributeError"
  by (cases rule: merge_sections_cases [of content m self]) auto

lemma process_module_raises:
  "fst (process_module fs name self) = Inl e \<Longrightarrow> e = TypeError \<or> e = AttributeError"
  "fst (process_imports_list fs names self) = Inl e \<Longrightarrow> e = TypeError \<or> e = AttributeError"
proof (induction fs name self and fs names self rule: process_module_process_imports_list.induct)
  case (1 fs name self)
  show ?case
  proof (cases rule: process_module_cases [where name = name and self = self and fs = fs])
    case (found m mf content self1)
    from found(1) have h: "\<not> \<not> py_hashable name" by simp
    have IH: "e = TypeError \<or> e = AttributeError"
      if "imports_list content = Inr items" "fst (process_imports_list fs items self1) = Inl e" for items
      using that "1.IH" [OF h found(2,1,3) found(4) [unfolded mark_visited_def, symmetric], of items self1]
      by simp
    from "1.prems" found have "fst (and_then (imports_list content, self1) (\<lambda>items self2.
        and_then (process_imports_list fs items self2) (\<lambda>_ self3.
        merge_sections m content self3))) = Inl e"
      by (simp add: process_module_found)
    then show ?thesis
      by (auto elim!: and_then_raises dest: imports_list_raises merge_sections_raises IH)
  qed (use "1.prems" in \<open>auto simp: process_module_unhashable process_module_visited
      process_module_not_str process_module_not_found\<close>)
next
  case (3 fs imported_module rest self)
  from "3.prems" show ?case
    by (auto elim!: and_then_raises dest: "3.IH")
qed simp

lemma aggregate_raises:
  "fst (aggregate fs main_module self) = Inl e \<Longrightarrow> e = TypeError \<or> e = AttributeError"
  using process_module_raises(1) [of fs "YStr main_module" "py_print (Aggregating main_module) self" e]
  by (cases "process_module fs (YStr main_module) (py_print (Aggregating main_module) self)";
      cases "fst (process_module fs (YStr main_module) (py_print (Aggregating main_module) self))")
     (simp_all add: aggregate_def)

section \<open>A module without imports\<close>

lemma process_module_leaf:
  assumes "YStr m \<notin> visited_modules self" and "find_yaml_file fs (search_paths self) m = Some mf"
    and "safe_load fs mf = Some content" and "imports_list (loaded_content content) = Inr []"
    and "sections_ok (loaded_content content)"
  shows "process_module fs (YStr m) self =
     (Ok_None, take_app_entry (loaded_content content)
        (overwrite_data (data_items (loaded_content content))
           (overwrite_widgets m (widget_items (loaded_content content))
              (py_print (Processing mf) (mark_visited (YStr m) self)))))"
proof -
  from assms(3) have "load_yaml fs mf (py_print (Processing mf) (mark_visited (YStr m) self))
      = (loaded_content content, py_print (Processing mf) (mark_visited (YStr m) self))"
    by (simp add: load_yaml_def)
  from process_module_found [OF assms(1,2) this] assms(4,5) show ?thesis
    by (simp add: merge_sections_ok)
qed

lemma process_module_reloaded:
  assumes "find_yaml_file fs (search_paths self) m = Some mf"
    and "safe_load fs mf = Some (output_document self1)" and "visited_modules self = {}"
  shows "process_module fs (YStr m) (py_print (Aggregating m) self) =
    (Ok_None, take_app_entry (output_document self1) (overwrite_data (data self1)
      (overwrite_widgets m (strip_owner (widgets self1))
         (py_print (Processing mf) (mark_visited (YStr m) (py_print (Aggregating m) self))))))"
  using assms
  by (subst process_module_leaf [where content = "output_document self1" and mf = mf])
     (simp_all add: output_document_sections)

end
