(* ===== verification/Agg_Reach.thy ===== *)
theory Agg_Reach
  imports Agg_Traversal
begin

text \<open>
  What a successful traversal of \<open>YAMLAggregator\<close> has done when it returns: the
  modules it visited are those its argument reaches in the import graph, every one of
  them is merged, and whatever the dictionaries hold comes from a visited module.
\<close>

section \<open>Vocabulary\<close>

text \<open>
  The import graph the aggregator walks: from a module name to the names its file
  declares as imports, when it has a file: the import entry itself when it is a
  string, its elements when it is a list, its keys when it is a mapping. \<open>agg_widgets_of\<close> and \<open>agg_data_of\<close> are the items
  of the two sections of the file of a module.
\<close>

definition declared_imports :: "yaml \<Rightarrow> yaml list" where
  "declared_imports content =
     (case content of
        YMap kvs \<Rightarrow>
          (case dict_get kvs ''import'' of
             Some (YStr s) \<Rightarrow> [YStr s]
           | Some (YSeq xs) \<Rightarrow> xs
           | Some (YMap entries) \<Rightarrow> map (\<lambda>entry. YStr (fst entry)) entries
           | _ \<Rightarrow> [])
      | _ \<Rightarrow> [])"

definition agg_imports :: "filesystem \<Rightarrow> path list \<Rightarrow> yaml \<Rightarrow> yaml list" where
  "agg_imports fs paths name =
     (case name of
        YStr m \<Rightarrow>
          (case find_yaml_file fs paths m of
             Some mf \<Rightarrow> declared_imports (file_content fs mf)
           | None \<Rightarrow> [])
      | _ \<Rightarrow> [])"

definition agg_graph :: "filesystem \<Rightarrow> path list \<Rightarrow> (yaml \<times> yaml) set" where
  "agg_graph fs paths = {(x, y). y \<in> set (agg_imports fs paths x)}"

definition agg_widgets_of :: "filesystem \<Rightarrow> path list \<Rightarrow> string \<Rightarrow> (string \<times> yaml) list" where
  "agg_widgets_of fs paths m =
     (case find_yaml_file fs paths m of Some mf \<Rightarrow> widget_items (file_content fs mf) | None \<Rightarrow> [])"

definition agg_data_of :: "filesystem \<Rightarrow> path list \<Rightarrow> string \<Rightarrow> (string \<times> yaml) list" where
  "agg_data_of fs paths m =
     (case find_yaml_file fs paths m of Some mf \<Rightarrow> data_items (file_content fs mf) | None \<Rightarrow> [])"

text \<open>
  A document has the shape of a module when it is a mapping, its sections are mappings
  and its import entry, if it has one, is a string, a list of strings or a mapping
  (\<open>import_ok\<close>); a file system is shaped when every document is, as \<open>load_yaml\<close>
  returns it.
\<close>

definition import_ok :: "yaml \<Rightarrow> bool" where
  "import_ok entry \<longleftrightarrow>
     (case entry of YStr s \<Rightarrow> True | YSeq xs \<Rightarrow> only_strings xs | YMap entries \<Rightarrow> True | _ \<Rightarrow> False)"

definition module_shaped :: "yaml \<Rightarrow> bool" where
  "module_shaped content \<longleftrightarrow>
     sections_ok content \<and>
     (case content of
        YMap kvs \<Rightarrow> (case dict_get kvs ''import'' of Some entry \<Rightarrow> import_ok entry | None \<Rightarrow> True)
      | _ \<Rightarrow> False)"

definition shaped_fs :: "filesystem \<Rightarrow> bool" where
  "shaped_fs fs \<longleftrightarrow>
     list_all (\<lambda>(p, n). case n of File (Some y) \<Rightarrow> module_shaped (loaded_content y) | _ \<Rightarrow> True) fs"

text \<open>
  \<open>sourced\<close>: every entry of the two dictionaries was there at the start or is an item
  of a visited module, the widgets with that module as owner. \<open>module_merged\<close>: every
  name of the two sections of a module is a key of the object. \<open>grown\<close>: no key was
  removed.
\<close>

definition sourced :: "filesystem \<Rightarrow> path list \<Rightarrow> aggregator \<Rightarrow> aggregator \<Rightarrow> bool" where
  "sourced fs paths self0 self \<longleftrightarrow>
     (\<forall>(k, (m, d)) \<in> set (widgets self).
        (k, (m, d)) \<in> set (widgets self0) \<or>
        YStr m \<in> visited_modules self \<and> (k, d) \<in> set (agg_widgets_of fs paths m)) \<and>
     (\<forall>(k, d) \<in> set (data self).
        (k, d) \<in> set (data self0) \<or>
        (\<exists>m. YStr m \<in> visited_modules self \<and> (k, d) \<in> set (agg_data_of fs paths m)))"

definition module_merged :: "filesystem \<Rightarrow> path list \<Rightarrow> yaml \<Rightarrow> aggregator \<Rightarrow> bool" where
  "module_merged fs paths name self \<longleftrightarrow>
     (case name of
        YStr m \<Rightarrow>
          list_all (\<lambda>k. dict_has k (widgets self)) (dict_keys (agg_widgets_of fs paths m)) \<and>
          list_all (\<lambda>k. dict_has k (data self)) (dict_keys (agg_data_of fs paths m))
      | _ \<Rightarrow> True)"

definition grown :: "aggregator \<Rightarrow> aggregator \<Rightarrow> bool" where
  "grown self self' \<longleftrightarrow>
     set (dict_keys (widgets self)) \<subseteq> set (dict_keys (widgets self')) \<and>
     set (dict_keys (data self)) \<subseteq> set (dict_keys (data self'))"

section \<open>Facts: the import graph\<close>

lemma agg_graph_Image: "agg_graph fs paths `` {x} = set (agg_imports fs paths x)"
  by (auto simp: agg_graph_def)

lemma agg_imports_not_found:
  "find_yaml_file fs paths m = None \<Longrightarrow> agg_imports fs paths (YStr m) = []"
  by (simp add: agg_imports_def)

lemma imports_list_declared:
  "imports_list content = Inr items \<Longrightarrow> items = declared_imports content"
  by (cases content)
     (auto simp: imports_list_def declared_imports_def split: option.splits yaml.splits)

lemma agg_imports_found:
  "find_yaml_file fs paths m = Some mf \<Longrightarrow> imports_list (file_content fs mf) = Inr items \<Longrightarrow>
     agg_imports fs paths (YStr m) = items"
  by (simp add: agg_imports_def imports_list_declared [symmetric])

lemma module_shaped_empty [simp]: "module_shaped (YMap [])"
  by (simp add: module_shaped_def sections_ok_def section_items_def)

lemma only_strings_keys [simp]: "only_strings (map (\<lambda>kv. YStr (fst kv)) entries)"
  by (induction entries) simp_all

lemma module_shaped_imports:
  assumes "module_shaped content"
  obtains items where "imports_list content = Inr items" "only_strings items"
  using assms
  by (cases content)
     (auto simp: module_shaped_def imports_list_def import_ok_def split: option.splits yaml.splits)

lemma module_shaped_sections: "module_shaped content \<Longrightarrow> sections_ok content"
  by (simp add: module_shaped_def)

lemma shaped_file_content: "shaped_fs fs \<Longrightarrow> module_shaped (file_content fs mf)"
  by (auto simp: file_content_def shaped_fs_def list_all_iff split: option.splits
      dest!: safe_load_SomeD)

section \<open>Facts: one call\<close>

text \<open>A successful call on a located module: the imports, then the merge.\<close>

lemma process_module_found_Ok:
  assumes "name = YStr m" "name \<notin> visited_modules self"
    "find_yaml_file fs (search_paths self) m = Some mf"
    "load_yaml fs mf (py_print (Processing mf) (mark_visited name self)) = (content, self1)"
  shows "process_module fs name self = (Ok_None, self') \<longleftrightarrow>
     (\<exists>items s3. imports_list content = Inr items \<and>
        process_imports_list fs items self1 = (Ok_None, s3) \<and>
        merge_sections m content s3 = (Ok_None, self'))"
  using assms by (auto simp: process_module_found and_then_Inr_iff)

lemma load_yaml_state:
  assumes "load_yaml fs mf self = (content, self1)"
  shows "content = file_content fs mf" "visited_modules self1 = visited_modules self"
    "search_paths self1 = search_paths self" "widgets self1 = widgets self" "data self1 = data self"
    "agg_app_config self1 = agg_app_config self"
  using assms by (auto simp: load_yaml_def file_content_def split: option.splits)

section \<open>Facts: a traversal explores what its argument reaches\<close>

lemma process_module_explores:
  "process_module fs name self = (Ok_None, self') \<Longrightarrow>
     explored (agg_graph fs (search_paths self)) (visited_modules self) {name} (visited_modules self')"
  "process_imports_list fs names self = (Ok_None, self') \<Longrightarrow>
     explored (agg_graph fs (search_paths self)) (visited_modules self) (set names)
       (visited_modules self')"
proof (induction fs name self and fs names self arbitrary: self' and self'
    rule: process_module_process_imports_list.induct)
  case (1 fs name self)
  let ?G = "agg_graph fs (search_paths self)"
  show ?case
  proof (cases rule: process_module_cases [where name = name and self = self and fs = fs])
    case (found m mf content self1)
    from found(1) have h: "\<not> \<not> py_hashable name" by simp
    from "1.prems" obtain items s3 where items: "imports_list content = Inr items"
      and loop: "process_imports_list fs items self1 = (Ok_None, s3)"
      and merged: "merge_sections m content s3 = (Ok_None, self')"
      unfolding process_module_found_Ok [OF found] by blast
    note st = load_yaml_state [OF found(4)]
    from "1.IH" [OF h found(2,1,3) found(4) [unfolded mark_visited_def, symmetric] _ loop] items st
    have "explored ?G (insert name (visited_modules self)) (set items) (visited_modules s3)"
      by simp
    moreover from found(1,3) items st have "?G `` {name} = set items"
      by (simp add: agg_graph_Image agg_imports_found)
    moreover from merged have "visited_modules self' = visited_modules s3"
      using visited_merge_sections [of m content s3] by simp
    ultimately show ?thesis using found(2) by (auto intro: explored_node)
  next
    case (not_found m)
    then have "agg_graph fs (search_paths self) `` {name} = {}"
      by (simp add: agg_graph_Image agg_imports_not_found)
    from explored_leaf [OF this] not_found "1.prems" show ?thesis
      by (auto simp: process_module_not_found)
  qed (use "1.prems" in \<open>auto simp: process_module_unhashable process_module_visited
      process_module_not_str intro: explored_skip\<close>)
next
  case (2 fs self)
  then show ?case by (simp add: explored_skip)
next
  case (3 fs imported_module rest self)
  from "3.prems" obtain s where first: "process_module fs imported_module self = (Ok_None, s)"
    and rest: "process_imports_list fs rest s = (Ok_None, self')"
    by (auto simp: and_then_Inr_iff)
  from first have "search_paths s = search_paths self"
    using process_module_search_paths(1) [of fs imported_module self] by simp
  with "3.IH"(1) [OF first] "3.IH"(2) [OF first rest] show ?case
    by (auto dest: explored_seq)
qed

section \<open>Facts: a traversal of well-shaped modules does not raise\<close>

lemma process_module_never_raises:
  "shaped_fs fs \<Longrightarrow> \<exists>m. name = YStr m \<Longrightarrow> fst (process_module fs name self) = Ok_None"
  "shaped_fs fs \<Longrightarrow> only_strings names \<Longrightarrow> fst (process_imports_list fs names self) = Ok_None"
proof (induction fs name self and fs names self rule: process_module_process_imports_list.induct)
  case (1 fs name self)
  show ?case
  proof (cases rule: process_module_cases [where name = name and self = self and fs = fs])
    case (found m mf content self1)
    from found(1) have h: "\<not> \<not> py_hashable name" by simp
    from found(4) have content: "content = file_content fs mf" by (rule load_yaml_state)
    with "1.prems"(1) have shaped: "module_shaped content" by (simp add: shaped_file_content)
    then obtain items where items: "imports_list content = Inr items" "only_strings items"
      by (rule module_shaped_imports)
    from "1.IH" [OF h found(2,1,3) found(4) [unfolded mark_visited_def, symmetric] _ "1.prems"(1) items(2)]
      items(1)
    obtain s3 where "process_imports_list fs items self1 = (Ok_None, s3)"
      by (cases "process_imports_list fs items self1") auto
    with items(1) shaped found show ?thesis
      by (simp add: process_module_found module_shaped_sections merge_sections_ok)
  qed (use "1.prems" in \<open>auto simp: process_module_visited process_module_not_found\<close>)
next
  case (2 fs self)
  show ?case by simp
next
  case (3 fs imported_module rest self)
  from "3.prems" "3.IH"(1) obtain s where "process_module fs imported_module self = (Ok_None, s)"
    by (cases "process_module fs imported_module self") auto
  with "3.prems" "3.IH"(2) show ?case by simp
qed

section \<open>Facts: where the entries come from\<close>

lemma sourced_store_widget:
  assumes "sourced fs paths self0 s" and "YStr m \<in> visited_modules s"
    and "(k, d) \<in> set (agg_widgets_of fs paths m)"
  shows "sourced fs paths self0 (store_widget m k d s)"
  unfolding sourced_def
proof (intro conjI ballI, goal_cases)
  case (1 x)
  obtain k' m' d' where x: "x = (k', (m', d'))" by (cases x) auto
  with 1 have "k' = k \<and> (m', d') = (m, d) \<or> (k', (m', d')) \<in> set (widgets s)"
    by (auto dest: dict_set_entry)
  with assms x show ?case by (auto simp: sourced_def)
next
  case (2 x)
  with assms(1) show ?case by (auto simp: sourced_def)
qed

lemma sourced_store_data:
  assumes "sourced fs paths self0 s" and "YStr m \<in> visited_modules s"
    and "(k, d) \<in> set (agg_data_of fs paths m)"
  shows "sourced fs paths self0 (store_data k d s)"
  unfolding sourced_def
proof (intro conjI ballI, goal_cases)
  case (1 x)
  with assms(1) show ?case by (auto simp: sourced_def)
next
  case (2 x)
  obtain k' d' where x: "x = (k', d')" by (cases x)
  with 2 have "k' = k \<and> d' = d \<or> (k', d') \<in> set (data s)"
    by (auto dest: dict_set_entry)
  with assms x show ?case by (auto simp: sourced_def)
qed

lemma sourced_merge_sections:
  assumes "sourced fs paths self0 s" and "YStr m \<in> visited_modules s"
    and "find_yaml_file fs paths m = Some mf"
  shows "sourced fs paths self0 (snd (merge_sections m (file_content fs mf) s))"
proof -
  define Q where "Q s' \<longleftrightarrow> sourced fs paths self0 s' \<and> YStr m \<in> visited_modules s'" for s'
  from assms have "Q s" by (simp add: Q_def)
  then have "Q (snd (merge_sections m (file_content fs mf) s))"
  proof (rule merge_sections_keeps, goal_cases)
    case (1 s' k d)
    with assms(3) show ?case
      by (auto simp: Q_def agg_widgets_of_def intro!: sourced_store_widget)
  next
    case (2 s' k d)
    with assms(3) show ?case
      by (auto simp: Q_def agg_data_of_def intro!: sourced_store_data)
  next
    case (3 s')
    then show ?case by (simp add: Q_def sourced_def)
  qed
  then show ?thesis by (simp add: Q_def)
qed

lemma sourced_traversal:
  "sourced fs (search_paths self) self (snd (process_module fs name self))"
proof -
  let ?P = "\<lambda>s. sourced fs (search_paths self) self s \<and> search_paths s = search_paths self"
  have "keeping ?P self (snd (process_module fs name self))"
  proof (rule traversal_invariant(1) [where P = ?P], goal_cases)
    case (4 s m mf)
    then show ?case by (auto intro: sourced_merge_sections)
  qed (auto simp: sourced_def)
  then show ?thesis by (simp add: keeping_def)
qed

section \<open>Facts: every visited module is merged\<close>

lemma grown_refl [simp]: "grown self self"
  by (simp add: grown_def)

lemma grown_trans: "grown a b \<Longrightarrow> grown b c \<Longrightarrow> grown a c"
  by (auto simp: grown_def)

lemma grown_traversal:
  "grown self (snd (process_module fs name self))"
  "grown self (snd (process_imports_list fs names self))"
  by (rule aggregator_invariant [where P = "grown self"];
      auto simp: grown_def set_dict_keys_set)+

lemma grown_merge_sections: "grown self (snd (merge_sections m content self))"
  by (rule merge_sections_invariant [where P = "grown self"])
     (auto simp: grown_def set_dict_keys_set)

lemma module_merged_grown:
  "module_merged fs paths x s \<Longrightarrow> grown s s' \<Longrightarrow> module_merged fs paths x s'"
  by (auto simp: module_merged_def grown_def list_all_iff dict_has_keys split: yaml.splits)

lemma dict_keys_overwrite_widgets:
  "set (dict_keys (widgets (overwrite_widgets m items self))) =
     set (dict_keys items) \<union> set (dict_keys (widgets self))"
  by (induction items arbitrary: self) (auto simp: set_dict_keys_set)

lemma dict_keys_overwrite_data:
  "set (dict_keys (data (overwrite_data items self))) =
     set (dict_keys items) \<union> set (dict_keys (data self))"
  by (induction items arbitrary: self) (auto simp: set_dict_keys_set)

lemma module_merged_merge_sections:
  assumes "merge_sections m (file_content fs mf) s = (Ok_None, self')"
    and "find_yaml_file fs paths m = Some mf"
  shows "module_merged fs paths (YStr m) self'"
  using assms
  by (auto simp: merge_sections_Inr_iff module_merged_def agg_widgets_of_def agg_data_of_def
      list_all_iff dict_has_keys dict_keys_overwrite_widgets dict_keys_overwrite_data)

lemma module_merged_not_found:
  "find_yaml_file fs paths m = None \<Longrightarrow> module_merged fs paths (YStr m) self"
  by (simp add: module_merged_def agg_widgets_of_def agg_data_of_def)

lemma process_module_merges:
  "process_module fs name self = (Ok_None, self') \<Longrightarrow>
     \<forall>x \<in> visited_modules self' - visited_modules self. module_merged fs (search_paths self) x self'"
  "process_imports_list fs names self = (Ok_None, self') \<Longrightarrow>
     \<forall>x \<in> visited_modules self' - visited_modules self. module_merged fs (search_paths self) x self'"
proof (induction fs name self and fs names self arbitrary: self' and self'
    rule: process_module_process_imports_list.induct)
  case (1 fs name self)
  show ?case
  proof (cases rule: process_module_cases [where name = name and self = self and fs = fs])
    case (found m mf content self1)
    from found(1) have h: "\<not> \<not> py_hashable name" by simp
    from "1.prems" obtain items s3 where items: "imports_list content = Inr items"
      and loop: "process_imports_list fs items self1 = (Ok_None, s3)"
      and merged: "merge_sections m content s3 = (Ok_None, self')"
      unfolding process_module_found_Ok [OF found] by blast
    note st = load_yaml_state [OF found(4)]
    from "1.IH" [OF h found(2,1,3) found(4) [unfolded mark_visited_def, symmetric] _ loop] items st
    have "\<forall>x \<in> visited_modules s3 - insert name (visited_modules self).
        module_merged fs (search_paths self) x s3" by simp
    moreover from merged have "grown s3 self'" "visited_modules self' = visited_modules s3"
      using grown_merge_sections [of s3 m content] visited_merge_sections [of m content s3]
      by simp_all
    moreover from merged found(1,3) st have "module_merged fs (search_paths self) name self'"
      by (auto intro: module_merged_merge_sections)
    ultimately show ?thesis by (auto intro: module_merged_grown)
  next
    case (not_found m)
    with "1.prems" show ?thesis
      by (auto simp: process_module_not_found module_merged_def agg_widgets_of_def agg_data_of_def)
  qed (use "1.prems" in \<open>auto simp: process_module_unhashable process_module_visited
      process_module_not_str\<close>)
next
  case (2 fs self)
  then show ?case by simp
next
  case (3 fs imported_module rest self)
  from "3.prems" obtain s where first: "process_module fs imported_module self = (Ok_None, s)"
    and rest: "process_imports_list fs rest s = (Ok_None, self')"
    by (auto simp: and_then_Inr_iff)
  from first have sp: "search_paths s = search_paths self"
    using process_module_search_paths(1) [of fs imported_module self] by simp
  from rest have "grown s self'" using grown_traversal(2) [of s fs rest] by simp
  with "3.IH"(1) [OF first] "3.IH"(2) [OF first rest] sp show ?case
    by (auto intro: module_merged_grown)
qed

end
