(* ===== verification/Cli.thy ===== *)
theory Cli
  imports Agg_Reach
begin

text \<open>
  The document emitter and the command line of \<open>scripts/aggregate_demo_yaml.py\<close>:
  \<open>YAMLAggregator.save\<close> and \<open>main\<close>, the operations of \<open>pathlib\<close> they use, what they
  do to the file system, and the facts the theorems of theory \<open>Command_Line\<close> rest on.
\<close>

section \<open>Paths\<close>

text \<open>
  A path is the string \<open>pathlib\<close> prints for it: components separated by one \<open>/\<close>, no
  trailing separator, \<open>.\<close> for the current directory and \<open>/\<close> for the root.
  \<open>path_name\<close> is the attribute \<open>name\<close> (the last component, empty for \<open>.\<close> and \<open>/\<close>),
  \<open>path_parent\<close> the attribute \<open>parent\<close> (\<open>.\<close> for a single relative component, \<open>/\<close>
  above a single absolute one, and the two roots are their own parents). \<open>stem\<close> is
  what is before the last separator, and \<open>depth\<close> the measure by which going to the
  parent ends.
\<close>

definition path_name :: "path \<Rightarrow> string" where
  "path_name p = (if p = ''.'' then [] else rev (takeWhile (\<lambda>c. c \<noteq> CHR ''/'') (rev p)))"

definition stem :: "path \<Rightarrow> path" where
  "stem p = rev (drop 1 (dropWhile (\<lambda>c. c \<noteq> CHR ''/'') (rev p)))"

definition path_parent :: "path \<Rightarrow> path" where
  "path_parent p =
     (if CHR ''/'' \<notin> set p then ''.'' else if stem p = [] then ''/'' else stem p)"

definition depth :: "path \<Rightarrow> nat" where
  "depth p = (if path_parent p = p then 0 else Suc (length p))"

lemma length_stem: "CHR ''/'' \<in> set p \<Longrightarrow> length (stem p) < length p"
proof -
  assume "CHR ''/'' \<in> set p"
  then have "dropWhile (\<lambda>c. c \<noteq> CHR ''/'') (rev p) \<noteq> []" by simp
  then have "length (drop 1 (dropWhile (\<lambda>c. c \<noteq> CHR ''/'') (rev p)))
    < length (dropWhile (\<lambda>c. c \<noteq> CHR ''/'') (rev p))"
    by (cases "dropWhile (\<lambda>c. c \<noteq> CHR ''/'') (rev p)") simp_all
  also have "\<dots> \<le> length (rev p)" by (rule length_dropWhile_le)
  finally show ?thesis by (simp add: stem_def)
qed

lemma path_parent_simps [simp]:
  "path_parent ''.'' = ''.''" "path_parent ''/'' = ''/''"
  by (simp_all add: path_parent_def stem_def)

lemma path_parent_fixed_iff: "path_parent p = p \<longleftrightarrow> p = ''.'' \<or> p = ''/''"
proof
  assume fixed: "path_parent p = p"
  show "p = ''.'' \<or> p = ''/''"
  proof (cases "CHR ''/'' \<in> set p")
    case True
    with length_stem [of p] fixed show ?thesis by (auto simp: path_parent_def split: if_splits)
  qed (use fixed in \<open>simp add: path_parent_def\<close>)
qed auto

lemma depth_path_parent: "path_parent p \<noteq> p \<Longrightarrow> depth (path_parent p) < depth p"
  using length_stem [of p]
  by (auto simp: depth_def path_parent_fixed_iff) (auto simp: path_parent_def split: if_splits)

section \<open>Writing\<close>

text \<open>
  \<open>mkdir_parents\<close> is \<open>Path.mkdir(parents=True, exist_ok=True)\<close>: a path that exists
  is accepted if it is a directory and refused otherwise; a path that is missing is
  made after its parent has been; a root that is missing cannot be made. All refusals
  are subclasses of \<open>OSError\<close>. \<open>write_yaml\<close> is the \<open>with open(output_file, 'w')\<close>
  block: opening fails on a directory and under a parent that is not a directory;
  otherwise the file is created or replaced, and what is written (three comment lines
  and the \<open>yaml.dump\<close> of the content) is a text that \<open>yaml.safe_load\<close> reads back as
  the content, so the file is \<open>File (Some content)\<close>. The serializer itself is outside
  the model. \<open>save\<close> prints, makes the parent directory and writes.
\<close>

function mkdir_parents :: "path \<Rightarrow> filesystem \<Rightarrow> (py_exception, unit) result \<times> filesystem" where
  "mkdir_parents p fs =
     (if path_exists fs p then (if is_dir fs p then (Inr (), fs) else (Inl OSError, fs))
      else if path_parent p = p then (Inl OSError, fs)
      else and_then (mkdir_parents (path_parent p) fs) (\<lambda>_ fs. (Inr (), dict_set p Dir fs)))"
  by pat_completeness auto
termination
  by (relation "measure (\<lambda>(p, fs). depth p)") (simp_all add: depth_path_parent)

declare mkdir_parents.simps [simp del]

definition write_yaml :: "path \<Rightarrow> yaml \<Rightarrow> filesystem \<Rightarrow> (py_exception, unit) result \<times> filesystem" where
  "write_yaml p content fs =
     (if is_dir fs p \<or> \<not> is_dir fs (path_parent p) then (Inl OSError, fs)
      else (Inr (), dict_set p (File (Some content)) fs))"

definition save ::
  "filesystem \<Rightarrow> path \<Rightarrow> yaml \<Rightarrow> aggregator \<Rightarrow> (py_exception, unit) result \<times> filesystem \<times> aggregator" where
  "save fs output_file content self =
     (let self = py_print (Writing output_file) self;
          (made, fs) = mkdir_parents (path_parent output_file) fs
      in case made of
           Inl e \<Rightarrow> (Inl e, fs, self)
         | Inr _ \<Rightarrow> (let (written, fs) = write_yaml output_file content fs in (written, fs, self)))"

section \<open>The command line\<close>

text \<open>
  \<open>cli_args\<close> is the namespace \<open>parse_args\<close> returns: the demo directory, the output
  file if \<open>-o\<close> was given, the main module (\<open>app\<close> if \<open>-m\<close> was not given) and the list
  of the \<open>-s\<close> options, \<open>None\<close> without any. \<open>main\<close> returns the way the run ends
  (\<open>sys.exit(1)\<close> is the exception \<open>SystemExit 1\<close>, an exception of the aggregation or of
  \<open>save\<close> ends the run with it, and returning is exit status 0), the file system after
  the run, and the lines written to the two output streams in order. \<open>report\<close> is the
  four lines of the summary; \<open>len\<close> of the set of visited modules is its cardinality.
\<close>

record cli_args =
  arg_demo_dir :: path
  arg_output :: "path option"
  arg_main :: string
  arg_search_path :: "path list option"

definition default_output :: "path \<Rightarrow> path" where
  "default_output demo = path_join ''docs/examples'' (path_name demo @ ''.yaml'')"

definition report :: "path \<Rightarrow> aggregator \<Rightarrow> aggregator" where
  "report output_file self =
     py_print (Output_path output_file)
       (py_print (Data_count (length (data self)))
          (py_print (Widgets_count (length (widgets self)))
             (py_print (Aggregated (card (visited_modules self))) self)))"

definition main :: "cli_args \<Rightarrow> filesystem \<Rightarrow> (py_exception, unit) result \<times> filesystem \<times> message list" where
  "main args fs =
     (if \<not> path_exists fs (arg_demo_dir args)
      then (Inl (SystemExit 1), fs, [Missing_directory (arg_demo_dir args)])
      else if \<not> is_dir fs (arg_demo_dir args)
      then (Inl (SystemExit 1), fs, [Not_a_directory (arg_demo_dir args)])
      else
        let search_paths = arg_demo_dir args #
              (case arg_search_path args of Some extra \<Rightarrow> extra | None \<Rightarrow> []);
            output_file = (case arg_output args of
                             Some p \<Rightarrow> p
                           | None \<Rightarrow> default_output (arg_demo_dir args));
            (aggregated, aggregator) =
              aggregate fs (arg_main args) (new_aggregator (arg_demo_dir args) (Some search_paths))
        in case aggregated of
             Inl e \<Rightarrow> (Inl e, fs, printed aggregator)
           | Inr content \<Rightarrow>
               (case save fs output_file content aggregator of
                  (Inl e, fs, aggregator) \<Rightarrow> (Inl e, fs, printed aggregator)
                | (Inr _, fs, aggregator) \<Rightarrow> (Inr (), fs, printed (report output_file aggregator))))"


section \<open>Specification of the writes\<close>

text \<open>
  \<open>lineage p\<close> lists \<open>p\<close> and its ancestors up to the root. A directory is \<open>creatable\<close>
  when the nearest path of its lineage that exists is a directory, and a file is
  \<open>writable\<close> when its parent is creatable and the file is not a directory.
  \<open>made_dirs\<close> are the missing paths of the lineage from the top, \<open>make_dirs\<close> adds
  directories, and \<open>written\<close> is the file system after a successful \<open>save\<close>.
  \<open>cli_search_paths\<close>, \<open>cli_output\<close> and \<open>cli_aggregator\<close> name the search
  paths, the output file and the aggregator \<open>main\<close> computes from its arguments.
\<close>

function lineage :: "path \<Rightarrow> path list" where
  "lineage p = p # (if path_parent p = p then [] else lineage (path_parent p))"
  by pat_completeness auto
termination
  by (relation "measure depth") (simp_all add: depth_path_parent)

declare lineage.simps [simp del]

definition creatable :: "filesystem \<Rightarrow> path \<Rightarrow> bool" where
  "creatable fs p \<longleftrightarrow>
     (case find (path_exists fs) (lineage p) of Some a \<Rightarrow> is_dir fs a | None \<Rightarrow> False)"

definition writable :: "filesystem \<Rightarrow> path \<Rightarrow> bool" where
  "writable fs p \<longleftrightarrow> creatable fs (path_parent p) \<and> \<not> is_dir fs p"

definition made_dirs :: "filesystem \<Rightarrow> path \<Rightarrow> path list" where
  "made_dirs fs p = rev (takeWhile (\<lambda>a. \<not> path_exists fs a) (lineage p))"

definition make_dirs :: "filesystem \<Rightarrow> path list \<Rightarrow> filesystem" where
  "make_dirs fs dirs = foldl (\<lambda>fs a. dict_set a Dir fs) fs dirs"

definition written :: "filesystem \<Rightarrow> path \<Rightarrow> yaml \<Rightarrow> filesystem" where
  "written fs p content =
     dict_set p (File (Some content)) (make_dirs fs (made_dirs fs (path_parent p)))"

definition cli_search_paths :: "cli_args \<Rightarrow> path list" where
  "cli_search_paths args =
     arg_demo_dir args # (case arg_search_path args of Some extra \<Rightarrow> extra | None \<Rightarrow> [])"

definition cli_output :: "cli_args \<Rightarrow> path" where
  "cli_output args =
     (case arg_output args of Some p \<Rightarrow> p | None \<Rightarrow> default_output (arg_demo_dir args))"

definition cli_aggregator :: "cli_args \<Rightarrow> aggregator" where
  "cli_aggregator args = new_aggregator (arg_demo_dir args) (Some (cli_search_paths args))"

section \<open>Facts about the writes\<close>

lemma path_exists_set [simp]: "path_exists (dict_set q n fs) p \<longleftrightarrow> p = q \<or> path_exists fs p"
  by (simp add: path_exists_def)

lemma is_dir_set [simp]: "is_dir (dict_set q n fs) p \<longleftrightarrow> (if p = q then n = Dir else is_dir fs p)"
  by (simp add: is_dir_def)

lemma safe_load_set [simp]:
  "safe_load (dict_set q n fs) p =
     (if p = q then (case n of File (Some y) \<Rightarrow> Some y | _ \<Rightarrow> None) else safe_load fs p)"
  by (simp add: safe_load_def)

lemma creatable_exists [simp]: "path_exists fs p \<Longrightarrow> creatable fs p \<longleftrightarrow> is_dir fs p"
  unfolding creatable_def by (subst lineage.simps) simp

lemma creatable_root: "\<not> path_exists fs p \<Longrightarrow> path_parent p = p \<Longrightarrow> \<not> creatable fs p"
  unfolding creatable_def by (subst lineage.simps) simp

lemma creatable_missing:
  "\<not> path_exists fs p \<Longrightarrow> path_parent p \<noteq> p \<Longrightarrow> creatable fs p \<longleftrightarrow> creatable fs (path_parent p)"
  unfolding creatable_def by (subst lineage.simps) simp

lemma made_dirs_exists [simp]: "path_exists fs p \<Longrightarrow> made_dirs fs p = []"
  unfolding made_dirs_def by (subst lineage.simps) simp

lemma made_dirs_missing:
  "\<not> path_exists fs p \<Longrightarrow> path_parent p \<noteq> p \<Longrightarrow> made_dirs fs p = made_dirs fs (path_parent p) @ [p]"
  unfolding made_dirs_def by (subst lineage.simps) simp

lemma mkdir_parents_exists [simp]:
  "path_exists fs p \<Longrightarrow>
     mkdir_parents p fs = (if is_dir fs p then (Ok_None, fs) else (Inl OSError, fs))"
  by (subst mkdir_parents.simps) simp

lemma mkdir_parents_root:
  "\<not> path_exists fs p \<Longrightarrow> path_parent p = p \<Longrightarrow> mkdir_parents p fs = (Inl OSError, fs)"
  by (subst mkdir_parents.simps) simp

lemma mkdir_parents_missing:
  "\<not> path_exists fs p \<Longrightarrow> path_parent p \<noteq> p \<Longrightarrow>
     mkdir_parents p fs =
       and_then (mkdir_parents (path_parent p) fs) (\<lambda>_ fs. (Ok_None, dict_set p Dir fs))"
  by (subst mkdir_parents.simps) simp

lemma make_dirs_simps [simp]:
  "make_dirs fs [] = fs" "make_dirs fs (dirs @ [a]) = dict_set a Dir (make_dirs fs dirs)"
  by (simp_all add: make_dirs_def)

lemma mkdir_parents_spec:
  "mkdir_parents p fs =
     (if creatable fs p then (Ok_None, make_dirs fs (made_dirs fs p))
      else (Inl OSError, fs))"
proof (induction p fs rule: mkdir_parents.induct)
  case (1 p fs)
  show ?case
  proof (cases "path_exists fs p \<or> path_parent p = p")
    case True
    then show ?thesis
      by (cases "path_exists fs p") (simp_all add: mkdir_parents_root creatable_root)
  next
    case False
    with 1 show ?thesis
      by (simp add: mkdir_parents_missing creatable_missing made_dirs_missing)
  qed
qed

lemma made_dirs_fresh: "a \<in> set (made_dirs fs p) \<Longrightarrow> \<not> path_exists fs a"
  by (auto simp: made_dirs_def dest: set_takeWhileD)

lemma dict_get_make_dirs [simp]:
  "dict_get (make_dirs fs dirs) q = (if q \<in> set dirs then Some Dir else dict_get fs q)"
  unfolding make_dirs_def by (induction dirs arbitrary: fs) auto

lemma path_exists_make_dirs [simp]:
  "path_exists (make_dirs fs dirs) q \<longleftrightarrow> q \<in> set dirs \<or> path_exists fs q"
  using dict_get_make_dirs [of fs dirs q] dict_get_None_iff [of "make_dirs fs dirs" q]
    dict_get_None_iff [of fs q]
  by (auto simp: path_exists_def split: if_splits)

lemma is_dir_make_dirs [simp]: "is_dir (make_dirs fs dirs) q \<longleftrightarrow> q \<in> set dirs \<or> is_dir fs q"
  by (simp add: is_dir_def)

lemma dict_wf_make_dirs [simp]: "dict_wf fs \<Longrightarrow> dict_wf (make_dirs fs dirs)"
  unfolding make_dirs_def by (induction dirs arbitrary: fs) auto

lemma last_made_dirs:
  "creatable fs p \<Longrightarrow> \<not> path_exists fs p \<Longrightarrow> p \<in> set (made_dirs fs p)"
  by (cases "path_parent p = p") (simp_all add: creatable_root made_dirs_missing)



lemma set_lineage:
  "set (lineage p) = insert p (if path_parent p = p then {} else set (lineage (path_parent p)))"
  by (subst lineage.simps) simp

lemma lineage_depth: "a \<in> set (lineage p) \<Longrightarrow> depth a \<le> depth p"
proof (induction p rule: lineage.induct)
  case (1 p)
  from "1.prems" consider "a = p" | "path_parent p \<noteq> p" "a \<in> set (lineage (path_parent p))"
    by (subst (asm) set_lineage) (auto split: if_splits)
  then show ?case
  proof cases
    case 2
    with "1.IH" depth_path_parent [of p] show ?thesis by simp
  qed simp
qed

lemma set_made_dirs: "set (made_dirs fs p) \<subseteq> set (lineage p)"
  by (auto simp: made_dirs_def dest: set_takeWhileD)

lemma self_not_made:
  assumes "creatable fs (path_parent p)"
  shows "p \<notin> set (made_dirs fs (path_parent p))"
proof (cases "path_parent p = p")
  case True
  with assms creatable_root [of fs p] show ?thesis by (cases "path_exists fs p") simp_all
next
  case False
  from depth_path_parent [OF this] lineage_depth [of p "path_parent p"] set_made_dirs [of fs "path_parent p"]
  show ?thesis by auto
qed

lemma is_dir_made: "creatable fs p \<Longrightarrow> p \<in> set (made_dirs fs p) \<or> is_dir fs p"
  using last_made_dirs [of fs p] by (cases "path_exists fs p") simp_all

lemma save_spec:
  "save fs p content self =
     (if writable fs p then (Ok_None, written fs p content, py_print (Writing p) self)
      else (Inl OSError,
            if creatable fs (path_parent p) then make_dirs fs (made_dirs fs (path_parent p)) else fs,
            py_print (Writing p) self))"
  using self_not_made [of fs p] is_dir_made [of fs "path_parent p"]
  by (auto simp: save_def mkdir_parents_spec write_yaml_def writable_def written_def)

lemma dict_get_written:
  "dict_get (written fs p content) q =
     (if q = p then Some (File (Some content))
      else if q \<in> set (made_dirs fs (path_parent p)) then Some Dir else dict_get fs q)"
  by (simp add: written_def)

lemma path_exists_written:
  "path_exists (written fs p content) q \<longleftrightarrow>
     q = p \<or> q \<in> set (made_dirs fs (path_parent p)) \<or> path_exists fs q"
  by (simp add: written_def)

lemma is_dir_written:
  "is_dir (written fs p content) q \<longleftrightarrow>
     q \<noteq> p \<and> (q \<in> set (made_dirs fs (path_parent p)) \<or> is_dir fs q)"
  by (auto simp: written_def)

lemma safe_load_written [simp]: "safe_load (written fs p content) p = Some content"
  by (simp add: written_def)

lemma written_frame: "path_exists fs q \<Longrightarrow> q \<noteq> p \<Longrightarrow> dict_get (written fs p content) q = dict_get fs q"
  by (auto simp: dict_get_written dest: made_dirs_fresh)

lemma main_not_directory:
  "\<not> is_dir fs (arg_demo_dir args) \<Longrightarrow>
     main args fs = (Inl (SystemExit 1), fs,
       [if path_exists fs (arg_demo_dir args) then Not_a_directory (arg_demo_dir args)
        else Missing_directory (arg_demo_dir args)])"
  by (simp add: main_def)

lemma main_directory:
  "is_dir fs (arg_demo_dir args) \<Longrightarrow>
     main args fs =
       (case aggregate fs (arg_main args) (cli_aggregator args) of
          (Inl e, self) \<Rightarrow> (Inl e, fs, printed self)
        | (Inr doc, self) \<Rightarrow>
            if writable fs (cli_output args)
            then (Ok_None, written fs (cli_output args) doc,
                  printed (report (cli_output args) (py_print (Writing (cli_output args)) self)))
            else (Inl OSError,
                  if creatable fs (path_parent (cli_output args))
                  then make_dirs fs (made_dirs fs (path_parent (cli_output args))) else fs,
                  printed self @ [Writing (cli_output args)]))"
  by (auto simp: main_def is_dir_exists save_spec cli_output_def cli_aggregator_def
      cli_search_paths_def py_print_def Let_def split: prod.splits sum.splits)


section \<open>Facts: names of paths\<close>

lemma no_slash_path_name [simp]: "CHR ''/'' \<notin> set (path_name p)"
  by (auto simp: path_name_def dest: set_takeWhileD)

lemma stem_join [simp]: "CHR ''/'' \<notin> set n \<Longrightarrow> stem (d @ CHR ''/'' # n) = d"
proof -
  assume "CHR ''/'' \<notin> set n"
  then have "dropWhile (\<lambda>c. c \<noteq> CHR ''/'') (rev n) = []" by auto
  then show ?thesis by (simp add: stem_def dropWhile_append)
qed

lemma path_name_join [simp]: "CHR ''/'' \<notin> set n \<Longrightarrow> n \<noteq> ''.'' \<Longrightarrow> path_name (d @ CHR ''/'' # n) = n"
proof -
  assume "CHR ''/'' \<notin> set n"
  then have "takeWhile (\<lambda>c. c \<noteq> CHR ''/'') (rev n) = rev n" by auto
  moreover have "d @ CHR ''/'' # n \<noteq> ''.''" by (cases d) auto
  ultimately show ?thesis by (simp add: path_name_def takeWhile_append)
qed

lemma default_output_join: "default_output demo = ''docs/examples/'' @ path_name demo @ ''.yaml''"
  using no_slash_path_name [of demo]
  by (cases "path_name demo") (auto simp: default_output_def path_join_def)

end
