(* ===== verification/Aggregation.thy ===== *)
theory Aggregation
  imports Agg_Reach
begin

text \<open>
  What \<open>YAMLAggregator.aggregate\<close> promises and where it is more permissive than the
  contract of the specification, as theorems over the definitions of theory
  \<open>Aggregator\<close>, each instantiated on a concrete file system.
\<close>

section \<open>Fixtures\<close>

text \<open>
  \<open>spec_fs\<close> is the three-module scenario of the specification with a cycle added:
  \<open>main\<close> imports \<open>a\<close> and \<open>b\<close>, \<open>a\<close> imports \<open>c\<close> (as a bare string), \<open>c\<close> imports
  \<open>main\<close> again, and \<open>b\<close> and \<open>c\<close> both define the widget \<open>x\<close>. \<open>spec_result\<close> is the
  aggregator after the run on it. In \<open>broken_fs\<close> the file of the main module cannot be
  parsed.
\<close>

definition spec_fs :: filesystem where
  "spec_fs =
     [(''demo'', Dir),
      (''demo/main.yaml'', File (Some (YMap
        [(''import'', YSeq [YStr ''a'', YStr ''b'']),
         (''widgets'', YMap [(''root'', YStr ''window'')]),
         (''app'', YMap [(''widget'', YStr ''main.root'')])]))),
      (''demo/a.yaml'', File (Some (YMap
        [(''import'', YStr ''c''),
         (''widgets'', YMap [(''panel'', YStr ''group'')])]))),
      (''demo/b.yaml'', File (Some (YMap
        [(''widgets'', YMap [(''x'', YStr ''from b'')])]))),
      (''demo/c.yaml'', File (Some (YMap
        [(''import'', YSeq [YStr ''main'']),
         (''widgets'', YMap [(''x'', YStr ''from c'')]),
         (''data'', YMap [(''greeting'', YStr ''hi'')])])))]"

definition fresh :: aggregator where
  "fresh = new_aggregator ''demo'' None"

definition spec_result :: aggregator where
  "spec_result =
     \<lparr>demo_dir = ''demo'', search_paths = [''demo''],
      widgets = [(''x'', (''b'', YStr ''from b'')), (''panel'', (''a'', YStr ''group'')),
                 (''root'', (''main'', YStr ''window''))],
      data = [(''greeting'', YStr ''hi'')],
      agg_app_config = YMap [(''widget'', YStr ''main.root'')],
      visited_modules = {YStr ''main'', YStr ''a'', YStr ''b'', YStr ''c''},
      printed = [Aggregating ''main'', Processing ''demo/main.yaml'', Processing ''demo/a.yaml'',
                 Processing ''demo/c.yaml'', Processing ''demo/b.yaml'',
                 Duplicate_widget ''x'' ''b'']\<rparr>"

definition broken_fs :: filesystem where
  "broken_fs = [(''demo'', Dir), (''demo/main.yaml'', File None)]"

text \<open>The unfoldings that let the simplifier run the aggregator on a concrete file system.\<close>

lemmas agg_eval =
  fresh_def new_aggregator_def aggregate_def build_result_def process_module.simps load_yaml_def loaded_content_def
  imports_list_def merge_sections_def store_widget_def store_data_def py_print_def
  find_yaml_file_def yaml_filename_def module_path_def path_join_def path_exists_def
  safe_load_def dict_of_items_def Let_def

lemmas shape_eval =
  shaped_fs_def module_shaped_def import_ok_def sections_ok_def section_items_def
  loaded_content_def wf_fs_def values_wf_def agg_wf_def

lemma fresh_fields [simp]:
  "search_paths fresh = [''demo'']" "widgets fresh = []" "data fresh = []"
  "agg_app_config fresh = YNull" "visited_modules fresh = {}" "printed fresh = []"
  by (simp_all add: fresh_def new_aggregator_def)

lemma spec_result_fields [simp]:
  "search_paths spec_result = [''demo'']"
  "visited_modules spec_result = {YStr ''main'', YStr ''a'', YStr ''b'', YStr ''c''}"
  "widgets spec_result = [(''x'', (''b'', YStr ''from b'')), (''panel'', (''a'', YStr ''group'')),
     (''root'', (''main'', YStr ''window''))]"
  "data spec_result = [(''greeting'', YStr ''hi'')]"
  "agg_app_config spec_result = YMap [(''widget'', YStr ''main.root'')]"
  by (simp_all add: spec_result_def)

lemma spec_aggregate:
  "aggregate spec_fs ''main'' fresh =
     (Inr (YMap [(''app'', YMap [(''widget'', YStr ''main.root'')]),
                 (''widgets'', YMap [(''x'', YStr ''from b''), (''panel'', YStr ''group''),
                                     (''root'', YStr ''window'')]),
                 (''data'', YMap [(''greeting'', YStr ''hi'')])]),
      spec_result)"
  by (simp add: spec_fs_def spec_result_def agg_eval insert_commute)

lemma spec_fs_shaped: "shaped_fs spec_fs"
  by (simp add: spec_fs_def shape_eval)

lemma spec_fs_wf: "wf_fs spec_fs"
  by (simp add: spec_fs_def shape_eval)

lemma module_mergedD:
  "module_merged fs paths (YStr m) s \<Longrightarrow>
     set (dict_keys (agg_widgets_of fs paths m)) \<subseteq> set (dict_keys (widgets s)) \<and>
     set (dict_keys (agg_data_of fs paths m)) \<subseteq> set (dict_keys (data s))"
  by (auto simp: module_merged_def list_all_iff dict_has_keys)

lemma sourcedD:
  "sourced fs paths self0 s \<Longrightarrow> widgets self0 = [] \<Longrightarrow> (k, (m, d)) \<in> set (widgets s) \<Longrightarrow>
     YStr m \<in> visited_modules s \<and> (k, d) \<in> set (agg_widgets_of fs paths m)"
  by (auto simp: sourced_def)

section \<open>What a run visits\<close>

text \<open>
  C4: When \<open>aggregate\<close> returns a document on an aggregator that had visited nothing,
  the modules it has visited are exactly those reachable from the main module in the
  import graph, which may have cycles.
\<close>

theorem aggregate_visits_reachable:
  assumes "aggregate fs main_module self = (Inr doc, self')" and "visited_modules self = {}"
  shows "visited_modules self' = (agg_graph fs (search_paths self))\<^sup>* `` {YStr main_module}"
proof -
  from assms(1) have "process_module fs (YStr main_module)
      (py_print (Aggregating main_module) self) = (Ok_None, self')"
    by (simp add: aggregate_Inr_iff)
  from process_module_explores(1) [OF this] assms(2) show ?thesis
    by (auto dest: explored_all)
qed

theorem aggregate_visits_reachable_witness:
  "{YStr ''main'', YStr ''a'', YStr ''b'', YStr ''c''} =
     (agg_graph spec_fs [''demo''])\<^sup>* `` {YStr ''main''}"
  using aggregate_visits_reachable [OF spec_aggregate] by simp

text \<open>
  On a file system whose documents all have the shape of a module (the sections
  are mappings, the import entry is a string or a list of strings) \<open>aggregate\<close>
  raises no exception: it returns a document, whatever files are missing or unreadable.
\<close>

theorem aggregate_never_raises:
  assumes "shaped_fs fs"
  shows "\<exists>doc self'. aggregate fs main_module self = (Inr doc, self')"
proof -
  let ?run = "process_module fs (YStr main_module) (py_print (Aggregating main_module) self)"
  have "fst ?run = Ok_None"
    by (rule process_module_never_raises(1) [OF assms]) simp
  then have "?run = (Ok_None, snd ?run)" by (simp add: prod_eq_iff)
  then show ?thesis by (auto simp: aggregate_Inr_iff)
qed

theorem aggregate_never_raises_witness:
  "\<exists>doc self'. aggregate spec_fs ''main'' (mark_visited (YStr ''b'') fresh) = (Inr doc, self')"
  using aggregate_never_raises [OF spec_fs_shaped] .

section \<open>What a run merges\<close>

text \<open>
  C7: After \<open>aggregate\<close> has returned a document on an aggregator that was empty, the
  names in the widget dictionary are exactly the widget names of the files of the
  modules reachable from the main module, and every entry holds, with its owner, a
  definition that the file of the owner gives for the name.
\<close>

theorem aggregated_widgets_are_reachable_widgets:
  assumes "aggregate fs main_module self = (Inr doc, self')"
    and "visited_modules self = {}" and "widgets self = []"
  shows "set (dict_keys (widgets self')) =
           (\<Union>m \<in> {m. YStr m \<in> (agg_graph fs (search_paths self))\<^sup>* `` {YStr main_module}}.
              set (dict_keys (agg_widgets_of fs (search_paths self) m))) \<and>
         (\<forall>(k, (m, d)) \<in> set (widgets self').
            YStr m \<in> (agg_graph fs (search_paths self))\<^sup>* `` {YStr main_module} \<and>
            (k, d) \<in> set (agg_widgets_of fs (search_paths self) m))"
proof (intro conjI equalityI subsetI)
  let ?start = "py_print (Aggregating main_module) self"
  let ?paths = "search_paths self"
  let ?R = "(agg_graph fs ?paths)\<^sup>* `` {YStr main_module}"
  from assms(1) have run: "process_module fs (YStr main_module) ?start = (Ok_None, self')"
    by (simp add: aggregate_Inr_iff)
  from process_module_explores(1) [OF run] assms(2) have R: "visited_modules self' = ?R"
    by (auto dest: explored_all)
  from sourced_traversal [of fs ?start "YStr main_module"] run assms(3)
  have src: "YStr m \<in> ?R \<and> (k, d) \<in> set (agg_widgets_of fs ?paths m)"
    if "(k, (m, d)) \<in> set (widgets self')" for k m d
    using that sourcedD [of fs ?paths ?start self' k m d] by (simp add: R)
  then show "\<forall>(k, (m, d)) \<in> set (widgets self').
      YStr m \<in> ?R \<and> (k, d) \<in> set (agg_widgets_of fs ?paths m)"
    by blast
  show "k \<in> (\<Union>m \<in> {m. YStr m \<in> ?R}. set (dict_keys (agg_widgets_of fs ?paths m)))"
    if "k \<in> set (dict_keys (widgets self'))" for k
  proof -
    from that obtain m d where "(k, (m, d)) \<in> set (widgets self')"
      by (auto simp: dict_keys_def)
    from src [OF this] show ?thesis by (force simp: dict_keys_def)
  qed
  show "k \<in> set (dict_keys (widgets self'))"
    if "k \<in> (\<Union>m \<in> {m. YStr m \<in> ?R}. set (dict_keys (agg_widgets_of fs ?paths m)))" for k
  proof -
    from that obtain m where m: "YStr m \<in> ?R" "k \<in> set (dict_keys (agg_widgets_of fs ?paths m))"
      by blast
    from process_module_merges(1) [OF run] assms(2) R m(1)
    have "module_merged fs ?paths (YStr m) self'" by simp
    with m(2) show ?thesis by (auto dest: module_mergedD)
  qed
qed

theorem aggregated_widgets_are_reachable_widgets_witness:
  "set [''x'', ''panel'', ''root''] =
     (\<Union>m \<in> {m. YStr m \<in> (agg_graph spec_fs [''demo''])\<^sup>* `` {YStr ''main''}}.
        set (dict_keys (agg_widgets_of spec_fs [''demo''] m)))"
  using aggregated_widgets_are_reachable_widgets [OF spec_aggregate] by simp

text \<open>
  The merge of the widgets of a module is permissive: afterwards every item of
  the module is in the dictionary with the module as its owner, every other name holds
  what it held, and one warning has been printed for each item whose name was present,
  in the order of the items.
\<close>

theorem overwrite_widgets_last_writer_wins:
  assumes "dict_wf items"
  shows "dict_get (widgets (overwrite_widgets m items self)) k =
           (case dict_get items k of Some d \<Rightarrow> Some (m, d) | None \<Rightarrow> dict_get (widgets self) k) \<and>
         printed (overwrite_widgets m items self) =
           printed self @ map (\<lambda>(k, d). Duplicate_widget k m)
             (filter (\<lambda>(k, d). dict_has k (widgets self)) items)"
  using assms by (simp add: dict_get_overwrite_widgets dict_get_rev printed_overwrite_widgets)

theorem overwrite_widgets_last_writer_wins_witness:
  "dict_get (widgets (overwrite_widgets ''b'' [(''x'', YStr ''from b'')]
       (fresh\<lparr>widgets := [(''x'', (''c'', YStr ''from c''))]\<rparr>))) ''x'' = Some (''b'', YStr ''from b'') \<and>
   printed (overwrite_widgets ''b'' [(''x'', YStr ''from b'')]
       (fresh\<lparr>widgets := [(''x'', (''c'', YStr ''from c''))]\<rparr>)) = [Duplicate_widget ''x'' ''b'']"
  using overwrite_widgets_last_writer_wins [of "[(''x'', YStr ''from b'')]" "''b''"
      "fresh\<lparr>widgets := [(''x'', (''c'', YStr ''from c''))]\<rparr>" "''x''"]
  by simp

section \<open>The output document\<close>

text \<open>
  C29: \<open>process_widget_references\<close> returns a value equal to its argument, for every
  value whose mappings have distinct keys.
\<close>

theorem process_widget_references_identity:
  assumes "wf_yaml obj"
  shows "process_widget_references obj = obj"
  using assms by (rule process_widget_references_id)

theorem process_widget_references_identity_witness:
  "process_widget_references
     (YMap [(''type'', YStr ''window''), (''body'', YSeq [YMap [(''text'', YStr ''hi'')], YInt 3])]) =
   YMap [(''type'', YStr ''window''), (''body'', YSeq [YMap [(''text'', YStr ''hi'')], YInt 3])]"
  using process_widget_references_identity
    [of "YMap [(''type'', YStr ''window''), (''body'', YSeq [YMap [(''text'', YStr ''hi'')], YInt 3])]"]
  by simp

text \<open>
  C24: Over a well-formed file system and from an object with well-formed values, the
  document \<open>aggregate\<close> returns has the \<open>app\<close> section exactly when the
  configuration is truthy, the \<open>widgets\<close> section exactly when a widget was merged and
  the \<open>data\<close> section exactly when a data entry was merged, in this order, holding
  the configuration, the widget definitions without their owners and the data entries.
\<close>

theorem aggregate_returns_output_document:
  assumes "wf_fs fs" and "values_wf self"
    and "aggregate fs main_module self = (Inr doc, self')"
  shows "doc = output_document self'"
proof -
  from assms(2) have "values_wf (py_print (Aggregating main_module) self)"
    by (simp add: values_wf_def agg_wf_def)
  from values_wf_traversal [OF assms(1) this, of "YStr main_module"] assms(3)
  show ?thesis by (simp add: aggregate_Inr_iff build_result_wf)
qed

theorem aggregate_returns_output_document_witness:
  "YMap [(''app'', YMap [(''widget'', YStr ''main.root'')]),
         (''widgets'', YMap [(''x'', YStr ''from b''), (''panel'', YStr ''group''),
                             (''root'', YStr ''window'')]),
         (''data'', YMap [(''greeting'', YStr ''hi'')])] = output_document spec_result"
  using aggregate_returns_output_document [OF spec_fs_wf _ spec_aggregate]
  by (simp add: shape_eval)

section \<open>The object stays well formed\<close>

text \<open>
  \<open>aggregate\<close>, whatever it returns, keeps the keys of the widget dictionary and
  of the data dictionary distinct.
\<close>

theorem aggregate_keeps_wf:
  assumes "agg_wf self"
  shows "agg_wf (snd (aggregate fs main_module self))"
proof -
  from assms have "agg_wf (py_print (Aggregating main_module) self)"
    by (simp add: agg_wf_def)
  then show ?thesis unfolding snd_aggregate by (rule process_module_wf)
qed

theorem aggregate_keeps_wf_witness: "agg_wf (snd (aggregate spec_fs ''main'' fresh))"
  using aggregate_keeps_wf [of fresh spec_fs "''main''"] by (simp add: agg_wf_def)

section \<open>Where the aggregator is more permissive than its contract\<close>

text \<open>
  C36: A module file that cannot be opened or parsed does not stop the aggregation: the
  call for the module succeeds, the error is printed, and the module counts as empty.
\<close>

theorem load_error_is_swallowed:
  assumes "YStr m \<notin> visited_modules self"
    and "find_yaml_file fs (search_paths self) m = Some mf" and "safe_load fs mf = None"
  shows "process_module fs (YStr m) self =
           (Ok_None, py_print (Error_loading mf) (py_print (Processing mf) (mark_visited (YStr m) self)))"
proof -
  from assms(3) have "load_yaml fs mf (py_print (Processing mf) (mark_visited (YStr m) self)) =
      (YMap [], py_print (Error_loading mf) (py_print (Processing mf) (mark_visited (YStr m) self)))"
    by (simp add: load_yaml_def)
  from process_module_found [OF assms(1,2) this] show ?thesis
    by (simp add: imports_list_def merge_sections_def)
qed

theorem load_error_is_swallowed_witness:
  "aggregate broken_fs ''main'' fresh =
     (Inr (YMap []),
      py_print (Error_loading ''demo/main.yaml'') (py_print (Processing ''demo/main.yaml'')
        (mark_visited (YStr ''main'') (py_print (Aggregating ''main'') fresh))))"
  using load_error_is_swallowed [of "''main''" "py_print (Aggregating ''main'') fresh" broken_fs
      "''demo/main.yaml''"]
  by (simp add: aggregate_def build_result_def broken_fs_def find_yaml_file_def yaml_filename_def
      module_path_def path_join_def path_exists_def safe_load_def)

text \<open>
  An \<open>app\<close> section replaces the configuration taken from an earlier module, and
  nothing is printed about it: the merge of a module that has only an \<open>app\<close> section
  changes the configuration and nothing else.
\<close>

theorem later_app_section_replaces_silently:
  assumes "dict_get kvs ''app'' = Some app"
    and "\<not> dict_has ''widgets'' kvs" and "\<not> dict_has ''data'' kvs"
  shows "merge_sections m (YMap kvs) self = (Ok_None, self\<lparr>agg_app_config := app\<rparr>)"
  using assms
  by (simp add: merge_sections_def dict_get_None_iff [symmetric] dict_get_Some_has)

theorem later_app_section_replaces_silently_witness:
  "merge_sections ''late'' (YMap [(''app'', YStr ''second'')]) (fresh\<lparr>agg_app_config := YStr ''first''\<rparr>) =
     (Ok_None, fresh\<lparr>agg_app_config := YStr ''second''\<rparr>)"
  using later_app_section_replaces_silently
    [of "[(''app'', YStr ''second'')]" "YStr ''second''" "''late''" "fresh\<lparr>agg_app_config := YStr ''first''\<rparr>"]
  by simp

text \<open>
  \<open>aggregate\<close> validates nothing after the traversal: when no file exists for the
  main module, it returns the empty document on an aggregator that was empty.
\<close>

theorem missing_main_module_gives_empty_document:
  assumes "find_yaml_file fs (search_paths self) main_module = None"
    and "YStr main_module \<notin> visited_modules self"
    and "widgets self = []" and "data self = []" and "agg_app_config self = YNull"
  shows "fst (aggregate fs main_module self) = Inr (YMap [])"
  using assms
  by (simp add: aggregate_def process_module_not_found build_result_def)

theorem missing_main_module_gives_empty_document_witness:
  "fst (aggregate [] ''main'' fresh) = Inr (YMap [])"
  using missing_main_module_gives_empty_document [of "[]" fresh "''main''"]
  by (simp add: find_yaml_file_def path_exists_def)

section \<open>Round trip\<close>

text \<open>
  C26: The aggregated document is a module that aggregates to itself. If \<open>aggregate\<close>
  has returned a document over well-formed files, and that document is the file of a
  module of some file system, then \<open>aggregate\<close> from that module on an aggregator that
  is empty returns the same document, with the same widgets (owners apart), the same
  data, and the same \<open>app\<close> configuration unless that was falsy, in which case it is
  \<open>None\<close>.
\<close>

theorem aggregation_round_trip:
  assumes "aggregate fs main_module self = (Inr doc, self1)" and "wf_fs fs" and "values_wf self"
    and "find_yaml_file fs' (search_paths self0) m = Some mf" and "safe_load fs' mf = Some doc"
    and "widgets self0 = []" and "data self0 = []" and "agg_app_config self0 = YNull"
    and "visited_modules self0 = {}"
  shows "\<exists>self2. aggregate fs' m self0 = (Inr doc, self2) \<and>
           strip_owner (widgets self2) = strip_owner (widgets self1) \<and>
           data self2 = data self1 \<and>
           agg_app_config self2 =
             (if py_truthy (agg_app_config self1) then agg_app_config self1 else YNull)"
proof -
  define self2 where "self2 = snd (process_module fs' (YStr m) (py_print (Aggregating m) self0))"
  from assms(1) have run: "process_module fs (YStr main_module)
      (py_print (Aggregating main_module) self) = (Ok_None, self1)" and doc: "doc = build_result self1"
    by (simp_all add: aggregate_Inr_iff)
  from assms(3) have "values_wf (py_print (Aggregating main_module) self)"
    by (simp add: values_wf_def agg_wf_def)
  from values_wf_traversal [OF assms(2) this, of "YStr main_module"] run
  have wf1: "values_wf self1" by simp
  then have out: "doc = output_document self1" by (simp add: doc build_result_wf)
  note again = process_module_reloaded [OF assms(4) assms(5) [unfolded out] assms(9)]
  then have ok: "process_module fs' (YStr m) (py_print (Aggregating m) self0) = (Ok_None, self2)"
    by (simp add: self2_def)
  from wf1 assms(6) have w2: "widgets self2 = map (\<lambda>(k, d). (k, (m, d))) (strip_owner (widgets self1))"
    unfolding self2_def again by (simp add: overwrite_widgets_empty values_wf_def agg_wf_def)
  from wf1 assms(7) have d2: "data self2 = data self1"
    unfolding self2_def again by (simp add: overwrite_data_empty values_wf_def agg_wf_def)
  from assms(8) have a2: "agg_app_config self2 =
      (if py_truthy (agg_app_config self1) then agg_app_config self1 else YNull)"
    unfolding self2_def again by (simp add: take_app_entry_def output_document_sections)
  from requalified [OF wf1 w2 d2 a2] have "build_result self2 = doc"
    by (simp add: build_result_wf out)
  with ok have "aggregate fs' m self0 = (Inr doc, self2)" by (simp add: aggregate_Inr_iff)
  with w2 d2 a2 show ?thesis by (intro exI [of _ self2]) simp
qed

theorem aggregation_round_trip_witness:
  "\<exists>self2. aggregate [(''out'', Dir), (''out/all.yaml'', File (Some (build_result spec_result)))]
       ''all'' (new_aggregator ''out'' None) = (Inr (build_result spec_result), self2) \<and>
     strip_owner (widgets self2) =
       [(''x'', YStr ''from b''), (''panel'', YStr ''group''), (''root'', YStr ''window'')] \<and>
     data self2 = [(''greeting'', YStr ''hi'')]"
proof -
  let ?fs = "[(''out'', Dir), (''out/all.yaml'', File (Some (build_result spec_result)))]"
  have "aggregate spec_fs ''main'' fresh = (Inr (build_result spec_result), spec_result)"
    using spec_aggregate by (simp add: aggregate_Inr_iff)
  moreover have "values_wf fresh" by (simp add: values_wf_def agg_wf_def fresh_def new_aggregator_def)
  moreover have "find_yaml_file ?fs (search_paths (new_aggregator ''out'' None)) ''all'' = Some ''out/all.yaml''"
    "safe_load ?fs ''out/all.yaml'' = Some (build_result spec_result)"
    by (simp_all add: new_aggregator_def find_yaml_file_def yaml_filename_def module_path_def
        path_join_def path_exists_def safe_load_def)
  moreover have "strip_owner (widgets spec_result) =
      [(''x'', YStr ''from b''), (''panel'', YStr ''group''), (''root'', YStr ''window'')]"
    by (simp add: strip_owner_def)
  ultimately show ?thesis
    using aggregation_round_trip [OF _ spec_fs_wf, of "''main''" fresh "build_result spec_result"
        spec_result ?fs "new_aggregator ''out'' None" "''all''" "''out/all.yaml''"]
    by (auto simp: new_aggregator_def)
qed

end
