(* ===== verification/Command_Line.thy ===== *)
theory Command_Line
  imports Cli Aggregation
begin

text \<open>
  What a run of \<open>scripts/aggregate_demo_yaml.py\<close> does, as theorems over \<open>main\<close> and
  \<open>save\<close> of theory \<open>Cli\<close>: how the run ends, what it writes and what it leaves alone,
  each instantiated on a concrete file system.
\<close>

section \<open>Fixtures\<close>

text \<open>
  \<open>cli_fs\<close> is the scenario of theory \<open>Aggregation\<close> with the current directory, and
  \<open>demo_args\<close> the command line \<open>demo -m main\<close>. In \<open>orphan_fs\<close> the main module imports
  a module that has no file. \<open>path_eval\<close> holds the unfoldings that let the
  simplifier decide what can be written on concrete paths.
\<close>

definition cli_fs :: filesystem where
  "cli_fs = (''.'', Dir) # spec_fs"

definition demo_args :: cli_args where
  "demo_args = \<lparr>arg_demo_dir = ''demo'', arg_output = None, arg_main = ''main'',
                 arg_search_path = None\<rparr>"

definition orphan_fs :: filesystem where
  "orphan_fs =
     [(''.'', Dir), (''demo'', Dir),
      (''demo/main.yaml'', File (Some (YMap [(''import'', YSeq [YStr ''ghost''])]))),
      (''demo/docs'', File None)]"

lemmas path_eval =
  writable_def creatable_def made_dirs_def lineage.simps path_parent_def stem_def
  path_exists_def is_dir_def

lemma demo_args_fields [simp]:
  "arg_demo_dir demo_args = ''demo''" "arg_main demo_args = ''main''"
  "cli_output demo_args = ''docs/examples/demo.yaml''" "cli_search_paths demo_args = [''demo'']"
  "cli_aggregator demo_args = fresh"
  by (simp_all add: demo_args_def cli_output_def default_output_def path_name_def path_join_def
      cli_search_paths_def cli_aggregator_def fresh_def new_aggregator_def)

lemma cli_aggregate:
  "aggregate cli_fs ''main'' fresh =
     (Inr (YMap [(''app'', YMap [(''widget'', YStr ''main.root'')]),
                 (''widgets'', YMap [(''x'', YStr ''from b''), (''panel'', YStr ''group''),
                                     (''root'', YStr ''window'')]),
                 (''data'', YMap [(''greeting'', YStr ''hi'')])]),
      spec_result)"
  by (simp add: cli_fs_def spec_fs_def spec_result_def agg_eval insert_commute)

lemma cli_fs_facts [simp]:
  "is_dir cli_fs ''demo''" "writable cli_fs ''docs/examples/demo.yaml''"
  "made_dirs cli_fs ''docs/examples'' = [''docs'', ''docs/examples'']"
  by (simp_all add: cli_fs_def spec_fs_def path_eval)

lemma cli_main:
  "main demo_args cli_fs =
     (Ok_None,
      written cli_fs ''docs/examples/demo.yaml'' (build_result spec_result),
      printed spec_result @
        [Writing ''docs/examples/demo.yaml'', Aggregated 4, Widgets_count 3, Data_count 1,
         Output_path ''docs/examples/demo.yaml''])"
  by (simp add: main_directory cli_aggregate report_def py_print_def)
     (simp add: spec_result_def build_result_def dict_of_items_def)


lemma orphan_main:
  "main demo_args orphan_fs =
     (Ok_None,
      written orphan_fs ''docs/examples/demo.yaml'' (YMap []),
      [Aggregating ''main'', Processing ''demo/main.yaml'', Module_not_found ''ghost'',
       Writing ''docs/examples/demo.yaml'', Aggregated 2, Widgets_count 0, Data_count 0,
       Output_path ''docs/examples/demo.yaml''])"
  by (simp add: main_directory orphan_fs_def agg_eval path_eval report_def)

section \<open>How a run ends\<close>

text \<open>
  C16: \<open>main\<close> ends in one of four ways, in this order of precedence: it exits with
  status 1 when the demo directory is not an existing directory, and then it has
  written one line and left the file system as it was; it dies of the exception the
  aggregation raises; it dies of an \<open>OSError\<close> when the output file cannot be written;
  it returns. It exits through \<open>sys.exit\<close> in the first case only.
\<close>

theorem main_outcome:
  "fst (main args fs) =
     (if \<not> is_dir fs (arg_demo_dir args) then Inl (SystemExit 1)
      else case fst (aggregate fs (arg_main args) (cli_aggregator args)) of
             Inl e \<Rightarrow> Inl e
           | Inr doc \<Rightarrow> if writable fs (cli_output args) then Ok_None else Inl OSError) \<and>
   (fst (main args fs) = Inl (SystemExit n) \<longleftrightarrow> n = 1 \<and> \<not> is_dir fs (arg_demo_dir args)) \<and>
   (\<not> is_dir fs (arg_demo_dir args) \<longrightarrow>
      fst (snd (main args fs)) = fs \<and> length (snd (snd (main args fs))) = 1)"
proof (cases "is_dir fs (arg_demo_dir args)")
  case True
  obtain r self where run: "aggregate fs (arg_main args) (cli_aggregator args) = (r, self)" by force
  with aggregate_raises [of fs "arg_main args" "cli_aggregator args" "SystemExit n"]
  have "r \<noteq> Inl (SystemExit n)" by auto
  with True run show ?thesis by (auto simp: main_directory split: sum.splits)
qed (simp add: main_not_directory)

theorem main_outcome_witness:
  "fst (main demo_args cli_fs) = Ok_None \<and>
   fst (main (demo_args\<lparr>arg_output := Some ''demo''\<rparr>) cli_fs) = Inl OSError \<and>
   fst (main (demo_args\<lparr>arg_demo_dir := ''demo/main.yaml''\<rparr>) cli_fs) = Inl (SystemExit 1)"
proof -
  let ?args = "demo_args\<lparr>arg_output := Some ''demo''\<rparr>"
  have "\<not> writable cli_fs ''demo''" "\<not> is_dir cli_fs ''demo/main.yaml''"
    by (simp_all add: cli_fs_def spec_fs_def path_eval)
  moreover have "cli_aggregator ?args = fresh" "cli_output ?args = ''demo''"
    by (simp_all add: demo_args_def cli_aggregator_def cli_search_paths_def fresh_def
        new_aggregator_def cli_output_def)
  ultimately show ?thesis
    using main_outcome [of demo_args cli_fs 1, THEN conjunct1]
      main_outcome [of ?args cli_fs 1, THEN conjunct1]
      main_outcome [of "demo_args\<lparr>arg_demo_dir := ''demo/main.yaml''\<rparr>" cli_fs 1, THEN conjunct1]
    by (simp add: cli_aggregate)
qed

text \<open>
  C28: Over a file system whose documents have the shape of a module, \<open>main\<close> returns
  (exit status 0) whenever the demo directory is a directory and the output file can
  be written: a main module or an import that is not found, and a file that cannot be
  parsed, do not make the run fail.
\<close>

theorem main_returns_despite_resolution_errors:
  assumes "shaped_fs fs" and "is_dir fs (arg_demo_dir args)" and "writable fs (cli_output args)"
  shows "fst (main args fs) = Ok_None"
proof -
  let ?run = "process_module fs (YStr (arg_main args))
    (py_print (Aggregating (arg_main args)) (cli_aggregator args))"
  have "fst ?run = Ok_None" by (rule process_module_never_raises(1) [OF assms(1)]) simp
  then have "?run = (Ok_None, snd ?run)" by (simp add: prod_eq_iff)
  then have "aggregate fs (arg_main args) (cli_aggregator args) = (Inr (build_result (snd ?run)), snd ?run)"
    by (simp add: aggregate_Inr_iff)
  with assms(2,3) show ?thesis by (simp add: main_directory)
qed

theorem main_returns_despite_resolution_errors_witness:
  "fst (main demo_args orphan_fs) = Ok_None \<and>
   Module_not_found ''ghost'' \<in> set (snd (snd (main demo_args orphan_fs)))"
proof -
  have "shaped_fs orphan_fs" by (simp add: orphan_fs_def shape_eval)
  moreover have "is_dir orphan_fs (arg_demo_dir demo_args)" by (simp add: orphan_fs_def is_dir_def)
  moreover have "writable orphan_fs (cli_output demo_args)" by (simp add: orphan_fs_def path_eval)
  ultimately show ?thesis
    using main_returns_despite_resolution_errors [of orphan_fs demo_args] by (simp add: orphan_main)
qed

section \<open>What a run writes\<close>

text \<open>
  C25: \<open>save\<close> makes the directories above the output file and then writes it. It
  succeeds exactly when the nearest existing path among the parent of the output file
  and its ancestors is a directory and the output file is not a directory, whether or
  not the parent exists. Then the parent is a directory, the file holds the document,
  every path that existed, the output file apart, is what it was, and every other new
  path is a directory above the file. Otherwise \<open>save\<close> raises \<open>OSError\<close> and the
  output path is what it was. One line is printed in both cases.
\<close>

theorem save_makes_parents_and_writes:
  assumes "save fs p content self = (r, fs', self')"
  shows "(r = Ok_None \<longleftrightarrow> writable fs p) \<and>
         (writable fs p \<longrightarrow>
            is_dir fs' (path_parent p) \<and> safe_load fs' p = Some content \<and>
            (\<forall>q. path_exists fs q \<and> q \<noteq> p \<longrightarrow> dict_get fs' q = dict_get fs q) \<and>
            (\<forall>q. path_exists fs' q \<and> \<not> path_exists fs q \<and> q \<noteq> p \<longrightarrow>
               is_dir fs' q \<and> q \<in> set (lineage (path_parent p)))) \<and>
         (\<not> writable fs p \<longrightarrow> r = Inl OSError \<and> dict_get fs' p = dict_get fs p) \<and>
         self' = py_print (Writing p) self"
proof (cases "writable fs p")
  case True
  with assms have r: "r = Ok_None" and fs': "fs' = written fs p content"
    and self': "self' = py_print (Writing p) self"
    by (simp_all add: save_spec)
  from True have made: "path_parent p \<in> set (made_dirs fs (path_parent p)) \<or> is_dir fs (path_parent p)"
    by (simp add: writable_def is_dir_made)
  with True have "path_parent p \<noteq> p"
    using self_not_made [of fs p] by (auto simp: writable_def)
  with made have "is_dir fs' (path_parent p)" by (simp add: fs' is_dir_written)
  with True r fs' self' set_made_dirs [of fs "path_parent p"] show ?thesis
    by (auto simp: written_frame path_exists_written is_dir_written)
next
  case False
  with assms self_not_made [of fs p] show ?thesis
    by (auto simp: save_spec split: if_splits)
qed

theorem save_makes_parents_and_writes_witness:
  "\<not> path_exists cli_fs ''docs/examples'' \<and>
   fst (save cli_fs ''docs/examples/demo.yaml'' (YMap []) fresh) = Ok_None \<and>
   is_dir (fst (snd (save cli_fs ''docs/examples/demo.yaml'' (YMap []) fresh))) ''docs/examples'' \<and>
   fst (save cli_fs ''demo/main.yaml/out.yaml'' (YMap []) fresh) = Inl OSError"
proof -
  let ?ok = "save cli_fs ''docs/examples/demo.yaml'' (YMap []) fresh"
  let ?bad = "save cli_fs ''demo/main.yaml/out.yaml'' (YMap []) fresh"
  have "writable cli_fs ''docs/examples/demo.yaml''" "\<not> writable cli_fs ''demo/main.yaml/out.yaml''"
    "\<not> path_exists cli_fs ''docs/examples''" "path_parent ''docs/examples/demo.yaml'' = ''docs/examples''"
    by (simp_all add: cli_fs_def spec_fs_def path_eval)
  with save_makes_parents_and_writes [of cli_fs "''docs/examples/demo.yaml''" "YMap []" fresh
      "fst ?ok" "fst (snd ?ok)" "snd (snd ?ok)"]
    save_makes_parents_and_writes [of cli_fs "''demo/main.yaml/out.yaml''" "YMap []" fresh
      "fst ?bad" "fst (snd ?bad)" "snd (snd ?bad)"]
  show ?thesis by simp
qed

text \<open>
  C11: When \<open>main\<close> returns, the output file loads as the document \<open>aggregate\<close> returns
  for the main module on a new aggregator over the demo directory and the extra search
  paths; every path that existed, the output file apart, is what it was; and the lines
  written are those of the aggregation followed by the five lines of \<open>save\<close> and of the
  summary.
\<close>

theorem main_writes_aggregate:
  assumes "main args fs = (Ok_None, fs', out)"
  shows "\<exists>doc self. aggregate fs (arg_main args) (cli_aggregator args) = (Inr doc, self) \<and>
           safe_load fs' (cli_output args) = Some doc \<and>
           (\<forall>q. path_exists fs q \<and> q \<noteq> cli_output args \<longrightarrow> dict_get fs' q = dict_get fs q) \<and>
           out = printed self @
             [Writing (cli_output args), Aggregated (card (visited_modules self)),
              Widgets_count (length (widgets self)), Data_count (length (data self)),
              Output_path (cli_output args)]"
proof -
  from assms main_not_directory [of fs args] have dir: "is_dir fs (arg_demo_dir args)" by auto
  obtain r self where run: "aggregate fs (arg_main args) (cli_aggregator args) = (r, self)" by force
  with assms dir obtain doc where "r = Inr doc" and "writable fs (cli_output args)"
    and "fs' = written fs (cli_output args) doc"
    and "out = printed (report (cli_output args) (py_print (Writing (cli_output args)) self))"
    by (cases r) (auto simp: main_directory split: if_splits)
  with run show ?thesis
    by (auto simp: written_frame report_def py_print_def)
qed

theorem main_writes_aggregate_witness:
  "\<exists>doc self. aggregate cli_fs ''main'' fresh = (Inr doc, self) \<and>
     safe_load (written cli_fs ''docs/examples/demo.yaml'' (build_result spec_result))
       ''docs/examples/demo.yaml'' = Some doc"
  using main_writes_aggregate [OF cli_main] by auto

text \<open>
  C37: The number of modules in the summary line is the number of names reachable from
  the main module in the import graph, whether a file was found for them or not.
\<close>

theorem summary_counts_reachable_names:
  assumes "main args fs = (Ok_None, fs', out)"
  shows "Aggregated (card ((agg_graph fs (cli_search_paths args))\<^sup>* `` {YStr (arg_main args)}))
           \<in> set out"
proof -
  from assms main_not_directory [of fs args] have dir: "is_dir fs (arg_demo_dir args)" by auto
  obtain r self where run: "aggregate fs (arg_main args) (cli_aggregator args) = (r, self)" by force
  with assms dir obtain doc where r: "r = Inr doc"
    and out: "out = printed (report (cli_output args) (py_print (Writing (cli_output args)) self))"
    by (cases r) (auto simp: main_directory split: if_splits)
  from run r have "process_module fs (YStr (arg_main args))
      (py_print (Aggregating (arg_main args)) (cli_aggregator args)) = (Ok_None, self)"
    by (simp add: aggregate_Inr_iff)
  from process_module_explores(1) [OF this]
  have "visited_modules self = (agg_graph fs (cli_search_paths args))\<^sup>* `` {YStr (arg_main args)}"
    by (auto simp: cli_aggregator_def new_aggregator_def py_print_def cli_search_paths_def
        dest: explored_all)
  with out show ?thesis by (simp add: report_def py_print_def)
qed

theorem summary_counts_reachable_names_witness:
  "card ((agg_graph orphan_fs [''demo''])\<^sup>* `` {YStr ''main''}) = 2 \<and>
   find_yaml_file orphan_fs [''demo''] ''ghost'' = None"
  using summary_counts_reachable_names [OF orphan_main]
  by (simp add: orphan_fs_def find_yaml_file_def yaml_filename_def module_path_def path_join_def
      path_exists_def)


section \<open>Directories\<close>

text \<open>
  C15: \<open>mkdir(parents=True, exist_ok=True)\<close> succeeds exactly when the nearest existing
  path among the directory and its ancestors is a directory. Then the directory exists,
  every path that existed is what it was, every new path is a directory on the way to
  it, and doing it again changes nothing. Otherwise it raises \<open>OSError\<close> and the file
  system is as it was.
\<close>

theorem mkdir_parents_makes_directory:
  "(fst (mkdir_parents p fs) = Ok_None \<longleftrightarrow> creatable fs p) \<and>
   (creatable fs p \<longrightarrow>
      is_dir (snd (mkdir_parents p fs)) p \<and>
      (\<forall>q. path_exists fs q \<longrightarrow> dict_get (snd (mkdir_parents p fs)) q = dict_get fs q) \<and>
      (\<forall>q. path_exists (snd (mkdir_parents p fs)) q \<and> \<not> path_exists fs q \<longrightarrow>
         is_dir (snd (mkdir_parents p fs)) q \<and> q \<in> set (lineage p)) \<and>
      mkdir_parents p (snd (mkdir_parents p fs)) = mkdir_parents p fs) \<and>
   (\<not> creatable fs p \<longrightarrow> mkdir_parents p fs = (Inl OSError, fs))"
  using is_dir_made [of fs p] set_made_dirs [of fs p]
  by (auto simp: mkdir_parents_spec is_dir_exists dest: made_dirs_fresh)

theorem mkdir_parents_makes_directory_witness:
  "is_dir (snd (mkdir_parents ''docs/examples'' cli_fs)) ''docs/examples'' \<and>
   is_dir (snd (mkdir_parents ''docs/examples'' cli_fs)) ''docs'' \<and>
   mkdir_parents ''demo/main.yaml/sub'' cli_fs = (Inl OSError, cli_fs)"
proof -
  have "creatable cli_fs ''docs/examples''" "\<not> creatable cli_fs ''demo/main.yaml/sub''"
    by (simp_all add: cli_fs_def spec_fs_def path_eval)
  with mkdir_parents_makes_directory [of "''docs/examples''" cli_fs]
    mkdir_parents_makes_directory [of "''demo/main.yaml/sub''" cli_fs]
  show ?thesis by (simp add: mkdir_parents_spec)
qed

section \<open>The default output\<close>

text \<open>
  Without \<open>-o\<close> the output file is directly in \<open>docs/examples\<close> and is named after
  the last component of the demo directory; for the demo directory \<open>.\<close> that name is
  empty and the file is \<open>docs/examples/.yaml\<close>.
\<close>

theorem default_output_in_docs_examples:
  "path_parent (default_output demo) = ''docs/examples'' \<and>
   path_name (default_output demo) = path_name demo @ ''.yaml'' \<and>
   default_output ''.'' = ''docs/examples/.yaml''"
proof -
  have "CHR ''/'' \<notin> set (path_name demo @ ''.yaml'')" by simp
  moreover have "path_name demo @ ''.yaml'' \<noteq> ''.''" by (cases "path_name demo") auto
  ultimately show ?thesis
    using stem_join [of "path_name demo @ ''.yaml''" "''docs/examples''"]
      path_name_join [of "path_name demo @ ''.yaml''" "''docs/examples''"]
    by (simp add: default_output_join path_parent_def) (simp add: path_name_def)
qed

end
