(* ===== verification/Agg_Order.thy ===== *)
theory Agg_Order
  imports Agg_Reach Post_Order
begin

text \<open>
  The order in which the aggregator merges the modules, specified apart from the
  recursion of \<open>process_module\<close>: a depth-first traversal of the import graph over an
  explicit stack, which lists a module when the traversal leaves it, and the
  dictionaries that assigning the sections of the modules in that order builds.
\<close>

section \<open>Post-order\<close>

text \<open>
  A task on the stack is a name to enter or a module to leave. Entering a name that is
  not marked marks it and pushes its imports and, under them, the task to leave it;
  leaving a module lists it. A name that is not a string has no file and is skipped.
\<close>

datatype task = Enter yaml | Exit string

definition entered :: "task list \<Rightarrow> yaml set" where
  "entered stack = {x. Enter x \<in> set stack}"

definition todo :: "filesystem \<Rightarrow> task list \<Rightarrow> yaml set \<Rightarrow> yaml set" where
  "todo fs stack V = (entered stack \<union> fs_imports fs) - V"

lemma declared_imports_list:
  "declared_imports content = (case imports_list content of Inr items \<Rightarrow> items | Inl e \<Rightarrow> [])"
  by (cases content)
     (auto simp: declared_imports_def imports_list_def split: option.splits yaml.splits)

lemma agg_imports_in_fs: "set (agg_imports fs paths x) \<subseteq> fs_imports fs"
proof (cases x)
  case (YStr m)
  show ?thesis
  proof (cases "find_yaml_file fs paths m")
    case (Some mf)
    show ?thesis
    proof (cases "safe_load fs mf")
      case None
      with Some YStr show ?thesis
        by (simp add: agg_imports_def file_content_def declared_imports_def)
    next
      case (Some y)
      then have "(mf, File (Some y)) \<in> set fs" by (rule safe_load_SomeD)
      with Some \<open>find_yaml_file fs paths m = Some mf\<close> YStr show ?thesis
        by (force simp: agg_imports_def file_content_def fs_imports_def declared_imports_list
            split: sum.splits)
    qed
  qed (simp add: YStr agg_imports_def)
qed (simp_all add: agg_imports_def)

lemma entered_simps [simp]:
  "entered [] = {}" "entered (Enter x # stack) = insert x (entered stack)"
  "entered (Exit m # stack) = entered stack" "entered (map Enter xs @ stack) = set xs \<union> entered stack"
  by (auto simp: entered_def)

lemma finite_entered [simp]: "finite (entered stack)"
proof (induction stack)
  case (Cons t stack)
  then show ?case by (cases t) simp_all
qed simp

lemma finite_todo [simp]: "finite (todo fs stack V)"
  by (simp add: todo_def)

function post_order :: "filesystem \<Rightarrow> path list \<Rightarrow> task list \<Rightarrow> yaml set \<Rightarrow> string list" where
  "post_order fs paths [] V = []"
| "post_order fs paths (Exit m # stack) V = m # post_order fs paths stack V"
| "post_order fs paths (Enter x # stack) V =
     (if x \<in> V then post_order fs paths stack V
      else case x of
        YStr m \<Rightarrow>
          post_order fs paths (map Enter (agg_imports fs paths x) @ Exit m # stack) (insert x V)
      | _ \<Rightarrow> post_order fs paths stack (insert x V))"
  by pat_completeness auto

text \<open>
  The traversal ends: a step marks a name that was entered and not marked, or
  shortens the stack, and the names that can be entered are those on the stack and
  the import items of the finitely many documents.
\<close>

definition dfs_order ::
  "((filesystem \<times> path list \<times> task list \<times> yaml set) \<times> (filesystem \<times> path list \<times> task list \<times> yaml set)) set" where
  "dfs_order =
     inv_image (finite_psubset <*lex*> less_than) (\<lambda>(fs, paths, stack, V). (todo fs stack V, length stack))"

lemma wf_dfs_order: "wf dfs_order"
  unfolding dfs_order_def by auto

lemma dfs_order_popped:
  "entered stack' \<subseteq> entered stack \<Longrightarrow> length stack' < length stack \<Longrightarrow>
     ((fs, paths, stack', V), (fs, paths, stack, V)) \<in> dfs_order"
  by (auto simp: dfs_order_def todo_def psubset_eq)

lemma dfs_order_marked:
  "x \<notin> V \<Longrightarrow> entered stack' \<subseteq> entered stack \<union> fs_imports fs \<Longrightarrow>
     ((fs, paths, stack', insert x V), (fs, paths, Enter x # stack, V)) \<in> dfs_order"
proof -
  assume "x \<notin> V" "entered stack' \<subseteq> entered stack \<union> fs_imports fs"
  then have "todo fs stack' (insert x V) \<subset> todo fs (Enter x # stack) V"
    by (auto simp: todo_def)
  then show ?thesis by (simp add: dfs_order_def)
qed

termination post_order
  by (relation dfs_order)
     (auto simp: wf_dfs_order intro!: dfs_order_popped dfs_order_marked
      dest: subsetD [OF agg_imports_in_fs])

declare post_order.simps [simp del]

lemma post_order_simps:
  "post_order fs paths [] V = []"
  "post_order fs paths (Exit m # stack) V = m # post_order fs paths stack V"
  "x \<in> V \<Longrightarrow> post_order fs paths (Enter x # stack) V = post_order fs paths stack V"
  "YStr m \<notin> V \<Longrightarrow> post_order fs paths (Enter (YStr m) # stack) V =
     post_order fs paths (map Enter (agg_imports fs paths (YStr m)) @ Exit m # stack) (insert (YStr m) V)"
  by (simp_all add: post_order.simps)

section \<open>The dictionaries merged in an order\<close>

text \<open>
  \<open>assign_widgets\<close> and \<open>assign_data\<close> assign the items of a section in order,
  \<open>app_entry\<close> is the \<open>app\<close> entry of the file found for a module, if it has the key.
  \<open>flat_widgets\<close>, \<open>flat_data\<close> and \<open>flat_app\<close> are what merging the modules of a list
  in order leaves in the three fields of the aggregator.
\<close>

definition assign_widgets ::
  "string \<Rightarrow> (string \<times> yaml) list \<Rightarrow> (string, string \<times> yaml) dict \<Rightarrow> (string, string \<times> yaml) dict" where
  "assign_widgets m items ws = foldl (\<lambda>ws (k, d). dict_set k (m, d) ws) ws items"

definition assign_data :: "(string \<times> yaml) list \<Rightarrow> (string, yaml) dict \<Rightarrow> (string, yaml) dict" where
  "assign_data items ds = foldl (\<lambda>ds (k, d). dict_set k d ds) ds items"

definition app_entry :: "filesystem \<Rightarrow> path list \<Rightarrow> string \<Rightarrow> yaml option" where
  "app_entry fs paths m =
     (case find_yaml_file fs paths m of
        Some mf \<Rightarrow> (case file_content fs mf of YMap kvs \<Rightarrow> dict_get kvs ''app'' | _ \<Rightarrow> None)
      | None \<Rightarrow> None)"

definition flat_widgets ::
  "filesystem \<Rightarrow> path list \<Rightarrow> string list \<Rightarrow> (string, string \<times> yaml) dict \<Rightarrow> (string, string \<times> yaml) dict" where
  "flat_widgets fs paths order ws =
     foldl (\<lambda>ws m. assign_widgets m (agg_widgets_of fs paths m) ws) ws order"

definition flat_data ::
  "filesystem \<Rightarrow> path list \<Rightarrow> string list \<Rightarrow> (string, yaml) dict \<Rightarrow> (string, yaml) dict" where
  "flat_data fs paths order ds = foldl (\<lambda>ds m. assign_data (agg_data_of fs paths m) ds) ds order"

definition flat_app :: "filesystem \<Rightarrow> path list \<Rightarrow> string list \<Rightarrow> yaml \<Rightarrow> yaml" where
  "flat_app fs paths order app =
     foldl (\<lambda>app m. case app_entry fs paths m of Some entry \<Rightarrow> entry | None \<Rightarrow> app) app order"

text \<open>\<open>merged_in\<close>: the object \<open>self'\<close> is \<open>self\<close> after the modules of a list were merged in order.\<close>

definition merged_in :: "filesystem \<Rightarrow> path list \<Rightarrow> string list \<Rightarrow> aggregator \<Rightarrow> aggregator \<Rightarrow> bool" where
  "merged_in fs paths order self self' \<longleftrightarrow>
     widgets self' = flat_widgets fs paths order (widgets self) \<and>
     data self' = flat_data fs paths order (data self) \<and>
     agg_app_config self' = flat_app fs paths order (agg_app_config self)"

section \<open>Facts: merging in an order\<close>

lemma flat_simps [simp]:
  "flat_widgets fs paths [] ws = ws" "flat_data fs paths [] ds = ds" "flat_app fs paths [] app = app"
  "flat_widgets fs paths (xs @ ys) ws = flat_widgets fs paths ys (flat_widgets fs paths xs ws)"
  "flat_data fs paths (xs @ ys) ds = flat_data fs paths ys (flat_data fs paths xs ds)"
  "flat_app fs paths (xs @ ys) app = flat_app fs paths ys (flat_app fs paths xs app)"
  by (simp_all add: flat_widgets_def flat_data_def flat_app_def)

lemma flat_single [simp]:
  "flat_widgets fs paths [m] ws = assign_widgets m (agg_widgets_of fs paths m) ws"
  "flat_data fs paths [m] ds = assign_data (agg_data_of fs paths m) ds"
  "flat_app fs paths [m] app = (case app_entry fs paths m of Some entry \<Rightarrow> entry | None \<Rightarrow> app)"
  by (simp_all add: flat_widgets_def flat_data_def flat_app_def)

lemma merged_in_refl: "merged_in fs paths [] self self"
  by (simp add: merged_in_def)

lemma merged_in_trans:
  "merged_in fs paths xs a b \<Longrightarrow> merged_in fs paths ys b c \<Longrightarrow> merged_in fs paths (xs @ ys) a c"
  by (simp add: merged_in_def)

lemma merged_in_fields:
  "widgets b = widgets a \<Longrightarrow> data b = data a \<Longrightarrow> agg_app_config b = agg_app_config a \<Longrightarrow>
     merged_in fs paths order b c \<longleftrightarrow> merged_in fs paths order a c"
  by (simp add: merged_in_def)

lemma take_app_entry_content:
  "agg_app_config (take_app_entry content self) =
     (case (case content of YMap kvs \<Rightarrow> dict_get kvs ''app'' | _ \<Rightarrow> None) of
        Some entry \<Rightarrow> entry | None \<Rightarrow> agg_app_config self)"
proof (cases content)
  case (YMap kvs)
  have "dict_has ''app'' kvs \<longleftrightarrow> dict_get kvs ''app'' \<noteq> None" by (simp add: dict_get_None_iff)
  with YMap show ?thesis by (auto simp: take_app_entry_def)
qed (simp_all add: take_app_entry_def)

text \<open>The merge of a located module is the merge of the one-module list.\<close>

lemma merge_sections_merged_in:
  assumes "merge_sections m (file_content fs mf) self = (Ok_None, self')"
    and "find_yaml_file fs paths m = Some mf"
  shows "merged_in fs paths [m] self self'"
  using assms
  by (simp add: merge_sections_Inr_iff merged_in_def flat_widgets_def flat_data_def flat_app_def
      assign_widgets_def assign_data_def widgets_overwrite_widgets data_overwrite_data
      agg_widgets_of_def agg_data_of_def app_entry_def take_app_entry_content
      cong: option.case_cong)

lemma not_found_merged_in:
  "find_yaml_file fs paths m = None \<Longrightarrow> merged_in fs paths [m] self self"
  by (simp add: merged_in_def flat_widgets_def flat_data_def flat_app_def assign_widgets_def
      assign_data_def agg_widgets_of_def agg_data_of_def app_entry_def)

section \<open>Facts: a call runs a piece of the traversal\<close>

text \<open>
  \<open>ran fs names order self self'\<close>: from the object \<open>self\<close> to \<open>self'\<close> the modules of
  \<open>order\<close> were merged in this order, \<open>order\<close> is the post-order of a depth-first
  traversal of the import graph from \<open>names\<close>, and it is what \<open>post_order\<close> lists while it
  works off the tasks to enter \<open>names\<close>, whatever lies under them on the stack.
\<close>

definition ran :: "filesystem \<Rightarrow> yaml list \<Rightarrow> string list \<Rightarrow> aggregator \<Rightarrow> aggregator \<Rightarrow> bool" where
  "ran fs names order self self' \<longleftrightarrow>
     search_paths self' = search_paths self \<and>
     merged_in fs (search_paths self) order self self' \<and>
     post_ordered (agg_graph fs (search_paths self)) (visited_modules self) names (map YStr order)
       (visited_modules self') \<and>
     (\<forall>stack. post_order fs (search_paths self) (map Enter names @ stack) (visited_modules self) =
        order @ post_order fs (search_paths self) stack (visited_modules self'))"

lemma ranD:
  assumes "ran fs names order self self'"
  shows "search_paths self' = search_paths self" "merged_in fs (search_paths self) order self self'"
    "post_ordered (agg_graph fs (search_paths self)) (visited_modules self) names (map YStr order)
       (visited_modules self')"
  using assms by (simp_all add: ran_def)

lemma ran_Nil: "ran fs [] [] self self"
  by (simp add: ran_def merged_in_refl post_ordered_Nil)

lemma ran_visited: "name \<in> visited_modules self \<Longrightarrow> ran fs [name] [] self self"
  by (simp add: ran_def merged_in_refl post_ordered_skip post_order_simps)

lemma ran_seq:
  assumes "ran fs xs o1 a b" and "ran fs ys o2 b c"
  shows "ran fs (xs @ ys) (o1 @ o2) a c"
proof -
  from assms have paths: "search_paths b = search_paths a" "search_paths c = search_paths a"
    by (simp_all add: ran_def)
  with assms have "post_order fs (search_paths a) (map Enter (xs @ ys) @ stack) (visited_modules a) =
      (o1 @ o2) @ post_order fs (search_paths a) stack (visited_modules c)" for stack
    by (simp add: ran_def)
  moreover from assms paths have "merged_in fs (search_paths a) (o1 @ o2) a c"
    by (auto simp: ran_def intro: merged_in_trans)
  moreover from assms paths have "post_ordered (agg_graph fs (search_paths a)) (visited_modules a)
      (xs @ ys) (map YStr (o1 @ o2)) (visited_modules c)"
    using post_ordered_seq [of "agg_graph fs (search_paths a)" "visited_modules a" xs "map YStr o1"
        "visited_modules b" ys "map YStr o2" "visited_modules c"]
    by (simp add: ran_def)
  ultimately show ?thesis using paths unfolding ran_def by blast
qed

text \<open>
  Entering a module that is not marked: marking it, running its imports and merging it
  runs the module, which is listed after what its imports listed.
\<close>

lemma ran_module:
  assumes "YStr m \<notin> visited_modules a"
    and a1: "visited_modules a1 = insert (YStr m) (visited_modules a)" "search_paths a1 = search_paths a"
      "widgets a1 = widgets a" "data a1 = data a" "agg_app_config a1 = agg_app_config a"
    and body: "ran fs (agg_imports fs (search_paths a) (YStr m)) o1 a1 s3"
    and merge: "merged_in fs (search_paths a) [m] s3 b" "visited_modules b = visited_modules s3"
      "search_paths b = search_paths s3"
  shows "ran fs [YStr m] (o1 @ [m]) a b"
proof -
  let ?paths = "search_paths a" and ?G = "agg_graph fs (search_paths a)"
  from body a1 merge have "merged_in fs ?paths (o1 @ [m]) a b"
    by (auto simp: ran_def merged_in_fields [of a1 a] intro: merged_in_trans)
  moreover from body a1 have "post_ordered ?G (insert (YStr m) (visited_modules a))
      (agg_imports fs ?paths (YStr m)) (map YStr o1) (visited_modules s3)"
    by (simp add: ran_def)
  with assms(1) have "post_ordered ?G (visited_modules a) [YStr m] (map YStr o1 @ [YStr m])
      (visited_modules s3)"
    by (intro post_ordered_node) (simp_all add: agg_graph_Image)
  moreover from body a1 assms(1) merge(2)
  have "post_order fs ?paths (map Enter [YStr m] @ stack) (visited_modules a) =
      (o1 @ [m]) @ post_order fs ?paths stack (visited_modules b)" for stack
    by (simp add: ran_def post_order_simps)
  ultimately show ?thesis using body a1(2) merge(2,3) unfolding ran_def by simp
qed

text \<open>
  A call of \<open>process_module\<close> that returns has run its argument, and the loop over the
  imports has run the names of its list.
\<close>

lemma ran_found:
  assumes "name = YStr m" and "name \<notin> visited_modules self"
    and "find_yaml_file fs (search_paths self) m = Some mf"
    and load: "load_yaml fs mf (py_print (Processing mf) (mark_visited name self)) = (content, self1)"
    and items: "imports_list content = Inr items" and body: "ran fs items o1 self1 s3"
    and merged: "merge_sections m content s3 = (Ok_None, self')"
  shows "ran fs [name] (o1 @ [m]) self self'"
proof -
  note st = load_yaml_state [OF load]
  from body st have paths: "search_paths s3 = search_paths self"
    by (simp add: ran_def)
  from body assms(3) items st have "ran fs (agg_imports fs (search_paths self) (YStr m)) o1 self1 s3"
    by (simp add: agg_imports_found)
  moreover from merged assms(3) st paths have "merged_in fs (search_paths self) [m] s3 self'"
    by (intro merge_sections_merged_in [where mf = mf]) simp_all
  ultimately have "ran fs [YStr m] (o1 @ [m]) self self'"
    using assms(1,2) st merged visited_merge_sections [of m content s3]
      search_paths_merge_sections [of m content s3]
    by (intro ran_module [where ?a1.0 = self1 and ?s3.0 = s3]) simp_all
  with assms(1) show ?thesis by simp
qed

lemma ran_not_found:
  assumes "name = YStr m" and "name \<notin> visited_modules self"
    and "find_yaml_file fs (search_paths self) m = None"
  shows "ran fs [name] [m] self (py_print (Module_not_found m) (mark_visited name self))"
proof -
  let ?s = "mark_visited name self"
  from assms have "ran fs [YStr m] ([] @ [m]) self (py_print (Module_not_found m) ?s)"
    using not_found_merged_in [of fs "search_paths self" m ?s]
    by (intro ran_module [where ?a1.0 = ?s and ?s3.0 = ?s])
       (simp_all add: agg_imports_not_found ran_Nil merged_in_def)
  with assms(1) show ?thesis by simp
qed

lemma process_module_ran:
  "process_module fs name self = (Ok_None, self') \<Longrightarrow> \<exists>order. ran fs [name] order self self'"
  "process_imports_list fs names self = (Ok_None, self') \<Longrightarrow> \<exists>order. ran fs names order self self'"
proof (induction fs name self and fs names self arbitrary: self' and self'
    rule: process_module_process_imports_list.induct)
  case (1 fs name self)
  show ?case
  proof (cases rule: process_module_cases [where name = name and self = self and fs = fs])
    case (found m mf content self1)
    from found(1) have h: "\<not> \<not> py_hashable name" by simp
    from "1.prems" obtain items s3 where items: "imports_list content = Inr items"
      and loop: "process_imports_list fs items self1 = (Ok_None, s3)"
      and merged: "merge_sections m content s3 = (Ok_None, self')"
      unfolding process_module_found_Ok [OF found] by blast
    from "1.IH" [OF h found(2,1,3) found(4) [unfolded mark_visited_def, symmetric] _ loop] items
    obtain o1 where "ran fs items o1 self1 s3" by auto
    from ran_found [OF found items this merged] show ?thesis ..
  next
    case (not_found m)
    with "1.prems" ran_not_found [OF not_found] show ?thesis
      by (auto simp: process_module_not_found)
  qed (use "1.prems" in \<open>auto simp: process_module_unhashable process_module_visited
      process_module_not_str intro: ran_visited\<close>)
next
  case (2 fs self)
  then show ?case by (auto intro: ran_Nil)
next
  case (3 fs imported_module rest self)
  from "3.prems" obtain s where first: "process_module fs imported_module self = (Ok_None, s)"
    and rest: "process_imports_list fs rest s = (Ok_None, self')"
    by (auto simp: and_then_Inr_iff)
  from "3.IH"(1) [OF first] "3.IH"(2) [OF first rest]
  obtain o1 o2 where "ran fs [imported_module] o1 self s" "ran fs rest o2 s self'" by auto
  from ran_seq [OF this] show ?case by auto
qed

text \<open>The order a call has run is the one \<open>post_order\<close> computes.\<close>

lemma ran_post_order:
  "ran fs names order self self' \<Longrightarrow>
     order = post_order fs (search_paths self) (map Enter names) (visited_modules self)"
  unfolding ran_def by (metis append_Nil2 post_order_simps(1))

text \<open>A run of \<open>aggregate\<close> that returns has run the main module.\<close>

lemma aggregate_ran:
  assumes "aggregate fs main_module self = (Inr doc, self')"
  shows "ran fs [YStr main_module]
     (post_order fs (search_paths self) [Enter (YStr main_module)] (visited_modules self))
     (py_print (Aggregating main_module) self) self'"
proof -
  from assms have "process_module fs (YStr main_module) (py_print (Aggregating main_module) self)
      = (Ok_None, self')"
    by (simp add: aggregate_Inr_iff)
  then obtain order where ran: "ran fs [YStr main_module] order (py_print (Aggregating main_module) self) self'"
    by (auto dest: process_module_ran(1))
  from ran_post_order [OF this] ran show ?thesis by simp
qed

lemma aggregate_merged_in:
  assumes "aggregate fs main_module self = (Inr doc, self')"
  shows "merged_in fs (search_paths self)
     (post_order fs (search_paths self) [Enter (YStr main_module)] (visited_modules self)) self self'"
  using ranD(2) [OF aggregate_ran [OF assms]] by (simp add: merged_in_def)

lemma aggregate_post_ordered:
  assumes "aggregate fs main_module self = (Inr doc, self')"
  shows "post_ordered (agg_graph fs (search_paths self)) (visited_modules self) [YStr main_module]
     (map YStr (post_order fs (search_paths self) [Enter (YStr main_module)] (visited_modules self)))
     (visited_modules self')"
  using ranD(3) [OF aggregate_ran [OF assms]] by simp

section \<open>Facts: the owner of a name\<close>

text \<open>
  After the modules of a list were merged in order, a name is owned by the last module
  of the list that has it, with the last definition that module gives for it.
\<close>

lemma dict_get_assign_widgets:
  "dict_get (assign_widgets m items ws) w =
     (if dict_has w items then map_option (Pair m) (dict_get (rev items) w) else dict_get ws w)"
proof -
  have "dict_has w items \<longleftrightarrow> dict_get (rev items) w \<noteq> None"
    by (simp add: dict_get_None_iff dict_has_def)
  then show ?thesis
    by (auto simp: assign_widgets_def dict_get_foldl_set [where f = "Pair m"] split: option.splits)
qed

lemma dict_get_flat_widgets:
  "dict_get (flat_widgets fs paths order ws) w =
     (case List.find (\<lambda>m. dict_has w (agg_widgets_of fs paths m)) (rev order) of
        None \<Rightarrow> dict_get ws w
      | Some m \<Rightarrow> map_option (Pair m) (dict_get (rev (agg_widgets_of fs paths m)) w))"
proof (induction order rule: rev_induct)
  case (snoc m order)
  then show ?case by (simp add: dict_get_assign_widgets)
qed simp

end
