(* ===== verification/Merge_Order.thy ===== *)
theory Merge_Order
  imports Aggregation Agg_Order
begin

text \<open>
  The order in which \<open>YAMLAggregator.aggregate\<close> merges the modules: the theorems that
  relate the recursion of \<open>process_module\<close> to the post-order of theory \<open>Agg_Order\<close>,
  and what the order means for the owner of a widget name.
\<close>

section \<open>Fixtures\<close>

text \<open>
  In \<open>override_fs\<close> the main module imports \<open>base\<close> and both define the widget
  \<open>button\<close>; no module lies on an import cycle.
\<close>

definition override_fs :: filesystem where
  "override_fs =
     [(''demo'', Dir),
      (''demo/main.yaml'', File (Some (YMap
        [(''import'', YSeq [YStr ''base'']),
         (''widgets'', YMap [(''button'', YStr ''mine'')])]))),
      (''demo/base.yaml'', File (Some (YMap
        [(''widgets'', YMap [(''button'', YStr ''default''), (''label'', YStr ''text'')])])))]"

lemmas order_eval =
  agg_imports_def agg_widgets_of_def agg_data_of_def app_entry_def file_content_def
  declared_imports_def widget_items_def data_items_def section_items_def loaded_content_def
  find_yaml_file_def yaml_filename_def module_path_def path_join_def path_exists_def safe_load_def
  flat_widgets_def flat_data_def flat_app_def assign_widgets_def assign_data_def

lemma spec_order: "post_order spec_fs [''demo''] [Enter (YStr ''main'')] {} = [''c'', ''a'', ''b'', ''main'']"
  by (simp add: spec_fs_def order_eval post_order_simps)

lemma override_aggregate:
  "aggregate override_fs ''main'' fresh =
     (Inr (YMap [(''widgets'', YMap [(''button'', YStr ''mine''), (''label'', YStr ''text'')])]),
      \<lparr>demo_dir = ''demo'', search_paths = [''demo''],
        widgets = [(''button'', (''main'', YStr ''mine'')), (''label'', (''base'', YStr ''text''))],
        data = [], agg_app_config = YNull, visited_modules = {YStr ''main'', YStr ''base''},
        printed = [Aggregating ''main'', Processing ''demo/main.yaml'', Processing ''demo/base.yaml'',
                   Duplicate_widget ''button'' ''main'']\<rparr>)"
  by (simp add: override_fs_def agg_eval insert_commute)

lemma override_edges:
  "(YStr ''main'', y) \<in> agg_graph override_fs [''demo''] \<longleftrightarrow> y = YStr ''base''"
  "(YStr ''base'', y) \<notin> agg_graph override_fs [''demo'']"
  by (simp_all add: agg_graph_def override_fs_def order_eval)

section \<open>The order of the merges\<close>

text \<open>
  C2: \<open>aggregate\<close> merges the modules in the post-order of a depth-first traversal of
  the import graph from the main module. When it returns, the three merged fields are
  what assigning the sections of the modules of \<open>post_order\<close> in order, each over what
  is there, leaves in them; the modules marked are those of the order, each once; and
  the document returned is built from these fields.
\<close>

theorem aggregate_merges_in_post_order:
  assumes "aggregate fs main_module self = (Inr doc, self')"
  shows "let paths = search_paths self;
             order = post_order fs paths [Enter (YStr main_module)] (visited_modules self)
         in widgets self' = flat_widgets fs paths order (widgets self) \<and>
            data self' = flat_data fs paths order (data self) \<and>
            agg_app_config self' = flat_app fs paths order (agg_app_config self) \<and>
            visited_modules self' = visited_modules self \<union> YStr ` set order \<and>
            distinct order \<and> doc = build_result self'"
  using aggregate_merged_in [OF assms] post_ordered_listed [OF aggregate_post_ordered [OF assms]] assms
  by (simp add: merged_in_def aggregate_Inr_iff distinct_map Let_def)

theorem aggregate_merges_in_post_order_witness:
  "widgets spec_result = flat_widgets spec_fs [''demo''] [''c'', ''a'', ''b'', ''main''] [] \<and>
   data spec_result = flat_data spec_fs [''demo''] [''c'', ''a'', ''b'', ''main''] [] \<and>
   agg_app_config spec_result = flat_app spec_fs [''demo''] [''c'', ''a'', ''b'', ''main''] YNull \<and>
   visited_modules spec_result = YStr ` set [''c'', ''a'', ''b'', ''main'']"
  using aggregate_merges_in_post_order [OF spec_aggregate]
  by (simp add: spec_order Let_def)

text \<open>
  C17: The owner of a widget name is the last module that defines it. After \<open>aggregate\<close>
  has returned, a name is held with the module that comes last in the post-order among
  those whose file has the name in its widgets, and with the definition that file gives
  for it; a name that no module of the order defines is what it was.
\<close>

theorem widget_owner_is_last_definer:
  assumes "aggregate fs main_module self = (Inr doc, self')"
  shows "dict_get (widgets self') w =
     (case List.find (\<lambda>m. dict_has w (agg_widgets_of fs (search_paths self) m))
             (rev (post_order fs (search_paths self) [Enter (YStr main_module)] (visited_modules self))) of
        None \<Rightarrow> dict_get (widgets self) w
      | Some m \<Rightarrow> map_option (Pair m) (dict_get (rev (agg_widgets_of fs (search_paths self) m)) w))"
  using aggregate_merged_in [OF assms] by (simp add: merged_in_def dict_get_flat_widgets)

theorem widget_owner_is_last_definer_witness:
  "dict_get (widgets spec_result) ''x'' = Some (''b'', YStr ''from b'') \<and>
   dict_get (widgets spec_result) ''nothing'' = None"
  using widget_owner_is_last_definer [OF spec_aggregate, of "''x''"]
    widget_owner_is_last_definer [OF spec_aggregate, of "''nothing''"]
  by simp

section \<open>Imports first\<close>

text \<open>
  C18: A module is merged after the modules it imports, unless the import closes a
  cycle. If \<open>aggregate\<close>, started with nothing marked, has reached a module that
  imports another, then the imported module comes in front of the importing one in the
  order of the merges, or the imported module imports the importing one, directly or
  through other modules.
\<close>

theorem imports_are_merged_first:
  assumes "aggregate fs main_module self = (Inr doc, self')" and "visited_modules self = {}"
    and "(YStr m, YStr m') \<in> agg_graph fs (search_paths self)" and "YStr m \<in> visited_modules self'"
  shows "before (post_order fs (search_paths self) [Enter (YStr main_module)] {}) m' m \<or>
         (YStr m', YStr m) \<in> (agg_graph fs (search_paths self))\<^sup>*"
proof -
  note po = aggregate_post_ordered [OF assms(1), unfolded assms(2)]
  from post_ordered_listed [OF po] assms(4) post_ordered_edge [OF po _ assms(3)]
  show ?thesis by (simp add: before_map_inj inj_def)
qed

theorem imports_are_merged_first_witness:
  "before [''c'', ''a'', ''b'', ''main''] ''a'' ''main'' \<and>
   \<not> before [''c'', ''a'', ''b'', ''main''] ''main'' ''c'' \<and>
   (YStr ''main'', YStr ''c'') \<in> (agg_graph spec_fs [''demo''])\<^sup>*"
proof -
  have "(YStr ''main'', YStr ''a'') \<in> agg_graph spec_fs (search_paths fresh)"
    "(YStr ''c'', YStr ''main'') \<in> agg_graph spec_fs (search_paths fresh)"
    by (simp_all add: agg_graph_def spec_fs_def order_eval)
  from imports_are_merged_first [OF spec_aggregate _ this(1)]
    imports_are_merged_first [OF spec_aggregate _ this(2)]
  show ?thesis by (simp add: spec_order) (simp add: before_def)
qed

text \<open>
  C8: An importing module overrides what it imports. If no module that \<open>aggregate\<close>
  has reached lies on an import cycle, a module is merged after every module it
  imports, directly or through other modules; so a widget name that a module defines is
  never left with a module it imports as its owner.
\<close>

theorem importer_overrides_imported:
  assumes "aggregate fs main_module self = (Inr doc, self')" and "visited_modules self = {}"
    and "\<forall>x \<in> visited_modules self'. (x, x) \<notin> (agg_graph fs (search_paths self))\<^sup>+"
    and "(YStr m, YStr m') \<in> (agg_graph fs (search_paths self))\<^sup>+" and "YStr m \<in> visited_modules self'"
    and "dict_has w (agg_widgets_of fs (search_paths self) m)"
  shows "before (post_order fs (search_paths self) [Enter (YStr main_module)] {}) m' m \<and>
         (\<forall>d. dict_get (widgets self') w \<noteq> Some (m', d))"
proof -
  let ?paths = "search_paths self"
  let ?order = "post_order fs ?paths [Enter (YStr main_module)] {}"
  let ?has = "\<lambda>m. dict_has w (agg_widgets_of fs ?paths m)"
  note po = aggregate_post_ordered [OF assms(1), unfolded assms(2)]
  from post_ordered_listed [OF po]
  have listed: "visited_modules self' = YStr ` set ?order" "distinct ?order"
    by (simp_all add: distinct_map)
  from post_ordered_topological [OF po _ assms(4)] assms(3,5) listed(1)
  have first: "before ?order m' m" by (simp add: before_map_inj inj_def)
  from find_rev_before [OF this, of ?has] assms(6) listed(2)
  have "List.find ?has (rev ?order) \<noteq> Some m'" by simp
  moreover from assms(5,6) listed(1) have "List.find ?has (rev ?order) \<noteq> None"
    by (auto simp: find_None_iff)
  ultimately show ?thesis
    using aggregate_merged_in [OF assms(1), unfolded assms(2)] first
    by (auto simp: merged_in_def dict_get_flat_widgets)
qed

theorem importer_overrides_imported_witness:
  "before (post_order override_fs [''demo''] [Enter (YStr ''main'')] {}) ''base'' ''main'' \<and>
   dict_get (widgets (snd (aggregate override_fs ''main'' fresh))) ''button'' = Some (''main'', YStr ''mine'')"
proof -
  let ?G = "agg_graph override_fs (search_paths fresh)"
  have edge: "(YStr ''main'', YStr ''base'') \<in> ?G\<^sup>+" by (simp add: override_edges r_into_trancl)
  have "(x, x) \<notin> ?G\<^sup>+" if "x \<in> {YStr ''main'', YStr ''base''}" for x
    using that by (auto intro!: not_on_cycleI simp: override_edges rtrancl_from_leaf)
  with importer_overrides_imported [OF override_aggregate _ _ edge, of "''button''"]
  show ?thesis by (simp add: override_aggregate) (simp add: override_fs_def order_eval)
qed

end
