(* ===== verification/Agg_Shape.thy ===== *)
theory Agg_Shape
  imports Aggregation
begin

text \<open>
  When \<open>YAMLAggregator.aggregate\<close> returns and when it raises: it returns a document
  exactly when every name it can reach is a string and the document of every module
  it finds has the shape of a module.
\<close>

section \<open>Well-shaped names\<close>

text \<open>
  A name is well shaped when it is a string and the file found for it, if there is
  one, holds a document with the shape of a module, as \<open>load_yaml\<close> returns it.
\<close>

definition shaped_at :: "filesystem \<Rightarrow> path list \<Rightarrow> yaml \<Rightarrow> bool" where
  "shaped_at fs paths name \<longleftrightarrow>
     (case name of
        YStr m \<Rightarrow>
          (case find_yaml_file fs paths m of
             Some mf \<Rightarrow> module_shaped (file_content fs mf)
           | None \<Rightarrow> True)
      | _ \<Rightarrow> False)"

lemma shaped_at_found:
  "find_yaml_file fs paths m = Some mf \<Longrightarrow> shaped_at fs paths (YStr m) \<longleftrightarrow> module_shaped (file_content fs mf)"
  by (simp add: shaped_at_def)

lemma shaped_at_not_found [simp]: "find_yaml_file fs paths m = None \<Longrightarrow> shaped_at fs paths (YStr m)"
  by (simp add: shaped_at_def)

lemma shaped_at_YStr: "shaped_at fs paths name \<Longrightarrow> \<exists>m. name = YStr m"
  by (cases name) (simp_all add: shaped_at_def)

text \<open>The imports and the sections of a document that was merged tell that it is well shaped.\<close>

lemma module_shapedI:
  assumes "imports_list content = Inr items" and "only_strings items" and "sections_ok content"
  shows "module_shaped content"
  using assms
  by (cases content)
     (auto simp: module_shaped_def imports_list_def import_ok_def py_iter_Inr_iff
      split: option.splits yaml.splits sum.splits)

section \<open>Facts: a traversal that returns has met well-shaped names only\<close>

text \<open>
  \<open>met fs self names self'\<close>: the object \<open>self'\<close> has marked the names of the list,
  holds strings only among its marks, and every name it has marked beyond those of
  \<open>self\<close> is well shaped.
\<close>

definition met :: "filesystem \<Rightarrow> aggregator \<Rightarrow> yaml list \<Rightarrow> aggregator \<Rightarrow> bool" where
  "met fs self names self' \<longleftrightarrow>
     set names \<subseteq> visited_modules self' \<and> visited_modules self' \<subseteq> range YStr \<and>
     visited_modules self \<subseteq> visited_modules self' \<and> search_paths self' = search_paths self \<and>
     (\<forall>x \<in> visited_modules self' - visited_modules self. shaped_at fs (search_paths self) x)"

lemma met_Nil: "visited_modules self \<subseteq> range YStr \<Longrightarrow> met fs self [] self"
  by (simp add: met_def)

lemma met_visited:
  "visited_modules self \<subseteq> range YStr \<Longrightarrow> name \<in> visited_modules self \<Longrightarrow> met fs self [name] self"
  by (simp add: met_def)

lemma met_seq: "met fs a [x] b \<Longrightarrow> met fs b xs c \<Longrightarrow> met fs a (x # xs) c"
  unfolding met_def by auto

lemma met_only_strings: "met fs self names self' \<Longrightarrow> only_strings names"
  by (auto simp: met_def intro: only_strings_subset)

lemma met_not_found:
  assumes "visited_modules self \<subseteq> range YStr" and "find_yaml_file fs (search_paths self) m = None"
  shows "met fs self [YStr m] (py_print (Module_not_found m) (mark_visited (YStr m) self))"
  using assms by (auto simp: met_def mark_visited_def py_print_def)

lemma met_found:
  assumes "name = YStr m" and "find_yaml_file fs (search_paths self) m = Some mf"
    and load: "load_yaml fs mf (py_print (Processing mf) (mark_visited name self)) = (content, self1)"
    and items: "imports_list content = Inr items" and body: "met fs self1 items s3"
    and merged: "merge_sections m content s3 = (Ok_None, self')"
  shows "met fs self [name] self'"
proof -
  note st = load_yaml_state [OF load]
  from merged have "sections_ok content" and self': "visited_modules self' = visited_modules s3"
    "search_paths self' = search_paths s3"
    using visited_merge_sections [of m content s3] search_paths_merge_sections [of m content s3]
    by (simp_all add: merge_sections_Inr_iff)
  with items body have "module_shaped content"
    by (intro module_shapedI met_only_strings)
  with assms(1,2) st(1) have "shaped_at fs (search_paths self) name"
    by (simp add: shaped_at_found)
  with body st(2,3) self' assms(1) show ?thesis
    by (auto simp: met_def mark_visited_def py_print_def)
qed

lemma process_module_met:
  "process_module fs name self = (Ok_None, self') \<Longrightarrow> visited_modules self \<subseteq> range YStr \<Longrightarrow>
     met fs self [name] self'"
  "process_imports_list fs names self = (Ok_None, self') \<Longrightarrow> visited_modules self \<subseteq> range YStr \<Longrightarrow>
     met fs self names self'"
proof (induction fs name self and fs names self arbitrary: self' and self'
    rule: process_module_process_imports_list.induct)
  case (1 fs name self)
  show ?case
  proof (cases rule: process_module_cases [where name = name and self = self and fs = fs])
    case (found m mf content self1)
    from found(1) have h: "\<not> \<not> py_hashable name" by simp
    from "1.prems"(1) obtain items s3 where items: "imports_list content = Inr items"
      and loop: "process_imports_list fs items self1 = (Ok_None, s3)"
      and merged: "merge_sections m content s3 = (Ok_None, self')"
      unfolding process_module_found_Ok [OF found] by blast
    from load_yaml_state(2) [OF found(4)] "1.prems"(2) found(1)
    have "visited_modules self1 \<subseteq> range YStr"
      by (auto simp: mark_visited_def py_print_def)
    moreover from items have "(imports_list content, self1) = (Inr items, self1)" by simp
    ultimately have "met fs self1 items s3"
      by (intro "1.IH" [OF h found(2,1,3) found(4) [unfolded mark_visited_def, symmetric] _ loop])
    with found(1,3,4) items show ?thesis
      using merged by (rule met_found)
  next
    case (not_found m)
    with "1.prems" met_not_found [of self fs m] show ?thesis
      by (simp add: process_module_not_found)
  qed (use "1.prems" in \<open>auto simp: process_module_unhashable process_module_visited
      process_module_not_str intro: met_visited\<close>)
next
  case (2 fs self)
  then show ?case by (auto intro: met_Nil)
next
  case (3 fs imported_module rest self)
  from "3.prems"(1) obtain s where first: "process_module fs imported_module self = (Ok_None, s)"
    and rest: "process_imports_list fs rest s = (Ok_None, self')"
    by (auto simp: and_then_Inr_iff)
  from "3.IH"(1) [OF first "3.prems"(2)] have m1: "met fs self [imported_module] s" .
  then have "visited_modules s \<subseteq> range YStr" by (simp add: met_def)
  from met_seq [OF m1 "3.IH"(2) [OF first rest this]] show ?case .
qed

section \<open>Facts: a traversal of well-shaped names returns\<close>

lemma process_module_shaped:
  "\<forall>x \<in> (agg_graph fs (search_paths self))\<^sup>* `` {name}. shaped_at fs (search_paths self) x \<Longrightarrow>
     fst (process_module fs name self) = Ok_None"
  "\<forall>x \<in> (agg_graph fs (search_paths self))\<^sup>* `` set names. shaped_at fs (search_paths self) x \<Longrightarrow>
     fst (process_imports_list fs names self) = Ok_None"
proof (induction fs name self and fs names self rule: process_module_process_imports_list.induct)
  case (1 fs name self)
  let ?G = "agg_graph fs (search_paths self)"
  from "1.prems" have name: "shaped_at fs (search_paths self) name" by blast
  show ?case
  proof (cases rule: process_module_cases [where name = name and self = self and fs = fs])
    case (found m mf content self1)
    from found(1) have h: "\<not> \<not> py_hashable name" by simp
    note st = load_yaml_state [OF found(4)]
    from name found(1,3) st(1) have shaped: "module_shaped content"
      by (simp add: shaped_at_found)
    then obtain items where items: "imports_list content = Inr items"
      by (rule module_shaped_imports)
    with found(1,3) st(1) have "set items = ?G `` {name}"
      by (simp add: agg_graph_Image agg_imports_found)
    with "1.prems" st(3)
    have "\<forall>x \<in> (agg_graph fs (search_paths self1))\<^sup>* `` set items. shaped_at fs (search_paths self1) x"
      by (auto intro: converse_rtrancl_into_rtrancl)
    moreover from items have "(imports_list content, self1) = (Inr items, self1)" by simp
    ultimately have "fst (process_imports_list fs items self1) = Ok_None"
      by (intro "1.IH" [OF h found(2,1,3) found(4) [unfolded mark_visited_def, symmetric]])
    then obtain s3 where "process_imports_list fs items self1 = (Ok_None, s3)"
      by (cases "process_imports_list fs items self1") auto
    with items shaped found show ?thesis
      by (simp add: process_module_found module_shaped_sections merge_sections_ok)
  qed (use name in \<open>auto simp: process_module_visited process_module_not_found dest: shaped_at_YStr\<close>)
next
  case (2 fs self)
  show ?case by simp
next
  case (3 fs imported_module rest self)
  from "3.prems" "3.IH"(1) obtain s where first: "process_module fs imported_module self = (Ok_None, s)"
    by (cases "process_module fs imported_module self") auto
  then have "search_paths s = search_paths self"
    using process_module_search_paths(1) [of fs imported_module self] by simp
  with "3.prems"
  have "\<forall>x \<in> (agg_graph fs (search_paths s))\<^sup>* `` set rest. shaped_at fs (search_paths s) x"
    by auto
  from "3.IH"(2) [OF first this] first show ?case by simp
qed

section \<open>Fixture\<close>

text \<open>
  In \<open>misshaped_fs\<close> the main module imports \<open>base\<close>, whose \<open>widgets\<close> section is a
  list instead of a mapping.
\<close>

definition misshaped_fs :: filesystem where
  "misshaped_fs =
     [(''demo'', Dir),
      (''demo/main.yaml'', File (Some (YMap
        [(''import'', YSeq [YStr ''base'']),
         (''widgets'', YMap [(''button'', YStr ''mine'')])]))),
      (''demo/base.yaml'', File (Some (YMap
        [(''widgets'', YSeq [YStr ''button''])])))]"

lemma misshaped_base:
  "(YStr ''main'', YStr ''base'') \<in> agg_graph misshaped_fs [''demo'']"
  "\<not> shaped_at misshaped_fs [''demo''] (YStr ''base'')"
  by (simp_all add: misshaped_fs_def agg_graph_def agg_imports_def declared_imports_def shaped_at_def
      file_content_def shape_eval find_yaml_file_def yaml_filename_def module_path_def path_join_def
      path_exists_def safe_load_def)

section \<open>When the aggregation returns\<close>

text \<open>
  C12: \<open>aggregate\<close>, started with nothing marked, returns a document exactly when every
  name reachable from the main module in the import graph is a string and the document
  of every reachable module that has a file has the shape of a module: it is a mapping
  (or empty), its \<open>widgets\<close> and \<open>data\<close> sections are mappings, and its import entry
  is a string, a list of strings or a mapping. Otherwise it raises; files that are
  missing or cannot be read never make it raise.
\<close>

theorem aggregate_returns_iff_shaped:
  assumes "visited_modules self = {}"
  shows "(\<exists>doc self'. aggregate fs main_module self = (Inr doc, self')) \<longleftrightarrow>
         (\<forall>x \<in> (agg_graph fs (search_paths self))\<^sup>* `` {YStr main_module}.
            shaped_at fs (search_paths self) x)"
proof
  let ?start = "py_print (Aggregating main_module) self"
  assume "\<exists>doc self'. aggregate fs main_module self = (Inr doc, self')"
  then obtain self' where run: "process_module fs (YStr main_module) ?start = (Ok_None, self')"
    by (auto simp: aggregate_Inr_iff)
  from process_module_explores(1) [OF run] assms
  have "visited_modules self' = (agg_graph fs (search_paths self))\<^sup>* `` {YStr main_module}"
    by (auto dest: explored_all)
  moreover from process_module_met(1) [OF run] assms have "met fs ?start [YStr main_module] self'"
    by simp
  ultimately show "\<forall>x \<in> (agg_graph fs (search_paths self))\<^sup>* `` {YStr main_module}.
      shaped_at fs (search_paths self) x"
    using assms by (simp add: met_def)
next
  let ?start = "py_print (Aggregating main_module) self"
  assume "\<forall>x \<in> (agg_graph fs (search_paths self))\<^sup>* `` {YStr main_module}.
      shaped_at fs (search_paths self) x"
  then have "fst (process_module fs (YStr main_module) ?start) = Ok_None"
    using process_module_shaped(1) [of fs ?start "YStr main_module"] by simp
  then show "\<exists>doc self'. aggregate fs main_module self = (Inr doc, self')"
    by (cases "process_module fs (YStr main_module) ?start") (simp add: aggregate_Inr_iff)
qed

theorem aggregate_returns_iff_shaped_witness:
  "\<not> (\<exists>doc self'. aggregate misshaped_fs ''main'' fresh = (Inr doc, self'))"
  using aggregate_returns_iff_shaped [of fresh misshaped_fs "''main''"] misshaped_base
  by (auto dest: r_into_rtrancl)

end
