(* ===== verification/Widget_Base.thy ===== *)
theory Widget_Base
  imports Yaml "HOL-Library.Sublist"
begin

text \<open>
  What the widgets of \<open>src/imery/frontend/widgets\<close> share: the built-ins their
  handlers apply to values, the attributes of the base class \<open>Widget\<close> they read, and
  the collaborators they call. The base class, the \<open>Result\<close> type, the field store,
  the data bag and the imgui runtime are not part of the sources; the handlers are
  modelled over any implementation of them.
\<close>

section \<open>Built-ins on values\<close>

text \<open>
  \<open>str(obj)\<close>: \<open>None\<close>, \<open>True\<close> and \<open>False\<close> by name, an integer in decimal, a string as
  it is. For a list and a dict \<open>str\<close> is \<open>repr\<close>, which is a parameter here.
\<close>

fun digits :: "nat \<Rightarrow> string" where
  "digits n = (if n < 10 then [''0123456789'' ! n] else digits (n div 10) @ [''0123456789'' ! (n mod 10)])"

declare digits.simps [simp del]

definition str_of_int :: "int \<Rightarrow> string" where
  "str_of_int i = (if i < 0 then CHR ''-'' # digits (nat (- i)) else digits (nat i))"

definition of_digit :: "char \<Rightarrow> nat" where
  "of_digit c = of_char c - 48"

definition of_digits :: "string \<Rightarrow> nat" where
  "of_digits cs = foldl (\<lambda>n c. 10 * n + of_digit c) 0 cs"

fun py_str :: "(yaml \<Rightarrow> string) \<Rightarrow> yaml \<Rightarrow> string" where
  "py_str repr YNull = ''None''"
| "py_str repr (YBool b) = (if b then ''True'' else ''False'')"
| "py_str repr (YInt i) = str_of_int i"
| "py_str repr (YStr s) = s"
| "py_str repr obj = repr obj"

text \<open>
  \<open>items.index(s)\<close> for a string \<open>s\<close>: on a list the position of the first element
  equal to \<open>s\<close>, on a string the position of the first occurrence of \<open>s\<close> in it, and
  \<open>ValueError\<close> when there is none; any other value has no attribute \<open>index\<close>.
\<close>

primrec index_of :: "'a \<Rightarrow> 'a list \<Rightarrow> nat option" where
  "index_of x [] = None"
| "index_of x (y # ys) = (if y = x then Some 0 else map_option Suc (index_of x ys))"

fun find_sub :: "string \<Rightarrow> string \<Rightarrow> nat option" where
  "find_sub sub [] = (if sub = [] then Some 0 else None)"
| "find_sub sub (c # cs) =
     (if prefix sub (c # cs) then Some 0 else map_option Suc (find_sub sub cs))"

fun py_index :: "yaml \<Rightarrow> string \<Rightarrow> (py_exception, nat) result" where
  "py_index (YSeq xs) s = (case index_of (YStr s) xs of Some i \<Rightarrow> Inr i | None \<Rightarrow> Inl ValueError)"
| "py_index (YStr t) s = (case find_sub s t of Some i \<Rightarrow> Inr i | None \<Rightarrow> Inl ValueError)"
| "py_index obj s = Inl AttributeError"

text \<open>
  \<open>len(obj)\<close>, and \<open>obj[i]\<close> for an integer \<open>i\<close> that is not negative: an element of a
  list, a character of a string, \<open>KeyError\<close> on a dict (whose keys are strings).
\<close>

fun py_len :: "yaml \<Rightarrow> (py_exception, nat) result" where
  "py_len (YSeq xs) = Inr (length xs)"
| "py_len (YStr s) = Inr (length s)"
| "py_len (YMap kvs) = Inr (length kvs)"
| "py_len obj = Inl TypeError"

fun py_getitem :: "yaml \<Rightarrow> nat \<Rightarrow> (py_exception, yaml) result" where
  "py_getitem (YSeq xs) i = (if i < length xs then Inr (xs ! i) else Inl IndexError)"
| "py_getitem (YStr s) i = (if i < length s then Inr (YStr [s ! i]) else Inl IndexError)"
| "py_getitem (YMap kvs) i = Inl KeyError"
| "py_getitem obj i = Inl TypeError"

section \<open>Facts: decimal strings\<close>

text \<open>
  \<open>of_digits\<close> reads a decimal string back; it inverts \<open>digits\<close>, so \<open>str\<close> maps different
  integers to different strings.
\<close>

lemma digits_simps:
  "n < 10 \<Longrightarrow> digits n = [''0123456789'' ! n]"
  "10 \<le> n \<Longrightarrow> digits n = digits (n div 10) @ [''0123456789'' ! (n mod 10)]"
  by (subst digits.simps, simp)+

lemma digit_value: "n < 10 \<Longrightarrow> of_digit (''0123456789'' ! n) = n"
proof -
  assume "n < 10"
  then have "n \<in> {0, 1, 2, 3, 4, 5, 6, 7, 8, 9}" by auto
  then show ?thesis by (auto simp: of_digit_def)
qed

lemma of_digits_snoc: "of_digits (cs @ [c]) = 10 * of_digits cs + of_digit c"
  by (simp add: of_digits_def)

lemma of_digits_digits [simp]: "of_digits (digits n) = n"
proof (induction n rule: digits.induct)
  case (1 n)
  show ?case
  proof (cases "n < 10")
    case True
    then show ?thesis by (simp add: digits_simps of_digits_def digit_value)
  next
    case False
    with 1 show ?thesis by (simp add: digits_simps of_digits_snoc digit_value)
  qed
qed

lemma digits_inj: "digits m = digits n \<Longrightarrow> m = n"
  by (metis of_digits_digits)

lemma digits_nonempty [simp]: "digits n \<noteq> []"
  by (subst digits.simps) simp

lemma digit_not_minus: "k < 10 \<Longrightarrow> ''0123456789'' ! k \<noteq> CHR ''-''"
proof -
  assume "k < 10"
  then have "k \<in> {0, 1, 2, 3, 4, 5, 6, 7, 8, 9}" by auto
  then show ?thesis by auto
qed

lemma digits_no_minus: "CHR ''-'' \<notin> set (digits n)"
proof (induction n rule: digits.induct)
  case (1 n)
  show ?case
  proof (cases "n < 10")
    case True
    with digit_not_minus [of n] show ?thesis by (auto simp: digits_simps)
  next
    case False
    with 1 digit_not_minus [of "n mod 10"] show ?thesis by (auto simp: digits_simps)
  qed
qed

lemma str_of_int_inj: "str_of_int i = str_of_int j \<Longrightarrow> i = j"
proof -
  assume eq: "str_of_int i = str_of_int j"
  have neg: "hd (str_of_int k) = CHR ''-'' \<longleftrightarrow> k < 0" for k
    using digits_no_minus [of "nat k"] digits_nonempty [of "nat k"]
    by (cases "digits (nat k)") (auto simp: str_of_int_def)
  from eq neg [of i] neg [of j] have "i < 0 \<longleftrightarrow> j < 0" by simp
  with eq show ?thesis by (auto simp: str_of_int_def dest!: digits_inj)
qed

section \<open>The widget and its collaborators\<close>

text \<open>
  The calls a handler makes into \<open>imgui\<close>, with their arguments. A widget is the
  attributes of \<open>Widget\<close> the handlers read (\<open>_data_path\<close>, \<open>_field_values\<close>,
  \<open>_params\<close>, \<open>uid\<close>, \<open>_data_bag\<close>), the field store and the data bag being of any
  type, and the calls it has made so far.
\<close>

datatype imgui_call =
    List_box string int yaml yaml
  | Open_popup yaml
  | Close_current_popup

record ('f, 'b) widget =
  data_path :: yaml
  field_values :: 'f
  params :: yaml
  uid :: string
  data_bag :: 'b
  imgui_calls :: "imgui_call list"

text \<open>
  The collaborators: \<open>get\<close> and \<open>set\<close> of the field store and \<open>get\<close> of the data bag
  return a \<open>Result\<close>, which is truthy exactly when it is \<open>Ok\<close> and then holds the value
  \<open>unwrapped\<close>; \<open>set\<close> also changes the store; \<open>_handle_error\<close> maps a result to a
  result; \<open>repr\<close> prints a list or a dict.
\<close>

record ('f, 'b, 'e) widget_env =
  fv_get :: "'f \<Rightarrow> string \<Rightarrow> ('e, yaml) result"
  fv_set :: "'f \<Rightarrow> string \<Rightarrow> yaml \<Rightarrow> ('e, unit) result \<times> 'f"
  bag_get :: "'b \<Rightarrow> string \<Rightarrow> yaml \<Rightarrow> ('e, yaml) result"
  handle_error :: "('e, yaml) result \<Rightarrow> ('e, yaml) result"
  repr :: "yaml \<Rightarrow> string"

text \<open>
  What a handler returns when it does not return \<open>Ok(None)\<close>: one of its own
  \<open>Result.error\<close> values, with the failed result of the collaborator where the code
  passes it on, or the exception that leaves it.
\<close>

datatype 'e widget_error =
    Requires_path
  | Get_failed 'e
  | Params_not_dict yaml
  | Set_failed 'e
  | Requires_id
  | Raised py_exception

definition imgui :: "imgui_call \<Rightarrow> ('f, 'b) widget \<Rightarrow> ('f, 'b) widget" where
  "imgui call self = self\<lparr>imgui_calls := imgui_calls self @ [call]\<rparr>"

end
