(* ===== verification/Listbox_Widget.thy ===== *)
theory Listbox_Widget
  imports Widget_Base
begin

text \<open>
  The \<open>Listbox\<close> widget of \<open>src/imery/frontend/widgets/listbox.py\<close>: its handler
  \<open>_pre_render_head\<close>, which shows the items of its parameters with the current value
  of the field \<open>label\<close> selected and stores the item the user picks.
\<close>

section \<open>The handler\<close>

text \<open>
  \<open>current_index\<close> is the \<open>try\<close> block: the index of the current value among the
  items, 0 when \<open>index\<close> raises \<open>ValueError\<close>; another exception leaves the handler.
  \<open>select\<close> is what follows \<open>changed and 0 <= idx\<close>: the comparison with \<open>len(items)\<close>
  and the store of \<open>items[idx]\<close>. \<open>list_box\<close> is the call into the runtime: from the
  identifier, the index, the items and the height to the pair \<open>changed, idx\<close>.
\<close>

definition current_index :: "yaml \<Rightarrow> string \<Rightarrow> (py_exception, int) result" where
  "current_index items s =
     (case py_index items s of
        Inr i \<Rightarrow> Inr (int i)
      | Inl e \<Rightarrow> if e = ValueError then Inr 0 else Inl e)"

definition select ::
  "('f, 'b, 'e) widget_env \<Rightarrow> yaml \<Rightarrow> int \<Rightarrow> ('f, 'b) widget \<Rightarrow>
     ('e widget_error, unit) result \<times> ('f, 'b) widget" where
  "select env items idx self =
     (case py_len items of
        Inl e \<Rightarrow> (Inl (Raised e), self)
      | Inr n \<Rightarrow>
          if idx < int n
          then (case py_getitem items (nat idx) of
                  Inl e \<Rightarrow> (Inl (Raised e), self)
                | Inr item \<Rightarrow>
                    (case fv_set env (field_values self) ''label'' item of
                       (Inl e, f) \<Rightarrow> (Inl (Set_failed e), self\<lparr>field_values := f\<rparr>)
                     | (Inr u, f) \<Rightarrow> (Ok_None, self\<lparr>field_values := f\<rparr>)))
          else (Ok_None, self))"

definition listbox_pre_render_head ::
  "('f, 'b, 'e) widget_env \<Rightarrow> (string \<Rightarrow> int \<Rightarrow> yaml \<Rightarrow> yaml \<Rightarrow> bool \<times> int) \<Rightarrow> ('f, 'b) widget \<Rightarrow>
     ('e widget_error, unit) result \<times> ('f, 'b) widget" where
  "listbox_pre_render_head env list_box self =
     (if \<not> py_truthy (data_path self) then (Inl Requires_path, self)
      else case fv_get env (field_values self) ''label'' of
        Inl e \<Rightarrow> (Inl (Get_failed e), self)
      | Inr current_value \<Rightarrow>
          (case params self of
             YMap kvs \<Rightarrow>
               (let items = (case dict_get kvs ''items'' of Some v \<Rightarrow> v | None \<Rightarrow> YSeq []);
                    height = (case dict_get kvs ''height'' of Some v \<Rightarrow> v | None \<Rightarrow> YInt 4)
                in case current_index items (py_str (repr env) current_value) of
                     Inl e \<Rightarrow> (Inl (Raised e), self)
                   | Inr idx \<Rightarrow>
                       (let imgui_id = ''###'' @ uid self;
                            (changed, idx') = list_box imgui_id idx items height;
                            self = imgui (List_box imgui_id idx items height) self
                        in if changed \<and> 0 \<le> idx' then select env items idx' self
                           else (Ok_None, self)))
           | other \<Rightarrow> (Inl (Params_not_dict other), self)))"

section \<open>Vocabulary\<close>

text \<open>
  The items and the height a list box is given, the string the current value is
  looked up as, and when the handler gets as far as the call of \<open>index\<close>.
\<close>

definition items_of :: "yaml \<Rightarrow> yaml" where
  "items_of ps = (case ps of YMap kvs \<Rightarrow> (case dict_get kvs ''items'' of Some v \<Rightarrow> v | None \<Rightarrow> YSeq [])
                  | _ \<Rightarrow> YSeq [])"

definition height_of :: "yaml \<Rightarrow> yaml" where
  "height_of ps = (case ps of YMap kvs \<Rightarrow> (case dict_get kvs ''height'' of Some v \<Rightarrow> v | None \<Rightarrow> YInt 4)
                   | _ \<Rightarrow> YInt 4)"

definition is_dict :: "yaml \<Rightarrow> bool" where
  "is_dict v \<longleftrightarrow> (case v of YMap kvs \<Rightarrow> True | _ \<Rightarrow> False)"

definition indexable :: "yaml \<Rightarrow> bool" where
  "indexable v \<longleftrightarrow> (case v of YSeq xs \<Rightarrow> True | YStr s \<Rightarrow> True | _ \<Rightarrow> False)"

definition can_show :: "('f, 'b, 'e) widget_env \<Rightarrow> ('f, 'b) widget \<Rightarrow> yaml \<Rightarrow> bool" where
  "can_show env self v \<longleftrightarrow>
     py_truthy (data_path self) \<and> fv_get env (field_values self) ''label'' = Inr v \<and>
     is_dict (params self)"

definition shown_index :: "(yaml \<Rightarrow> string) \<Rightarrow> yaml list \<Rightarrow> yaml \<Rightarrow> int" where
  "shown_index rp xs v = (case index_of (YStr (py_str rp v)) xs of Some j \<Rightarrow> int j | None \<Rightarrow> 0)"

definition shown_call :: "('f, 'b) widget \<Rightarrow> int \<Rightarrow> imgui_call" where
  "shown_call self idx =
     List_box (''###'' @ uid self) idx (items_of (params self)) (height_of (params self))"

section \<open>Facts: positions\<close>

lemma index_of_Some:
  "index_of x xs = Some i \<Longrightarrow> i < length xs \<and> xs ! i = x \<and> (\<forall>j < i. xs ! j \<noteq> x)"
proof (induction xs arbitrary: i)
  case (Cons y ys)
  show ?case
  proof (cases "y = x")
    case False
    with Cons.prems obtain k where k: "index_of x ys = Some k" "i = Suc k" by auto
    from Cons.IH [OF k(1)] False show ?thesis by (auto simp: k(2) less_Suc_eq_0_disj)
  qed (use Cons.prems in simp)
qed simp

lemma index_of_None_iff: "index_of x xs = None \<longleftrightarrow> x \<notin> set xs"
  by (induction xs) auto

lemma index_of_nth: "distinct xs \<Longrightarrow> i < length xs \<Longrightarrow> index_of (xs ! i) xs = Some i"
proof (induction xs arbitrary: i)
  case (Cons y ys)
  then show ?case by (cases i) (auto simp: nth_eq_iff_index_eq)
qed simp

lemma index_of_first:
  "i < length xs \<Longrightarrow> \<exists>j \<le> i. index_of (xs ! i) xs = Some j \<and> xs ! j = xs ! i"
proof -
  assume "i < length xs"
  then have "xs ! i \<in> set xs" by simp
  then obtain j where j: "index_of (xs ! i) xs = Some j"
    by (cases "index_of (xs ! i) xs") (simp_all add: index_of_None_iff)
  from index_of_Some [OF this] have "xs ! j = xs ! i" "\<not> i < j" by auto
  with j show ?thesis by (intro exI [of _ j]) simp
qed

lemma find_sub_Some: "find_sub sub t = Some i \<Longrightarrow> i \<le> length t \<and> (sub \<noteq> [] \<longrightarrow> i < length t)"
proof (induction t arbitrary: i)
  case (Cons c cs)
  then show ?case by (cases "prefix sub (c # cs)") auto
qed (simp split: if_splits)

lemma find_sub_Nil [simp]: "find_sub [] t = Some 0"
  by (cases t) simp_all

section \<open>Facts: the index shown\<close>

lemma current_index_cases:
  obtains (found) i where "py_index items s = Inr i" "current_index items s = Inr (int i)"
  | (absent) "py_index items s = Inl ValueError" "current_index items s = Inr 0"
  | (raised) "\<not> indexable items" "current_index items s = Inl AttributeError"
  by (cases items; cases "py_index items s")
     (auto simp: current_index_def indexable_def split: option.splits)

lemma current_index_list: "current_index (YSeq xs) (py_str rp v) = Inr (shown_index rp xs v)"
  by (simp add: current_index_def shown_index_def split: option.splits)

lemma current_index_Inl_iff: "current_index items s = Inl e \<longleftrightarrow> e = AttributeError \<and> \<not> indexable items"
  by (cases items) (auto simp: current_index_def indexable_def split: option.splits)

lemma current_index_bounds:
  assumes "current_index items s = Inr idx"
  shows "0 \<le> idx \<and> (idx = 0 \<or> (\<exists>n. py_len items = Inr n \<and> idx < int n))"
proof (cases items)
  case (YSeq xs)
  with assms index_of_Some [of "YStr s" xs] show ?thesis
    by (auto simp: current_index_def split: option.splits)
next
  case (YStr t)
  with assms find_sub_Some [of s t] show ?thesis
    by (cases "s = []") (auto simp: current_index_def split: option.splits)
qed (use assms in \<open>auto simp: current_index_def\<close>)


lemma shown_index_number:
  assumes "distinct ns" and "i < length ns"
  shows "shown_index rp (map (\<lambda>n. YStr (str_of_int n)) ns) (YInt (ns ! i)) = int i"
proof -
  have "inj (\<lambda>n. YStr (str_of_int n))" by (auto simp: inj_def dest: str_of_int_inj)
  with assms(1) have "distinct (map (\<lambda>n. YStr (str_of_int n)) ns)" by (simp add: distinct_map inj_on_def inj_def)
  from index_of_nth [OF this, of i] assms(2) show ?thesis by (simp add: shown_index_def)
qed

section \<open>Facts: the handler by case\<close>

lemma imgui_simps [simp]:
  "data_path (imgui call self) = data_path self" "field_values (imgui call self) = field_values self"
  "params (imgui call self) = params self" "uid (imgui call self) = uid self"
  "data_bag (imgui call self) = data_bag self"
  "imgui_calls (imgui call self) = imgui_calls self @ [call]"
  by (simp_all add: imgui_def)

lemma listbox_no_path:
  "\<not> py_truthy (data_path self) \<Longrightarrow> listbox_pre_render_head env list_box self = (Inl Requires_path, self)"
  by (simp add: listbox_pre_render_head_def)

lemma listbox_get_failed:
  "py_truthy (data_path self) \<Longrightarrow> fv_get env (field_values self) ''label'' = Inl e \<Longrightarrow>
     listbox_pre_render_head env list_box self = (Inl (Get_failed e), self)"
  by (simp add: listbox_pre_render_head_def)

lemma listbox_not_dict:
  "py_truthy (data_path self) \<Longrightarrow> fv_get env (field_values self) ''label'' = Inr v \<Longrightarrow>
     \<not> is_dict (params self) \<Longrightarrow>
     listbox_pre_render_head env list_box self = (Inl (Params_not_dict (params self)), self)"
  by (cases "params self") (simp_all add: listbox_pre_render_head_def is_dict_def)

lemma listbox_can_show:
  assumes "can_show env self v"
  shows "listbox_pre_render_head env list_box self =
     (case current_index (items_of (params self)) (py_str (repr env) v) of
        Inl e \<Rightarrow> (Inl (Raised e), self)
      | Inr idx \<Rightarrow>
          (case list_box (''###'' @ uid self) idx (items_of (params self)) (height_of (params self)) of
             (changed, idx') \<Rightarrow>
               if changed \<and> 0 \<le> idx'
               then select env (items_of (params self)) idx' (imgui (shown_call self idx) self)
               else (Ok_None, imgui (shown_call self idx) self)))"
  using assms
  by (cases "params self")
     (auto simp: can_show_def is_dict_def listbox_pre_render_head_def items_of_def height_of_def
      shown_call_def Let_def split: sum.splits prod.splits)

lemma listbox_cases [case_names no_path get_failed not_dict can_show]:
  obtains "\<not> py_truthy (data_path self)"
  | e where "py_truthy (data_path self)" "fv_get env (field_values self) ''label'' = Inl e"
  | v where "py_truthy (data_path self)" "fv_get env (field_values self) ''label'' = Inr v"
      "\<not> is_dict (params self)"
  | v where "can_show env self v"
  by (cases "fv_get env (field_values self) ''label''") (auto simp: can_show_def)

lemma select_list:
  "select env (YSeq xs) idx self =
     (if idx < int (length xs)
      then (case fv_set env (field_values self) ''label'' (xs ! nat idx) of
              (Inl e, f) \<Rightarrow> (Inl (Set_failed e), self\<lparr>field_values := f\<rparr>)
            | (Inr u, f) \<Rightarrow> (Ok_None, self\<lparr>field_values := f\<rparr>))
      else (Ok_None, self))" if "0 \<le> idx"
  using that by (auto simp: select_def nat_less_iff)

lemma select_cases [case_names raised kept stored]:
  assumes "0 \<le> idx"
  obtains e where "\<not> indexable items" "select env items idx self = (Inl (Raised e), self)"
  | "select env items idx self = (Ok_None, self)"
  | item r f where "py_getitem items (nat idx) = Inr item"
      "fv_set env (field_values self) ''label'' item = (r, f)"
      "select env items idx self =
         ((case r of Inl e \<Rightarrow> Inl (Set_failed e) | Inr u \<Rightarrow> Ok_None), self\<lparr>field_values := f\<rparr>)"
proof (cases items)
  case (YSeq xs)
  show ?thesis
  proof (cases "idx < int (length xs)")
    case True
    obtain r f where "fv_set env (field_values self) ''label'' (xs ! nat idx) = (r, f)" by force
    with True YSeq assms that(3) [of "xs ! nat idx" r f] show ?thesis
      by (cases r) (auto simp: select_list nat_less_iff)
  qed (use YSeq assms that(2) in \<open>simp add: select_list\<close>)
next
  case (YStr t)
  show ?thesis
  proof (cases "idx < int (length t)")
    case True
    obtain r f where "fv_set env (field_values self) ''label'' (YStr [t ! nat idx]) = (r, f)" by force
    with True YStr assms that(3) [of "YStr [t ! nat idx]" r f] show ?thesis
      by (cases r) (auto simp: select_def nat_less_iff)
  qed (use YStr that(2) in \<open>simp add: select_def\<close>)
next
  case (YMap kvs)
  show ?thesis
  proof (cases "idx < int (length kvs)")
    case True
    with YMap that(1) show ?thesis by (simp add: select_def indexable_def)
  qed (use YMap that(2) in \<open>simp add: select_def\<close>)
qed (use that(1) in \<open>simp_all add: select_def indexable_def\<close>)


lemma select_imgui_calls [simp]: "imgui_calls (snd (select env items idx self)) = imgui_calls self"
  by (auto simp: select_def split: sum.splits prod.splits)

lemma listbox_shows:
  assumes "can_show env self v"
    and "current_index (items_of (params self)) (py_str (repr env) v) = Inr idx"
  shows "imgui_calls (snd (listbox_pre_render_head env list_box self)) =
     imgui_calls self @ [shown_call self idx]"
  using assms by (auto simp: listbox_can_show split: prod.splits)

section \<open>Facts: what a frame keeps\<close>

text \<open>
  The rule for a property of the widget that the handler keeps: it is enough that it
  survives the call of the list box and a store of an item under \<open>label\<close>.
\<close>

lemma listbox_invariant:
  assumes "P self"
    and call: "\<And>v idx. can_show env self v \<Longrightarrow>
      current_index (items_of (params self)) (py_str (repr env) v) = Inr idx \<Longrightarrow>
      P (imgui (shown_call self idx) self)"
    and store: "\<And>w i x r f. P w \<Longrightarrow> params w = params self \<Longrightarrow>
      py_getitem (items_of (params self)) i = Inr x \<Longrightarrow>
      fv_set env (field_values w) ''label'' x = (r, f) \<Longrightarrow> P (w\<lparr>field_values := f\<rparr>)"
  shows "P (snd (listbox_pre_render_head env list_box self))"
proof (cases rule: listbox_cases [where self = self and env = env])
  case (can_show v)
  let ?items = "items_of (params self)"
  show ?thesis
  proof (cases "current_index ?items (py_str (repr env) v)")
    case (Inl e)
    with can_show assms(1) show ?thesis by (simp add: listbox_can_show)
  next
    case (Inr idx)
    let ?w = "imgui (shown_call self idx) self"
    from call [OF can_show Inr] have w: "P ?w" .
    obtain changed idx' where lb: "list_box (''###'' @ uid self) idx ?items (height_of (params self))
        = (changed, idx')" by force
    show ?thesis
    proof (cases "changed \<and> 0 \<le> idx'")
      case True
      then have "0 \<le> idx'" by simp
      then have "P (snd (select env ?items idx' ?w))"
      proof (cases rule: select_cases [where env = env and items = ?items and self = ?w])
        case (stored item r f)
        with store [OF w _ stored(1,2)] show ?thesis by simp
      qed (use w in simp_all)
      with True can_show Inr lb show ?thesis by (simp add: listbox_can_show)
    qed (use can_show Inr lb w in \<open>auto simp: listbox_can_show\<close>)
  qed
qed (use assms(1) in \<open>simp_all add: listbox_no_path listbox_get_failed listbox_not_dict\<close>)

end
