(* ===== verification/Popup_Widgets.thy ===== *)
theory Popup_Widgets
  imports Widget_Base
begin

text \<open>
  The widgets \<open>OpenPopup\<close> and \<open>CloseCurrentPopup\<close> of
  \<open>src/imery/frontend/widgets/popup-control.py\<close>: a widget that opens the popup its
  data bag names, and one that closes the popup being shown.
\<close>

section \<open>OpenPopup\<close>

text \<open>
  \<open>_prepare_render\<close> needs no data path and returns \<open>Ok(None)\<close>. \<open>_pre_render_head\<close>
  asks the data bag for \<open>id\<close> with the default \<open>None\<close>, passes the result through
  \<open>_handle_error\<close>, takes the value if the result is \<open>Ok\<close>, and fails when what it has
  then is falsy; otherwise it opens the popup.
\<close>

definition open_popup_prepare_render ::
  "('f, 'b) widget \<Rightarrow> ('e widget_error, unit) result \<times> ('f, 'b) widget" where
  "open_popup_prepare_render self = (Ok_None, self)"

definition open_popup_pre_render_head ::
  "('f, 'b, 'e) widget_env \<Rightarrow> ('f, 'b) widget \<Rightarrow> ('e widget_error, unit) result \<times> ('f, 'b) widget" where
  "open_popup_pre_render_head env self =
     (let popup_id = YNull;
          res = handle_error env (bag_get env (data_bag self) ''id'' popup_id);
          popup_id = (case res of Inr unwrapped \<Rightarrow> unwrapped | Inl e \<Rightarrow> popup_id)
      in if \<not> py_truthy popup_id then (Inl Requires_id, self)
         else (Ok_None, imgui (Open_popup popup_id) self))"

section \<open>CloseCurrentPopup\<close>

definition close_popup_prepare_render ::
  "('f, 'b) widget \<Rightarrow> ('e widget_error, unit) result \<times> ('f, 'b) widget" where
  "close_popup_prepare_render self = (Ok_None, self)"

definition close_popup_pre_render_head ::
  "('f, 'b) widget \<Rightarrow> ('e widget_error, unit) result \<times> ('f, 'b) widget" where
  "close_popup_pre_render_head self = (Ok_None, imgui Close_current_popup self)"

section \<open>Vocabulary\<close>

text \<open>The identifier \<open>OpenPopup\<close> resolves, if it resolves one that is truthy.\<close>

definition popup_id_of :: "('f, 'b, 'e) widget_env \<Rightarrow> ('f, 'b) widget \<Rightarrow> yaml option" where
  "popup_id_of env self =
     (case handle_error env (bag_get env (data_bag self) ''id'' YNull) of
        Inr v \<Rightarrow> if py_truthy v then Some v else None
      | Inl e \<Rightarrow> None)"

section \<open>Facts\<close>

lemma popup_id_of_cong: "data_bag w = data_bag self \<Longrightarrow> popup_id_of env w = popup_id_of env self"
  by (simp add: popup_id_of_def)


lemma open_popup_Some:
  "popup_id_of env self = Some v \<Longrightarrow>
     open_popup_pre_render_head env self = (Ok_None, imgui (Open_popup v) self)"
  by (auto simp: popup_id_of_def open_popup_pre_render_head_def split: sum.splits if_splits)

lemma open_popup_None:
  "popup_id_of env self = None \<Longrightarrow> open_popup_pre_render_head env self = (Inl Requires_id, self)"
  by (auto simp: popup_id_of_def open_popup_pre_render_head_def split: sum.splits if_splits)

end
