(* ===== verification/Widgets.thy ===== *)
theory Widgets
  imports Listbox_Widget Popup_Widgets
begin

text \<open>
  The three widget classes together: the handler a widget of each class runs in a
  frame, the widgets a sequence of frames reaches, and what every frame keeps.
\<close>

section \<open>Classes and frames\<close>

text \<open>
  \<open>pre_render_head\<close> is the method \<open>_pre_render_head\<close> of a widget of the given class.
  \<open>frames cls env self self'\<close>: the widget \<open>self'\<close> is what \<open>self\<close> has become after some
  number of frames, whatever the runtime answered in each.
\<close>

datatype widget_class = Listbox | OpenPopup | CloseCurrentPopup

definition pre_render_head ::
  "widget_class \<Rightarrow> ('f, 'b, 'e) widget_env \<Rightarrow> (string \<Rightarrow> int \<Rightarrow> yaml \<Rightarrow> yaml \<Rightarrow> bool \<times> int) \<Rightarrow>
     ('f, 'b) widget \<Rightarrow> ('e widget_error, unit) result \<times> ('f, 'b) widget" where
  "pre_render_head cls env list_box self =
     (case cls of
        Listbox \<Rightarrow> listbox_pre_render_head env list_box self
      | OpenPopup \<Rightarrow> open_popup_pre_render_head env self
      | CloseCurrentPopup \<Rightarrow> close_popup_pre_render_head self)"

inductive frames ::
  "widget_class \<Rightarrow> ('f, 'b, 'e) widget_env \<Rightarrow> ('f, 'b) widget \<Rightarrow> ('f, 'b) widget \<Rightarrow> bool"
  for cls :: widget_class and env :: "('f, 'b, 'e) widget_env" and self :: "('f, 'b) widget" where
  start: "frames cls env self self"
| frame: "frames cls env self mid \<Longrightarrow> pre_render_head cls env list_box mid = (r, self') \<Longrightarrow>
     frames cls env self self'"

text \<open>
  A call is sound for a widget when it is one the widget may make: a list box under
  the identifier of the widget, with its items and height and an index that is 0 or a
  position of the items; a popup opened under a truthy identifier; a close.
\<close>

definition sound_call :: "('f, 'b) widget \<Rightarrow> imgui_call \<Rightarrow> bool" where
  "sound_call self call \<longleftrightarrow>
     (case call of
        List_box imgui_id idx items height \<Rightarrow>
          imgui_id = ''###'' @ uid self \<and> items = items_of (params self) \<and>
          height = height_of (params self) \<and> 0 \<le> idx \<and>
          (idx = 0 \<or> (case py_len items of Inr n \<Rightarrow> idx < int n | Inl e \<Rightarrow> False))
      | Open_popup popup_id \<Rightarrow> py_truthy popup_id
      | Close_current_popup \<Rightarrow> True)"

text \<open>
  The call a popup widget makes in every frame, if it makes one: \<open>OpenPopup\<close> opens
  the popup its data bag names and makes no call when it names none.
\<close>

definition popup_call :: "widget_class \<Rightarrow> ('f, 'b, 'e) widget_env \<Rightarrow> ('f, 'b) widget \<Rightarrow> imgui_call list" where
  "popup_call cls env self =
     (case cls of
        OpenPopup \<Rightarrow> (case popup_id_of env self of Some v \<Rightarrow> [Open_popup v] | None \<Rightarrow> [])
      | CloseCurrentPopup \<Rightarrow> [Close_current_popup]
      | Listbox \<Rightarrow> [])"

definition same_widget :: "('f, 'b) widget \<Rightarrow> ('f, 'b) widget \<Rightarrow> bool" where
  "same_widget self self' \<longleftrightarrow>
     data_path self' = data_path self \<and> params self' = params self \<and> uid self' = uid self \<and>
     data_bag self' = data_bag self"

section \<open>Facts: one frame\<close>

lemma current_index_sound:
  "current_index (items_of (params self)) s = Inr idx \<Longrightarrow> sound_call self (shown_call self idx)"
  using current_index_bounds [of "items_of (params self)" s idx]
  by (auto simp: sound_call_def shown_call_def)

text \<open>
  The rule for a property of the widget that a frame keeps: it is enough that it
  survives a sound call and a store of an item of the list under \<open>label\<close>.
\<close>

lemma pre_render_head_invariant:
  assumes "P self"
    and call: "\<And>c. sound_call self c \<Longrightarrow> P (imgui c self)"
    and store: "\<And>w i x r f. P w \<Longrightarrow> params w = params self \<Longrightarrow>
      py_getitem (items_of (params self)) i = Inr x \<Longrightarrow>
      fv_set env (field_values w) ''label'' x = (r, f) \<Longrightarrow> P (w\<lparr>field_values := f\<rparr>)"
  shows "P (snd (pre_render_head cls env list_box self))"
proof (cases cls)
  case Listbox
  have "P (snd (listbox_pre_render_head env list_box self))"
    using assms(1) by (rule listbox_invariant) (auto intro: call store current_index_sound)
  with Listbox show ?thesis by (simp add: pre_render_head_def)
next
  case OpenPopup
  with assms(1) call show ?thesis
    by (cases "popup_id_of env self")
       (auto simp: pre_render_head_def open_popup_Some open_popup_None popup_id_of_def
        sound_call_def split: sum.splits if_splits)
next
  case CloseCurrentPopup
  with call [of Close_current_popup] show ?thesis
    by (simp add: pre_render_head_def close_popup_pre_render_head_def sound_call_def)
qed


section \<open>Facts: frames\<close>

lemma same_widget_refl [simp]: "same_widget self self"
  by (simp add: same_widget_def)

lemma same_widget_simps [simp]:
  "same_widget self (imgui c w) \<longleftrightarrow> same_widget self w"
  "same_widget self (w\<lparr>field_values := f\<rparr>) \<longleftrightarrow> same_widget self w"
  by (simp_all add: same_widget_def)

lemma sound_call_same: "same_widget self w \<Longrightarrow> sound_call w c \<longleftrightarrow> sound_call self c"
  by (cases c) (simp_all add: sound_call_def same_widget_def)

lemma frames_invariant:
  assumes "frames cls env self self'" and "P self"
    and call: "\<And>w c. P w \<Longrightarrow> same_widget self w \<Longrightarrow> sound_call self c \<Longrightarrow> P (imgui c w)"
    and store: "\<And>w i x r f. P w \<Longrightarrow> same_widget self w \<Longrightarrow>
      py_getitem (items_of (params self)) i = Inr x \<Longrightarrow>
      fv_set env (field_values w) ''label'' x = (r, f) \<Longrightarrow> P (w\<lparr>field_values := f\<rparr>)"
  shows "P self' \<and> same_widget self self'"
  using assms(1)
proof (induction rule: frames.induct)
  case start
  from assms(2) show ?case by simp
next
  case (frame mid list_box r self')
  let ?Q = "\<lambda>w. P w \<and> same_widget self w"
  from frame.IH have "?Q (snd (pre_render_head cls env list_box mid))"
  proof (rule pre_render_head_invariant, goal_cases)
    case (1 c)
    with frame.IH call [of mid c] sound_call_same [of self mid c] show ?case by simp
  next
    case (2 w i x r f)
    with frame.IH store [of w i x r f] show ?case by (simp add: same_widget_def)
  qed
  with frame.hyps(2) show ?case by simp
qed

lemma popup_frame:
  "cls \<noteq> Listbox \<Longrightarrow>
     snd (pre_render_head cls env list_box w) = w\<lparr>imgui_calls := imgui_calls w @ popup_call cls env w\<rparr>"
  by (cases cls; cases "popup_id_of env w")
     (simp_all add: pre_render_head_def open_popup_Some open_popup_None popup_call_def
      close_popup_pre_render_head_def imgui_def)

lemma popup_call_same: "same_widget self w \<Longrightarrow> popup_call cls env w = popup_call cls env self"
  using popup_id_of_cong [of w self env] by (cases cls) (simp_all add: popup_call_def same_widget_def)

lemma concat_replicate_snoc: "concat (replicate n c) @ c = concat (replicate (Suc n) c)"
  by (induction n) simp_all

section \<open>Fixtures\<close>

text \<open>
  \<open>dict_env\<close> is an implementation of the collaborators over dictionaries: the field
  store and the data bag are dictionaries, \<open>get\<close> of a missing field fails with its
  name, \<open>set\<close> always succeeds, \<open>_handle_error\<close> passes its argument on.
  \<open>colours\<close> is a list box over three colours with \<open>green\<close> selected, \<open>pick i\<close> a runtime
  in which the user picks the item \<open>i\<close>, and \<open>idle\<close> one in which nothing is picked.
\<close>

definition dict_env :: "((string, yaml) dict, (string, yaml) dict, string) widget_env" where
  "dict_env =
     \<lparr>fv_get = (\<lambda>f k. case dict_get f k of Some v \<Rightarrow> Inr v | None \<Rightarrow> Inl k),
      fv_set = (\<lambda>f k v. (Ok_None, dict_set k v f)),
      bag_get = (\<lambda>b k d. Inr (case dict_get b k of Some v \<Rightarrow> v | None \<Rightarrow> d)),
      handle_error = (\<lambda>r. r),
      repr = (\<lambda>v. [])\<rparr>"

definition colours :: "((string, yaml) dict, (string, yaml) dict) widget" where
  "colours =
     \<lparr>data_path = YStr ''settings/colour'',
      field_values = [(''label'', YStr ''green'')],
      params = YMap [(''items'', YSeq [YStr ''red'', YStr ''green'', YStr ''blue''])],
      uid = ''7'', data_bag = [], imgui_calls = []\<rparr>"

definition pick :: "int \<Rightarrow> string \<Rightarrow> int \<Rightarrow> yaml \<Rightarrow> yaml \<Rightarrow> bool \<times> int" where
  "pick i imgui_id idx items height = (True, i)"

definition idle :: "string \<Rightarrow> int \<Rightarrow> yaml \<Rightarrow> yaml \<Rightarrow> bool \<times> int" where
  "idle imgui_id idx items height = (False, idx)"

lemmas widget_eval =
  listbox_pre_render_head_def select_def current_index_def dict_env_def colours_def
  pick_def idle_def imgui_def Let_def items_of_def height_of_def shown_call_def

lemma colours_pick:
  "listbox_pre_render_head dict_env (pick 2) colours =
     (Ok_None, colours\<lparr>field_values := [(''label'', YStr ''blue'')],
        imgui_calls := [List_box ''###7'' 1 (YSeq [YStr ''red'', YStr ''green'', YStr ''blue'']) (YInt 4)]\<rparr>)"
  by (simp add: widget_eval)

lemma colours_can_show: "can_show dict_env colours (YStr ''green'')"
  by (simp add: can_show_def dict_env_def colours_def is_dict_def)


section \<open>The list box in one frame\<close>

text \<open>
  C20: \<open>Listbox._pre_render_head\<close> keeps its indices in range. The only exception that
  leaves it is the \<open>AttributeError\<close> of \<open>index\<close> on items that are neither a list nor a
  string: \<open>items[idx]\<close> never raises \<open>IndexError\<close> and \<open>len(items)\<close> never raises.
  And it calls the runtime at most once, with the identifier of the widget, its items
  and an index that is 0 or a position of the items.
\<close>

theorem listbox_index_in_bounds:
  "(\<forall>e. fst (listbox_pre_render_head env list_box self) = Inl (Raised e) \<longrightarrow>
      e = AttributeError \<and> \<not> indexable (items_of (params self))) \<and>
   (imgui_calls (snd (listbox_pre_render_head env list_box self)) = imgui_calls self \<or>
    (\<exists>idx. imgui_calls (snd (listbox_pre_render_head env list_box self)) =
             imgui_calls self @ [shown_call self idx] \<and>
           sound_call self (shown_call self idx)))"
proof (cases rule: listbox_cases [where self = self and env = env])
  case (can_show v)
  let ?items = "items_of (params self)"
  show ?thesis
  proof (cases "current_index ?items (py_str (repr env) v)")
    case (Inl e)
    then have "e = AttributeError" "\<not> indexable ?items" by (simp_all add: current_index_Inl_iff)
    with can_show Inl show ?thesis by (simp add: listbox_can_show)
  next
    case (Inr idx)
    let ?w = "imgui (shown_call self idx) self"
    obtain changed idx' where lb: "list_box (''###'' @ uid self) idx ?items (height_of (params self))
        = (changed, idx')" by force
    from Inr have ix: "indexable ?items"
      using current_index_Inl_iff [of ?items "py_str (repr env) v"]
      by (cases rule: current_index_cases [of ?items "py_str (repr env) v"]) auto
    have sel: "fst (select env ?items idx' ?w) \<noteq> Inl (Raised e) \<and>
      imgui_calls (snd (select env ?items idx' ?w)) = imgui_calls ?w" if "0 \<le> idx'" for e
      using that ix
      by (cases rule: select_cases [where env = env and items = ?items and self = ?w])
         (auto split: sum.splits)
    from current_index_sound [OF Inr] can_show Inr lb sel show ?thesis
      by (auto simp: listbox_can_show)
  qed
qed (simp_all add: listbox_no_path listbox_get_failed listbox_not_dict)

theorem listbox_index_in_bounds_witness:
  "fst (listbox_pre_render_head dict_env (pick 7) (colours\<lparr>params := YMap [(''items'', YInt 3)]\<rparr>))
     = Inl (Raised AttributeError) \<and>
   \<not> indexable (items_of (params (colours\<lparr>params := YMap [(''items'', YInt 3)]\<rparr>))) \<and>
   snd (listbox_pre_render_head dict_env (pick 7) colours) =
     colours\<lparr>imgui_calls := [List_box ''###7'' 1 (YSeq [YStr ''red'', YStr ''green'', YStr ''blue'']) (YInt 4)]\<rparr>"
  using listbox_index_in_bounds [of dict_env "pick 7" "colours\<lparr>params := YMap [(''items'', YInt 3)]\<rparr>"]
  by (simp add: widget_eval)

text \<open>
  C19: When the widget has a data path, the field \<open>label\<close> has a value and the items
  are a list, the handler shows the list with the first item equal to the string of
  the value selected, or the first item when there is none, and then: if the runtime
  reports a change to a position of the list, it stores the item at that position under
  \<open>label\<close> and fails exactly when the store fails; otherwise it stores nothing and
  succeeds.
\<close>

theorem listbox_stores_picked_item:
  assumes "can_show env self v" and "items_of (params self) = YSeq xs"
    and "list_box (''###'' @ uid self) (shown_index (repr env) xs v) (YSeq xs) (height_of (params self))
           = (changed, i)"
  shows "listbox_pre_render_head env list_box self =
     (if changed \<and> 0 \<le> i \<and> i < int (length xs)
      then (case fv_set env (field_values self) ''label'' (xs ! nat i) of
              (Inl e, f) \<Rightarrow> (Inl (Set_failed e),
                  imgui (shown_call self (shown_index (repr env) xs v)) self\<lparr>field_values := f\<rparr>)
            | (Inr u, f) \<Rightarrow> (Ok_None,
                  imgui (shown_call self (shown_index (repr env) xs v)) self\<lparr>field_values := f\<rparr>))
      else (Ok_None, imgui (shown_call self (shown_index (repr env) xs v)) self))"
  using assms by (auto simp: listbox_can_show current_index_list select_list)

theorem listbox_stores_picked_item_witness:
  "listbox_pre_render_head dict_env (pick 2) colours =
     (Ok_None, (imgui (shown_call colours 1) colours)\<lparr>field_values := [(''label'', YStr ''blue'')]\<rparr>) \<and>
   listbox_pre_render_head dict_env (pick 3) colours = (Ok_None, imgui (shown_call colours 1) colours)"
proof -
  have "items_of (params colours) = YSeq [YStr ''red'', YStr ''green'', YStr ''blue'']"
    "shown_index (repr dict_env) [YStr ''red'', YStr ''green'', YStr ''blue''] (YStr ''green'') = 1"
    by (simp_all add: colours_def items_of_def shown_index_def)
  with listbox_stores_picked_item [OF colours_can_show, of _ "pick 2" True 2]
    listbox_stores_picked_item [OF colours_can_show, of _ "pick 3" True 3]
  show ?thesis by (simp add: pick_def) (simp add: dict_env_def colours_def)
qed

section \<open>The widgets over frames\<close>

text \<open>
  C27: Over any number of frames a widget of any of the three classes keeps its data
  path, its parameters, its identifier and its data bag, only adds to the calls it has
  made, and every call it adds is sound: a list box is shown under the identifier of
  the widget with an index in range, and a popup is opened under a truthy identifier.
\<close>

theorem frames_keep_widget_sound:
  assumes "frames cls env self self'"
  shows "same_widget self self' \<and>
         (\<exists>new. imgui_calls self' = imgui_calls self @ new \<and> list_all (sound_call self) new)"
proof -
  let ?P = "\<lambda>w. \<exists>new. imgui_calls w = imgui_calls self @ new \<and> list_all (sound_call self) new"
  from assms have "?P self' \<and> same_widget self self'"
    by (rule frames_invariant) auto
  then show ?thesis by simp
qed

theorem frames_keep_widget_sound_witness:
  "same_widget colours (snd (listbox_pre_render_head dict_env (pick 2) colours)) \<and>
   (\<exists>new. imgui_calls (snd (listbox_pre_render_head dict_env (pick 2) colours)) = imgui_calls colours @ new \<and>
      list_all (sound_call colours) new)"
proof -
  have "frames Listbox dict_env colours (snd (listbox_pre_render_head dict_env (pick 2) colours))"
    by (rule frames.frame [OF frames.start, where list_box = "pick 2"])
       (simp add: pre_render_head_def prod_eq_iff)
  from frames_keep_widget_sound [OF this] show ?thesis .
qed

text \<open>
  C32: If a store under \<open>label\<close> leaves in the field either the value stored or the
  value it had, the items are a list, and the field holds an item of the list, then
  it holds an item of the list after any number of frames.
\<close>

theorem label_stays_an_item:
  assumes "frames cls env self self'"
    and "\<forall>f x r f'. fv_set env f ''label'' x = (r, f') \<longrightarrow>
           fv_get env f' ''label'' = Inr x \<or> fv_get env f' ''label'' = fv_get env f ''label''"
    and "items_of (params self) = YSeq xs"
    and "\<forall>v. fv_get env (field_values self) ''label'' = Inr v \<longrightarrow> v \<in> set xs"
  shows "\<forall>v. fv_get env (field_values self') ''label'' = Inr v \<longrightarrow> v \<in> set xs"
proof -
  let ?P = "\<lambda>w. \<forall>v. fv_get env (field_values w) ''label'' = Inr v \<longrightarrow> v \<in> set xs"
  from assms(1,4) have "?P self' \<and> same_widget self self'"
  proof (rule frames_invariant, goal_cases)
    case (2 w i x r f)
    from 2(3) assms(3) have "x \<in> set xs" by (auto split: if_splits)
    with 2(1) assms(2) [rule_format, OF 2(4)] show ?case by auto
  qed simp
  then show ?thesis by simp
qed

theorem label_stays_an_item_witness:
  "fv_get dict_env (field_values (snd (listbox_pre_render_head dict_env (pick 2) colours))) ''label''
     = Inr (YStr ''blue'') \<and>
   YStr ''blue'' \<in> set [YStr ''red'', YStr ''green'', YStr ''blue'']"
proof -
  have "frames Listbox dict_env colours (snd (listbox_pre_render_head dict_env (pick 2) colours))"
    by (rule frames.frame [OF frames.start, where list_box = "pick 2"])
       (simp add: pre_render_head_def prod_eq_iff)
  from label_stays_an_item [OF this, of "[YStr ''red'', YStr ''green'', YStr ''blue'']"]
  show ?thesis by (simp add: colours_pick) (simp add: dict_env_def)
qed

text \<open>
  C30: The list box shows in the next frame the item picked in this one, by its
  first occurrence: if the user picks position \<open>i\<close> of a list of items, the item there
  is a string, and the store returns and keeps it, then the next frame shows the list
  with the first position of that string selected, which is \<open>i\<close> when the items are
  distinct.
\<close>

theorem listbox_shows_the_picked_item:
  assumes "can_show env self v" and "items_of (params self) = YSeq xs"
    and "list_box (''###'' @ uid self) (shown_index (repr env) xs v) (YSeq xs) (height_of (params self))
           = (True, int i)"
    and "i < length xs" and "xs ! i = YStr s"
    and "fv_set env (field_values self) ''label'' (xs ! i) = (Ok_None, f)"
    and "fv_get env f ''label'' = Inr (xs ! i)"
  shows "\<exists>j \<le> i. xs ! j = xs ! i \<and> (distinct xs \<longrightarrow> j = i) \<and>
     imgui_calls (snd (listbox_pre_render_head env next_box
         (snd (listbox_pre_render_head env list_box self)))) =
       imgui_calls (snd (listbox_pre_render_head env list_box self)) @ [shown_call self (int j)]"
proof -
  let ?w = "imgui (shown_call self (shown_index (repr env) xs v)) self"
  let ?self1 = "?w\<lparr>field_values := f\<rparr>"
  from assms(4) obtain j where j: "j \<le> i" "index_of (xs ! i) xs = Some j" "xs ! j = xs ! i"
    using index_of_first [of i xs] by blast
  from assms(1-4,6)
  have first: "listbox_pre_render_head env list_box self = (Ok_None, ?self1)"
    by (simp add: listbox_can_show current_index_list select_list)
  from assms(1,7) have "can_show env ?self1 (xs ! i)" by (simp add: can_show_def)
  moreover from assms(2,5) j(2)
  have "current_index (items_of (params ?self1)) (py_str (repr env) (xs ! i)) = Inr (int j)"
    by (simp add: current_index_def)
  ultimately have "imgui_calls (snd (listbox_pre_render_head env next_box ?self1)) =
      imgui_calls ?self1 @ [shown_call ?self1 (int j)]"
    by (rule listbox_shows)
  moreover from assms(4) j(2) have "j = i" if "distinct xs"
    using that by (simp add: index_of_nth)
  ultimately show ?thesis using j(1,3) first by (auto simp: shown_call_def)
qed

theorem listbox_shows_the_picked_item_witness:
  "imgui_calls (snd (listbox_pre_render_head dict_env idle
       (snd (listbox_pre_render_head dict_env (pick 2) colours)))) =
     [shown_call colours 1, shown_call colours 2]"
proof -
  let ?xs = "[YStr ''red'', YStr ''green'', YStr ''blue'']"
  have "items_of (params colours) = YSeq ?xs"
    and "pick 2 (''###'' @ uid colours) (shown_index (repr dict_env) ?xs (YStr ''green'')) (YSeq ?xs)
          (height_of (params colours)) = (True, int 2)"
    and "2 < length ?xs" and "?xs ! 2 = YStr ''blue''"
    and "fv_set dict_env (field_values colours) ''label'' (?xs ! 2) = (Ok_None, [(''label'', YStr ''blue'')])"
    and "fv_get dict_env [(''label'', YStr ''blue'')] ''label'' = Inr (?xs ! 2)"
    by (simp_all add: colours_def items_of_def pick_def dict_env_def)
  from listbox_shows_the_picked_item [where next_box = idle and list_box = "pick 2", OF colours_can_show this]
  obtain j where "distinct ?xs \<longrightarrow> j = 2"
    and "imgui_calls (snd (listbox_pre_render_head dict_env idle
           (snd (listbox_pre_render_head dict_env (pick 2) colours)))) =
         imgui_calls (snd (listbox_pre_render_head dict_env (pick 2) colours)) @ [shown_call colours (int j)]"
    by blast
  then show ?thesis by (simp add: colours_pick) (simp add: shown_call_def colours_def items_of_def height_of_def)
qed

section \<open>The popup widgets over frames\<close>

text \<open>
  C31: A popup widget makes the same call in every frame and touches nothing else:
  after some frames an \<open>OpenPopup\<close> has opened the popup its data bag names once per
  frame, or made no call if the bag names none or a falsy one, a \<open>CloseCurrentPopup\<close>
  has closed the current popup once per frame, and the field store is as it was.
\<close>

theorem popup_widgets_repeat_their_call:
  assumes "frames cls env self self'" and "cls \<noteq> Listbox"
  shows "field_values self' = field_values self \<and> same_widget self self' \<and>
         (\<exists>n. imgui_calls self' = imgui_calls self @ concat (replicate n (popup_call cls env self)))"
  using assms(1)
proof (induction rule: frames.induct)
  case start
  show ?case by (auto intro: exI [of _ 0])
next
  case (frame mid list_box r self')
  then obtain n where n: "imgui_calls mid = imgui_calls self @ concat (replicate n (popup_call cls env self))"
    and mid: "field_values mid = field_values self" "same_widget self mid" by blast
  from frame.hyps(2) popup_frame [OF assms(2), of env list_box mid] popup_call_same [OF mid(2), of cls env]
  have self': "self' = mid\<lparr>imgui_calls := imgui_calls mid @ popup_call cls env self\<rparr>" by simp
  with n have "imgui_calls self' = imgui_calls self @ concat (replicate (Suc n) (popup_call cls env self))"
    by (simp add: concat_replicate_snoc del: replicate_Suc)
  moreover from self' mid have "field_values self' = field_values self" "same_widget self self'"
    by (simp_all add: same_widget_def)
  ultimately show ?case by blast
qed

theorem popup_widgets_repeat_their_call_witness:
  "\<exists>n. imgui_calls (snd (open_popup_pre_render_head dict_env (colours\<lparr>data_bag := [(''id'', YStr ''menu'')]\<rparr>)))
       = concat (replicate n [Open_popup (YStr ''menu'')]) \<and>
   fst (open_popup_pre_render_head dict_env (colours\<lparr>data_bag := [(''id'', YInt 0)]\<rparr>)) = Inl Requires_id"
proof -
  let ?w = "colours\<lparr>data_bag := [(''id'', YStr ''menu'')]\<rparr>"
  have "frames OpenPopup dict_env ?w (snd (open_popup_pre_render_head dict_env ?w))"
    by (rule frames.frame [OF frames.start, where list_box = idle])
       (simp add: pre_render_head_def prod_eq_iff)
  from popup_widgets_repeat_their_call [OF this] show ?thesis
    by (simp add: popup_call_def popup_id_of_def dict_env_def colours_def
        open_popup_pre_render_head_def)
qed

end
