(* ===== verification/Resolvers.thy ===== *)
theory Resolvers
  imports Resolution Agg_Reach
begin

text \<open>
  The two resolvers over the same search paths: when their import graphs and the
  sections they read for a module are the same. They read the sections alike; they
  read an import entry alike unless it is a bare string that is not one character
  long, which \<open>Lang\<close> iterates and the aggregator takes for one module name.
\<close>

section \<open>Import entries both resolvers read alike\<close>

definition plain_import :: "yaml \<Rightarrow> bool" where
  "plain_import entry \<longleftrightarrow> (case entry of YStr s \<Rightarrow> length s = 1 | _ \<Rightarrow> True)"

definition plain_imports :: "filesystem \<Rightarrow> bool" where
  "plain_imports fs \<longleftrightarrow>
     list_all (\<lambda>(p, n). case n of
         File (Some (YMap kvs)) \<Rightarrow>
           (case dict_get kvs ''import'' of Some entry \<Rightarrow> plain_import entry | None \<Rightarrow> True)
       | _ \<Rightarrow> True) fs"

section \<open>Facts: the sections\<close>

lemma widget_items_loaded: "widget_items (loaded_content y) = widgets_of y"
  by (cases y) (auto simp: widget_items_def widgets_of_def loaded_content_def none_to_empty_def
      section_items_def)

lemma data_items_loaded: "data_items (loaded_content y) = data_of y"
  by (cases y) (auto simp: data_items_def data_of_def loaded_content_def none_to_empty_def
      section_items_def)

lemma sections_of_nothing [simp]:
  "widget_items (YMap []) = []" "data_items (YMap []) = []" "widgets_of YNull = []" "data_of YNull = []"
  by (simp_all add: widget_items_def data_items_def widgets_of_def data_of_def none_to_empty_def
      section_items_def)

lemma agg_widgets_of_doc: "agg_widgets_of fs paths m = widgets_of (doc_of fs paths m)"
  by (simp add: agg_widgets_of_def doc_of_def module_doc_def file_content_def widget_items_loaded
      split: option.splits)

lemma agg_data_of_doc: "agg_data_of fs paths m = data_of (doc_of fs paths m)"
  by (simp add: agg_data_of_def doc_of_def module_doc_def file_content_def data_items_loaded
      split: option.splits)

section \<open>Facts: the import graphs\<close>

lemma declared_imports_loaded:
  assumes "case y of YMap kvs \<Rightarrow>
      (case dict_get kvs ''import'' of Some entry \<Rightarrow> plain_import entry | None \<Rightarrow> True) | _ \<Rightarrow> True"
  shows "declared_imports (loaded_content y) = import_items y"
proof (cases y)
  case (YMap kvs)
  show ?thesis
  proof (cases "dict_get kvs ''import''")
    case None
    with YMap show ?thesis
      by (auto simp: declared_imports_def loaded_content_def import_items_def none_to_empty_def)
  next
    case (Some entry)
    with YMap assms have "plain_import entry" "kvs \<noteq> []" by auto
    with YMap Some show ?thesis
      by (cases entry)
         (auto simp: declared_imports_def loaded_content_def import_items_def none_to_empty_def
          plain_import_def length_Suc_conv)
  qed
qed (auto simp: declared_imports_def loaded_content_def import_items_def none_to_empty_def)

lemma agg_imports_imports_of:
  assumes "plain_imports fs"
  shows "str_items (agg_imports fs paths (YStr m)) = imports_of fs paths m"
proof (cases "find_yaml_file fs paths m")
  case None
  then show ?thesis by (simp add: agg_imports_def imports_of_def module_doc_def)
next
  case (Some mf)
  show ?thesis
  proof (cases "safe_load fs mf")
    case None
    with Some show ?thesis
      by (simp add: agg_imports_def imports_of_def module_doc_def file_content_def
          declared_imports_def)
  next
    case (Some y)
    then have "(mf, File (Some y)) \<in> set fs" by (rule safe_load_SomeD)
    with assms have "declared_imports (loaded_content y) = import_items y"
      by (intro declared_imports_loaded) (auto simp: plain_imports_def list_all_iff)
    with Some \<open>find_yaml_file fs paths m = Some mf\<close> show ?thesis
      by (simp add: agg_imports_def imports_of_def module_doc_def file_content_def)
  qed
qed

lemma agg_graph_strings:
  assumes "plain_imports fs"
  shows "(x, YStr m') \<in> agg_graph fs paths \<longleftrightarrow> (\<exists>m. x = YStr m \<and> (m, m') \<in> import_graph fs paths)"
proof (cases x)
  case (YStr m)
  from agg_imports_imports_of [OF assms, of paths m]
  have "set (imports_of fs paths m) = {m'. YStr m' \<in> set (agg_imports fs paths (YStr m))}"
    by (simp add: set_str_items [symmetric])
  then show ?thesis by (simp add: YStr agg_graph_def import_graph_def)
qed (auto simp: agg_graph_def agg_imports_def)

lemma agg_graph_source: "(x, y) \<in> agg_graph fs paths \<Longrightarrow> \<exists>m. x = YStr m"
  by (cases x) (auto simp: agg_graph_def agg_imports_def)

text \<open>
  The modules the aggregator reaches from a module are those \<open>Lang\<close> reaches from it.
\<close>

lemma agg_reachable_modules:
  assumes "plain_imports fs"
  shows "{m'. YStr m' \<in> (agg_graph fs paths)\<^sup>* `` {YStr m}} = reachable_modules fs paths {m}"
proof (intro equalityI subsetI)
  fix m' assume "m' \<in> {m'. YStr m' \<in> (agg_graph fs paths)\<^sup>* `` {YStr m}}"
  then have "(YStr m, YStr m') \<in> (agg_graph fs paths)\<^sup>*" by simp
  then have "(m, m') \<in> (import_graph fs paths)\<^sup>*"
  proof (induction "YStr m'" arbitrary: m' rule: rtrancl_induct)
    case (step y)
    from step(2) obtain k where "y = YStr k" by (auto dest: agg_graph_source)
    with step show ?case by (auto simp: agg_graph_strings [OF assms] intro: rtrancl_into_rtrancl)
  qed simp
  then show "m' \<in> reachable_modules fs paths {m}" by (simp add: reachable_modules_def)
next
  fix m' assume "m' \<in> reachable_modules fs paths {m}"
  then have "(m, m') \<in> (import_graph fs paths)\<^sup>*" by (simp add: reachable_modules_def)
  then have "(YStr m, YStr m') \<in> (agg_graph fs paths)\<^sup>*"
    by (induction rule: rtrancl_induct)
       (auto simp: agg_graph_strings [OF assms] intro: rtrancl_into_rtrancl)
  then show "m' \<in> {m'. YStr m' \<in> (agg_graph fs paths)\<^sup>* `` {YStr m}}" by simp
qed

lemma reachable_modules_mono: "A \<subseteq> B \<Longrightarrow> reachable_modules fs paths A \<subseteq> reachable_modules fs paths B"
  by (auto simp: reachable_modules_def)

section \<open>Facts: the two runs\<close>

text \<open>
  What a run of \<open>aggregate\<close> from an aggregator that has visited nothing has done when
  it returns, and what a run of \<open>load_main_module\<close> has merged.
\<close>

lemma aggregate_run:
  assumes "aggregate fs main self = (Inr doc, self')" and "visited_modules self = {}"
  shows "visited_modules self' = (agg_graph fs (search_paths self))\<^sup>* `` {YStr main}"
    and "sourced fs (search_paths self) self self'"
    and "\<forall>x \<in> visited_modules self'. module_merged fs (search_paths self) x self'"
proof -
  let ?start = "py_print (Aggregating main) self"
  from assms(1) have run: "process_module fs (YStr main) ?start = (Ok_None, self')"
    by (simp add: aggregate_Inr_iff)
  from process_module_explores(1) [OF run] assms(2)
  show "visited_modules self' = (agg_graph fs (search_paths self))\<^sup>* `` {YStr main}"
    by (auto dest: explored_all)
  from sourced_traversal [of fs ?start "YStr main"] run
  show "sourced fs (search_paths self) self self'" by (simp add: sourced_def)
  from process_module_merges(1) [OF run] assms(2)
  show "\<forall>x \<in> visited_modules self'. module_merged fs (search_paths self) x self'" by simp
qed

lemma load_main_module_run:
  assumes "load_main_module fs main self = (Ok_None, self')" and "lang_wf self"
  shows "merged_from fs self (reachable_modules fs (layouts_paths self) {main, ''builtin''}) self'"
proof -
  from assms(1) obtain visited
    where "load_loop fs [YStr main, YStr ''builtin''] {} self = (Inr visited, self')"
    by (auto simp: load_main_module_Ok_iff)
  from load_loop_resolved [OF this assms(2)] show ?thesis by simp
qed

end
