(* ===== verification/Package.thy ===== *)
theory Package
  imports Prelude
begin

text \<open>
  The module body of \<open>src/imery/__init__.py\<close>: \<open>__version__\<close> is the version that the
  metadata of the installed distribution \<open>imery\<close> gives, and the string \<open>unknown\<close>
  when reading it raises an exception. \<open>importlib.metadata\<close> is not part of the
  repository: what its import and its function \<open>version\<close> do is a record of outcomes,
  and the facts hold for every such record.
\<close>

section \<open>Exceptions and the metadata\<close>

text \<open>
  An exception is known by the name of its class and by whether the class derives from
  \<open>Exception\<close>; \<open>KeyboardInterrupt\<close> and \<open>SystemExit\<close> derive from \<open>BaseException\<close>
  only, and \<open>except Exception\<close> lets them pass.
\<close>

datatype raised = Of_Exception string | Of_BaseException string

record metadata =
  import_raises :: "raised option"
  version :: "string \<Rightarrow> (raised, string) result"

section \<open>The module body\<close>

text \<open>
  \<open>read_version\<close> is the body of the \<open>try\<close> statement, \<open>except_Exception\<close> the handler
  around it, \<open>package_version\<close> the value bound to \<open>__version__\<close> when the module body
  has run, or the exception that leaves the import of the package.
\<close>

definition read_version :: "metadata \<Rightarrow> (raised, string) result" where
  "read_version env =
     (case import_raises env of
        Some e \<Rightarrow> Inl e
      | None \<Rightarrow> version env ''imery'')"

definition except_Exception :: "(raised, 'a) result \<Rightarrow> 'a \<Rightarrow> (raised, 'a) result" where
  "except_Exception body fallback =
     (case body of
        Inl (Of_Exception c) \<Rightarrow> Inr fallback
      | _ \<Rightarrow> body)"

definition package_version :: "metadata \<Rightarrow> (raised, string) result" where
  "package_version env = except_Exception (read_version env) ''unknown''"

definition package_all :: "string list" where
  "package_all = [''__version__'']"

section \<open>Facts: the version of the package\<close>

lemma except_Exception_simps [simp]:
  "except_Exception (Inr v) fallback = Inr v"
  "except_Exception (Inl (Of_Exception c)) fallback = Inr fallback"
  "except_Exception (Inl (Of_BaseException c)) fallback = Inl (Of_BaseException c)"
  by (simp_all add: except_Exception_def)

lemma except_Exception_Inl_iff:
  "except_Exception body fallback = Inl e \<longleftrightarrow> body = Inl e \<and> (\<exists>c. e = Of_BaseException c)"
  by (cases body; cases e) (auto simp: except_Exception_def split: raised.splits)

lemma except_Exception_Inr_iff:
  "except_Exception body fallback = Inr v \<longleftrightarrow>
     body = Inr v \<or> (\<exists>c. body = Inl (Of_Exception c)) \<and> v = fallback"
  by (cases body) (auto simp: except_Exception_def split: raised.splits)

text \<open>
  The import of the package raises nothing that derives from \<open>Exception\<close>: what leaves
  it is what the metadata raised, and is not an \<open>Exception\<close>.
\<close>

lemma package_import_raises:
  "package_version env = Inl e \<longleftrightarrow> read_version env = Inl e \<and> (\<exists>c. e = Of_BaseException c)"
  by (simp add: package_version_def except_Exception_Inl_iff)

text \<open>
  The version is the one the metadata gives, and \<open>unknown\<close> exactly when the import of
  \<open>importlib.metadata\<close> or the lookup raised an \<open>Exception\<close>, or when the distribution
  itself is installed under that version.
\<close>

lemma package_version_value:
  "package_version env = Inr v \<longleftrightarrow>
     read_version env = Inr v \<or> (\<exists>c. read_version env = Inl (Of_Exception c)) \<and> v = ''unknown''"
  by (simp add: package_version_def except_Exception_Inr_iff)

lemma installed_version:
  "import_raises env = None \<Longrightarrow> version env ''imery'' = Inr v \<Longrightarrow> package_version env = Inr v"
  by (simp add: package_version_def read_version_def)

lemma missing_metadata_gives_unknown:
  "import_raises env = None \<Longrightarrow> version env ''imery'' = Inl (Of_Exception c) \<Longrightarrow>
     package_version env = Inr ''unknown''"
  by (simp add: package_version_def read_version_def)

lemma missing_importlib_gives_unknown:
  "import_raises env = Some (Of_Exception c) \<Longrightarrow> package_version env = Inr ''unknown''"
  by (simp add: package_version_def read_version_def)

end
