(* ===== verification/Spec2Isabelle.thy ===== *)
theory Spec2Isabelle
  imports Load_Order Command_Line Merge_Order Agg_Shape Widgets Resolvers Package
begin

text \<open>
  \<^bold>\<open>The program.\<close> imery lays out a user interface from YAML modules. A module names
  the modules it imports and may define widgets, data and one \<open>app\<close> section. The
  repository resolves the imports of a main module twice:

    \<^item> \<open>src/imery/lang.py\<close>, class \<open>Lang\<close>, used when an application starts:
      \<open>load_main_module\<close> walks the imports breadth-first from a queue, stores every
      widget under \<open>module.widget\<close>, and returns an error on a missing module, on a
      file that does not load, on a duplicate name, on a second \<open>app\<close> section and
      when no widget or no \<open>app\<close> section was found;
    \<^item> \<open>scripts/aggregate_demo_yaml.py\<close>, class \<open>YAMLAggregator\<close>, used to write one
      file per demo: \<open>process_module\<close> walks the imports depth-first by recursion,
      merges a module after its imports under the bare widget names, overwrites and
      warns on a duplicate, and \<open>aggregate\<close> builds the output document; \<open>save\<close>
      writes it, and \<open>main\<close> runs the two from the command line.

  Both locate a module by replacing the dots of its name by slashes and taking the
  first search path under which the file exists, and both parse it with
  \<open>yaml.safe_load\<close>. The widgets a document names are classes of the front end, of
  which the repository has three:

    \<^item> \<open>src/imery/frontend/widgets/listbox.py\<close>, class \<open>Listbox\<close>: in every frame
      \<open>_pre_render_head\<close> reads the field \<open>label\<close>, shows the items of its parameters
      through \<open>imgui.list_box\<close> with the current value selected, and stores the item
      the user picked;
    \<^item> \<open>src/imery/frontend/widgets/popup-control.py\<close>, classes \<open>OpenPopup\<close> and
      \<open>CloseCurrentPopup\<close>: \<open>_pre_render_head\<close> opens the popup the data bag names
      under \<open>id\<close>, or closes the current one.

  \<^bold>\<open>The model.\<close> Values are the datatype \<open>yaml\<close> (null, booleans, integers, strings,
  sequences, mappings with string keys); a Python \<open>dict\<close> is an association list in
  insertion order; the file system is a finite table from path strings to directories
  and files, a file holding the value \<open>safe_load\<close> gives for it or nothing when
  opening or parsing raises. A class is a record of its attributes, a method a function
  that returns its result paired with the object after the call; \<open>Result.error\<close> and
  an exception that leaves a method are \<open>Inl\<close> of an error value, sequenced by
  \<open>and_then\<close>. What a script prints is appended to a field of its object.

    \<^item> \<open>Prelude\<close>: results and \<open>and_then\<close>, dictionaries (\<open>dict_get\<close>, \<open>dict_set\<close>,
      \<open>dict_wf\<close>), closure under a relation and the exploration relation \<open>explored\<close>.
    \<^item> \<open>Yaml\<close>: \<open>yaml\<close>, \<open>wf_yaml\<close>, and the built-ins \<open>py_truthy\<close>, \<open>py_iter\<close>,
      \<open>py_hashable\<close>, \<open>py_get\<close>, \<open>py_items\<close>, \<open>py_contains\<close>, \<open>section_items\<close> with the
      exceptions they raise.
    \<^item> \<open>FileSystem\<close>: \<open>module_path\<close>, \<open>yaml_filename\<close>, \<open>path_join\<close>, \<open>first_existing\<close>,
      \<open>find_yaml_file\<close> (the locator, \<open>YAMLAggregator.find_yaml_file\<close> and lines 67-75
      of \<open>lang.py\<close>) and \<open>safe_load\<close> (the loader).
    \<^item> \<open>Lang\<close>: record \<open>lang\<close>, \<open>new_lang\<close> (\<open>__init__\<close>), \<open>init\<close>, \<open>dispose\<close>, the merge
      loops \<open>merge_widgets\<close>, \<open>merge_data\<close>, \<open>merge_app\<close>, the loop body after loading
      \<open>merge_module\<close>, one iteration \<open>visit\<close>, the loop \<open>load_loop\<close> and
      \<open>load_main_module\<close>. \<open>Fixtures\<close> holds concrete file systems; \<open>Lang_Merge\<close> and
      \<open>Lang_Loop\<close> characterise every operation on every branch, give the Hoare rules
      of the loop (\<open>load_loop_invariant\<close>, \<open>load_loop_failure\<close>) and show that the
      association lists keep distinct keys (\<open>lang_wf\<close>): a Python \<open>dict\<close> has this by
      construction, so it is a hypothesis of the theorems and not a claim on the code.
    \<^item> \<open>Resolution\<close>: the import graph of a file system and the theorems that relate a
      load to it: the visited set is the reachable set, the merged sections are those of
      the reachable modules, exactly one module gave the \<open>app\<close> section, and what a
      \<open>DuplicateWidget\<close> or \<open>ModuleNotFound\<close> error tells.
    \<^item> \<open>Traversal\<close> and \<open>Resolver_Spec\<close>: the specification of the resolver.
      \<open>traverse\<close> is the breadth-first order, \<open>merged_document\<close> the document merged in
      an order, \<open>resolvable\<close> the condition under which no merge fails; the refinement
      theorem states that \<open>load_main_module\<close> succeeds exactly when the order is
      resolvable and the merged document has a widget and an \<open>app\<close> section, and
      returns the merged document; after \<open>dispose\<close> the same load gives the same
      object again (\<open>dispose_allows_reload\<close>). \<open>traverse\<close> computes the order only:
      it has no merge and no early return, and runs past a module without a file. \<open>Level_Order\<close> shows that the order goes by import
      depth: \<open>within\<close> is the set of modules that at most \<open>n\<close> imports reach from the
      seeds, \<open>levelled\<close> the invariant of the queue (the rest of one level, then what
      was queued for the next), and a nearer module comes in front of a deeper one.
      \<open>Load_Order\<close> splits the loop into two passes: \<open>merge_one\<close> locates, loads and
      merges one module, \<open>merge_all\<close> does so for a list and stops at the first error,
      \<open>resolve\<close> adds the two final checks; \<open>load_main_module\<close> equals \<open>resolve\<close> on
      the level order when the import items are strings (\<open>string_imports\<close>), also
      when it fails, and a failure is that of the first module that cannot be merged.
    \<^item> \<open>Aggregator\<close>: record \<open>aggregator\<close>, \<open>new_aggregator\<close> (\<open>__init__\<close>), \<open>load_yaml\<close>,
      \<open>imports_list\<close>, \<open>store_widget\<close>, \<open>store_data\<close>, \<open>overwrite_widgets\<close>,
      \<open>overwrite_data\<close>, \<open>merge_sections\<close>, the mutually recursive \<open>process_module\<close> and
      \<open>process_imports_list\<close>, \<open>process_widget_references\<close>, \<open>build_result\<close> and
      \<open>aggregate\<close>. \<open>Agg_Merge\<close> has the facts on one merge and on the output document,
      \<open>Agg_Traversal\<close> the invariant rules of the recursion (\<open>traversal_invariant\<close>,
      \<open>aggregator_invariant\<close>), \<open>Agg_Reach\<close> what a successful traversal has done at its
      return, and \<open>Aggregation\<close> the theorems on \<open>aggregate\<close>. \<open>Agg_Shape\<close> says when
      it returns: \<open>shaped_at\<close> holds for a string whose file, if it has one, holds a
      document with the shape of a module; \<open>aggregate\<close> returns exactly when it holds
      for every name the main module reaches, and raises otherwise.
    \<^item> \<open>Post_Order\<close>, \<open>Agg_Order\<close> and \<open>Merge_Order\<close>: the specification of the
      aggregator. \<open>post_order\<close> is the order in which a depth-first traversal over an
      explicit stack of tasks (\<open>Enter\<close> a name, \<open>Exit\<close> a module) leaves the modules;
      \<open>flat_widgets\<close>, \<open>flat_data\<close> and \<open>flat_app\<close> assign the sections of the modules
      of an order, one module after the other (\<open>assign_widgets\<close>, \<open>assign_data\<close>,
      \<open>app_entry\<close>: the two loops and the test at the end of \<open>process_module\<close>).
      \<open>ran\<close> is the simulation between the recursion and the stack, proved by the
      induction of \<open>process_module\<close> (\<open>process_module_ran\<close>) from the rules
      \<open>ran_Nil\<close>, \<open>ran_visited\<close>, \<open>ran_seq\<close> and \<open>ran_module\<close>. \<open>post_ordered\<close> says what
      makes an order a post-order of a graph: an edge from a listed node leads to a
      node marked before, to one listed in front of it (\<open>before\<close>), or back into a
      cycle. The theorems of \<open>Merge_Order\<close> are the refinement, the owner of a widget
      name (the last module of the order that defines it), and that an importing module
      is merged after what it imports and overrides it.
    \<^item> \<open>Cli\<close>: the paths (\<open>path_name\<close>, \<open>path_parent\<close>), \<open>mkdir_parents\<close>, \<open>write_yaml\<close>,
      \<open>save\<close> (\<open>YAMLAggregator.save\<close>), record \<open>cli_args\<close>, \<open>default_output\<close>, \<open>report\<close> and
      \<open>main\<close>, which returns how the run ends, the file system after it and the lines
      written; the specification of the writes (\<open>lineage\<close>, \<open>creatable\<close>, \<open>writable\<close>,
      \<open>made_dirs\<close>, \<open>written\<close>) and the equations \<open>mkdir_parents_spec\<close>, \<open>save_spec\<close>,
      \<open>main_directory\<close> that rewrite the operations into it. \<open>Command_Line\<close> has the
      theorems on a run: how it ends and what it writes. \<open>save\<close> succeeds exactly on a
      \<open>writable\<close> path, also when the directories above it are missing, which it
      makes; it changes no path that existed but the output file, and adds nothing but
      that file and directories above it (\<open>save_makes_parents_and_writes\<close>).
    \<^item> \<open>Widget_Base\<close>: the built-ins the handlers call on values (\<open>py_str\<close>, \<open>py_index\<close>,
      \<open>py_len\<close>, \<open>py_getitem\<close>, with the exceptions they raise), record \<open>widget\<close> (the
      attributes of a \<open>Widget\<close> the handlers read, and the calls it has made into imgui
      as a list of \<open>imgui_call\<close>), and record \<open>widget_env\<close>: the field store, the data
      bag, \<open>_handle_error\<close> and \<open>repr\<close> as functions. The handlers are defined and their
      theorems proved for every such record and every store type; an error of a handler
      is a \<open>widget_error\<close>.
    \<^item> \<open>Listbox_Widget\<close>: \<open>listbox_pre_render_head\<close> with its parts \<open>current_index\<close>
      (the \<open>try\<close> block) and \<open>select\<close> (the bounds test and the store); what
      \<open>imgui.list_box\<close> answers is an argument of the handler. \<open>listbox_cases\<close> and
      \<open>select_cases\<close> split a run by the branch it takes, \<open>listbox_invariant\<close> is the
      invariant rule of one frame.
    \<^item> \<open>Popup_Widgets\<close>: \<open>open_popup_prepare_render\<close>, \<open>open_popup_pre_render_head\<close>,
      \<open>close_popup_prepare_render\<close>, \<open>close_popup_pre_render_head\<close>.
    \<^item> \<open>Widgets\<close>: \<open>pre_render_head\<close> by class, the relation \<open>frames\<close> (what a widget
      has become after any number of frames, whatever the runtime answered), its
      invariant rule \<open>frames_invariant\<close>, and the theorems on the widgets: indices
      in range, the item stored, the calls made.
    \<^item> \<open>Package\<close>: the module body of \<open>imery/__init__.py\<close>: \<open>read_version\<close> (the \<open>try\<close>
      block), \<open>except_Exception\<close> (the handler) and \<open>package_version\<close>, the value of
      \<open>__version__\<close> or the exception that leaves the import; \<open>package_all\<close>.
    \<^item> \<open>Resolvers\<close> and this theory: the two resolvers compared. Over the same search
      paths they read the sections of a module alike (\<open>agg_widgets_of_doc\<close>), and their
      import graphs are the same (\<open>agg_reachable_modules\<close>) when no import entry is a
      bare string of another length than one (\<open>plain_imports\<close>); then the aggregated
      document is the document of \<open>Lang\<close> with the qualification dropped.

  \<^bold>\<open>Termination.\<close> No fuel is used. \<open>load_loop\<close> and \<open>traverse\<close> are total because an
  iteration either shortens the queue or marks a name that was not marked, and every
  name that is ever queued is a seed or an import item of one of the finitely many
  files. \<open>process_module\<close> is total by the same measure; as its loop over the imports
  continues on the object the recursive call returns, the proof first shows, on the
  domain of the function, that a call only adds to the visited set. \<open>post_order\<close>
  is total by the order \<open>dfs_order\<close>: a step marks a name that is on the stack or is
  an import item of a file, or it shortens the stack. \<open>mkdir_parents\<close>
  and \<open>lineage\<close> are total because the parent of a path that is not a root is a root
  or a shorter path (\<open>depth\<close>). \<open>digits\<close> recurses on the quotient by ten. The number
  of frames in \<open>frames\<close> is not bounded. Python's recursion limit is not modelled: a
  chain of imports longer than the limit raises \<open>RecursionError\<close> in the script and
  terminates normally here.

  \<^bold>\<open>Not modelled.\<close> The YAML parser and serializer: a file holds its parse result, and
  a file that \<open>save\<close> has written holds the document it was given, so \<open>yaml.dump\<close>
  followed by \<open>yaml.safe_load\<close> is taken to be the identity and the three comment
  lines that \<open>save\<close> writes in front of the document are left out; no theorem here
  is a round trip of the serializer. Floats, timestamps and mappings with keys that
  are not strings are outside \<open>yaml\<close>. The texts of the messages (a message or an
  error value carries the values formatted into the text), \<open>argparse\<close> (\<open>main\<close> starts
  from the parsed arguments), permissions and everything else of the file system that
  is not the existence and the kind of a path. \<open>pathlib\<close> is a library the sources
  call: a path is the string itself, \<open>path_join\<close> puts a slash between two strings
  and nothing normalises a doubled slash, a dot segment or a trailing slash;
  \<open>mkdir_parents\<close> is \<open>Path.mkdir(parents=True, exist_ok=True)\<close> as its documentation
  describes it, and every refusal of the operating system is the one error
  \<open>OSError\<close>. Of the
  front end, the code outside \<open>src\<close> that the widgets call: the base class \<open>Widget\<close>
  (its \<open>_prepare_render\<close>, which \<open>Listbox\<close> inherits, its field store, data bag and
  \<open>_handle_error\<close>), the decorator \<open>@widget\<close>, the class \<open>Result\<close> and the imgui runtime;
  the handlers are modelled over any behaviour of these, except that
  \<open>imgui.list_box\<close> always answers and does not raise. \<open>str\<close> of a list or a dict is
  the parameter \<open>repr\<close>. Of \<open>importlib.metadata\<close>, which \<open>imery/__init__.py\<close> calls, only
  the outcome of its import and of \<open>version\<close> is kept, as the record \<open>metadata\<close>.
\<close>

section \<open>Fixtures\<close>

text \<open>
  \<open>shared_fs\<close> is the three-module scenario \<open>spec_fs\<close> with the builtin layouts
  directory that a \<open>Lang\<close> object searches first, so that both resolvers run on it,
  and \<open>shared_agg\<close> an aggregator over the search paths of \<open>demo_lang\<close>.
\<close>

definition shared_fs :: filesystem where
  "shared_fs = spec_fs @
     [(''pkg/frontend/layouts'', Dir), (''pkg/frontend/layouts/builtin.yaml'', File (Some YNull))]"

definition shared_agg :: aggregator where
  "shared_agg = new_aggregator ''demo'' (Some demo_paths)"

section \<open>The two resolvers on the same modules\<close>

text \<open>
  On the scenario in which module \<open>main\<close> imports \<open>a\<close> and \<open>b\<close>, \<open>a\<close> imports \<open>c\<close>,
  and \<open>b\<close> and \<open>c\<close> both define widget \<open>x\<close>, \<open>Lang\<close> loads both definitions, under
  \<open>b.x\<close> and \<open>c.x\<close> in breadth-first order, while the aggregator keeps one entry \<open>x\<close>,
  owned by \<open>b\<close>, the module merged last, and prints a warning.
\<close>

lemma shared_runs:
  "fst (load_main_module shared_fs ''main'' demo_lang) = Ok_None"
  "widget_definitions (snd (load_main_module shared_fs ''main'' demo_lang)) =
     [(''main.root'', YStr ''window''), (''a.panel'', YStr ''group''),
      (''b.x'', YStr ''from b''), (''c.x'', YStr ''from c'')]"
  "\<exists>doc. fst (aggregate shared_fs ''main'' shared_agg) = Inr doc"
  "widgets (snd (aggregate shared_fs ''main'' shared_agg)) =
     [(''x'', (''b'', YStr ''from b'')), (''panel'', (''a'', YStr ''group'')),
      (''root'', (''main'', YStr ''window''))]"
  "Duplicate_widget ''x'' ''b'' \<in> set (printed (snd (aggregate shared_fs ''main'' shared_agg)))"
  by (simp_all add: shared_fs_def spec_fs_def shared_agg_def lang_eval agg_eval insert_commute)

text \<open>
  C5: The aggregated document is the document of \<open>Lang\<close>, flattened. When both
  resolvers succeed from the same main module over the same search paths, on files in
  which no import entry is a bare string of another length than one, every widget of
  the aggregator is a widget of \<open>Lang\<close> under the qualified name of its owner, every data
  entry of the aggregator is a data entry of \<open>Lang\<close>, and the widget names of the
  aggregator are those of the modules \<open>Lang\<close> reaches from the main module.
\<close>

theorem aggregate_flattens_lang_document:
  assumes "load_main_module fs main_module lang = (Ok_None, lang')" and "lang_wf lang"
    and "aggregate fs main_module agg = (Inr doc, agg')" and "visited_modules agg = {}"
    and "widgets agg = []" and "data agg = []"
    and "search_paths agg = layouts_paths lang" and "plain_imports fs"
  shows "(\<forall>(w, (m, d)) \<in> set (widgets agg'). (qualified_name m w, d) \<in> set (widget_definitions lang')) \<and>
         set (data agg') \<subseteq> set (data_definitions lang') \<and>
         set (dict_keys (widgets agg')) =
           (\<Union>m \<in> reachable_modules fs (layouts_paths lang) {main_module}.
              set (dict_keys (widgets_of (doc_of fs (layouts_paths lang) m))))"
proof -
  let ?paths = "layouts_paths lang"
  let ?R = "reachable_modules fs ?paths {main_module}"
  note run = aggregate_run [OF assms(3,4), unfolded assms(7)]
  from run(1) agg_reachable_modules [OF assms(8), of ?paths main_module]
  have visited: "YStr m \<in> visited_modules agg' \<longleftrightarrow> m \<in> ?R" for m by auto
  have "?R \<subseteq> reachable_modules fs ?paths {main_module, ''builtin''}"
    by (rule reachable_modules_mono) simp
  with load_main_module_run [OF assms(1,2)]
  have lang: "set (qualify m (widgets_of (doc_of fs ?paths m))) \<subseteq> set (widget_definitions lang')"
    "set (data_of (doc_of fs ?paths m)) \<subseteq> set (data_definitions lang')" if "m \<in> ?R" for m
    using that by (auto simp: merged_from_def)
  have widget: "m \<in> ?R \<and> (w, d) \<in> set (widgets_of (doc_of fs ?paths m))"
    if "(w, (m, d)) \<in> set (widgets agg')" for w m d
    using run(2) that assms(5) by (auto simp: sourced_def visited agg_widgets_of_doc)
  have "(qualified_name m w, d) \<in> set (widget_definitions lang')"
    if "(w, (m, d)) \<in> set (widgets agg')" for w m d
    using widget [OF that] lang(1) [of m] by (force simp: qualify_def)
  moreover have "set (data agg') \<subseteq> set (data_definitions lang')"
    using run(2) assms(6) lang(2) by (fastforce simp: sourced_def visited agg_data_of_doc)
  moreover have "set (dict_keys (widgets agg')) =
      (\<Union>m \<in> ?R. set (dict_keys (widgets_of (doc_of fs ?paths m))))"
  proof (intro equalityI subsetI)
    fix w assume "w \<in> set (dict_keys (widgets agg'))"
    then obtain m d where "(w, (m, d)) \<in> set (widgets agg')" by (auto simp: dict_keys_def)
    from widget [OF this] show "w \<in> (\<Union>m \<in> ?R. set (dict_keys (widgets_of (doc_of fs ?paths m))))"
      by (force simp: dict_keys_def)
  next
    fix w assume "w \<in> (\<Union>m \<in> ?R. set (dict_keys (widgets_of (doc_of fs ?paths m))))"
    then obtain m where "m \<in> ?R" "w \<in> set (dict_keys (agg_widgets_of fs ?paths m))"
      by (auto simp: agg_widgets_of_doc)
    with run(3) show "w \<in> set (dict_keys (widgets agg'))"
      by (auto simp: visited [symmetric] dest!: module_mergedD)
  qed
  ultimately show ?thesis by blast
qed

theorem aggregate_flattens_lang_document_witness:
  "(''b.x'', YStr ''from b'') \<in> set (widget_definitions (snd (load_main_module shared_fs ''main'' demo_lang))) \<and>
   {''x'', ''panel'', ''root''} =
     (\<Union>m \<in> reachable_modules shared_fs demo_paths {''main''}.
        set (dict_keys (widgets_of (doc_of shared_fs demo_paths m))))"
proof -
  from shared_runs(1) have load: "load_main_module shared_fs ''main'' demo_lang =
      (Ok_None, snd (load_main_module shared_fs ''main'' demo_lang))"
    by (simp add: prod_eq_iff)
  from shared_runs(3) obtain doc where agg: "aggregate shared_fs ''main'' shared_agg =
      (Inr doc, snd (aggregate shared_fs ''main'' shared_agg))"
    by (auto simp: prod_eq_iff)
  have "visited_modules shared_agg = {}" "widgets shared_agg = []" "data shared_agg = []"
    "search_paths shared_agg = layouts_paths demo_lang" "plain_imports shared_fs"
    by (simp_all add: shared_agg_def new_aggregator_def demo_paths_def plain_imports_def
        plain_import_def shared_fs_def spec_fs_def)
  from aggregate_flattens_lang_document [OF load demo_lang_wf agg this] shared_runs(4)
  show ?thesis by (simp add: qualified_name_def insert_commute)
qed

text \<open>
  C38: An import entry that is a bare string is read differently by the two resolvers.
  When the file of a module gives its import as a non-empty string, an iteration of the
  loop of \<open>Lang\<close> that merges the module puts every character of the string on the
  queue as a module name of its own, while \<open>process_module\<close> of the aggregator calls
  itself once, for the module the string names, before it merges the sections.
\<close>

theorem bare_string_import_is_split_by_lang:
  assumes "find_yaml_file fs paths m = Some p" and "safe_load fs p = Some (YMap kvs)"
    and "dict_get kvs ''import'' = Some (YStr s)" and "s \<noteq> []"
    and "layouts_paths lang = paths" and "search_paths agg = paths"
    and "YStr m \<notin> visited_modules agg"
    and "visit fs (YStr m) queue visited lang = (Inr (queue', visited'), lang')" and "m \<notin> visited"
  shows "queue' = queue @ map (\<lambda>c. YStr [c]) s \<and>
         process_module fs (YStr m) agg =
           and_then (process_module fs (YStr s) (py_print (Processing p) (mark_visited (YStr m) agg)))
             (\<lambda>_ agg'. merge_sections m (YMap kvs) agg')"
proof
  from assms(8,9,1,2,5) have "merge_module m (YMap kvs) queue lang = (Inr queue', lang')"
    by (cases rule: visit_Inr_cases) simp_all
  from merge_module_queue [OF this] assms(3,4) show "queue' = queue @ map (\<lambda>c. YStr [c]) s"
    by (simp add: import_items_def none_to_empty_def)
next
  from assms(3) have "kvs \<noteq> []" by auto
  with assms(2) have "load_yaml fs p (py_print (Processing p) (mark_visited (YStr m) agg)) =
      (YMap kvs, py_print (Processing p) (mark_visited (YStr m) agg))"
    by (simp add: load_yaml_def loaded_content_def)
  from process_module_found [OF assms(7) assms(1) [folded assms(6)] this] assms(3)
  show "process_module fs (YStr m) agg =
      and_then (process_module fs (YStr s) (py_print (Processing p) (mark_visited (YStr m) agg)))
        (\<lambda>_ agg'. merge_sections m (YMap kvs) agg')"
    by (simp add: imports_list_def and_then_assoc)
qed

theorem bare_string_import_is_split_by_lang_witness:
  "fst (visit bare_fs (YStr ''root'') [YStr ''builtin''] {} demo_lang) =
     Inr ([YStr ''builtin''] @ map (\<lambda>c. YStr [c]) ''leaf'', {''root''}) \<and>
   process_module bare_fs (YStr ''root'') shared_agg =
     and_then (process_module bare_fs (YStr ''leaf'')
                 (py_print (Processing ''demo/root.yaml'') (mark_visited (YStr ''root'') shared_agg)))
       (\<lambda>_ agg'. merge_sections ''root''
          (YMap [(''import'', YStr ''leaf''), (''widgets'', YMap [(''btn'', YStr ''button'')]),
                 (''app'', YMap [(''widget'', YStr ''root.btn'')])]) agg')"
proof -
  let ?v = "visit bare_fs (YStr ''root'') [YStr ''builtin''] {} demo_lang"
  have found: "find_yaml_file bare_fs demo_paths ''root'' = Some ''demo/root.yaml''"
    "safe_load bare_fs ''demo/root.yaml'' = Some (YMap [(''import'', YStr ''leaf''),
       (''widgets'', YMap [(''btn'', YStr ''button'')]), (''app'', YMap [(''widget'', YStr ''root.btn'')])])"
    by (simp_all add: bare_fs_def lang_eval)
  have agg: "search_paths shared_agg = demo_paths" "YStr ''root'' \<notin> visited_modules shared_agg"
    by (simp_all add: shared_agg_def new_aggregator_def demo_paths_def)
  have "\<exists>q lang'. ?v = (Inr (q, {''root''}), lang')"
    by (simp add: bare_fs_def lang_eval)
  then obtain q lang' where run: "?v = (Inr (q, {''root''}), lang')" by blast
  from bare_string_import_is_split_by_lang [OF found _ _ demo_lang_paths agg run]
  show ?thesis by (simp add: run)
qed

section \<open>The locator\<close>

text \<open>
  C39: A module name that begins with a dot is located outside the search paths: the
  dot becomes a leading slash, the file name is absolute, and joining it to a search
  path gives the absolute name itself.
\<close>

theorem leading_dot_escapes_search_paths:
  assumes "path_exists fs (''/'' @ module_path rest @ ''.yaml'')"
  shows "find_yaml_file fs (search_path # others) (''.'' @ rest) =
           Some (''/'' @ module_path rest @ ''.yaml'')"
  using assms
  by (simp add: find_yaml_file_def yaml_filename_def module_path_def path_join_def)

theorem leading_dot_escapes_search_paths_witness:
  "find_yaml_file [(''/etc/secret.yaml'', File None)] [''demo''] ''.etc.secret'' =
     Some ''/etc/secret.yaml''"
  using leading_dot_escapes_search_paths [of "[(''/etc/secret.yaml'', File None)]" "''etc.secret''"
      "''demo''" "[]"]
  by (simp add: module_path_def path_exists_def)

end
